(* ===== verification/Prelude.thy ===== *)
theory Prelude
  imports Complex_Main "HOL-Library.Multiset"
begin

section \<open>Shared vocabulary of the model\<close>

text \<open>
  What every component of the model uses: the outcomes of a Go function, pointers, the string
  functions of the standard library, stable sorting, lists walked page by page, and the lemma
  collections that carry the component proofs.

  A Go function that can fail returns a value of \<open>go\<close>: \<open>Ok\<close> with its result, \<open>Fail\<close> with the
  error it returns, \<open>Panic\<close> where the run-time system panics (a nil pointer is dereferenced, a
  slice is read out of range), \<open>Hang\<close> where the call does not return.  A pointer is an option,
  its dereference is \<open>deref\<close>.
\<close>

named_theorems go_simps \<open>equations of the outcome type and of pointers\<close>
named_theorems str_simps \<open>facts about strings\<close>

subsection \<open>Outcomes\<close>

datatype ('e, 'a) go = Ok 'a | Fail 'e | Panic | Hang

fun go_bind :: "('e, 'a) go \<Rightarrow> ('a \<Rightarrow> ('e, 'b) go) \<Rightarrow> ('e, 'b) go" where
  "go_bind (Ok x) f = f x"
| "go_bind (Fail e) f = Fail e"
| "go_bind Panic f = Panic"
| "go_bind Hang f = Hang"

fun map_ok :: "('a \<Rightarrow> 'b) \<Rightarrow> ('e, 'a) go \<Rightarrow> ('e, 'b) go" where
  "map_ok f (Ok x) = Ok (f x)"
| "map_ok f (Fail e) = Fail e"
| "map_ok f Panic = Panic"
| "map_ok f Hang = Hang"

text \<open>The same for operations that also change a state, which an early return keeps.\<close>

definition st_bind ::
  "('e, 'a) go \<times> 's \<Rightarrow> ('a \<Rightarrow> 's \<Rightarrow> ('e, 'b) go \<times> 's) \<Rightarrow> ('e, 'b) go \<times> 's" where
  "st_bind m f =
     (case m of
        (Ok x, s) \<Rightarrow> f x s
      | (Fail e, s) \<Rightarrow> (Fail e, s)
      | (Panic, s) \<Rightarrow> (Panic, s)
      | (Hang, s) \<Rightarrow> (Hang, s))"

lemma st_bind_simps [simp]:
  "st_bind (Ok x, s) f = f x s" "st_bind (Fail e, s) f = (Fail e, s)"
  "st_bind (Panic, s) f = (Panic, s)" "st_bind (Hang, s) f = (Hang, s)"
  by (simp_all add: st_bind_def)

lemma st_bind_Ok_iff [go_simps]:
  "st_bind m f = (Ok y, s') \<longleftrightarrow> (\<exists>x s. m = (Ok x, s) \<and> f x s = (Ok y, s'))"
  by (auto simp: st_bind_def split: go.splits prod.splits)

text \<open>A pointer dereference, and \<open>lo.FromPtr\<close>, which reads nil as the zero value.\<close>

fun deref :: "'a option \<Rightarrow> ('e, 'a) go" where
  "deref (Some x) = Ok x"
| "deref None = Panic"

fun from_ptr :: "'a \<Rightarrow> 'a option \<Rightarrow> 'a" where
  "from_ptr z (Some x) = x"
| "from_ptr z None = z"

text \<open>Indexing a slice.\<close>

definition index_go :: "'a list \<Rightarrow> nat \<Rightarrow> ('e, 'a) go" where
  "index_go xs i = (if i < length xs then Ok (xs ! i) else Panic)"

lemma go_bind_eq_Ok_iff [go_simps]:
  "go_bind m f = Ok y \<longleftrightarrow> (\<exists>x. m = Ok x \<and> f x = Ok y)"
  by (cases m) auto

lemma go_bind_eq_Fail_iff:
  "go_bind m f = Fail e \<longleftrightarrow> m = Fail e \<or> (\<exists>x. m = Ok x \<and> f x = Fail e)"
  by (cases m) auto

lemma map_ok_eq_Ok_iff [go_simps]: "map_ok f m = Ok y \<longleftrightarrow> (\<exists>x. m = Ok x \<and> y = f x)"
  by (cases m) auto

lemma map_ok_eq_Fail_iff [simp]: "map_ok f m = Fail e \<longleftrightarrow> m = Fail e"
  by (cases m) auto

lemma map_ok_neq [simp]: "map_ok f m = Panic \<longleftrightarrow> m = Panic" "map_ok f m = Hang \<longleftrightarrow> m = Hang"
  by (cases m; auto)+

lemma deref_eq_Ok_iff [go_simps]: "deref p = Ok x \<longleftrightarrow> p = Some x"
  by (cases p) auto

lemma from_ptr_None_iff: "from_ptr z p = (case p of None \<Rightarrow> z | Some x \<Rightarrow> x)"
  by (cases p) auto

text \<open>A loop over a slice that stops at the first error.\<close>

fun map_go :: "('a \<Rightarrow> ('e, 'b) go) \<Rightarrow> 'a list \<Rightarrow> ('e, 'b list) go" where
  "map_go f [] = Ok []"
| "map_go f (x # xs) = go_bind (f x) (\<lambda>y. map_ok ((#) y) (map_go f xs))"

lemma map_go_Ok_iff: "map_go f xs = Ok ys \<longleftrightarrow> list_all2 (\<lambda>x y. f x = Ok y) xs ys"
proof (induction xs arbitrary: ys)
  case Nil
  then show ?case by auto
next
  case (Cons x xs)
  then show ?case by (auto simp: go_simps list_all2_Cons1)
qed

lemma map_go_Ok_set: "map_go f xs = Ok ys \<Longrightarrow> y \<in> set ys \<Longrightarrow> \<exists>x \<in> set xs. f x = Ok y"
  by (induction xs arbitrary: ys) (auto simp: go_simps)

lemma map_go_total: "(\<And>x. x \<in> set xs \<Longrightarrow> f x = Ok (g x)) \<Longrightarrow> map_go f xs = Ok (map g xs)"
  by (induction xs) auto

subsection \<open>Strings\<close>

text \<open>
  A Go string is a sequence of bytes, here a \<open>string\<close>.  \<open>split_on\<close> is \<open>strings.Split\<close> with a
  separator of one byte: it always returns at least one piece.
\<close>

fun split_on :: "char \<Rightarrow> string \<Rightarrow> string list" where
  "split_on c [] = [[]]"
| "split_on c (x # xs) =
     (if x = c then [] # split_on c xs
      else (case split_on c xs of [] \<Rightarrow> [[x]] | w # ws \<Rightarrow> (x # w) # ws))"

fun join_with :: "string \<Rightarrow> string list \<Rightarrow> string" where
  "join_with sep [] = []"
| "join_with sep [w] = w"
| "join_with sep (w # ws) = w @ sep @ join_with sep ws"

definition has_prefix :: "string \<Rightarrow> string \<Rightarrow> bool" where
  "has_prefix s p \<longleftrightarrow> take (length p) s = p"

fun contains_str :: "string \<Rightarrow> string \<Rightarrow> bool" where
  "contains_str [] p = (p = [])"
| "contains_str (x # xs) p = (has_prefix (x # xs) p \<or> contains_str xs p)"

definition char_upper :: "char \<Rightarrow> char" where
  "char_upper c = (let n = of_char c :: nat in if 97 \<le> n \<and> n \<le> 122 then char_of (n - 32) else c)"

definition char_lower :: "char \<Rightarrow> char" where
  "char_lower c = (let n = of_char c :: nat in if 65 \<le> n \<and> n \<le> 90 then char_of (n + 32) else c)"

definition to_upper :: "string \<Rightarrow> string" where
  "to_upper s = map char_upper s"

definition to_lower :: "string \<Rightarrow> string" where
  "to_lower s = map char_lower s"

text \<open>\<open>strings.Trim(s, c)\<close> for a cutset of one byte.\<close>

definition trim_char :: "char \<Rightarrow> string \<Rightarrow> string" where
  "trim_char c s = rev (dropWhile ((=) c) (rev (dropWhile ((=) c) s)))"

lemma split_on_nonempty [simp]: "split_on c s \<noteq> []"
  by (induction s) (auto split: list.splits)

lemma split_on_pieces: "w \<in> set (split_on c s) \<Longrightarrow> c \<notin> set w"
proof (induction s arbitrary: w)
  case Nil
  then show ?case by simp
next
  case (Cons x xs)
  show ?case
  proof (cases "x = c")
    case True
    with Cons show ?thesis by auto
  next
    case False
    obtain v vs where "split_on c xs = v # vs" by (cases "split_on c xs") auto
    with Cons False show ?thesis by auto
  qed
qed

lemma split_on_no_sep [str_simps]: "c \<notin> set s \<Longrightarrow> split_on c s = [s]"
  by (induction s) auto

lemma split_on_append [str_simps]:
  "c \<notin> set a \<Longrightarrow> split_on c (a @ c # b) = a # split_on c b"
  by (induction a) auto

lemma join_split: "join_with [c] (split_on c s) = s"
proof (induction s)
  case Nil
  then show ?case by simp
next
  case (Cons x xs)
  obtain v vs where v: "split_on c xs = v # vs" by (cases "split_on c xs") auto
  show ?case
  proof (cases "x = c")
    case True
    with Cons v show ?thesis by simp
  next
    case False
    with Cons v show ?thesis by (cases vs) auto
  qed
qed

lemma has_prefix_refl [simp]: "has_prefix s s"
  by (simp add: has_prefix_def)

lemma has_prefix_iff: "has_prefix s p \<longleftrightarrow> (\<exists>t. s = p @ t)"
  unfolding has_prefix_def by (metis append_eq_conv_conj append_take_drop_id)

lemma contains_str_iff: "contains_str s p \<longleftrightarrow> (\<exists>a b. s = a @ p @ b)"
proof (induction s)
  case Nil
  then show ?case by auto
next
  case (Cons x xs)
  note IH = Cons.IH
  show ?case
  proof
    assume "contains_str (x # xs) p"
    then consider "has_prefix (x # xs) p" | "contains_str xs p" by auto
    then show "\<exists>a b. x # xs = a @ p @ b"
    proof cases
      case 1
      then show ?thesis by (metis append_Nil has_prefix_iff)
    next
      case 2
      then show ?thesis using Cons.IH by (metis append_Cons)
    qed
  next
    assume "\<exists>a b. x # xs = a @ p @ b"
    then obtain a b where ab: "x # xs = a @ p @ b" by blast
    show "contains_str (x # xs) p"
    proof (cases a)
      case Nil
      with ab have "has_prefix (x # xs) p" by (simp add: has_prefix_iff)
      then show ?thesis by simp
    next
      case (Cons c as)
      with ab have "xs = as @ p @ b" by simp
      then show ?thesis using IH by auto
    qed
  qed
qed

text \<open>Decimal rendering of integers (\<open>strconv.Itoa\<close>, \<open>%d\<close>).\<close>

definition digit_char :: "nat \<Rightarrow> char" where
  "digit_char d = char_of (48 + d)"

fun show_nat :: "nat \<Rightarrow> string" where
  "show_nat n = (if n < 10 then [digit_char n] else show_nat (n div 10) @ [digit_char (n mod 10)])"

declare show_nat.simps [simp del]

definition show_int :: "int \<Rightarrow> string" where
  "show_int i = (if i < 0 then CHR ''-'' # show_nat (nat (- i)) else show_nat (nat i))"

subsection \<open>Collections\<close>

text \<open>\<open>lo.Find\<close> is \<open>List.find\<close>; \<open>lo.Uniq\<close> keeps the first occurrence of each element.\<close>

fun uniq :: "'a list \<Rightarrow> 'a list" where
  "uniq [] = []"
| "uniq (x # xs) = x # uniq (filter (\<lambda>y. y \<noteq> x) xs)"

lemma set_uniq [simp]: "set (uniq xs) = set xs"
  by (induction xs rule: uniq.induct) auto

lemma distinct_uniq [simp]: "distinct (uniq xs)"
  by (induction xs rule: uniq.induct) auto

text \<open>
  \<open>sort.SliceStable\<close> and \<open>sort.Slice\<close>.  Go promises of either that the result is a permutation
  of the slice in which no element is smaller, under the given order, than one before it; only
  \<open>SliceStable\<close> also keeps the order of equal elements.  The locale is that promise for an order
  given by a key; \<open>slice_stable\<close> is the stable sort.
\<close>

locale slice_sort =
  fixes sort_by :: "('a \<Rightarrow> 'k::linorder) \<Rightarrow> 'a list \<Rightarrow> 'a list"
  assumes sort_mset: "mset (sort_by f xs) = mset xs"
    and sort_sorted: "sorted (map f (sort_by f xs))"
begin

lemma sort_set: "set (sort_by f xs) = set xs"
  using sort_mset [of f xs] by (metis set_mset_mset)

lemma sort_length: "length (sort_by f xs) = length xs"
  using sort_mset [of f xs] by (metis size_mset)

lemma sort_hd_least:
  assumes "xs \<noteq> []"
  shows "hd (sort_by f xs) \<in> set xs" and "\<And>y. y \<in> set xs \<Longrightarrow> f (hd (sort_by f xs)) \<le> f y"
proof -
  from assms obtain z zs where z: "sort_by f xs = z # zs"
    using sort_length [of f xs] by (cases "sort_by f xs") auto
  then show "hd (sort_by f xs) \<in> set xs" using sort_set [of f xs] by auto
  fix y assume "y \<in> set xs"
  then have "y \<in> set (z # zs)" using sort_set [of f xs] z by simp
  moreover have "sorted (f z # map f zs)" using sort_sorted [of f xs] z by simp
  ultimately show "f (hd (sort_by f xs)) \<le> f y" using z by auto
qed

end

definition slice_stable :: "('a \<Rightarrow> 'k::linorder) \<Rightarrow> 'a list \<Rightarrow> 'a list" where
  "slice_stable f xs = sort_key f xs"

interpretation stable: slice_sort slice_stable
  by unfold_locales (simp_all add: slice_stable_def)

subsection \<open>Lists served page by page\<close>

text \<open>
  The list calls of the OCI API return one page of items and, unless it is the last page, the
  token of the next.  The loops of the code ask for the page of the last token until there is
  none.  Whether that ends depends on the service, so the loop is a partial function: \<open>None\<close>
  is a loop that never ends, which \<open>fetch_all\<close> turns into \<open>Hang\<close>.
\<close>

type_synonym ('e, 'a) pager = "string option \<Rightarrow> ('e, 'a list \<times> string option) go"

partial_function (option) list_pages ::
  "('e, 'a) pager \<Rightarrow> 'a list \<Rightarrow> string option \<Rightarrow> ('e, 'a list) go option" where
  "list_pages fetch acc page =
     (case fetch page of
        Fail e \<Rightarrow> Some (Fail e)
      | Panic \<Rightarrow> Some Panic
      | Hang \<Rightarrow> Some Hang
      | Ok r \<Rightarrow>
          (case snd r of
             None \<Rightarrow> Some (Ok (acc @ fst r))
           | Some p \<Rightarrow> list_pages fetch (acc @ fst r) (Some p)))"

definition fetch_all :: "('e, 'a) pager \<Rightarrow> ('e, 'a list) go" where
  "fetch_all fetch = (case list_pages fetch [] None of None \<Rightarrow> Hang | Some r \<Rightarrow> r)"

text \<open>\<open>serves fetch page xs\<close>: from \<open>page\<close> on the service returns \<open>xs\<close>, in finitely many pages.\<close>

inductive serves :: "('e, 'a) pager \<Rightarrow> string option \<Rightarrow> 'a list \<Rightarrow> bool"
  for fetch :: "('e, 'a) pager" where
  last_page: "fetch page = Ok (xs, None) \<Longrightarrow> serves fetch page xs"
| more_pages: "fetch page = Ok (xs, Some p) \<Longrightarrow> serves fetch (Some p) ys \<Longrightarrow>
     serves fetch page (xs @ ys)"

lemma list_pages_serves:
  "serves fetch page xs \<Longrightarrow> list_pages fetch acc page = Some (Ok (acc @ xs))"
proof (induction arbitrary: acc rule: serves.induct)
  case (last_page page xs)
  then show ?case by (subst list_pages.simps) simp
next
  case (more_pages page xs p ys)
  then show ?case by (subst list_pages.simps) simp
qed

lemma fetch_all_serves: "serves fetch None xs \<Longrightarrow> fetch_all fetch = Ok xs"
  by (simp add: fetch_all_def list_pages_serves)

lemma list_pages_Ok:
  assumes "list_pages fetch acc page = Some r"
  shows "r = Ok ys \<longrightarrow> (\<exists>xs. ys = acc @ xs \<and> serves fetch page xs)"
proof (rule list_pages.raw_induct [OF _ assms])
  fix rec fetch acc page r
  assume IH: "\<And>fetch acc page r. rec fetch acc page = Some r \<Longrightarrow>
      r = Ok ys \<longrightarrow> (\<exists>xs. ys = acc @ xs \<and> serves fetch page xs)"
    and eq: "(case fetch page of Ok r \<Rightarrow>
          (case snd r of None \<Rightarrow> Some (Ok (acc @ fst r)) | Some p \<Rightarrow> rec fetch (acc @ fst r) (Some p))
      | Fail e \<Rightarrow> Some (Fail e) | Panic \<Rightarrow> Some Panic | Hang \<Rightarrow> Some Hang) = Some r"
  show "r = Ok ys \<longrightarrow> (\<exists>xs. ys = acc @ xs \<and> serves fetch page xs)"
  proof
    assume r: "r = Ok ys"
    with eq obtain zs q where z: "fetch page = Ok (zs, q)"
      by (cases "fetch page") (auto simp: prod_eq_iff)
    show "\<exists>xs. ys = acc @ xs \<and> serves fetch page xs"
    proof (cases q)
      case None
      with eq z r show ?thesis by (auto intro: serves.last_page)
    next
      case (Some p)
      with eq z have "rec fetch (acc @ zs) (Some p) = Some r" by simp
      from IH [OF this] r obtain xs where "ys = (acc @ zs) @ xs" "serves fetch (Some p) xs"
        by blast
      with z Some show ?thesis by (auto intro: serves.more_pages)
    qed
  qed
qed

lemma fetch_all_Ok_iff: "fetch_all fetch = Ok xs \<longleftrightarrow> serves fetch None xs"
proof
  assume "fetch_all fetch = Ok xs"
  then have "list_pages fetch [] None = Some (Ok xs)"
    by (auto simp: fetch_all_def split: option.splits)
  then show "serves fetch None xs" by (auto dest: list_pages_Ok)
qed (rule fetch_all_serves)

lemma fetch_all_single: "fetch None = Ok (xs, None) \<Longrightarrow> fetch_all fetch = Ok xs"
  by (rule fetch_all_serves, rule serves.last_page)

lemma fetch_all_error: "fetch None = Fail e \<Longrightarrow> fetch_all fetch = Fail e"
  by (simp add: fetch_all_def list_pages.simps)

text \<open>The same loop with a filter, which may itself fail, applied to the items of every page.\<close>

fun filter_go :: "('a \<Rightarrow> ('e, bool) go) \<Rightarrow> 'a list \<Rightarrow> ('e, 'a list) go" where
  "filter_go keep [] = Ok []"
| "filter_go keep (x # xs) =
     go_bind (keep x) (\<lambda>b. map_ok (\<lambda>ys. if b then x # ys else ys) (filter_go keep xs))"

partial_function (option) list_filtered ::
  "('e, 'a) pager \<Rightarrow> ('a \<Rightarrow> ('e, bool) go) \<Rightarrow> 'a list \<Rightarrow> string option \<Rightarrow> ('e, 'a list) go option" where
  "list_filtered fetch keep acc page =
     (case fetch page of
        Fail e \<Rightarrow> Some (Fail e)
      | Panic \<Rightarrow> Some Panic
      | Hang \<Rightarrow> Some Hang
      | Ok r \<Rightarrow>
          (case filter_go keep (fst r) of
             Fail e \<Rightarrow> Some (Fail e)
           | Panic \<Rightarrow> Some Panic
           | Hang \<Rightarrow> Some Hang
           | Ok ys \<Rightarrow>
               (case snd r of
                  None \<Rightarrow> Some (Ok (acc @ ys))
                | Some p \<Rightarrow> list_filtered fetch keep (acc @ ys) (Some p))))"

definition fetch_filtered :: "('e, 'a) pager \<Rightarrow> ('a \<Rightarrow> ('e, bool) go) \<Rightarrow> ('e, 'a list) go" where
  "fetch_filtered fetch keep = (case list_filtered fetch keep [] None of None \<Rightarrow> Hang | Some r \<Rightarrow> r)"

lemma filter_go_total: "(\<And>x. x \<in> set xs \<Longrightarrow> keep x = Ok (P x)) \<Longrightarrow> filter_go keep xs = Ok (filter P xs)"
  by (induction xs) auto

lemma list_filtered_serves:
  assumes "serves fetch page xs" and "\<And>x. x \<in> set xs \<Longrightarrow> keep x = Ok (P x)"
  shows "list_filtered fetch keep acc page = Some (Ok (acc @ filter P xs))"
  using assms
proof (induction arbitrary: acc rule: serves.induct)
  case (last_page page xs)
  then show ?case by (subst list_filtered.simps) (simp add: filter_go_total)
next
  case (more_pages page xs p ys)
  then show ?case by (subst list_filtered.simps) (simp add: filter_go_total)
qed

lemma fetch_filtered_serves:
  "serves fetch None xs \<Longrightarrow> (\<And>x. x \<in> set xs \<Longrightarrow> keep x = Ok (P x)) \<Longrightarrow>
     fetch_filtered fetch keep = Ok (filter P xs)"
  by (simp add: fetch_filtered_def list_filtered_serves [where P = P])

lemma fetch_filtered_first_error: "fetch None = Fail e \<Longrightarrow> fetch_filtered fetch keep = Fail e"
  by (simp add: fetch_filtered_def list_filtered.simps)

end
