(* ===== verification/Oci_Errors.thy ===== *)
theory Oci_Errors
  imports Prelude
begin

section \<open>Errors and their classification\<close>

text \<open>
  The errors the program sees and the predicates that classify them: \<open>pkg/oci/errors.go\<close> and
  \<open>pkg/providers/instance/error.go\<close>.

  An error is a value of \<open>err\<close>.  \<open>ServiceErr\<close> is what \<open>common.IsServiceError\<close> of the OCI SDK
  recognises, with its status, code, message and the text of its \<open>Error()\<close>; \<open>NetErr\<close> is a
  \<open>net.Error\<close> with the answers of \<open>Timeout()\<close> and of \<open>common.IsNetworkError\<close>; \<open>WrapCause\<close> is an
  error wrapped by \<open>github.com/pkg/errors\<close> (its \<open>Cause\<close> and \<open>Unwrap\<close> are the wrapped error),
  \<open>WrapW\<close> one wrapped by \<open>fmt.Errorf\<close> with \<open>%w\<close> (it has an \<open>Unwrap\<close> but no \<open>Cause\<close>).
  \<open>Sentinel\<close> is a package variable compared by identity, \<open>KubeErr\<close> an error of the Kubernetes
  API, \<open>ErrText\<close> any other error.  The nil error is \<open>None\<close> of an option.
\<close>

datatype sentinel =
    NotFoundVar | NotCachedVar | CapacityNotReportedVar | InvalidCapacityReservationConfigVar
  | InvalidConfigVar

datatype kube_reason = KubeNotFound | KubeConflict | KubeAlreadyExists | KubeOther

datatype err =
    ErrText string
  | Sentinel sentinel string
  | DeadlineExceeded
  | NetErr bool bool string
  | ServiceErr nat string string string
  | KubeErr kube_reason string
  | NoCapacityError
  | WrapCause string err
  | WrapW string err

fun err_text :: "err \<Rightarrow> string" where
  "err_text (ErrText s) = s"
| "err_text (Sentinel _ s) = s"
| "err_text DeadlineExceeded = ''context deadline exceeded''"
| "err_text (NetErr _ _ s) = s"
| "err_text (ServiceErr _ _ _ s) = s"
| "err_text (KubeErr _ s) = s"
| "err_text NoCapacityError = ''No Capacity''"
| "err_text (WrapCause m e) = m @ '': '' @ err_text e"
| "err_text (WrapW m e) = m @ err_text e"

subsection \<open>Looking into an error\<close>

text \<open>\<open>errors.Cause\<close>, \<open>errors.Is\<close> of the deadline, \<open>errors.As\<close> of a \<open>net.Error\<close>.\<close>

fun cause :: "err \<Rightarrow> err" where
  "cause (WrapCause m e) = cause e"
| "cause e = e"

fun is_deadline :: "err \<Rightarrow> bool" where
  "is_deadline DeadlineExceeded = True"
| "is_deadline (WrapCause m e) = is_deadline e"
| "is_deadline (WrapW m e) = is_deadline e"
| "is_deadline e = False"

fun as_net_timeout :: "err \<Rightarrow> bool option" where
  "as_net_timeout (NetErr t n s) = Some t"
| "as_net_timeout (WrapCause m e) = as_net_timeout e"
| "as_net_timeout (WrapW m e) = as_net_timeout e"
| "as_net_timeout e = None"

fun is_network_error :: "err \<Rightarrow> bool" where
  "is_network_error (NetErr t n s) = n"
| "is_network_error e = False"

fun as_service :: "err \<Rightarrow> (nat \<times> string \<times> string) option" where
  "as_service (ServiceErr st code msg s) = Some (st, code, msg)"
| "as_service e = None"

fun cause_depth :: "err \<Rightarrow> nat" where
  "cause_depth (WrapCause m e) = Suc (cause_depth e)"
| "cause_depth e = 0"

subsection \<open>Classification\<close>

definition OutOfHostCapacity :: string where
  "OutOfHostCapacity = ''Out of host capacity''"

definition is_out_of_host_capacity :: "err option \<Rightarrow> bool" where
  "is_out_of_host_capacity eo =
     (case eo of
        None \<Rightarrow> False
      | Some e \<Rightarrow>
          (case as_service e of
             Some (st, code, msg) \<Rightarrow> contains_str msg OutOfHostCapacity
           | None \<Rightarrow> contains_str (err_text e) OutOfHostCapacity))"

definition is_retryable :: "err option \<Rightarrow> bool" where
  "is_retryable eo =
     (case eo of
        None \<Rightarrow> False
      | Some e \<Rightarrow>
          if is_deadline e then True
          else if as_net_timeout e = Some True then True
          else if is_network_error e then True
          else
            (case as_service (cause e) of
               None \<Rightarrow> False
             | Some (st, code, msg) \<Rightarrow>
                 if st = 409 then code = ''IncorrectState'' \<or> code = ''ExternalServerIncorrectState''
                 else if st = 500 \<or> st = 502 \<or> st = 503 \<or> st = 504
                 then \<not> is_out_of_host_capacity (Some (cause e))
                 else False))"

definition is_not_found :: "err option \<Rightarrow> bool" where
  "is_not_found eo =
     (case eo of
        None \<Rightarrow> False
      | Some e \<Rightarrow>
          (case cause e of
             Sentinel NotFoundVar s \<Rightarrow> True
           | c \<Rightarrow> (case as_service c of None \<Rightarrow> False | Some (st, code, msg) \<Rightarrow> st = 404)))"

definition is_service_limit_exceeded :: "err option \<Rightarrow> bool" where
  "is_service_limit_exceeded eo =
     (case eo of
        None \<Rightarrow> False
      | Some e \<Rightarrow>
          (case as_service (cause e) of
             None \<Rightarrow> False
           | Some (st, code, msg) \<Rightarrow> code = ''LimitExceeded'' \<or> code = ''QuotaExceeded''))"

definition is_quota_exceeded :: "err option \<Rightarrow> bool" where
  "is_quota_exceeded eo =
     (case eo of
        None \<Rightarrow> False
      | Some e \<Rightarrow>
          (case as_service (cause e) of
             None \<Rightarrow> False
           | Some (st, code, msg) \<Rightarrow> code = ''QuotaExceeded''))"

text \<open>\<open>pkg/providers/instance/error.go\<close>; its first test is a type assertion, without unwrapping.\<close>

definition is_no_capacity_error :: "err option \<Rightarrow> bool" where
  "is_no_capacity_error eo =
     (case eo of
        None \<Rightarrow> False
      | Some e \<Rightarrow> if e = NoCapacityError then True else is_out_of_host_capacity (Some e))"

definition is_skippable_launch_error :: "err option \<Rightarrow> bool \<Rightarrow> bool" where
  "is_skippable_launch_error eo enableServiceLimitFallback =
     (if is_no_capacity_error eo then True
      else enableServiceLimitFallback \<and> is_service_limit_exceeded eo)"

subsection \<open>The retry policy\<close>

text \<open>
  The policy handed to the SDK: the attempts allowed, whether the answer of an attempt is
  retried, and the pause after attempt \<open>n\<close> (numbered from 1) in seconds.  Running it is the
  SDK's part.
\<close>

record retry_policy =
  rp_attempts :: nat
  rp_retry :: "err option \<Rightarrow> bool"
  rp_pause :: "nat \<Rightarrow> nat"

definition next_duration :: "nat \<Rightarrow> nat" where
  "next_duration attempt = 2 ^ (attempt - 1)"

definition new_retry_policy :: "nat \<Rightarrow> retry_policy" where
  "new_retry_policy n = \<lparr>rp_attempts = n, rp_retry = is_retryable, rp_pause = next_duration\<rparr>"

subsection \<open>Facts\<close>

lemma cause_not_wrapped [simp]: "cause e \<noteq> WrapCause m e'"
  by (induction e) auto

lemma cause_idem [simp]: "cause (cause e) = cause e"
  by (induction e) auto

lemma not_found_service [simp]:
  "is_not_found (Some (ServiceErr st code msg s)) \<longleftrightarrow> st = 404"
  by (simp add: is_not_found_def)

lemma not_found_None [simp]: "\<not> is_not_found None"
  by (simp add: is_not_found_def)

lemma not_found_wrap [simp]: "is_not_found (Some (WrapCause m e)) = is_not_found (Some e)"
  by (simp add: is_not_found_def)

lemma limit_wrap [simp]:
  "is_service_limit_exceeded (Some (WrapCause m e)) = is_service_limit_exceeded (Some e)"
  by (simp add: is_service_limit_exceeded_def)

lemma quota_imp_limit: "is_quota_exceeded e \<Longrightarrow> is_service_limit_exceeded e"
  by (auto simp: is_quota_exceeded_def is_service_limit_exceeded_def split: option.splits)

lemma no_capacity_None [simp]: "\<not> is_no_capacity_error None"
  by (simp add: is_no_capacity_error_def)

lemma skippable_None [simp]: "\<not> is_skippable_launch_error None b"
  by (simp add: is_skippable_launch_error_def is_service_limit_exceeded_def)

lemma transient_not_service:
  assumes "as_service (cause e) = Some (st, code, msg)"
  shows "\<not> is_deadline e" "as_net_timeout e = None" "\<not> is_network_error e"
  using assms by (induction e) auto

lemma out_of_capacity_service:
  assumes "as_service e = Some (st, code, msg)"
  shows "is_out_of_host_capacity (Some e) = contains_str msg OutOfHostCapacity"
  using assms by (simp add: is_out_of_host_capacity_def)

lemma sum_next_duration: "sum_list (map next_duration [1..<Suc k]) = 2 ^ k - 1"
  by (induction k) (auto simp: next_duration_def)

text \<open>
  The retry decision on an error of an OCI service, however often \<open>pkg/errors\<close> has wrapped
  it: it is retried exactly when it is a 409 with one of the two incorrect-state codes, or a 500,
  502, 503 or 504 whose message does not say that the host capacity is exhausted.
\<close>

theorem retryable_service_iff:
  assumes "as_service (cause e) = Some (st, code, msg)"
  shows "is_retryable (Some e) \<longleftrightarrow>
    st = 409 \<and> code \<in> {''IncorrectState'', ''ExternalServerIncorrectState''} \<or>
    st \<in> {500, 502, 503, 504} \<and> (\<nexists>a b. msg = a @ ''Out of host capacity'' @ b)"
  using assms transient_not_service [OF assms]
  by (auto simp: is_retryable_def out_of_capacity_service contains_str_iff OutOfHostCapacity_def)

theorem retryable_service_iff_witness:
  "\<not> is_retryable (Some (WrapCause ''launch''
      (ServiceErr 500 ''InternalError'' ''Out of host capacity'' ''text'')))"
  using retryable_service_iff
    [of "WrapCause ''launch'' (ServiceErr 500 ''InternalError'' ''Out of host capacity'' ''text'')"
        500 "''InternalError''" "''Out of host capacity''"]
  by (simp, metis append_Nil append_Nil2)

text \<open>
  The errors for which a launch may go on to the next offering: a missing capacity of either
  form, and, only when the fallback option is set, a service limit or quota that is exceeded.
\<close>

theorem skippable_iff:
  "is_skippable_launch_error eo fallback \<longleftrightarrow>
     (\<exists>e. eo = Some e \<and>
       (e = NoCapacityError
        \<or> (\<exists>st code msg. as_service e = Some (st, code, msg)
             \<and> (\<exists>a b. msg = a @ ''Out of host capacity'' @ b))
        \<or> as_service e = None \<and> (\<exists>a b. err_text e = a @ ''Out of host capacity'' @ b)
        \<or> fallback \<and> (\<exists>st code msg. as_service (cause e) = Some (st, code, msg)
             \<and> code \<in> {''LimitExceeded'', ''QuotaExceeded''})))"
  by (cases eo)
     (auto simp: is_skippable_launch_error_def is_no_capacity_error_def is_out_of_host_capacity_def
        is_service_limit_exceeded_def contains_str_iff OutOfHostCapacity_def split: option.splits)

end
