(* ===== verification/Float_Arith.thy ===== *)
theory Float_Arith
  imports Prelude
begin

section \<open>Floating-point values\<close>

text \<open>
  Go's \<open>float32\<close> and \<open>float64\<close> as exact rationals with the rounding of the standard written out:
  \<open>fround p x\<close> is the value with \<open>p\<close> significant bits nearest to \<open>x\<close>, ties to the even one, and
  every operation of the code that rounds is followed by \<open>f32\<close> (24 bits) or \<open>f64\<close> (53 bits).  The
  exponent is not bounded: overflow, subnormal numbers, infinities and NaN are outside the model;
  the quantities of this program (CPU counts, gigabytes, bytes, prices) are far inside the range.
  A product followed by a sum is rounded twice (the compiler may fuse it on some architectures).
\<close>

subsection \<open>Rounding to an integer\<close>

definition round_half_even :: "rat \<Rightarrow> int" where
  "round_half_even x =
     (let f = \<lfloor>x\<rfloor>; r = x - of_int f
      in if r < 1 / 2 then f else if 1 / 2 < r then f + 1 else if even f then f else f + 1)"

text \<open>\<open>int64(x)\<close> and \<open>int(x)\<close> of a float drop the fraction.\<close>

definition trunc_int :: "rat \<Rightarrow> int" where
  "trunc_int x = (if x < 0 then \<lceil>x\<rceil> else \<lfloor>x\<rfloor>)"

lemma round_half_even_cases: "round_half_even x = \<lfloor>x\<rfloor> \<or> round_half_even x = \<lfloor>x\<rfloor> + 1"
  by (simp add: round_half_even_def Let_def)

lemma round_half_even_near: "\<bar>of_int (round_half_even x) - x\<bar> \<le> 1 / 2"
  using floor_correct [of x] by (auto simp: round_half_even_def Let_def abs_le_iff)

lemma round_half_even_int [simp]: "round_half_even (of_int i) = i"
  by (simp add: round_half_even_def)

lemma round_half_even_of_nat [simp]: "round_half_even (of_nat n) = int n"
  using round_half_even_int [of "int n"] by simp

lemma round_half_even_mono:
  assumes "x \<le> y"
  shows "round_half_even x \<le> round_half_even y"
proof (cases "\<lfloor>x\<rfloor> = \<lfloor>y\<rfloor>")
  case True
  with assms show ?thesis by (auto simp: round_half_even_def Let_def)
next
  case False
  with assms have "\<lfloor>x\<rfloor> + 1 \<le> \<lfloor>y\<rfloor>" using floor_mono [of x y] by linarith
  then show ?thesis
    using round_half_even_cases [of x] round_half_even_cases [of y] by linarith
qed

subsection \<open>Powers of two and the exponent of a number\<close>

definition pow2 :: "int \<Rightarrow> rat" where
  "pow2 e = (if 0 \<le> e then 2 ^ nat e else 1 / 2 ^ nat (- e))"

lemma pow2_pos [simp]: "0 < pow2 e"
  by (simp add: pow2_def)

lemma pow2_nonzero [simp]: "pow2 e \<noteq> 0"
  using pow2_pos [of e] by linarith

lemma pow2_Suc: "pow2 (e + 1) = 2 * pow2 e"
proof (cases "0 \<le> e")
  case True
  then have "nat (e + 1) = Suc (nat e)" by simp
  with True show ?thesis by (simp add: pow2_def)
next
  case False
  then have "nat (- e) = Suc (nat (- (e + 1)))" by simp
  with False show ?thesis by (auto simp: pow2_def field_simps)
qed

lemma pow2_add_nat: "pow2 (e + int n) = 2 ^ n * pow2 e"
proof (induction n)
  case (Suc n)
  have "pow2 (e + int (Suc n)) = 2 * pow2 (e + int n)"
    using pow2_Suc [of "e + int n"] by (simp add: ac_simps)
  with Suc show ?case by simp
qed simp

lemma pow2_mono: "d \<le> e \<Longrightarrow> pow2 d \<le> pow2 e"
  using pow2_add_nat [of d "nat (e - d)"] pow2_pos [of d]
    mult_right_mono [of 1 "2 ^ nat (e - d)" "pow2 d"] by simp

lemma pow2_nat: "pow2 (int n) = 2 ^ n"
  by (simp add: pow2_def)

lemma pow2_0 [simp]: "pow2 0 = 1"
  by (simp add: pow2_def)

fun ilog2 :: "nat \<Rightarrow> nat" where
  "ilog2 n = (if n < 2 then 0 else Suc (ilog2 (n div 2)))"

declare ilog2.simps [simp del]

lemma ilog2_bounds: "0 < n \<Longrightarrow> 2 ^ ilog2 n \<le> n \<and> n < 2 ^ Suc (ilog2 n)"
proof (induction n rule: ilog2.induct)
  case (1 n)
  show ?case
  proof (cases "n < 2")
    case True
    with 1 show ?thesis by (simp add: ilog2.simps [of n])
  next
    case False
    with 1 have "2 ^ ilog2 (n div 2) \<le> n div 2 \<and> n div 2 < 2 ^ Suc (ilog2 (n div 2))" by simp
    then obtain m where m: "m = (2::nat) ^ ilog2 (n div 2)" "m \<le> n div 2" "n div 2 < 2 * m" by simp
    have "2 ^ ilog2 n = 2 * m" using False m(1) by (simp add: ilog2.simps [of n])
    moreover have "2 * m \<le> n" "n < 2 * (2 * m)" using m(2,3) by linarith+
    ultimately show ?thesis by simp
  qed
qed

definition exponent_of :: "rat \<Rightarrow> int" where
  "exponent_of x =
     (let (n, d) = quotient_of x; e = int (ilog2 (nat n)) - int (ilog2 (nat d))
      in if pow2 e \<le> x then e else e - 1)"

lemma exponent_of_bounds:
  assumes "0 < x"
  shows "pow2 (exponent_of x) \<le> x \<and> x < pow2 (exponent_of x + 1)"
proof -
  obtain n d where nd: "quotient_of x = (n, d)" by (metis surj_pair)
  then have d: "0 < d" by (rule quotient_of_denom_pos)
  from nd have x: "x = of_int n / of_int d" by (rule quotient_of_div)
  with assms d have n: "0 < n" by (simp add: zero_less_divide_iff)
  define a b where "a = ilog2 (nat n)" and "b = ilog2 (nat d)"
  have an: "2 ^ a \<le> nat n" "nat n < 2 ^ Suc a" using ilog2_bounds [of "nat n"] n by (auto simp: a_def)
  have bn: "2 ^ b \<le> nat d" "nat d < 2 ^ Suc b" using ilog2_bounds [of "nat d"] d by (auto simp: b_def)
  have A: "(2 :: int) ^ a \<le> n" "n < 2 ^ Suc a"
    using an n by (simp_all add: nat_less_iff le_nat_iff)
  have B: "(2 :: int) ^ b \<le> d" "d < 2 ^ Suc b"
    using bn d by (simp_all add: nat_less_iff le_nat_iff)
  have rA: "(2 :: rat) ^ a \<le> of_int n" "of_int n < (2 :: rat) ^ Suc a"
    using A by (metis of_int_le_iff of_int_numeral of_int_power, metis of_int_less_iff of_int_numeral of_int_power)
  have rB: "(2 :: rat) ^ b \<le> of_int d" "of_int d < (2 :: rat) ^ Suc b"
    using B by (metis of_int_le_iff of_int_numeral of_int_power, metis of_int_less_iff of_int_numeral of_int_power)
  let ?e = "int a - int b"
  have pa: "pow2 ?e * 2 ^ b = 2 ^ a"
    using pow2_add_nat [of ?e b] by (simp add: pow2_nat mult.commute)
  have dpos: "(0 :: rat) < of_int d" using d by simp
  have up: "x < pow2 (?e + 1)"
  proof -
    have "of_int n < 2 * (pow2 ?e * 2 ^ b)" using rA pa by simp
    also have "\<dots> \<le> 2 * (pow2 ?e * of_int d)" using rB by simp
    finally show ?thesis using dpos by (simp add: x pow2_Suc divide_less_eq)
  qed
  have low: "pow2 (?e - 1) \<le> x"
  proof -
    have "pow2 (?e - 1) * of_int d < pow2 (?e - 1) * 2 ^ Suc b" using rB by simp
    also have "\<dots> = pow2 ?e * 2 ^ b" using pow2_Suc [of "?e - 1"] by simp
    also have "\<dots> \<le> of_int n" using pa rA by simp
    finally show ?thesis using dpos by (simp add: x le_divide_eq)
  qed
  have "exponent_of x = (if pow2 ?e \<le> x then ?e else ?e - 1)"
    by (simp add: exponent_of_def nd a_def b_def Let_def)
  with up low show ?thesis by (auto split: if_splits)
qed

lemma exponent_of_mono:
  assumes "0 < x" "x \<le> y"
  shows "exponent_of x \<le> exponent_of y"
proof (rule ccontr)
  assume "\<not> ?thesis"
  then have "pow2 (exponent_of y + 1) \<le> pow2 (exponent_of x)" by (intro pow2_mono) simp
  with exponent_of_bounds [of x] exponent_of_bounds [of y] assms show False by linarith
qed

subsection \<open>Rounding to a number of significant bits\<close>

definition fround_pos :: "nat \<Rightarrow> rat \<Rightarrow> rat" where
  "fround_pos p x =
     (let u = pow2 (exponent_of x - int p + 1) in of_int (round_half_even (x / u)) * u)"

definition fround :: "nat \<Rightarrow> rat \<Rightarrow> rat" where
  "fround p x = (if x = 0 then 0 else if x < 0 then - fround_pos p (- x) else fround_pos p x)"

definition f32 :: "rat \<Rightarrow> rat" where "f32 x = fround 24 x"
definition f64 :: "rat \<Rightarrow> rat" where "f64 x = fround 53 x"

lemma fround_0 [simp]: "fround p 0 = 0" "f32 0 = 0" "f64 0 = 0"
  by (simp_all add: fround_def f32_def f64_def)

lemma fround_minus: "fround p (- x) = - fround p x"
  by (simp add: fround_def)

lemma fround_pos_between:
  assumes "0 < x" "0 < p"
  shows "pow2 (exponent_of x) \<le> fround_pos p x \<and> fround_pos p x \<le> pow2 (exponent_of x + 1)"
proof -
  define u where "u = pow2 (exponent_of x - int p + 1)"
  have u: "0 < u" by (simp add: u_def)
  have lo: "pow2 (exponent_of x) = 2 ^ (p - 1) * u"
    using pow2_add_nat [of "exponent_of x - int p + 1" "p - 1"] assms(2)
    by (simp add: u_def)
  have hi: "pow2 (exponent_of x + 1) = 2 ^ p * u"
    using pow2_add_nat [of "exponent_of x - int p + 1" p] by (simp add: u_def ac_simps)
  from exponent_of_bounds [OF assms(1)] lo hi
  have b: "2 ^ (p - 1) * u \<le> x" "x \<le> 2 ^ p * u" by auto
  have "of_int (2 ^ (p - 1)) \<le> x / u" "x / u \<le> of_int (2 ^ p)"
    using b u by (simp_all add: le_divide_eq divide_le_eq)
  then have r: "2 ^ (p - 1) \<le> round_half_even (x / u)" "round_half_even (x / u) \<le> 2 ^ p"
    using round_half_even_mono [of "of_int (2 ^ (p - 1))" "x / u"]
      round_half_even_mono [of "x / u" "of_int (2 ^ p)"]
    by (simp_all only: round_half_even_int)
  then have "(2 :: rat) ^ (p - 1) \<le> of_int (round_half_even (x / u))"
    "of_int (round_half_even (x / u)) \<le> (2 :: rat) ^ p"
    by (metis of_int_le_iff of_int_numeral of_int_power)+
  then show ?thesis
    using lo hi u by (simp add: fround_pos_def u_def [symmetric] Let_def)
qed

lemma fround_pos_mono:
  assumes "0 < x" "x \<le> y" "0 < p"
  shows "fround_pos p x \<le> fround_pos p y"
proof (cases "exponent_of x = exponent_of y")
  case True
  define u where "u = pow2 (exponent_of x - int p + 1)"
  have "0 < u" by (simp add: u_def)
  then have "round_half_even (x / u) \<le> round_half_even (y / u)"
    using assms by (intro round_half_even_mono) (simp add: divide_right_mono)
  moreover have "fround_pos p x = of_int (round_half_even (x / u)) * u"
    "fround_pos p y = of_int (round_half_even (y / u)) * u"
    using True by (simp_all add: fround_pos_def u_def Let_def)
  ultimately show ?thesis using \<open>0 < u\<close> by simp
next
  case False
  with exponent_of_mono [OF assms(1,2)] have "pow2 (exponent_of x + 1) \<le> pow2 (exponent_of y)"
    by (intro pow2_mono) simp
  with fround_pos_between [of x p] fround_pos_between [of y p] assms show ?thesis by linarith
qed

lemma fround_pos_pos: "0 < x \<Longrightarrow> 0 < p \<Longrightarrow> 0 < fround_pos p x"
  using fround_pos_between [of x p] by (meson order_less_le_trans pow2_pos)

lemma fround_nonneg: "0 \<le> x \<Longrightarrow> 0 < p \<Longrightarrow> 0 \<le> fround p x"
  using fround_pos_pos [of x p] by (auto simp: fround_def)

lemma fround_mono:
  assumes "x \<le> y" "0 < p"
  shows "fround p x \<le> fround p y"
proof -
  have np: "z < 0 \<Longrightarrow> fround p z \<le> 0" for z
    using fround_nonneg [of "- z" p] assms(2) by (simp add: fround_minus)
  consider "0 < x" | "x \<le> 0" "0 \<le> y" | "y < 0" using assms by linarith
  then show ?thesis
  proof cases
    case 1
    with assms show ?thesis by (simp add: fround_def fround_pos_mono)
  next
    case 2
    then show ?thesis using np [of x] fround_nonneg [of y p] assms(2) by (cases "x = 0") auto
  next
    case 3
    with assms show ?thesis using fround_pos_mono [of "- y" "- x" p] by (simp add: fround_def)
  qed
qed

lemma f32_mono: "x \<le> y \<Longrightarrow> f32 x \<le> f32 y" and f64_mono: "x \<le> y \<Longrightarrow> f64 x \<le> f64 y"
  by (simp_all add: f32_def f64_def fround_mono)

lemma f32_nonneg [simp]: "0 \<le> x \<Longrightarrow> 0 \<le> f32 x" and f64_nonneg [simp]: "0 \<le> x \<Longrightarrow> 0 \<le> f64 x"
  by (simp_all add: f32_def f64_def fround_nonneg)

text \<open>A value that needs no more than \<open>p\<close> bits is not changed.\<close>

definition fits :: "nat \<Rightarrow> rat \<Rightarrow> bool" where
  "fits p x \<longleftrightarrow> fround p x = x"

lemma fround_int:
  assumes "\<bar>i\<bar> < 2 ^ p" "0 < p"
  shows "fround p (of_int i) = of_int i"
proof -
  have pos: "fround_pos p (of_int j) = of_int j" if j: "0 < j" "j < 2 ^ p" for j :: int
  proof -
    let ?x = "of_int j :: rat"
    have x: "0 < ?x" using j by simp
    have "?x < 2 ^ p" using j(2) by (metis of_int_less_iff of_int_numeral of_int_power)
    have "exponent_of ?x < int p"
    proof (rule ccontr)
      assume "\<not> exponent_of ?x < int p"
      then have "pow2 (int p) \<le> pow2 (exponent_of ?x)" by (intro pow2_mono) simp
      then have "2 ^ p \<le> ?x" using exponent_of_bounds [OF x] unfolding pow2_nat by linarith
      with \<open>?x < 2 ^ p\<close> show False by (metis not_le)
    qed
    then obtain k where k: "exponent_of ?x - int p + 1 = - int k"
      by (intro that [of "nat (int p - 1 - exponent_of ?x)"]) simp
    have "pow2 (- int k) = 1 / 2 ^ k" by (cases "k = 0") (simp_all add: pow2_def)
    then have "?x / pow2 (- int k) = of_int (j * 2 ^ k)" by simp
    then have "round_half_even (?x / pow2 (- int k)) = j * 2 ^ k" by (metis round_half_even_int)
    then show ?thesis by (simp add: fround_pos_def k Let_def \<open>pow2 (- int k) = 1 / 2 ^ k\<close>)
  qed
  show ?thesis using pos [of i] pos [of "- i"] assms by (auto simp: fround_def)
qed

lemma f32_int: "\<bar>i\<bar> < 2 ^ 24 \<Longrightarrow> f32 (of_int i) = of_int i"
  and f64_int: "\<bar>i\<bar> < 2 ^ 53 \<Longrightarrow> f64 (of_int i) = of_int i"
  by (simp_all add: f32_def f64_def fround_int)

text \<open>Halving is exact.\<close>

lemma exponent_of_unique:
  assumes "pow2 e \<le> x" "x < pow2 (e + 1)"
  shows "exponent_of x = e"
proof -
  have x: "0 < x" using assms(1) pow2_pos [of e] by linarith
  note b = exponent_of_bounds [OF x]
  show ?thesis
  proof (rule antisym)
    show "exponent_of x \<le> e"
      using b assms pow2_mono [of "e + 1" "exponent_of x"] by (rule_tac ccontr) auto
    show "e \<le> exponent_of x"
      using b assms pow2_mono [of "exponent_of x + 1" e] by (rule_tac ccontr) auto
  qed
qed

lemma fround_pos_half:
  assumes "0 < x"
  shows "fround_pos p (x / 2) = fround_pos p x / 2"
proof -
  have half: "pow2 (d - 1) = pow2 d / 2" for d using pow2_Suc [of "d - 1"] by simp
  have "exponent_of (x / 2) = exponent_of x - 1"
    using exponent_of_bounds [OF assms] half [of "exponent_of x"] half [of "exponent_of x + 1"]
    by (intro exponent_of_unique) auto
  moreover have "exponent_of x - 1 - int p + 1 = (exponent_of x - int p + 1) - 1" by simp
  ultimately show ?thesis unfolding fround_pos_def Let_def by (simp only: half) simp
qed

lemma fround_half: "fround p (x / 2) = fround p x / 2"
  using fround_pos_half [of x p] fround_pos_half [of "- x" p] by (auto simp: fround_def)

lemma f32_half: "f32 (x / 2) = f32 x / 2" and f64_half: "f64 (x / 2) = f64 x / 2"
  by (simp_all add: f32_def f64_def fround_half)

lemma trunc_int_mono: "x \<le> y \<Longrightarrow> trunc_int x \<le> trunc_int y"
proof -
  assume "x \<le> y"
  moreover have "\<lceil>x\<rceil> \<le> \<lfloor>y\<rfloor>" if "x < 0" "\<not> y < 0"
  proof -
    have "\<lceil>x\<rceil> \<le> 0" "0 \<le> \<lfloor>y\<rfloor>" using that by (simp_all add: ceiling_le_zero)
    then show ?thesis by linarith
  qed
  ultimately show ?thesis
    unfolding trunc_int_def using floor_mono [of x y] ceiling_mono [of x y] by auto
qed

lemma trunc_int_nonneg: "0 \<le> x \<Longrightarrow> trunc_int x = \<lfloor>x\<rfloor>"
  by (simp add: trunc_int_def)

lemma trunc_int_of_int [simp]: "trunc_int (of_int i) = i"
  by (simp add: trunc_int_def)

subsection \<open>Printing\<close>

text \<open>
  The verbs \<open>%f\<close> and \<open>%.0f\<close>: the exact value rounded to 6 or to no decimals, ties to even.
\<close>

definition show_fixed :: "nat \<Rightarrow> rat \<Rightarrow> string" where
  "show_fixed d x =
     (let m = nat (round_half_even (\<bar>x\<bar> * 10 ^ d));
          whole = show_nat (m div 10 ^ d);
          frac = show_nat (10 ^ d + m mod 10 ^ d)
      in (if x < 0 then ''-'' else []) @ whole @ (if d = 0 then [] else CHR ''.'' # tl frac))"

end
