(* ===== verification/Load_Cache.thy ===== *)
theory Load_Cache
  imports Prelude
begin

section \<open>The loading cache\<close>

text \<open>
  \<open>GetOrLoadCache\<close> of \<open>pkg/cache/cache.go\<close>, the cache behind every provider.

  The store it wraps (\<open>github.com/patrickmn/go-cache\<close>) is represented by what its documentation
  says of it: a map from keys to values with a time of expiry, where a lookup finds the entries
  that have not expired, \<open>Set\<close> with the default expiration gives an entry the lifetime of the
  cache, and \<open>Delete\<close> removes an entry.  Times are seconds; an operation reads the clock once, so it
  takes the time \<open>now\<close> as an argument.  A loader may change the state of the provider it belongs to:
  it takes and returns that state.  The map is typed, so the type assertion of \<open>getFromCache\<close>
  always succeeds.  Concurrent calls are the subject of theory \<open>Cache_Race\<close>.
\<close>

subsection \<open>An interface of stores\<close>

text \<open>What a client may rely on when it looks up keys of a store, and the history it can read off.\<close>

locale keyed_store =
  fixes lookup :: "'s \<Rightarrow> 'k \<Rightarrow> 'v option"
    and insert :: "'k \<Rightarrow> 'v \<Rightarrow> 's \<Rightarrow> 's"
    and remove :: "'k \<Rightarrow> 's \<Rightarrow> 's"
    and ok :: "'s \<Rightarrow> bool"
  assumes lookup_insert: "ok s \<Longrightarrow> lookup (insert k v s) k' = (if k' = k then Some v else lookup s k')"
    and lookup_remove: "lookup (remove k s) k' = (if k' = k then None else lookup s k')"
    and ok_insert: "ok s \<Longrightarrow> ok (insert k v s)"
    and ok_remove: "ok s \<Longrightarrow> ok (remove k s)"
begin

lemma ok_inserts: "ok s \<Longrightarrow> ok (fold (\<lambda>k. insert k (f k)) ks s)"
  by (induction ks arbitrary: s) (auto simp: ok_insert)

lemma lookup_inserts:
  "ok s \<Longrightarrow> lookup (fold (\<lambda>k. insert k (f k)) ks s) k' = (if k' \<in> set ks then Some (f k') else lookup s k')"
  by (induction ks arbitrary: s) (auto simp: ok_insert lookup_insert)

lemma lookup_removes:
  "lookup (fold remove ks s) k' = (if k' \<in> set ks then None else lookup s k')"
  by (induction ks arbitrary: s) (auto simp: lookup_remove)

lemma insert_remove: "ok s \<Longrightarrow> lookup (remove k (insert k v s)) = lookup (remove k s)"
  by (auto simp: lookup_remove lookup_insert ok_insert)

end

text \<open>
  A lookup that asks a remote service for what it does not hold.  The laws are those of one moment:
  what is held is returned, what is not is asked for and kept when the answer is good.  A store that
  holds only answers of the service (\<open>honest\<close>) cannot be told from the service.
\<close>

locale cached_lookup =
  fixes cached :: "'s \<Rightarrow> string \<Rightarrow> 'v option"
    and remote :: "string \<Rightarrow> ('e, 'v) go"
    and lookup :: "string \<Rightarrow> 's \<Rightarrow> ('e, 'v) go \<times> 's"
    and ok :: "'s \<Rightarrow> bool"
  assumes hit: "cached s k = Some v \<Longrightarrow> lookup k s = (Ok v, s)"
    and miss: "cached s k = None \<Longrightarrow> fst (lookup k s) = remote k"
    and stored: "ok s \<Longrightarrow> cached s k = None \<Longrightarrow> remote k = Ok v \<Longrightarrow>
      cached (snd (lookup k s)) = (cached s)(k \<mapsto> v)"
    and not_stored: "cached s k = None \<Longrightarrow> (\<And>v. remote k \<noteq> Ok v) \<Longrightarrow>
      cached (snd (lookup k s)) = cached s"
    and ok_lookup: "ok s \<Longrightarrow> ok (snd (lookup k s))"
begin

definition honest :: "'s \<Rightarrow> bool" where
  "honest s \<longleftrightarrow> (\<forall>k v. cached s k = Some v \<longrightarrow> remote k = Ok v)"

lemma lookup_honest: "honest s \<Longrightarrow> fst (lookup k s) = remote k"
  by (cases "cached s k") (auto simp: honest_def hit miss)

lemma honest_kept:
  assumes "ok s" "honest s"
  shows "honest (snd (lookup k s))"
proof (cases "cached s k")
  case None
  show ?thesis
  proof (cases "\<exists>v. remote k = Ok v")
    case True
    with assms None show ?thesis by (auto simp: honest_def stored split: if_splits)
  next
    case False
    with assms None show ?thesis by (auto simp: honest_def not_stored)
  qed
qed (use assms in \<open>simp add: hit\<close>)

lemma lookup_again:
  assumes "ok s" "lookup k s = (Ok v, s')"
  shows "lookup k s' = (Ok v, s')"
proof (cases "cached s k")
  case None
  with assms(2) have "remote k = Ok v" using miss [OF None] by simp
  then have "cached s' = (cached s)(k \<mapsto> v)" using stored [OF assms(1) None] assms(2) by simp
  then show ?thesis by (simp add: hit)
next
  case (Some w)
  with assms(2) show ?thesis by (simp add: hit)
qed

end

subsection \<open>The cache\<close>

record 'v load_cache =
  lc_items :: "string \<Rightarrow> ('v \<times> int option) option"
  lc_ttl :: "int option"

text \<open>\<open>NoExpiration\<close> is the lifetime \<open>None\<close>.\<close>

definition new_load_cache :: "int option \<Rightarrow> 'v load_cache" where
  "new_load_cache ttl = \<lparr>lc_items = Map.empty, lc_ttl = ttl\<rparr>"

definition new_default_cache :: "'v load_cache" where
  "new_default_cache = new_load_cache (Some 3600)"

definition new_non_expiring_cache :: "'v load_cache" where
  "new_non_expiring_cache = new_load_cache None"

definition live :: "int \<Rightarrow> int option \<Rightarrow> bool" where
  "live now e = (case e of None \<Rightarrow> True | Some t \<Rightarrow> now \<le> t)"

definition get_from_cache :: "int \<Rightarrow> 'v load_cache \<Rightarrow> string \<Rightarrow> 'v option" where
  "get_from_cache now c key =
     (case lc_items c key of None \<Rightarrow> None | Some (v, e) \<Rightarrow> if live now e then Some v else None)"

definition get_cached :: "int \<Rightarrow> 'v load_cache \<Rightarrow> string \<Rightarrow> 'v option" where
  "get_cached now c key = get_from_cache now c key"

definition cache_set :: "int \<Rightarrow> string \<Rightarrow> 'v \<Rightarrow> 'v load_cache \<Rightarrow> 'v load_cache" where
  "cache_set now key v c = c\<lparr>lc_items := (lc_items c)(key \<mapsto> (v, map_option (\<lambda>d. now + d) (lc_ttl c)))\<rparr>"

definition cache_evict :: "string \<Rightarrow> 'v load_cache \<Rightarrow> 'v load_cache" where
  "cache_evict key c = c\<lparr>lc_items := (lc_items c)(key := None)\<rparr>"

text \<open>\<open>Items()\<close> lists the entries that have not expired, so only those are matched.\<close>

definition cache_evict_matching :: "int \<Rightarrow> (string \<Rightarrow> bool) \<Rightarrow> 'v load_cache \<Rightarrow> 'v load_cache" where
  "cache_evict_matching now match c =
     c\<lparr>lc_items := (\<lambda>k. if match k \<and> get_from_cache now c k \<noteq> None then None else lc_items c k)\<rparr>"

type_synonym ('s, 'e, 'v) loader = "string \<Rightarrow> 's \<Rightarrow> ('e, 'v) go \<times> 's"

definition cache_load ::
  "int \<Rightarrow> 'v load_cache \<Rightarrow> string \<Rightarrow> ('s, 'e, 'v) loader \<Rightarrow> 's \<Rightarrow> ('e, 'v) go \<times> 'v load_cache \<times> 's" where
  "cache_load now c key loader s =
     (case loader key s of
        (Ok v, s') \<Rightarrow> (Ok v, cache_set now key v c, s')
      | (r, s') \<Rightarrow> (r, c, s'))"

definition get_or_load ::
  "int \<Rightarrow> 'v load_cache \<Rightarrow> string \<Rightarrow> ('s, 'e, 'v) loader \<Rightarrow> 's \<Rightarrow> ('e, 'v) go \<times> 'v load_cache \<times> 's" where
  "get_or_load now c key loader s =
     (case get_from_cache now c key of
        Some v \<Rightarrow> (Ok v, c, s)
      | None \<Rightarrow>
          (case get_from_cache now c key of
             Some v \<Rightarrow> (Ok v, c, s)
           | None \<Rightarrow> cache_load now c key loader s))"

definition cache_refresh ::
  "int \<Rightarrow> 'v load_cache \<Rightarrow> string \<Rightarrow> ('s, 'e, 'v) loader \<Rightarrow> 's \<Rightarrow> ('e, 'v) go \<times> 'v load_cache \<times> 's" where
  "cache_refresh now c key loader s = cache_load now c key loader s"

subsection \<open>Facts\<close>

named_theorems cache_simps \<open>reading a cache after an operation\<close>

definition ttl_ok :: "'v load_cache \<Rightarrow> bool" where
  "ttl_ok c = (case lc_ttl c of None \<Rightarrow> True | Some d \<Rightarrow> 0 \<le> d)"

lemma ttl_ok_new [simp]: "ttl_ok (new_default_cache)" "ttl_ok (new_non_expiring_cache)"
  by (simp_all add: ttl_ok_def new_default_cache_def new_non_expiring_cache_def new_load_cache_def)

lemma ttl_kept [simp]:
  "lc_ttl (cache_set now k v c) = lc_ttl c" "lc_ttl (cache_evict k c) = lc_ttl c"
  "lc_ttl (cache_evict_matching now m c) = lc_ttl c"
  by (simp_all add: cache_set_def cache_evict_def cache_evict_matching_def)

lemma ttl_ok_kept [simp]:
  "ttl_ok (cache_set now k v c) = ttl_ok c" "ttl_ok (cache_evict k c) = ttl_ok c"
  "ttl_ok (cache_evict_matching now m c) = ttl_ok c"
  by (simp_all add: ttl_ok_def)

lemma get_new [cache_simps]: "get_from_cache now (new_load_cache d) k = None"
  by (simp add: get_from_cache_def new_load_cache_def)

lemma get_set_other [cache_simps]:
  "k' \<noteq> k \<Longrightarrow> get_from_cache now' (cache_set now k v c) k' = get_from_cache now' c k'"
  by (simp add: get_from_cache_def cache_set_def)

lemma get_set_same:
  "get_from_cache now' (cache_set now k v c) k =
     (case lc_ttl c of None \<Rightarrow> Some v | Some d \<Rightarrow> if now' \<le> now + d then Some v else None)"
  by (simp add: get_from_cache_def cache_set_def live_def split: option.splits)

lemma get_set_now [cache_simps]: "ttl_ok c \<Longrightarrow> get_from_cache now (cache_set now k v c) k = Some v"
  by (auto simp: get_set_same ttl_ok_def split: option.splits)

lemma get_evict [cache_simps]:
  "get_from_cache now (cache_evict k c) k' = (if k' = k then None else get_from_cache now c k')"
  by (simp add: get_from_cache_def cache_evict_def)

lemma get_evict_matching [cache_simps]:
  "get_from_cache now (cache_evict_matching now m c) k = (if m k then None else get_from_cache now c k)"
  by (auto simp: get_from_cache_def cache_evict_matching_def split: option.splits)

lemma live_antimono: "now \<le> now' \<Longrightarrow> live now' e \<Longrightarrow> live now e"
  by (auto simp: live_def split: option.splits)

lemma get_later:
  "now \<le> now' \<Longrightarrow> get_from_cache now' c k = Some v \<Longrightarrow> get_from_cache now c k = Some v"
  by (auto simp: get_from_cache_def live_antimono split: option.splits if_splits)

interpretation cache_store: keyed_store "get_from_cache now" "cache_set now" cache_evict ttl_ok
  by unfold_locales (auto simp: cache_simps)

lemma cache_load_simps [simp]:
  "loader key s = (Ok v, s') \<Longrightarrow> cache_load now c key loader s = (Ok v, cache_set now key v c, s')"
  "loader key s = (Fail e, s') \<Longrightarrow> cache_load now c key loader s = (Fail e, c, s')"
  "loader key s = (Panic, s') \<Longrightarrow> cache_load now c key loader s = (Panic, c, s')"
  "loader key s = (Hang, s') \<Longrightarrow> cache_load now c key loader s = (Hang, c, s')"
  by (simp_all add: cache_load_def)

lemma get_or_load_hit [simp]:
  "get_from_cache now c key = Some v \<Longrightarrow> get_or_load now c key loader s = (Ok v, c, s)"
  by (simp add: get_or_load_def)

lemma get_or_load_miss [simp]:
  "get_from_cache now c key = None \<Longrightarrow>
     get_or_load now c key loader s = cache_load now c key loader s"
  by (simp add: get_or_load_def)

lemma get_or_load_Ok_cases:
  assumes "get_or_load now c key loader s = (Ok v, c', s')"
  obtains (hit) "get_from_cache now c key = Some v" "c' = c" "s' = s"
    | (loaded) "get_from_cache now c key = None" "loader key s = (Ok v, s')" "c' = cache_set now key v c"
  using assms
  by (cases "get_from_cache now c key") (auto simp: cache_load_def split: prod.splits go.splits)

lemma get_or_load_not_Ok_cases:
  assumes "get_or_load now c key loader s = (r, c', s')" "\<And>v. r \<noteq> Ok v"
  shows "get_from_cache now c key = None \<and> loader key s = (r, s') \<and> c' = c"
  using assms
  by (cases "get_from_cache now c key") (auto simp: cache_load_def split: prod.splits go.splits)

lemma get_or_load_ttl [simp]: "ttl_ok (fst (snd (get_or_load now c key loader s))) = ttl_ok c"
  by (cases "get_from_cache now c key") (auto simp: cache_load_def split: prod.splits go.splits)

text \<open>A cache is \<open>faithful\<close> to a function when all it holds are values of that function.\<close>

definition faithful :: "(string \<Rightarrow> 'v \<Rightarrow> bool) \<Rightarrow> 'v load_cache \<Rightarrow> bool" where
  "faithful P c = (\<forall>k v e. lc_items c k = Some (v, e) \<longrightarrow> P k v)"

lemma faithful_new [simp]: "faithful P (new_load_cache d)"
  by (simp add: faithful_def new_load_cache_def)

lemma faithful_set: "faithful P c \<Longrightarrow> P k v \<Longrightarrow> faithful P (cache_set now k v c)"
  by (auto simp: faithful_def cache_set_def)

lemma faithful_evict: "faithful P c \<Longrightarrow> faithful P (cache_evict k c)"
  by (auto simp: faithful_def cache_evict_def split: if_splits)

lemma faithful_evict_matching: "faithful P c \<Longrightarrow> faithful P (cache_evict_matching now m c)"
  by (auto simp: faithful_def cache_evict_matching_def split: if_splits)

lemma faithful_get: "faithful P c \<Longrightarrow> get_from_cache now c k = Some v \<Longrightarrow> P k v"
  by (auto simp: faithful_def get_from_cache_def split: option.splits if_splits)

lemma faithful_get_or_load:
  assumes "faithful P c" and "\<And>v s'. loader key s = (Ok v, s') \<Longrightarrow> P key v"
    and "get_or_load now c key loader s = (r, c', s')"
  shows "faithful P c'" and "\<And>v. r = Ok v \<Longrightarrow> P key v"
proof -
  have "faithful P c' \<and> (\<forall>v. r = Ok v \<longrightarrow> P key v)"
  proof (cases "get_from_cache now c key")
    case None
    with assms show ?thesis
      by (auto simp: cache_load_def faithful_set split: prod.splits go.splits)
  next
    case (Some v)
    with assms show ?thesis by (auto dest: faithful_get)
  qed
  then show "faithful P c'" "\<And>v. r = Ok v \<Longrightarrow> P key v" by auto
qed

lemma get_after_others:
  assumes "\<forall>(t, k, w) \<in> set others. k \<noteq> key"
  shows "get_from_cache now (fold (\<lambda>(t, k, w). cache_set t k w) others c) key = get_from_cache now c key"
  using assms by (induction others arbitrary: c) (auto simp: get_set_other)

text \<open>
  What a cached read costs and returns.  When a load of a key has succeeded at one time, a
  later read of that key, whatever entries of other keys were stored in between and whatever the
  loader it brings, returns the loaded value and does not run its loader as long as the lifetime of
  the cache has not passed; afterwards it runs its loader.
\<close>

theorem get_or_load_once:
  assumes miss: "get_from_cache now c key = None"
    and loads: "loader key s = (Ok v, s')"
    and others: "\<forall>(t, k, w) \<in> set others. k \<noteq> key"
  shows "let c1 = fst (snd (get_or_load now c key loader s));
             c2 = fold (\<lambda>(t, k, w). cache_set t k w) others c1
         in get_or_load now' c2 key loader' t =
              (if (case lc_ttl c of None \<Rightarrow> True | Some d \<Rightarrow> now' \<le> now + d)
               then (Ok v, c2, t) else cache_load now' c2 key loader' t)"
  using miss loads get_after_others [OF others, of now' "cache_set now key v c"]
  by (cases "get_from_cache now' (cache_set now key v c) key")
     (auto simp: Let_def get_set_same split: option.splits if_splits)

theorem get_or_load_once_witness:
  "fst (let c1 = fst (snd (get_or_load 0 new_default_cache ''a'' (\<lambda>k s. (Ok (7::int), s + 1)) (0::nat)));
        c2 = fold (\<lambda>(t, k, w). cache_set t k w) [(5, ''b'', 9)] c1
    in get_or_load 3600 c2 ''a'' (\<lambda>k s. (Fail (), s)) (4::nat)) = Ok 7"
  using get_or_load_once [of 0 new_default_cache "''a''" "\<lambda>k s. (Ok (7::int), s + 1)" "0::nat" 7 1
      "[(5, ''b'', 9)]" 3600 "\<lambda>k s. (Fail (), s)" "4::nat"]
  by (simp add: new_default_cache_def new_load_cache_def get_from_cache_def Let_def)

text \<open>
  A cache that holds only values of the keys' predicate, read with a loader that yields such
  values, still does and serves only such values; and a read that does not succeed has run its
  loader and left the cache as it was, so that an error is never served from the cache.
\<close>

theorem get_or_load_faithful:
  assumes "faithful P c" and "\<And>v t. loader key s = (Ok v, t) \<Longrightarrow> P key v"
    and g: "get_or_load now c key loader s = (r, c', s')"
  shows "faithful P c' \<and>
    (case r of Ok v \<Rightarrow> P key v | _ \<Rightarrow> c' = c \<and> loader key s = (r, s'))"
proof -
  have "faithful P c'" "\<And>v. r = Ok v \<Longrightarrow> P key v"
    using faithful_get_or_load [OF assms(1,2) g] by auto
  moreover have "c' = c \<and> loader key s = (r, s')" if "\<And>v. r \<noteq> Ok v"
    using get_or_load_not_Ok_cases [OF g that] by blast
  ultimately show ?thesis by (cases r) auto
qed

theorem get_or_load_faithful_witness:
  "faithful (\<lambda>k v. v = length k) (cache_set 3 ''abc'' 3 new_default_cache) \<and> (3::nat) = length ''abc''"
  using get_or_load_faithful
    [of "\<lambda>k v. v = length k" new_default_cache "\<lambda>k s. (Ok (length k) :: (unit, nat) go, s)" "''abc''" "()"
      3 "Ok 3" "cache_set 3 ''abc'' 3 new_default_cache" "()"]
  by (simp add: new_default_cache_def cache_simps eval_nat_numeral)

lemma get_or_load_pure:
  "get_or_load now c k (\<lambda>k s. (f k, s)) u =
     (case get_from_cache now c k of
        Some v \<Rightarrow> (Ok v, c, u)
      | None \<Rightarrow> (case f k of Ok v \<Rightarrow> (Ok v, cache_set now k v c, u) | r \<Rightarrow> (r, c, u)))"
  by (cases "get_from_cache now c k"; cases "f k") auto

lemma get_after_set:
  "ttl_ok c \<Longrightarrow> get_from_cache now (cache_set now k v c) = (get_from_cache now c)(k \<mapsto> v)"
  by (auto simp: fun_eq_iff cache_simps)

end
