(* ===== verification/Cache_Race.thy ===== *)
theory Cache_Race
  imports Prelude
begin

section \<open>Concurrent loads of one key\<close>

text \<open>
  The locking of \<open>GetOrLoad\<close> in \<open>pkg/cache/cache.go\<close>, for any number of goroutines that load one
  key.  Each shared access of the code is a step: the first lookup, \<open>LoadOrStore\<close> on the map of
  locks, \<open>Lock\<close>, the second lookup, the end of the loader with or without an error, and the two
  deferred calls, which run last in first out: \<open>Unlock\<close>, then \<open>locks.Delete\<close>.  The entry may also
  leave the cache at any time (expiry, \<open>Evict\<close>).
\<close>

datatype pc =
    Start | Want | Got nat | Holding nat | Loading nat | Release nat | Deleting | Done

record race_state =
  rs_lock :: "nat option"
  rs_owner :: "nat \<Rightarrow> nat option"
  rs_fresh :: nat
  rs_cached :: bool
  rs_loads :: nat
  rs_pc :: "nat \<Rightarrow> pc"

definition race_init :: race_state where
  "race_init = \<lparr>rs_lock = None, rs_owner = (\<lambda>_. None), rs_fresh = 0, rs_cached = False,
     rs_loads = 0, rs_pc = (\<lambda>_. Start)\<rparr>"

abbreviation goto :: "nat \<Rightarrow> pc \<Rightarrow> race_state \<Rightarrow> race_state" where
  "goto t p s \<equiv> s\<lparr>rs_pc := (rs_pc s)(t := p)\<rparr>"

datatype race_event = Move nat | LoadFails nat | EntryLeaves

inductive race_step :: "race_state \<Rightarrow> race_event \<Rightarrow> race_state \<Rightarrow> bool" where
  first_hit: "rs_pc s t = Start \<Longrightarrow> rs_cached s \<Longrightarrow> race_step s (Move t) (goto t Done s)"
| first_miss: "rs_pc s t = Start \<Longrightarrow> \<not> rs_cached s \<Longrightarrow> race_step s (Move t) (goto t Want s)"
| lock_stored: "rs_pc s t = Want \<Longrightarrow> rs_lock s = None \<Longrightarrow>
    race_step s (Move t)
      (goto t (Got (rs_fresh s)) s\<lparr>rs_lock := Some (rs_fresh s), rs_fresh := Suc (rs_fresh s)\<rparr>)"
| lock_loaded: "rs_pc s t = Want \<Longrightarrow> rs_lock s = Some m \<Longrightarrow> race_step s (Move t) (goto t (Got m) s)"
| lock: "rs_pc s t = Got m \<Longrightarrow> rs_owner s m = None \<Longrightarrow>
    race_step s (Move t) (goto t (Holding m) s\<lparr>rs_owner := (rs_owner s)(m := Some t)\<rparr>)"
| second_hit: "rs_pc s t = Holding m \<Longrightarrow> rs_cached s \<Longrightarrow> race_step s (Move t) (goto t (Release m) s)"
| second_miss: "rs_pc s t = Holding m \<Longrightarrow> \<not> rs_cached s \<Longrightarrow>
    race_step s (Move t) (goto t (Loading m) s\<lparr>rs_loads := Suc (rs_loads s)\<rparr>)"
| loader_ok: "rs_pc s t = Loading m \<Longrightarrow>
    race_step s (Move t) (goto t (Release m) s\<lparr>rs_cached := True\<rparr>)"
| loader_fails: "rs_pc s t = Loading m \<Longrightarrow> race_step s (LoadFails t) (goto t (Release m) s)"
| unlock: "rs_pc s t = Release m \<Longrightarrow>
    race_step s (Move t) (goto t Deleting s\<lparr>rs_owner := (rs_owner s)(m := None)\<rparr>)"
| delete: "rs_pc s t = Deleting \<Longrightarrow> race_step s (Move t) (goto t Done s\<lparr>rs_lock := None\<rparr>)"
| entry_leaves: "race_step s EntryLeaves (s\<lparr>rs_cached := False\<rparr>)"

inductive race_run :: "race_state \<Rightarrow> race_event list \<Rightarrow> race_state \<Rightarrow> bool" where
  run_nil: "race_run s [] s"
| run_snoc: "race_run s es t \<Longrightarrow> race_step t e u \<Longrightarrow> race_run s (es @ [e]) u"

inductive_cases race_run_nilE [elim]: "race_run s [] t"

text \<open>What \<open>Lock\<close> and \<open>Unlock\<close> give in every run: the owner of a lock is the one goroutine that
  is between the two calls with it.\<close>

definition owns :: "pc \<Rightarrow> nat \<Rightarrow> bool" where
  "owns p m \<longleftrightarrow> p = Holding m \<or> p = Loading m \<or> p = Release m"

definition lock_inv :: "race_state \<Rightarrow> bool" where
  "lock_inv s \<longleftrightarrow>
     (\<forall>t m. owns (rs_pc s t) m \<longleftrightarrow> rs_owner s m = Some t)"

lemma owns_simps [simp]:
  "\<not> owns Start m" "\<not> owns Want m" "\<not> owns (Got n) m" "\<not> owns Deleting m" "\<not> owns Done m"
  "owns (Holding n) m \<longleftrightarrow> n = m" "owns (Loading n) m \<longleftrightarrow> n = m" "owns (Release n) m \<longleftrightarrow> n = m"
  by (auto simp: owns_def)

lemma lock_inv_step: "race_step s e u \<Longrightarrow> lock_inv s \<Longrightarrow> lock_inv u"
proof (induction rule: race_step.induct)
  case (lock s t m)
  then show ?case by (auto simp: lock_inv_def) (metis option.distinct(1) option.inject owns_simps(3))+
next
  case (unlock s t m)
  then show ?case by (auto simp: lock_inv_def) (metis option.inject owns_simps(8))+
qed (auto simp: lock_inv_def; metis owns_simps)+

lemma lock_inv_run: "race_run race_init es u \<Longrightarrow> lock_inv u"
proof (induction "race_init" es u rule: race_run.induct)
  case run_nil
  then show ?case by (simp add: lock_inv_def race_init_def)
next
  case (run_snoc es t e u)
  then show ?case using lock_inv_step by blast
qed

text \<open>Before the first successful load nobody has released a lock, so all hold the same one.\<close>

definition quiet :: "race_event \<Rightarrow> bool" where
  "quiet e \<longleftrightarrow> (\<exists>t. e = Move t)"

definition loading :: "(nat \<Rightarrow> pc) \<Rightarrow> bool" where
  "loading f \<longleftrightarrow> (\<exists>t m. f t = Loading m)"

lemma loading_upd [simp]:
  "\<forall>m. f t \<noteq> Loading m \<Longrightarrow> loading (f(t := p)) \<longleftrightarrow> loading f \<or> (\<exists>m. p = Loading m)"
  unfolding loading_def by (auto; metis fun_upd_apply)

definition lock_is :: "race_state \<Rightarrow> nat \<Rightarrow> bool" where
  "lock_is s m \<longleftrightarrow> rs_lock s = Some m"

lemma lock_is_upd [simp]:
  "lock_is (s\<lparr>rs_pc := f\<rparr>) m = lock_is s m" "lock_is (s\<lparr>rs_owner := g\<rparr>) m = lock_is s m"
  "lock_is (s\<lparr>rs_cached := b\<rparr>) m = lock_is s m" "lock_is (s\<lparr>rs_loads := n\<rparr>) m = lock_is s m"
  "lock_is (s\<lparr>rs_fresh := n\<rparr>) m = lock_is s m"
  "lock_is (s\<lparr>rs_lock := l\<rparr>) m \<longleftrightarrow> l = Some m"
  by (simp_all add: lock_is_def)

definition load_inv :: "race_state \<Rightarrow> bool" where
  "load_inv s \<longleftrightarrow>
     (\<forall>t m. rs_cached s \<longrightarrow> rs_pc s t \<noteq> Loading m)
   \<and> (\<not> rs_cached s \<longrightarrow>
        (\<forall>t m. rs_pc s t \<noteq> Release m) \<and> (\<forall>t. rs_pc s t \<noteq> Deleting)
      \<and> (\<forall>t m. rs_pc s t = Got m \<or> owns (rs_pc s t) m \<longrightarrow> lock_is s m)
      \<and> rs_loads s = (if loading (rs_pc s) then 1 else 0))
   \<and> (rs_cached s \<longrightarrow> rs_loads s = 1)"

lemma load_inv_lock:
  "load_inv s \<Longrightarrow> \<not> rs_cached s \<Longrightarrow> rs_pc s t = Got m \<or> owns (rs_pc s t) m \<Longrightarrow> rs_lock s = Some m"
  unfolding load_inv_def lock_is_def by blast

lemma one_loader:
  assumes "lock_inv s" "load_inv s" "\<not> rs_cached s"
    and "rs_pc s t = Loading m \<or> rs_pc s t = Holding m" "rs_pc s t' = Loading m'"
  shows "t' = t"
proof -
  have o: "owns (rs_pc s t) m" "owns (rs_pc s t') m'" using assms(4,5) by (auto simp: owns_def)
  then have "rs_lock s = Some m" "rs_lock s = Some m'"
    using assms(2,3) by (auto intro: load_inv_lock)
  then have "m = m'" by simp
  with o show ?thesis using assms(1) by (auto simp: lock_inv_def)
qed

lemma load_inv_step:
  assumes "race_step s e u" "quiet e" "lock_inv s" "load_inv s"
  shows "load_inv u"
  using assms
proof (induction rule: race_step.induct)
  case (second_miss s t m)
  have none: "\<forall>t' m'. rs_pc s t' \<noteq> Loading m'"
    using one_loader [of s t m] second_miss by fastforce
  moreover have "lock_is s m"
    using load_inv_lock [of s t m] second_miss by (simp add: load_inv_def lock_is_def)
  ultimately show ?case using second_miss unfolding load_inv_def by (auto simp: loading_def)
next
  case (lock s t m)
  have "lock_is s m" if "\<not> rs_cached s"
    using load_inv_lock [of s t m] lock that by (simp add: lock_is_def)
  with lock show ?case unfolding load_inv_def by (cases "rs_cached s") auto
next
  case (lock_stored s t)
  then have "\<And>m. \<not> lock_is s m" by (simp add: lock_is_def)
  with lock_stored show ?case unfolding load_inv_def by auto
next
  case (lock_loaded s t m)
  then have "lock_is s m" by (simp add: lock_is_def)
  with lock_loaded show ?case unfolding load_inv_def by auto
next
  case (loader_ok s t m)
  then have nc: "\<not> rs_cached s" by (auto simp: load_inv_def)
  have only: "rs_pc s t' = Loading m' \<Longrightarrow> t = t'" for t' m'
    using one_loader [of s t m t' m'] loader_ok nc by blast
  have "rs_loads s = 1" using loader_ok nc by (auto simp: load_inv_def loading_def)
  with loader_ok.hyps show ?case by (auto simp: load_inv_def dest: only)
qed (auto simp: load_inv_def quiet_def split: if_splits)

lemma load_inv_run: "race_run race_init es u \<Longrightarrow> list_all quiet es \<Longrightarrow> load_inv u"
proof (induction "race_init" es u rule: race_run.induct)
  case run_nil
  then show ?case by (simp add: load_inv_def loading_def race_init_def)
next
  case (run_snoc es t e u)
  then show ?case using load_inv_step lock_inv_run by auto
qed

text \<open>
  C27. As long as no load fails and the entry does not leave the cache, the loader of a key is run
  at most once, however many goroutines ask for it and however their steps interleave; and no two
  goroutines are ever in it together.
\<close>

theorem no_duplicate_load:
  assumes "race_run race_init es s" and "list_all quiet es"
  shows "rs_loads s \<le> 1 \<and>
    (\<forall>t t' m m'. rs_pc s t = Loading m \<and> rs_pc s t' = Loading m' \<longrightarrow> t' = t)"
proof -
  have i: "lock_inv s" "load_inv s" using assms lock_inv_run load_inv_run by auto
  then have "rs_loads s \<le> 1" by (cases "rs_cached s") (auto simp: load_inv_def)
  moreover have "t' = t" if "rs_pc s t = Loading m" "rs_pc s t' = Loading m'" for t t' m m'
    using i that one_loader [OF i, of t m t' m'] by (auto simp: load_inv_def)
  ultimately show ?thesis by blast
qed

text \<open>The step a goroutine takes is determined, so a schedule can be run.\<close>

fun race_next :: "race_state \<Rightarrow> race_event \<Rightarrow> race_state option" where
  "race_next s EntryLeaves = Some (s\<lparr>rs_cached := False\<rparr>)"
| "race_next s (LoadFails t) =
     (case rs_pc s t of Loading m \<Rightarrow> Some (goto t (Release m) s) | _ \<Rightarrow> None)"
| "race_next s (Move t) =
     (case rs_pc s t of
        Start \<Rightarrow> Some (goto t (if rs_cached s then Done else Want) s)
      | Want \<Rightarrow>
          (case rs_lock s of
             None \<Rightarrow> Some (goto t (Got (rs_fresh s)) s\<lparr>rs_lock := Some (rs_fresh s), rs_fresh := Suc (rs_fresh s)\<rparr>)
           | Some m \<Rightarrow> Some (goto t (Got m) s))
      | Got m \<Rightarrow>
          (if rs_owner s m = None
           then Some (goto t (Holding m) s\<lparr>rs_owner := (rs_owner s)(m := Some t)\<rparr>) else None)
      | Holding m \<Rightarrow>
          (if rs_cached s then Some (goto t (Release m) s)
           else Some (goto t (Loading m) s\<lparr>rs_loads := Suc (rs_loads s)\<rparr>))
      | Loading m \<Rightarrow> Some (goto t (Release m) s\<lparr>rs_cached := True\<rparr>)
      | Release m \<Rightarrow> Some (goto t Deleting s\<lparr>rs_owner := (rs_owner s)(m := None)\<rparr>)
      | Deleting \<Rightarrow> Some (goto t Done s\<lparr>rs_lock := None\<rparr>)
      | Done \<Rightarrow> None)"

fun race_exec :: "race_state \<Rightarrow> race_event list \<Rightarrow> race_state option" where
  "race_exec s [] = Some s"
| "race_exec s (e # es) = (case race_next s e of None \<Rightarrow> None | Some u \<Rightarrow> race_exec u es)"

lemma race_next_step: "race_next s e = Some u \<Longrightarrow> race_step s e u"
  by (induction s e rule: race_next.induct)
     (auto intro: race_step.intros split: pc.splits option.splits if_splits)

lemma race_run_Cons:
  assumes "race_step s e t" "race_run t es u"
  shows "race_run s (e # es) u"
  using assms(2,1)
proof (induction t es u rule: race_run.induct)
  case (run_nil t)
  then show ?case using race_run.run_snoc [OF race_run.run_nil, of s e t] by simp
next
  case (run_snoc t es v e' u)
  then show ?case using race_run.run_snoc [of s "e # es" v e' u] by simp
qed

lemma race_exec_run: "race_exec s es = Some u \<Longrightarrow> race_run s es u"
  by (induction es arbitrary: s)
     (auto intro: race_run.run_nil race_run_Cons race_next_step split: option.splits)

theorem no_duplicate_load_witness:
  "rs_loads (the (race_exec race_init [Move 0, Move 1, Move 0, Move 0, Move 1, Move 0, Move 0])) \<le> 1"
proof -
  let ?es = "[Move 0, Move 1, Move 0, Move 0, Move 1, Move 0, Move 0]"
  have "\<exists>s. race_exec race_init ?es = Some s" by (simp add: race_init_def)
  then obtain s where s: "race_exec race_init ?es = Some s" by blast
  from no_duplicate_load [OF race_exec_run [OF s]] s show ?thesis by (simp add: quiet_def)
qed

text \<open>
  C28. After one failed load the lock no longer keeps goroutines apart: the first goroutine
  releases the lock and a second one, which waited for it, starts to load; then the first removes
  the lock from the map, a third finds none, stores a new one, and loads the same key at the same
  time.
\<close>

theorem duplicate_load_reachable:
  "\<exists>es s. race_run race_init es s \<and> filter (\<lambda>e. \<not> quiet e) es = [LoadFails 0] \<and>
     rs_pc s 1 = Loading 0 \<and> rs_pc s 2 = Loading 1"
proof -
  let ?es = "[Move 0, Move 1, Move 2, Move 0, Move 1, Move 0, Move 0, LoadFails 0, Move 0, Move 1,
    Move 1, Move 0, Move 2, Move 2, Move 2]"
  have "\<exists>s. race_exec race_init ?es = Some s \<and> rs_pc s 1 = Loading 0 \<and> rs_pc s 2 = Loading 1"
    by (simp add: race_init_def)
  then obtain s where "race_run race_init ?es s" "rs_pc s 1 = Loading 0" "rs_pc s 2 = Loading 1"
    using race_exec_run by blast
  then show ?thesis by (intro exI [of _ ?es] exI [of _ s]) (simp add: quiet_def)
qed

end
