(* ===== verification/Unavailable_Offerings.thy ===== *)
theory Unavailable_Offerings
  imports Load_Cache Float_Arith
begin

section \<open>Offerings seen without capacity\<close>

text \<open>
  \<open>pkg/cache/unavailableofferings.go\<close>: the offerings a launch has found without capacity, each
  kept for a time.  The six arguments of the code's methods, which always travel together, are the
  fields of \<open>offering_id\<close>.  \<open>fmt\<close> is \<open>strconv.FormatFloat(v, 'f', -1, 32)\<close>, the shortest decimal
  that reads back as the same \<open>float32\<close>.  Logging is left out.
\<close>

record offering_id =
  oi_shape :: string
  oi_ocpu :: "rat option"
  oi_memory :: "rat option"
  oi_zone :: string
  oi_capacity_type :: string
  oi_compartment :: string

record unavailable_offerings =
  uo_cache :: "unit load_cache"
  uo_disabled :: bool

definition default_unavailable_ttl :: int where
  "default_unavailable_ttl = 180"

definition new_unavailable_offerings :: "int \<Rightarrow> unavailable_offerings" where
  "new_unavailable_offerings ttl =
     (if ttl = 0 then \<lparr>uo_cache = new_load_cache None, uo_disabled = True\<rparr>
      else let t = (if ttl < 0 then default_unavailable_ttl else ttl)
           in \<lparr>uo_cache = new_load_cache (Some t), uo_disabled = False\<rparr>)"

definition flex_resource_key_value :: "(rat \<Rightarrow> string) \<Rightarrow> rat option \<Rightarrow> string" where
  "flex_resource_key_value fmt v = (case v of None \<Rightarrow> [] | Some x \<Rightarrow> fmt x)"

definition offering_key :: "(rat \<Rightarrow> string) \<Rightarrow> offering_id \<Rightarrow> string" where
  "offering_key fmt i =
     oi_capacity_type i @ '':'' @ oi_shape i @ '':'' @ flex_resource_key_value fmt (oi_ocpu i) @ '':''
     @ flex_resource_key_value fmt (oi_memory i) @ '':'' @ oi_zone i @ '':'' @ oi_compartment i"

definition mark_unavailable ::
  "(rat \<Rightarrow> string) \<Rightarrow> int \<Rightarrow> offering_id \<Rightarrow> unavailable_offerings \<Rightarrow> unavailable_offerings" where
  "mark_unavailable fmt now i u =
     (if uo_disabled u then u
      else u\<lparr>uo_cache := cache_set now (offering_key fmt i) () (uo_cache u)\<rparr>)"

definition is_unavailable ::
  "(rat \<Rightarrow> string) \<Rightarrow> int \<Rightarrow> offering_id \<Rightarrow> unavailable_offerings \<Rightarrow> bool" where
  "is_unavailable fmt now i u =
     (if uo_disabled u then False
      else get_from_cache now (uo_cache u) (offering_key fmt i) \<noteq> None)"

definition flush_unavailable :: "unavailable_offerings \<Rightarrow> unavailable_offerings" where
  "flush_unavailable u =
     (if uo_disabled u then u
      else u\<lparr>uo_cache := (uo_cache u)\<lparr>lc_items := Map.empty\<rparr>\<rparr>)"

subsection \<open>Keys\<close>

text \<open>
  What the code relies on of the number format: different \<open>float32\<close> values are printed differently,
  and neither as nothing nor with a colon; and of the names in a key: capacity types, shapes and
  compartment OCIDs hold no colon (the name of a zone may).
\<close>

definition float32 :: "rat \<Rightarrow> bool" where
  "float32 x \<longleftrightarrow> f32 x = x"

definition fmt_ok :: "(rat \<Rightarrow> string) \<Rightarrow> bool" where
  "fmt_ok fmt \<longleftrightarrow> (\<forall>x y. float32 x \<longrightarrow> float32 y \<longrightarrow> fmt x = fmt y \<longrightarrow> x = y)
     \<and> (\<forall>x. float32 x \<longrightarrow> fmt x \<noteq> [] \<and> CHR '':'' \<notin> set (fmt x))"

definition id_ok :: "offering_id \<Rightarrow> bool" where
  "id_ok i \<longleftrightarrow> CHR '':'' \<notin> set (oi_capacity_type i) \<and> CHR '':'' \<notin> set (oi_shape i)
     \<and> CHR '':'' \<notin> set (oi_compartment i)
     \<and> pred_option float32 (oi_ocpu i) \<and> pred_option float32 (oi_memory i)"

lemma append_sep_left:
  assumes "c \<notin> set a" "c \<notin> set b"
  shows "a @ c # s = b @ c # t \<longleftrightarrow> a = b \<and> s = t"
proof
  assume eq: "a @ c # s = b @ c # t"
  have tw: "takeWhile (\<lambda>x. x \<noteq> c) (a @ c # s) = a" "takeWhile (\<lambda>x. x \<noteq> c) (b @ c # t) = b"
    using assms by (subst takeWhile_append2; auto)+
  with eq have "a = b" by simp
  with eq show "a = b \<and> s = t" by simp
qed simp

lemma append_sep_right:
  assumes "c \<notin> set a" "c \<notin> set b"
  shows "s @ c # a = t @ c # b \<longleftrightarrow> s = t \<and> a = b"
proof -
  have "s @ c # a = t @ c # b \<longleftrightarrow> rev a @ c # rev s = rev b @ c # rev t"
    by (metis append_assoc append_Cons append_Nil rev.simps(2) rev_append rev_rev_ident)
  also have "\<dots> \<longleftrightarrow> rev a = rev b \<and> rev s = rev t" using assms by (intro append_sep_left) auto
  finally show ?thesis by auto
qed

lemma fmt_inj: "fmt_ok fmt \<Longrightarrow> float32 x \<Longrightarrow> float32 y \<Longrightarrow> fmt x = fmt y \<longleftrightarrow> x = y"
  unfolding fmt_ok_def by blast

lemma fmt_chars: "fmt_ok fmt \<Longrightarrow> float32 x \<Longrightarrow> fmt x \<noteq> []"
  "fmt_ok fmt \<Longrightarrow> float32 x \<Longrightarrow> CHR '':'' \<notin> set (fmt x)"
  unfolding fmt_ok_def by blast+

lemma flex_key_no_sep:
  "fmt_ok fmt \<Longrightarrow> pred_option float32 v \<Longrightarrow> CHR '':'' \<notin> set (flex_resource_key_value fmt v)"
  by (cases v) (auto simp: flex_resource_key_value_def fmt_chars)

lemma flex_key_eq:
  assumes "fmt_ok fmt" "pred_option float32 v" "pred_option float32 w"
  shows "flex_resource_key_value fmt v = flex_resource_key_value fmt w \<longleftrightarrow> v = w"
  using assms
  by (cases v; cases w) (auto simp: flex_resource_key_value_def fmt_inj fmt_chars fmt_chars(1) [symmetric])

lemma offering_key_eq_iff:
  assumes "fmt_ok fmt" "id_ok i" "id_ok j"
  shows "offering_key fmt i = offering_key fmt j \<longleftrightarrow> i = j"
proof -
  let ?f = "flex_resource_key_value fmt"
  have no_sep: "CHR '':'' \<notin> set (oi_capacity_type k)" "CHR '':'' \<notin> set (oi_shape k)"
      "CHR '':'' \<notin> set (oi_compartment k)" "CHR '':'' \<notin> set (?f (oi_ocpu k))"
      "CHR '':'' \<notin> set (?f (oi_memory k))" if "k = i \<or> k = j" for k
    using that assms flex_key_no_sep [OF assms(1)] by (auto simp: id_ok_def)
  note n = no_sep [of i, simplified] no_sep [of j, simplified]
  have "offering_key fmt i = offering_key fmt j \<longleftrightarrow>
      oi_capacity_type i = oi_capacity_type j \<and> oi_shape i = oi_shape j
      \<and> ?f (oi_ocpu i) = ?f (oi_ocpu j) \<and> ?f (oi_memory i) = ?f (oi_memory j)
      \<and> oi_zone i @ CHR '':'' # oi_compartment i = oi_zone j @ CHR '':'' # oi_compartment j"
    unfolding offering_key_def append_Cons append_Nil
    by (simp only: append_sep_left [OF n(1) n(6)] append_sep_left [OF n(2) n(7)]
        append_sep_left [OF n(4) n(9)] append_sep_left [OF n(5) n(10)])
  also have "\<dots> \<longleftrightarrow> oi_capacity_type i = oi_capacity_type j \<and> oi_shape i = oi_shape j
      \<and> oi_ocpu i = oi_ocpu j \<and> oi_memory i = oi_memory j
      \<and> oi_zone i = oi_zone j \<and> oi_compartment i = oi_compartment j"
    using assms by (simp add: append_sep_right [OF n(3) n(8)] flex_key_eq id_ok_def)
  also have "\<dots> \<longleftrightarrow> i = j" by auto
  finally show ?thesis .
qed

interpretation offering_store: keyed_store
  "get_from_cache now :: unit load_cache \<Rightarrow> _" "cache_set now" cache_evict ttl_ok
  by (rule cache_store.keyed_store_axioms)

subsection \<open>What a history of marks makes unavailable\<close>

lemma is_unavailable_new [simp]: "\<not> is_unavailable fmt now i (new_unavailable_offerings ttl)"
  by (simp add: is_unavailable_def new_unavailable_offerings_def Let_def get_new)

lemma is_unavailable_flush [simp]: "\<not> is_unavailable fmt now i (flush_unavailable u)"
  by (simp add: is_unavailable_def flush_unavailable_def get_from_cache_def)

lemma is_unavailable_mark:
  assumes "fmt_ok fmt" "id_ok i" "id_ok j" "\<not> uo_disabled u" "lc_ttl (uo_cache u) = Some d"
  shows "is_unavailable fmt now i (mark_unavailable fmt t j u) \<longleftrightarrow>
    (if i = j then now \<le> t + d else is_unavailable fmt now i u)"
  using assms offering_key_eq_iff [OF assms(1-3)]
  by (auto simp: is_unavailable_def mark_unavailable_def get_set_same get_set_other)

lemma mark_kept [simp]:
  "uo_disabled (mark_unavailable fmt t j u) = uo_disabled u"
  "lc_ttl (uo_cache (mark_unavailable fmt t j u)) = lc_ttl (uo_cache u)"
  by (simp_all add: mark_unavailable_def)

lemma marks_kept [simp]:
  "uo_disabled (fold (\<lambda>(t, j). mark_unavailable fmt t j) marks u) = uo_disabled u"
  "lc_ttl (uo_cache (fold (\<lambda>(t, j). mark_unavailable fmt t j) marks u)) = lc_ttl (uo_cache u)"
  by (induction marks arbitrary: u) auto

text \<open>
  C26. An offering is unavailable exactly when one of the launches that marked it did so within the
  last \<open>ttl\<close> seconds: marks of other offerings have no effect, a later mark extends the time, an
  expired one is forgotten.  The marks come in the order of time, from an empty register of a
  positive lifetime.
\<close>

theorem unavailable_iff_recent_mark:
  assumes f: "fmt_ok fmt" and ids: "\<forall>(t, j) \<in> set marks. id_ok j" and i: "id_ok i" and ttl: "0 < ttl"
    and times: "sorted (map fst marks)"
  shows "is_unavailable fmt now i
      (fold (\<lambda>(t, j). mark_unavailable fmt t j) marks (new_unavailable_offerings ttl)) \<longleftrightarrow>
    (\<exists>t. (t, i) \<in> set marks \<and> now \<le> t + ttl)"
  using ids times
proof (induction marks rule: rev_induct)
  case Nil
  then show ?case by simp
next
  case (snoc m marks)
  obtain t j where m: "m = (t, j)" by (cases m)
  define u where "u = fold (\<lambda>(t, j). mark_unavailable fmt t j) marks (new_unavailable_offerings ttl)"
  have u: "\<not> uo_disabled u" "lc_ttl (uo_cache u) = Some ttl"
    using ttl by (simp_all add: u_def new_unavailable_offerings_def new_load_cache_def Let_def)
  from snoc.prems m have j: "id_ok j" and le: "\<forall>(s, k) \<in> set marks. s \<le> t"
    and ids: "\<forall>(t, j) \<in> set marks. id_ok j" and sorted: "sorted (map fst marks)"
    by (auto simp: sorted_append)
  have step: "is_unavailable fmt now i (mark_unavailable fmt t j u) \<longleftrightarrow>
      (if i = j then now \<le> t + ttl else is_unavailable fmt now i u)"
    by (rule is_unavailable_mark [OF f i j u])
  have IH: "is_unavailable fmt now i u \<longleftrightarrow> (\<exists>t. (t, i) \<in> set marks \<and> now \<le> t + ttl)"
    using snoc.IH [OF ids sorted] by (simp add: u_def)
  have "(\<exists>s. (s, i) \<in> set (marks @ [m]) \<and> now \<le> s + ttl) \<longleftrightarrow>
      (if i = j then now \<le> t + ttl else \<exists>s. (s, i) \<in> set marks \<and> now \<le> s + ttl)"
  proof (cases "i = j")
    case True
    then show ?thesis using le m by auto
  next
    case False
    then show ?thesis using m by auto
  qed
  with step IH m show ?case by (simp add: u_def)
qed

text \<open>A format that has the properties, to see that they can hold.\<close>

definition unary_fmt :: "rat \<Rightarrow> string" where
  "unary_fmt x = (let (n, d) = quotient_of x
     in (if n < 0 then ''-'' else ''+'') @ replicate (nat \<bar>n\<bar>) (CHR ''1'') @ ''/'' @ replicate (nat d) (CHR ''1''))"

lemma fmt_ok_unary: "fmt_ok unary_fmt"
proof -
  have "x = y" if eq: "unary_fmt x = unary_fmt y" for x y
  proof -
    obtain n d m e where q: "quotient_of x = (n, d)" "quotient_of y = (m, e)" by (metis surj_pair)
    have pos: "0 < d" "0 < e" using q by (auto dest: quotient_of_denom_pos)
    have eqs: "(n < 0) = (m < 0)"
      "replicate (nat \<bar>n\<bar>) (CHR ''1'') @ CHR ''/'' # replicate (nat d) (CHR ''1'')
        = replicate (nat \<bar>m\<bar>) (CHR ''1'') @ CHR ''/'' # replicate (nat e) (CHR ''1'')"
      using eq q by (auto simp: unary_fmt_def split: if_splits)
    have "replicate (nat \<bar>n\<bar>) (CHR ''1'') = replicate (nat \<bar>m\<bar>) (CHR ''1'')
        \<and> replicate (nat d) (CHR ''1'') = replicate (nat e) (CHR ''1'')"
      using eqs(2) by (subst (asm) append_sep_left) auto
    then have "nat \<bar>n\<bar> = nat \<bar>m\<bar>" "nat d = nat e" by (metis length_replicate)+
    with eqs(1) pos have "n = m" "d = e" by auto
    with q show "x = y" by (metis quotient_of_inject)
  qed
  moreover have "unary_fmt x \<noteq> [] \<and> CHR '':'' \<notin> set (unary_fmt x)" for x
    by (auto simp: unary_fmt_def split: prod.splits)
  ultimately show ?thesis unfolding fmt_ok_def by blast
qed

theorem unavailable_iff_recent_mark_witness:
  "let i = \<lparr>oi_shape = ''VM.E5'', oi_ocpu = None, oi_memory = None, oi_zone = ''a:PHX-AD-1'',
         oi_capacity_type = ''on-demand'', oi_compartment = []\<rparr>;
       j = i\<lparr>oi_zone := ''PHX-AD-2''\<rparr>;
       u = fold (\<lambda>(t, k). mark_unavailable unary_fmt t k) [(0, i), (100, j)] (new_unavailable_offerings 180)
   in \<not> is_unavailable unary_fmt 200 i u \<and> is_unavailable unary_fmt 200 j u"
proof -
  let ?i = "\<lparr>oi_shape = ''VM.E5'', oi_ocpu = None, oi_memory = None, oi_zone = ''a:PHX-AD-1'',
         oi_capacity_type = ''on-demand'', oi_compartment = []\<rparr>"
  let ?j = "?i\<lparr>oi_zone := ''PHX-AD-2''\<rparr>"
  have "id_ok ?i" "id_ok ?j" by (simp_all add: id_ok_def)
  then show ?thesis
    using unavailable_iff_recent_mark [OF fmt_ok_unary, of "[(0, ?i), (100, ?j)]" ?i 180 200]
      unavailable_iff_recent_mark [OF fmt_ok_unary, of "[(0, ?i), (100, ?j)]" ?j 180 200]
    by (simp add: Let_def)
qed

end
