(* ===== verification/Api_Types.thy ===== *)
theory Api_Types
  imports Oci_Errors
begin

section \<open>The node class and the objects of the cloud\<close>

text \<open>
  The custom resource of \<open>pkg/apis/v1beta1/ocinodeclass_types.go\<close>, with its method \<open>SetCondition\<close>
  and the names of its labels (\<open>labels.go\<close>), and of the objects of the OCI SDK the fields this
  program reads.  A pointer is an option; a Go map that is iterated or compared is an association
  list with distinct keys (nil and empty maps are not told apart by the code that uses them, except
  for those of the kubelet, which are options); a
  field the SDK marks mandatory is a plain value unless the code itself tests it for nil.
\<close>

type_synonym tags = "(string \<times> string) list"
type_synonym defined_tags = "(string \<times> tags) list"

subsection \<open>Parts of the node class specification\<close>

record resource_selector =
  sel_compartment :: "string option"
  sel_display_name :: "string option"
  sel_freeform :: tags
  sel_defined :: defined_tags

record image_selector =
  isel_os :: string
  isel_os_version :: string
  isel_compartment :: "string option"
  isel_freeform :: tags
  isel_defined :: defined_tags

datatype image_type = PlatformImage | OKEImage | CustomImage

record image_config =
  ic_type :: image_type
  ic_filter :: "image_selector option"
  ic_id :: "string option"

record kms_key_config =
  kms_id :: "string option"

record volume_attribute =
  va_kms :: "kms_key_config option"
  va_size :: "int option"
  va_vpus :: "int option"

record boot_volume_config = volume_attribute +
  bv_image :: "image_config option"
  bv_pv_encryption :: "bool option"

record volume_config =
  vc_boot :: boot_volume_config

record subnet_config =
  sn_id :: "string option"
  sn_filter :: "resource_selector option"

record nsg_config =
  nsg_id :: "string option"
  nsg_filter :: "resource_selector option"

record subnet_and_nsg =
  san_subnet :: "subnet_config option"
  san_nsgs :: "nsg_config list"

record simple_vnic_config =
  svc_subnet_and_nsg :: "subnet_and_nsg option"
  svc_assign_ipv6 :: "bool option"
  svc_assign_public :: "bool option"
  svc_display_name :: "string option"
  svc_ipv6_cidrs :: "string list"
  svc_skip_check :: "bool option"
  svc_security :: defined_tags

record secondary_vnic_config = simple_vnic_config +
  svn_application :: "string option"
  svn_ip_count :: "int option"
  svn_nic_index :: "int option"

record network_config =
  nc_primary :: "simple_vnic_config option"
  nc_secondary :: "secondary_vnic_config list"

record capacity_reservation_config =
  crc_id :: "string option"
  crc_filter :: "resource_selector option"

record placement_group_config =
  cpgc_id :: "string option"
  cpgc_filter :: "resource_selector option"

record compute_cluster_config =
  ccc_id :: "string option"
  ccc_filter :: "resource_selector option"

record kubelet_config =
  kc_cluster_dns :: "string list option"
  kc_extra_args :: "string option"
  kc_node_labels :: "tags option"
  kc_max_pods :: "int option"
  kc_pods_per_core :: "int option"
  kc_system_reserved :: "tags option"
  kc_kube_reserved :: "tags option"
  kc_eviction_hard :: "tags option"
  kc_eviction_soft :: "tags option"
  kc_eviction_grace :: "(string \<times> int) list option"
  kc_eviction_max_grace :: "int option"
  kc_gc_high :: "int option"
  kc_gc_low :: "int option"

datatype baseline = BASELINE_1_8 | BASELINE_1_2 | BASELINE_1_1

record shape_config =
  shc_baseline :: "baseline option"
  shc_ocpus :: "rat option"
  shc_memory :: "rat option"

record platform_config =
  pc_secure_boot :: "bool option"
  pc_tpm :: "bool option"
  pc_measured_boot :: "bool option"
  pc_memory_encryption :: "bool option"
  pc_smt :: "bool option"
  pc_acs :: "bool option"
  pc_virtual_instructions :: "bool option"
  pc_iommu :: "bool option"
  pc_numa :: "string option"
  pc_cores_percent :: "int option"

definition empty_platform :: platform_config where
  "empty_platform = \<lparr>pc_secure_boot = None, pc_tpm = None, pc_measured_boot = None,
     pc_memory_encryption = None, pc_smt = None, pc_acs = None, pc_virtual_instructions = None,
     pc_iommu = None, pc_numa = None, pc_cores_percent = None\<rparr>"

text \<open>\<open>IsEmpty\<close> is also defined on the nil pointer.\<close>

definition platform_is_empty :: "platform_config option \<Rightarrow> bool" where
  "platform_is_empty p = (case p of None \<Rightarrow> True | Some c \<Rightarrow> c = empty_platform)"

datatype volume_type = Iscsi | Scsi | Ide | Vfio | Paravirtualized
datatype firmware = Bios | Uefi64
datatype network_type = NetVfio | NetE1000 | NetParavirtualized

record launch_options =
  lo_boot_volume :: "volume_type option"
  lo_remote_volume :: "volume_type option"
  lo_firmware :: "firmware option"
  lo_network :: "network_type option"
  lo_consistent_naming :: "bool option"

subsection \<open>The node class\<close>

record node_class_spec =
  ncs_shape_configs :: "shape_config list"
  ncs_platform :: "platform_config option"
  ncs_compartment :: "string option"
  ncs_volume :: volume_config
  ncs_network :: network_config
  ncs_capres :: "capacity_reservation_config list"
  ncs_cpgs :: "placement_group_config list"
  ncs_cluster :: "compute_cluster_config option"
  ncs_metadata :: tags
  ncs_freeform :: tags
  ncs_defined :: defined_tags
  ncs_kubelet :: "kubelet_config option"
  ncs_pre_script :: "string option"
  ncs_post_script :: "string option"
  ncs_ssh_keys :: "string list"
  ncs_launch_options :: "launch_options option"
  ncs_agent_plugins :: "string list"

text \<open>The resolved resources of the status: an OCID and a name, and for some the domain they are in.\<close>

record named_resource =
  nr_id :: string
  nr_name :: string

record placed_resource = named_resource +
  pr_ad :: string

type_synonym image_status = named_resource
type_synonym kms_key_status = named_resource
type_synonym subnet_status = named_resource
type_synonym nsg_status = named_resource
type_synonym capres_status = placed_resource
type_synonym cpg_status = placed_resource
type_synonym cluster_status = placed_resource

record vnic_status =
  vs_subnet :: subnet_status
  vs_nsgs :: "nsg_status list"

record network_status =
  ns_primary :: "vnic_status option"
  ns_secondary :: "vnic_status list"

record volume_status =
  vst_images :: "image_status list"
  vst_kms :: "kms_key_status list"

record condition =
  cond_type :: string
  cond_status :: string
  cond_reason :: string
  cond_message :: string
  cond_time :: int

record node_class_status =
  ncst_conditions :: "condition list"
  ncst_volume :: "volume_status option"
  ncst_network :: "network_status option"
  ncst_capres :: "capres_status list"
  ncst_cpgs :: "cpg_status list"
  ncst_cluster :: "cluster_status option"

record node_class =
  ncl_name :: string
  ncl_labels :: "(string \<times> string) list"
  ncl_annotations :: "(string \<times> string) list"
  ncl_finalizers :: "string list"
  ncl_deleting :: bool
  ncl_spec :: node_class_spec
  ncl_status :: node_class_status

definition Group :: string where "Group = ''oci.oraclecloud.com''"
definition NodeClassHash :: string where "NodeClassHash = Group @ ''/nodeclass-hash''"
definition NodeClassHashVersion :: string where
  "NodeClassHashVersion = Group @ ''/nodeclass-hash-version''"
definition NodeClassLabel :: string where "NodeClassLabel = Group @ ''/ocinodeclass''"
definition OciGpuShape :: string where "OciGpuShape = Group @ ''/gpu-shape''"
definition OciBmShape :: string where "OciBmShape = Group @ ''/baremetal-shape''"
definition OciDenseIoShape :: string where "OciDenseIoShape = Group @ ''/denseio-shape''"
definition OciInstanceShape :: string where "OciInstanceShape = Group @ ''/instance-shape''"
definition OciFlexShape :: string where "OciFlexShape = Group @ ''/flex-shape''"
definition OciFaultDomain :: string where "OciFaultDomain = Group @ ''/fault-domain''"
definition ReservationIDLabel :: string where
  "ReservationIDLabel = Group @ ''/capacity-reservation-id''"
definition OCINodeClassHashVersion :: string where "OCINodeClassHashVersion = ''v1''"

subsection \<open>Conditions\<close>

text \<open>
  The conditions whose conjunction is the readiness of a node class: the three that always apply
  and one for every optional resource the specification asks for (\<open>StatusConditions\<close>).
\<close>

definition dependent_conditions :: "node_class_spec \<Rightarrow> string list" where
  "dependent_conditions spec =
     [''Image'', ''Network'', ''NodeCompartment'']
     @ (if va_kms (vc_boot (ncs_volume spec)) \<noteq> None then [''KmsKey''] else [])
     @ (if 0 < length (ncs_capres spec) then [''CapacityReservation''] else [])
     @ (if 0 < length (ncs_cpgs spec) then [''ClusterPlacementGroup''] else [])
     @ (if ncs_cluster spec \<noteq> None then [''ComputeCluster''] else [])"

text \<open>
  \<open>SetCondition\<close>: the loop variable of its \<open>range\<close> is a copy of the element, so what it assigns to
  an existing condition is lost; only a condition of a new type is appended.
\<close>

fun scan_conditions :: "condition \<Rightarrow> bool \<Rightarrow> condition list \<Rightarrow> bool" where
  "scan_conditions c found [] = found"
| "scan_conditions c found (e # es) =
     (if cond_type e = cond_type c
      then (if cond_status e \<noteq> cond_status c \<or> cond_reason e \<noteq> cond_reason c
               \<or> cond_message e \<noteq> cond_message c
            then True
            else scan_conditions c True es)
      else scan_conditions c found es)"

definition set_condition :: "int \<Rightarrow> condition \<Rightarrow> node_class_status \<Rightarrow> node_class_status" where
  "set_condition now c st =
     (if scan_conditions c False (ncst_conditions st) then st
      else st\<lparr>ncst_conditions := ncst_conditions st @ [c\<lparr>cond_time := now\<rparr>]\<rparr>)"

lemma scan_conditions_iff:
  "scan_conditions c found es \<longleftrightarrow> found \<or> (\<exists>e \<in> set es. cond_type e = cond_type c)"
  by (induction es arbitrary: found) auto

subsection \<open>Objects of the OCI SDK\<close>

datatype lifecycle = Provisioning | Running | Starting | Stopping | Stopped | Terminating | Terminated
  | OtherState string

record inst_shape_config =
  isc_ocpus :: "rat option"
  isc_memory :: "rat option"
  isc_baseline :: "baseline option"

datatype source_details = ViaImage string | ViaBootVolume string

record oci_instance =
  ins_id :: "string option"
  ins_display_name :: "string option"
  ins_compartment :: string
  ins_ad :: string
  ins_fd :: "string option"
  ins_shape :: string
  ins_shape_config :: "inst_shape_config option"
  ins_state :: lifecycle
  ins_capres :: "string option"
  ins_cpg :: "string option"
  ins_source :: source_details
  ins_launch_options :: "launch_options option"
  ins_freeform :: tags
  ins_preemptible :: bool
  ins_created :: int

text \<open>An instance and a node class specification for the examples of the theories.\<close>

definition plain_instance :: oci_instance where
  "plain_instance = \<lparr>ins_id = Some ''i1'', ins_display_name = Some ''n1'', ins_compartment = ''c1'',
     ins_ad = ''p:PHX-AD-1'', ins_fd = Some ''FD-1'', ins_shape = ''VM.Standard2.1'',
     ins_shape_config = None, ins_state = Running, ins_capres = None, ins_cpg = None,
     ins_source = ViaImage ''img'', ins_launch_options = None, ins_freeform = [],
     ins_preemptible = False, ins_created = 0\<rparr>"

record vnic_attachment =
  vat_id :: string
  vat_vnic :: "string option"
  vat_subnet :: string
  vat_attached :: bool

record oci_vnic =
  vnic_id :: string
  vnic_subnet :: string
  vnic_nsgs :: "string list"
  vnic_primary :: "bool option"

record boot_attachment =
  bva_id :: string
  bva_volume :: "string option"
  bva_created :: int
  bva_pv_encryption :: "bool option"

record boot_volume =
  bvol_id :: string
  bvol_size :: int
  bvol_kms :: "string option"
  bvol_vpus :: "int option"

text \<open>
  \<open>SetCondition\<close> never changes a condition the status already has: a condition of a type that
  is present, whatever its new status, reason and message, leaves the status as it was; one of a
  new type is appended with the current time.
\<close>

theorem set_condition_keeps_existing:
  "set_condition now c st =
     (if \<exists>e \<in> set (ncst_conditions st). cond_type e = cond_type c then st
      else st\<lparr>ncst_conditions := ncst_conditions st @ [c\<lparr>cond_time := now\<rparr>]\<rparr>)"
  by (simp add: set_condition_def scan_conditions_iff)

end
