(* ===== verification/Utils.thy ===== *)
theory Utils
  imports Api_Types "HOL-Library.Word"
begin

unbundle bit_operations_syntax

section \<open>Utilities\<close>

text \<open>
  \<open>pkg/utils\<close>: availability domain names (\<open>ad_conv.go\<close>), powers of two (\<open>math.go\<close>), tag filters
  (\<open>tag_filters.go\<close>), pod limits (\<open>kubelet_config.go\<close>), shortened output (\<open>pretty.go\<close>,
  \<open>print.go\<close>), the cluster version (\<open>cluster.go\<close>), and the part of a node class that its hash
  covers (\<open>hash.go\<close>).  JSON, SHA-256 and \<open>hashstructure\<close> are arguments of the definitions.
\<close>

subsection \<open>Availability domains\<close>

text \<open>The name of an availability domain is a prefix, a colon, and the name of a zone.\<close>

definition ad_to_zone :: "string \<Rightarrow> (err, string) go" where
  "ad_to_zone ad = index_go (split_on (CHR '':'') ad) 1"

definition zone_to_ad :: "string \<Rightarrow> string \<Rightarrow> string" where
  "zone_to_ad zone prefix = prefix @ '':'' @ zone"

definition logical_ad_prefix :: "string \<Rightarrow> (err, string) go" where
  "logical_ad_prefix ad = index_go (split_on (CHR '':'') ad) 0"

subsection \<open>Powers of two\<close>

definition is_power_of_two :: "64 word \<Rightarrow> bool" where
  "is_power_of_two n = (if n \<le>s 0 then False else n AND (n - 1) = 0)"

subsection \<open>Tag filters\<close>

text \<open>
  A selector asks for tags; a resource passes when it has every one with the same value.  Ranging
  over the maps of the selector is a loop that returns at the first mismatch.
\<close>

fun tags_match :: "(string \<times> string) list \<Rightarrow> (string \<rightharpoonup> string) \<Rightarrow> bool" where
  "tags_match [] has = True"
| "tags_match ((k, v) # rest) has =
     (case has k of
        None \<Rightarrow> False
      | Some rv \<Rightarrow> if rv \<noteq> v then False else tags_match rest has)"

fun namespaces_match :: "defined_tags \<Rightarrow> (string \<rightharpoonup> (string \<times> string) list) \<Rightarrow> bool" where
  "namespaces_match [] has = True"
| "namespaces_match ((n, m) # rest) has =
     (case has n of
        None \<Rightarrow> False
      | Some rm \<Rightarrow> if tags_match m (map_of rm) then namespaces_match rest has else False)"

definition tag_filter :: "tags \<Rightarrow> defined_tags \<Rightarrow> tags \<Rightarrow> defined_tags \<Rightarrow> bool" where
  "tag_filter want_free want_defined have_free have_defined =
     (if \<not> tags_match want_free (map_of have_free) then False
      else namespaces_match want_defined (map_of have_defined))"

lemma tags_match_iff: "tags_match want has \<longleftrightarrow> (\<forall>(k, v) \<in> set want. has k = Some v)"
  by (induction want has rule: tags_match.induct) (auto split: option.splits)

lemma namespaces_match_iff:
  "namespaces_match want has \<longleftrightarrow>
     (\<forall>(n, m) \<in> set want. \<exists>rm. has n = Some rm \<and> tags_match m (map_of rm))"
  by (induction want has rule: namespaces_match.induct) (auto split: option.splits)

subsection \<open>Pod limits\<close>

definition DefaultMaxFlannelClusterPod :: int where
  "DefaultMaxFlannelClusterPod = 110"

fun sum_ip_counts :: "int \<Rightarrow> int \<Rightarrow> secondary_vnic_config list \<Rightarrow> int" where
  "sum_ip_counts d allIps [] = allIps"
| "sum_ip_counts d allIps (c # cs) =
     (case svn_ip_count c of
        Some n \<Rightarrow> sum_ip_counts d (allIps + n) cs
      | None \<Rightarrow> sum_ip_counts d (allIps + d) cs)"

definition default_max_pods :: "secondary_vnic_config list \<Rightarrow> int \<Rightarrow> int" where
  "default_max_pods vnics d =
     (if 0 < length vnics then sum_ip_counts d 0 vnics else DefaultMaxFlannelClusterPod)"

definition kubelet_max_pods_with_default :: "kubelet_config option \<Rightarrow> int \<Rightarrow> int" where
  "kubelet_max_pods_with_default kc maxPodsInput =
     (case kc of
        None \<Rightarrow> maxPodsInput
      | Some c \<Rightarrow>
          (case kc_max_pods c of
             None \<Rightarrow> maxPodsInput
           | Some m \<Rightarrow> if m \<noteq> 0 then min maxPodsInput m else maxPodsInput))"

definition kubelet_max_pods ::
  "kubelet_config option \<Rightarrow> secondary_vnic_config list \<Rightarrow> int \<Rightarrow> int" where
  "kubelet_max_pods kc vnics d = kubelet_max_pods_with_default kc (default_max_pods vnics d)"

lemma sum_ip_counts_eq: "sum_ip_counts d a cs = a + sum_list (map (\<lambda>c. from_ptr d (svn_ip_count c)) cs)"
  by (induction d a cs rule: sum_ip_counts.induct) (auto split: option.splits)

subsection \<open>Shortened output\<close>

fun pretty_from :: "nat \<Rightarrow> nat \<Rightarrow> nat \<Rightarrow> string list \<Rightarrow> string" where
  "pretty_from n maxItems i [] = []"
| "pretty_from n maxItems i (e # es) =
     (if int i > int maxItems - 1
      then '' and '' @ show_nat (n - i) @ '' other(s)''
      else (if 0 < i then '', '' else []) @ e @ pretty_from n maxItems (Suc i) es)"

definition pretty_slice :: "string list \<Rightarrow> nat \<Rightarrow> string" where
  "pretty_slice s maxItems = pretty_from (length s) maxItems 0 s"

text \<open>A slice expression with a negative bound panics.\<close>

definition pretty_string :: "string \<Rightarrow> int \<Rightarrow> (err, string) go" where
  "pretty_string str maxLength =
     (if int (length str) \<le> maxLength then Ok str
      else if maxLength - 3 < 0 then Panic
      else Ok (take (nat (maxLength - 3)) str @ ''...''))"

text \<open>The entries of a map are printed in the order in which it is ranged over.\<close>

definition quote_joined :: "char \<Rightarrow> string list \<Rightarrow> string" where
  "quote_joined q parts = [q] @ join_with '','' parts @ [q]"

definition print_slice_and_quote :: "('v \<Rightarrow> nat \<Rightarrow> string) \<Rightarrow> 'v list \<Rightarrow> string" where
  "print_slice_and_quote control s =
     quote_joined (CHR 0x22) (map (\<lambda>(i, v). control v i) (zip [0..<length s] s))"

definition print_map_and_quote_with :: "('k \<Rightarrow> 'v \<Rightarrow> string) \<Rightarrow> ('k \<times> 'v) list \<Rightarrow> string" where
  "print_map_and_quote_with control m = quote_joined (CHR 0x22) (map (\<lambda>(k, v). control k v) m)"

definition print_map_and_quote :: "(string \<times> string) list \<Rightarrow> string" where
  "print_map_and_quote m = print_map_and_quote_with (\<lambda>k v. k @ ''='' @ v) m"

definition print_map_and_single_quote :: "('k \<Rightarrow> 'v \<Rightarrow> string) \<Rightarrow> ('k \<times> 'v) list \<Rightarrow> string" where
  "print_map_and_single_quote control m =
     quote_joined (CHR 0x27) (map (\<lambda>(k, v). control k v) m)"

definition print_map_for_eviction :: "(string \<times> string) list \<Rightarrow> string" where
  "print_map_for_eviction m = print_map_and_single_quote (\<lambda>k v. k @ ''<'' @ v) m"

subsection \<open>The version of the cluster\<close>

definition cluster_version ::
  "(string \<Rightarrow> (err, 'v) go) \<Rightarrow> (err, string) go \<Rightarrow> (err, 'v) go" where
  "cluster_version parse server =
     go_bind server (\<lambda>s. parse (trim_char (CHR ''v'') (to_lower s)))"

subsection \<open>The hash of a node class\<close>

definition copy_simple_vnic_static :: "simple_vnic_config \<Rightarrow> simple_vnic_config" where
  "copy_simple_vnic_static v =
     \<lparr>svc_subnet_and_nsg = None, svc_assign_ipv6 = svc_assign_ipv6 v,
      svc_assign_public = svc_assign_public v, svc_display_name = None,
      svc_ipv6_cidrs = svc_ipv6_cidrs v, svc_skip_check = svc_skip_check v,
      svc_security = svc_security v\<rparr>"

definition copy_secondary_vnic_static :: "secondary_vnic_config \<Rightarrow> secondary_vnic_config" where
  "copy_secondary_vnic_static v =
     \<lparr>svc_subnet_and_nsg = None, svc_assign_ipv6 = svc_assign_ipv6 v,
      svc_assign_public = svc_assign_public v, svc_display_name = None,
      svc_ipv6_cidrs = svc_ipv6_cidrs v, svc_skip_check = svc_skip_check v,
      svc_security = svc_security v, svn_application = svn_application v,
      svn_ip_count = svn_ip_count v, svn_nic_index = svn_nic_index v\<rparr>"

definition empty_volume_config :: volume_config where
  "empty_volume_config =
     \<lparr>vc_boot = \<lparr>va_kms = None, va_size = None, va_vpus = None, bv_image = None,
        bv_pv_encryption = None\<rparr>\<rparr>"

definition empty_simple_vnic :: simple_vnic_config where
  "empty_simple_vnic =
     \<lparr>svc_subnet_and_nsg = None, svc_assign_ipv6 = None, svc_assign_public = None,
      svc_display_name = None, svc_ipv6_cidrs = [], svc_skip_check = None, svc_security = []\<rparr>"

definition empty_spec :: node_class_spec where
  "empty_spec =
     \<lparr>ncs_shape_configs = [], ncs_platform = None, ncs_compartment = None,
      ncs_volume = empty_volume_config,
      ncs_network = \<lparr>nc_primary = Some empty_simple_vnic, nc_secondary = []\<rparr>,
      ncs_capres = [], ncs_cpgs = [], ncs_cluster = None, ncs_metadata = [], ncs_freeform = [],
      ncs_defined = [], ncs_kubelet = None, ncs_pre_script = None, ncs_post_script = None,
      ncs_ssh_keys = [], ncs_launch_options = None, ncs_agent_plugins = []\<rparr>"

text \<open>
  \<open>createStaticFieldsClone\<close>: the copy that is hashed.  Without a primary VNIC configuration the
  code reads through a nil pointer.  The volume configuration of the copy is nil, here its empty
  value.
\<close>

definition static_fields_clone :: "node_class_spec \<Rightarrow> (err, node_class_spec) go" where
  "static_fields_clone s =
     map_ok (\<lambda>primary.
       empty_spec\<lparr>
         ncs_shape_configs := ncs_shape_configs s,
         ncs_network := \<lparr>nc_primary = Some (copy_simple_vnic_static primary),
                         nc_secondary = map copy_secondary_vnic_static (nc_secondary (ncs_network s))\<rparr>,
         ncs_kubelet := ncs_kubelet s,
         ncs_compartment := ncs_compartment s,
         ncs_metadata := ncs_metadata s,
         ncs_freeform := ncs_freeform s,
         ncs_defined := ncs_defined s,
         ncs_pre_script := ncs_pre_script s,
         ncs_post_script := ncs_post_script s,
         ncs_ssh_keys := ncs_ssh_keys s,
         ncs_agent_plugins := ncs_agent_plugins s,
         ncs_platform := (if \<not> platform_is_empty (ncs_platform s) then ncs_platform s else None)\<rparr>)
     (deref (nc_primary (ncs_network s)))"

definition hash_node_class_spec :: "(node_class_spec \<Rightarrow> string) \<Rightarrow> node_class \<Rightarrow> (err, string) go" where
  "hash_node_class_spec khash nc = map_ok khash (static_fields_clone (ncl_spec nc))"

subsection \<open>Properties\<close>

lemma pow2_and: "0 < m \<Longrightarrow> (m AND (m - 1) = 0) \<longleftrightarrow> (\<exists>k. m = 2 ^ k)" for m :: nat
proof (induction m rule: less_induct)
  case (less m)
  show ?case
  proof (cases "even m")
    case True
    then obtain j where j: "m = 2 * j" by blast
    with less.prems have jp: "0 < j" "j < m" by auto
    then obtain i where i: "j = Suc i" by (cases j) auto
    have "m AND (m - 1) = 2 * (Suc i) AND (2 * i + 1)" using j i by simp
    also have "\<dots> = 2 * (Suc i AND i)" by (subst and_nat_rec) simp
    finally have "m AND (m - 1) = 2 * (j AND (j - 1))" using i by simp
    moreover have "(\<exists>k. m = 2 ^ k) \<longleftrightarrow> (\<exists>k. j = 2 ^ k)"
    proof
      assume "\<exists>k. m = 2 ^ k"
      then obtain k where k: "m = 2 ^ k" by blast
      with True less.prems have "k \<noteq> 0" by (intro notI) auto
      with k j show "\<exists>k. j = 2 ^ k" by (cases k) auto
    next
      assume "\<exists>k. j = 2 ^ k"
      with j show "\<exists>k. m = 2 ^ k" by (metis power_Suc)
    qed
    ultimately show ?thesis using less.IH [OF jp(2,1)] by simp
  next
    case False
    then obtain j where j: "m = 2 * j + 1" by (metis oddE)
    have "m AND (m - 1) = 2 * j"
      unfolding j by (subst and_nat_rec) simp
    moreover have "(\<exists>k. m = 2 ^ k) \<longleftrightarrow> j = 0"
    proof
      assume "\<exists>k. m = 2 ^ k"
      then obtain k where k: "m = 2 ^ k" by blast
      with False have "k = 0" by (cases k) auto
      with k j show "j = 0" by simp
    next
      assume "j = 0"
      with j have "m = 2 ^ 0" by simp
      then show "\<exists>k. m = 2 ^ k" by blast
    qed
    ultimately show ?thesis by simp
  qed
qed

lemma positive_word_iff: "\<not> n \<le>s 0 \<longleftrightarrow> 0 < unat n \<and> unat n < 2 ^ 63" for n :: "64 word"
proof -
  have "bit n 63 \<longleftrightarrow> odd (unat n div 2 ^ 63)"
  proof -
    have "bit n 63 = bit (unat n) 63" by (simp add: bit_unsigned_iff)
    then show ?thesis by (simp only: bit_iff_odd)
  qed
  moreover have "unat n < 2 ^ 64" using unsigned_less [of n] by simp
  then have "unat n div 2 ^ 63 < 2" by (simp add: div_less_iff_less_mult)
  ultimately have "\<not> bit n 63 \<longleftrightarrow> unat n div 2 ^ 63 = 0"
    unfolding less_2_cases_iff by auto
  also have "\<dots> \<longleftrightarrow> unat n < 2 ^ 63" by (simp add: div_eq_0_iff)
  finally have b: "\<not> bit n 63 \<longleftrightarrow> unat n < 2 ^ 63" .
  have z: "sint n = 0 \<longleftrightarrow> n = 0" by (rule signed_eq_0_iff)
  have "\<not> n \<le>s 0 \<longleftrightarrow> 0 < sint n" by (auto simp: word_sle_eq)
  also have "\<dots> \<longleftrightarrow> \<not> sint n < 0 \<and> sint n \<noteq> 0" by linarith
  also have "\<dots> \<longleftrightarrow> \<not> bit n 63 \<and> n \<noteq> 0" using bit_last_iff [of n] z by simp
  also have "\<dots> \<longleftrightarrow> 0 < unat n \<and> unat n < 2 ^ 63" using b by (auto simp: unat_gt_0)
  finally show ?thesis .
qed

lemma unat_pow2: "k < 63 \<Longrightarrow> unat ((2 :: 64 word) ^ k) = 2 ^ k"
proof -
  assume k: "k < 63"
  have "(2 :: nat) ^ k < 2 ^ 64" using k by (intro power_strict_increasing) auto
  then have "unat (word_of_nat (2 ^ k) :: 64 word) = 2 ^ k"
    by (simp only: unsigned_of_nat) (use k in \<open>simp add: take_bit_nat_eq_self\<close>)
  then show ?thesis by simp
qed

lemma power_of_two_word:
  "is_power_of_two n \<longleftrightarrow> (\<exists>k < 63. n = 2 ^ k)"
proof -
  have and_iff: "n AND (n - 1) = 0 \<longleftrightarrow> (\<exists>k. unat n = 2 ^ k)" if "0 < unat n"
  proof -
    have n0: "n \<noteq> 0" using that by auto
    have "n AND (n - 1) = 0 \<longleftrightarrow> unat (n AND (n - 1)) = 0"
      by (simp only: unsigned_eq_0_iff)
    also have "unat (n AND (n - 1)) = unat n AND (unat n - 1)"
      using n0 by (simp add: unsigned_and_eq unat_minus_one)
    finally show ?thesis using pow2_and [OF that] by simp
  qed
  have "is_power_of_two n \<longleftrightarrow> (\<exists>k < 63. unat n = 2 ^ k)"
  proof -
    have "2 ^ k < (2 :: nat) ^ 63 \<longleftrightarrow> k < 63" for k :: nat
      by (rule power_strict_increasing_iff) simp
    then show ?thesis
      using positive_word_iff [of n] and_iff unfolding is_power_of_two_def
      by (metis zero_less_power pos2)
  qed
  also have "\<dots> \<longleftrightarrow> (\<exists>k < 63. n = 2 ^ k)"
    by (metis unat_pow2 unsigned_word_eqI)
  finally show ?thesis .
qed

text \<open>
  On 64-bit integers the test of \<open>IsPowerOfTwo\<close> accepts exactly the powers of two up to
  \<open>2 ^ 62\<close>: zero, the negative numbers and the smallest integer (a single bit) are refused.
\<close>

theorem is_power_of_two_iff:
  "is_power_of_two n \<longleftrightarrow> (\<exists>k < 63. n = 2 ^ k)"
  by (rule power_of_two_word)

text \<open>
  A resource passes a tag filter exactly when it has each free-form tag of the selector and,
  in each namespace of the selector, each defined tag, with the same value.
\<close>

theorem tag_filter_iff:
  "tag_filter free defd have_free have_defd \<longleftrightarrow>
     (\<forall>(k, v) \<in> set free. map_of have_free k = Some v) \<and>
     (\<forall>(n, m) \<in> set defd. \<exists>rm. map_of have_defd n = Some rm \<and>
        (\<forall>(k, v) \<in> set m. map_of rm k = Some v))"
  by (auto simp: tag_filter_def tags_match_iff namespaces_match_iff split_def)

theorem tag_filter_iff_witness:
  "tag_filter [(''a'', ''1'')] [] [(''b'', ''2''), (''a'', ''1'')] []"
  using tag_filter_iff [of "[(''a'', ''1'')]" "[]" "[(''b'', ''2''), (''a'', ''1'')]" "[]"] by simp

lemma zone_round_trip:
  "CHR '':'' \<notin> set prefix \<Longrightarrow> CHR '':'' \<notin> set zone \<Longrightarrow> ad_to_zone (zone_to_ad zone prefix) = Ok zone"
  by (simp add: ad_to_zone_def zone_to_ad_def split_on_append split_on_no_sep index_go_def)

text \<open>
  The pod limit handed to the kubelet: the number of addresses of the secondary VNICs where
  there are any (each VNIC's own count, or the default), else 110, and never more than a limit
  configured for the kubelet; a configured limit of 0 counts as none.
\<close>

theorem kubelet_max_pods_spec:
  "kubelet_max_pods kc vnics d =
     (let base = (if vnics = [] then 110
                  else sum_list (map (\<lambda>c. case svn_ip_count c of None \<Rightarrow> d | Some n \<Rightarrow> n) vnics))
      in (case kc of
            None \<Rightarrow> base
          | Some c \<Rightarrow>
              (case kc_max_pods c of None \<Rightarrow> base | Some m \<Rightarrow> if m = 0 then base else min base m)))"
  by (auto simp: kubelet_max_pods_def kubelet_max_pods_with_default_def default_max_pods_def
      sum_ip_counts_eq DefaultMaxFlannelClusterPod_def from_ptr_None_iff Let_def split: option.splits)

text \<open>
  The fields of a specification that its hash covers: two specifications have the same clone
  exactly when they agree on them.
\<close>

definition same_static_fields :: "node_class_spec \<Rightarrow> node_class_spec \<Rightarrow> bool" where
  "same_static_fields s t \<longleftrightarrow>
     ncs_shape_configs s = ncs_shape_configs t \<and> ncs_compartment s = ncs_compartment t
   \<and> ncs_metadata s = ncs_metadata t \<and> ncs_freeform s = ncs_freeform t
   \<and> ncs_defined s = ncs_defined t \<and> ncs_kubelet s = ncs_kubelet t
   \<and> ncs_pre_script s = ncs_pre_script t \<and> ncs_post_script s = ncs_post_script t
   \<and> ncs_ssh_keys s = ncs_ssh_keys t \<and> ncs_agent_plugins s = ncs_agent_plugins t
   \<and> (ncs_platform s = ncs_platform t
      \<or> platform_is_empty (ncs_platform s) \<and> platform_is_empty (ncs_platform t))
   \<and> map_option copy_simple_vnic_static (nc_primary (ncs_network s))
      = map_option copy_simple_vnic_static (nc_primary (ncs_network t))
   \<and> map copy_secondary_vnic_static (nc_secondary (ncs_network s))
      = map copy_secondary_vnic_static (nc_secondary (ncs_network t))"

text \<open>
  The hash of a node class covers exactly its static fields: what is hashed is the same for two
  specifications exactly when they agree on the shape configurations, the compartment, the
  metadata, tags, scripts, keys, plugins and the kubelet configuration, on the platform
  configuration (none and an empty one are the same), and on the addressing options of their
  VNICs.  Subnets, security groups, images, volumes, placement and launch options do not enter it.
\<close>

theorem hash_covers_static_fields:
  assumes "static_fields_clone s = Ok c"
  shows "static_fields_clone t = Ok c \<longleftrightarrow> same_static_fields s t"
  using assms
  by (cases "nc_primary (ncs_network s)"; cases "nc_primary (ncs_network t)")
     (auto simp: static_fields_clone_def empty_spec_def same_static_fields_def platform_is_empty_def)

theorem hash_covers_static_fields_witness:
  "static_fields_clone (empty_spec\<lparr>ncs_compartment := Some ''a''\<rparr>)
    \<noteq> static_fields_clone (empty_spec\<lparr>ncs_compartment := Some ''b''\<rparr>)"
proof -
  let ?s = "empty_spec\<lparr>ncs_compartment := Some ''a''\<rparr>" and ?t = "empty_spec\<lparr>ncs_compartment := Some ''b''\<rparr>"
  obtain c where c: "static_fields_clone ?s = Ok c"
    by (simp add: static_fields_clone_def empty_spec_def)
  have "\<not> same_static_fields ?s ?t" by (simp add: same_static_fields_def)
  with hash_covers_static_fields [OF c, of ?t] c show ?thesis by simp
qed

end
