(* ===== verification/Capacity_Reservation.thy ===== *)
theory Capacity_Reservation
  imports Utils Load_Cache Float_Arith "HOL-Library.AList"
begin

section \<open>Capacity reservations\<close>

text \<open>
  \<open>pkg/providers/capacityreservation\<close>: the shape keys (\<open>shape_key.go\<close>), the ledger of instances
  placed into a reservation since it was loaded (\<open>usage.go\<close>), the resolved reservations and their
  availability (\<open>resolve_result.go\<close>), and the provider (\<open>provider.go\<close>).  A Go map that is ranged
  over is an association list.  \<open>int64\<close> counts are integers: they count instances.
\<close>

subsection \<open>Keys of shapes\<close>

definition key_of_shape :: "string \<Rightarrow> rat option \<Rightarrow> rat option \<Rightarrow> string" where
  "key_of_shape shape ocpu gbs =
     (case (ocpu, gbs) of
        (Some o', Some g) \<Rightarrow> shape @ ''.'' @ show_fixed 6 o' @ ''.'' @ show_fixed 6 g
      | _ \<Rightarrow> shape @ ''..'')"

definition key_of_instance :: "oci_instance \<Rightarrow> string" where
  "key_of_instance i =
     (case ins_shape_config i of
        None \<Rightarrow> key_of_shape (ins_shape i) None None
      | Some c \<Rightarrow> key_of_shape (ins_shape i) (isc_ocpus c) (isc_memory c))"

record shape_availability =
  sa_ad :: string
  sa_fd :: "string option"
  sa_total :: int
  sa_used :: int
  sa_shape :: string
  sa_ocpu :: "rat option"
  sa_memory :: "rat option"

definition key_of_availability :: "shape_availability \<Rightarrow> string" where
  "key_of_availability s = key_of_shape (sa_shape s) (sa_ocpu s) (sa_memory s)"

subsection \<open>The ledger of usage\<close>

type_synonym usage_key = "string \<times> string"
type_synonym fd_usage = "(string \<times> int) list"

record usage =
  us_last_commit :: int
  us_map :: "(usage_key \<times> fd_usage) list"

definition new_usage :: "int \<Rightarrow> usage" where
  "new_usage now = \<lparr>us_last_commit = now, us_map = []\<rparr>"

definition adjust_usage :: "int \<Rightarrow> string \<Rightarrow> string \<Rightarrow> string \<Rightarrow> int \<Rightarrow> usage \<Rightarrow> usage" where
  "adjust_usage now shape key fd delta u =
     (let mapKey = (shape, key);
          fdUsage =
            (case map_of (us_map u) mapKey of
               Some m \<Rightarrow>
                 (case map_of m fd of
                    Some d \<Rightarrow> AList.update fd (d + delta) m
                  | None \<Rightarrow> AList.update fd delta m)
             | None \<Rightarrow> AList.update fd delta [])
      in \<lparr>us_last_commit = now, us_map = AList.update mapKey fdUsage (us_map u)\<rparr>)"

text \<open>An instance without a fault domain is a nil pointer to these two.\<close>

definition increase_usage :: "int \<Rightarrow> oci_instance \<Rightarrow> usage \<Rightarrow> (err, usage) go" where
  "increase_usage now i u =
     map_ok (\<lambda>fd. adjust_usage now (ins_shape i) (key_of_instance i) fd 1 u) (deref (ins_fd i))"

definition decrease_usage :: "int \<Rightarrow> oci_instance \<Rightarrow> usage \<Rightarrow> (err, usage) go" where
  "decrease_usage now i u =
     map_ok (\<lambda>fd. adjust_usage now (ins_shape i) (key_of_instance i) fd (-1) u) (deref (ins_fd i))"

subsection \<open>Resolved reservations\<close>

record resolve_result =
  rr_ocid :: string
  rr_name :: string
  rr_ad :: string
  rr_compartment :: string
  rr_avail :: "shape_availability list"
  rr_time :: int

text \<open>
  The availability of a shape, per fault domain (the empty name where a reservation has none):
  entries of one fault domain are added up.  The entry that is returned is built without its fault
  domain and availability domain.
\<close>

definition avail_matches :: "string \<Rightarrow> string \<Rightarrow> bool \<Rightarrow> shape_availability \<Rightarrow> bool" where
  "avail_matches shapeKey shape supported sa \<longleftrightarrow>
     key_of_availability sa = shapeKey \<or> (\<not> supported \<and> sa_shape sa = shape)"

definition add_availability ::
  "string \<Rightarrow> rat option \<Rightarrow> rat option \<Rightarrow> bool \<Rightarrow> shape_availability
    \<Rightarrow> (string \<times> shape_availability) list \<Rightarrow> (string \<times> shape_availability) list" where
  "add_availability shape ocpu gbs supported sa out =
     (if avail_matches (key_of_shape shape ocpu gbs) shape supported sa
      then
        let shapeFd = from_ptr [] (sa_fd sa);
            v = (case map_of out shapeFd of
                   Some v \<Rightarrow> v\<lparr>sa_total := sa_total v + sa_total sa, sa_used := sa_used v + sa_used sa\<rparr>
                 | None \<Rightarrow>
                     \<lparr>sa_ad = [], sa_fd = None, sa_total = sa_total sa, sa_used = sa_used sa,
                      sa_shape = shape, sa_ocpu = (if supported then ocpu else None),
                      sa_memory = (if supported then gbs else None)\<rparr>)
        in AList.update shapeFd v out
      else out)"

definition availability_for_shape ::
  "resolve_result \<Rightarrow> string \<Rightarrow> rat option \<Rightarrow> rat option \<Rightarrow> bool \<Rightarrow> (string \<times> shape_availability) list" where
  "availability_for_shape rr shape ocpu gbs supported =
     fold (add_availability shape ocpu gbs supported) (rr_avail rr) []"

definition slice_availability_for_shape ::
  "resolve_result list \<Rightarrow> string \<Rightarrow> rat option \<Rightarrow> rat option \<Rightarrow> bool
    \<Rightarrow> ((string \<times> string) \<times> (string \<times> shape_availability) list) list" where
  "slice_availability_for_shape rrs shape ocpu gbs supported =
     fold (\<lambda>rr out.
         let inner = availability_for_shape rr shape ocpu gbs supported
         in if 0 < length inner then AList.update (rr_ocid rr, rr_ad rr) inner out else out)
       rrs []"

definition adjust_shape_availability ::
  "string \<Rightarrow> shape_availability \<Rightarrow> fd_usage \<Rightarrow> shape_availability" where
  "adjust_shape_availability ad input fdUsage =
     (let instanceCount =
            (case sa_fd input of
               None \<Rightarrow> sum_list (map snd fdUsage)
             | Some fd \<Rightarrow> (case map_of fdUsage fd of Some u \<Rightarrow> u | None \<Rightarrow> 0))
      in \<lparr>sa_ad = ad, sa_fd = sa_fd input, sa_total = sa_total input,
          sa_used = min (sa_total input) (sa_used input + instanceCount),
          sa_shape = sa_shape input, sa_ocpu = sa_ocpu input, sa_memory = sa_memory input\<rparr>)"

definition adjust_item :: "string \<Rightarrow> usage \<Rightarrow> shape_availability \<Rightarrow> shape_availability" where
  "adjust_item ad u item =
     (case map_of (us_map u) (sa_shape item, key_of_availability item) of
        Some fdUsage \<Rightarrow> adjust_shape_availability ad item fdUsage
      | None \<Rightarrow>
          (case map_of (us_map u) (sa_shape item, key_of_shape (sa_shape item) None None) of
             Some fdUsage \<Rightarrow> adjust_shape_availability ad item fdUsage
           | None \<Rightarrow> item))"

definition adjust_capacity_against_usage :: "usage \<Rightarrow> resolve_result \<Rightarrow> resolve_result" where
  "adjust_capacity_against_usage u rr =
     \<lparr>rr_ocid = rr_ocid rr, rr_name = rr_name rr, rr_ad = rr_ad rr,
      rr_compartment = rr_compartment rr,
      rr_avail = map (adjust_item (rr_ad rr) u) (rr_avail rr), rr_time = 0\<rparr>"

text \<open>The last part of an OCID, at most 63 bytes of it.\<close>

definition ocid_to_label_value :: "string \<Rightarrow> string" where
  "ocid_to_label_value ocid =
     (let lastEle = last (split_on (CHR ''.'') ocid)
      in if length lastEle \<le> 63 then lastEle else drop (length lastEle - 63) lastEle)"

subsection \<open>Reservations as the API returns them\<close>

record instance_reservation =
  irc_config :: "inst_shape_config option"
  irc_fd :: "string option"
  irc_reserved :: int
  irc_used :: int
  irc_shape :: string

record capres =
  cr_id :: string
  cr_name :: string
  cr_ad :: string
  cr_compartment :: string
  cr_configs :: "instance_reservation list"

type_synonym loaded_capres = "capres \<times> int"

record capres_summary =
  crs_id :: string
  crs_name :: "string option"
  crs_deleted :: bool
  crs_freeform :: tags
  crs_defined :: defined_tags

definition to_capacity_resolve_result :: "loaded_capres \<Rightarrow> resolve_result" where
  "to_capacity_resolve_result c =
     (let r = fst c
      in \<lparr>rr_ocid = cr_id r, rr_name = cr_name r, rr_ad = cr_ad r, rr_compartment = cr_compartment r,
          rr_avail = map (\<lambda>irc.
              \<lparr>sa_ad = cr_ad r, sa_fd = irc_fd irc, sa_total = irc_reserved irc, sa_used = irc_used irc,
               sa_shape = irc_shape irc,
               sa_ocpu = (case irc_config irc of None \<Rightarrow> None | Some k \<Rightarrow> isc_ocpus k),
               sa_memory = (case irc_config irc of None \<Rightarrow> None | Some k \<Rightarrow> isc_memory k)\<rparr>)
            (cr_configs r),
          rr_time = snd c\<rparr>)"

lemma to_resolve_result_sel [simp]:
  "rr_ocid (to_capacity_resolve_result c) = cr_id (fst c)"
  "rr_time (to_capacity_resolve_result c) = snd c"
  by (simp_all add: to_capacity_resolve_result_def Let_def)

subsection \<open>The provider\<close>

text \<open>
  The state of the provider: the cache of reservations by OCID, the cache of the reservations a
  selector resolves to, and the ledgers.  The calls of the compute API are arguments: \<open>get_api\<close>
  answers \<open>GetComputeCapacityReservation\<close>, \<open>list_api compartment name page\<close> answers
  \<open>ListComputeCapacityReservations\<close>, and \<open>hash\<close> is the digest of a selector that keys the second
  cache.
\<close>

record capres_provider =
  cp_cluster_compartment :: string
  cp_cache :: "loaded_capres load_cache"
  cp_selector_cache :: "loaded_capres list load_cache"
  cp_usage :: "string \<Rightarrow> usage option"

record capres_api =
  ca_get :: "string \<Rightarrow> (err, capres) go"
  ca_list :: "string \<Rightarrow> string option \<Rightarrow> (err, capres_summary) pager"
  ca_hash :: "resource_selector \<Rightarrow> (err, string) go"

definition new_capres_provider :: "string \<Rightarrow> capres_provider" where
  "new_capres_provider compartment =
     \<lparr>cp_cluster_compartment = compartment, cp_cache = new_default_cache,
      cp_selector_cache = new_default_cache, cp_usage = Map.empty\<rparr>"

definition get_or_create_usage :: "int \<Rightarrow> string \<Rightarrow> capres_provider \<Rightarrow> usage" where
  "get_or_create_usage now ocid p =
     (case cp_usage p ocid of Some u \<Rightarrow> u | None \<Rightarrow> new_usage now)"

definition mark_capres ::
  "(int \<Rightarrow> oci_instance \<Rightarrow> usage \<Rightarrow> (err, usage) go) \<Rightarrow> int \<Rightarrow> oci_instance \<Rightarrow> capres_provider
    \<Rightarrow> (err, capres_provider) go" where
  "mark_capres change now i p =
     (case ins_capres i of
        None \<Rightarrow> Ok p
      | Some ocid \<Rightarrow>
          map_ok (\<lambda>u. p\<lparr>cp_usage := (cp_usage p)(ocid \<mapsto> u)\<rparr>)
            (change now i (get_or_create_usage now ocid p)))"

definition mark_capres_used :: "int \<Rightarrow> oci_instance \<Rightarrow> capres_provider \<Rightarrow> (err, capres_provider) go" where
  "mark_capres_used now i p = mark_capres increase_usage now i p"

definition mark_capres_released :: "int \<Rightarrow> oci_instance \<Rightarrow> capres_provider \<Rightarrow> (err, capres_provider) go" where
  "mark_capres_released now i p = mark_capres decrease_usage now i p"

text \<open>
  The lookup by OCID: whether the reservation was loaded or served from the cache, a success ends
  with the ledger of that OCID deleted.
\<close>

definition get_capacity_reservation ::
  "capres_api \<Rightarrow> int \<Rightarrow> string \<Rightarrow> capres_provider \<Rightarrow> (err, loaded_capres) go \<times> capres_provider" where
  "get_capacity_reservation api now ocid p =
     (case get_or_load now (cp_cache p) ocid (\<lambda>k s. (map_ok (\<lambda>c. (c, now)) (ca_get api ocid), s)) () of
        (Ok c, cache, u) \<Rightarrow> (Ok c, p\<lparr>cp_cache := cache, cp_usage := (cp_usage p)(ocid := None)\<rparr>)
      | (r, cache, u) \<Rightarrow> (r, p\<lparr>cp_cache := cache\<rparr>))"

definition sync_capacity_reservation ::
  "capres_api \<Rightarrow> int \<Rightarrow> string \<Rightarrow> capres_provider \<Rightarrow> (err, unit) go \<times> capres_provider" where
  "sync_capacity_reservation api now ocid p =
     (let (r, p') = get_capacity_reservation api now ocid (p\<lparr>cp_cache := cache_evict ocid (cp_cache p)\<rparr>)
      in (map_ok (\<lambda>_. ()) r, p'))"

text \<open>The items of one page; a summary without a name is a nil pointer when a name is asked for.\<close>

fun filter_items ::
  "capres_api \<Rightarrow> int \<Rightarrow> resource_selector \<Rightarrow> capres_summary list \<Rightarrow> loaded_capres list \<Rightarrow> capres_provider
    \<Rightarrow> (err, loaded_capres list) go \<times> capres_provider" where
  "filter_items api now sel [] acc p = (Ok acc, p)"
| "filter_items api now sel (item # items) acc p =
     (if crs_deleted item then filter_items api now sel items acc p
      else if sel_display_name sel \<noteq> None \<and> crs_name item = None then (Panic, p)
      else if sel_display_name sel \<noteq> None \<and> crs_name item \<noteq> sel_display_name sel
      then filter_items api now sel items acc p
      else if tag_filter (sel_freeform sel) (sel_defined sel) (crs_freeform item) (crs_defined item)
      then
        (case get_capacity_reservation api now (crs_id item) p of
           (Ok c, p') \<Rightarrow> filter_items api now sel items (acc @ [c]) p'
         | (Fail e, p') \<Rightarrow> (Fail e, p')
         | (Panic, p') \<Rightarrow> (Panic, p')
         | (Hang, p') \<Rightarrow> (Hang, p'))
      else filter_items api now sel items acc p)"

partial_function (option) list_and_filter_capres ::
  "capres_api \<Rightarrow> int \<Rightarrow> string \<Rightarrow> resource_selector \<Rightarrow> string option \<Rightarrow> loaded_capres list \<Rightarrow> capres_provider
    \<Rightarrow> ((err, loaded_capres list) go \<times> capres_provider) option" where
  "list_and_filter_capres api now compartment sel page acc p =
     (case ca_list api compartment (sel_display_name sel) page of
        Fail e \<Rightarrow> Some (Fail e, p)
      | Panic \<Rightarrow> Some (Panic, p)
      | Hang \<Rightarrow> Some (Hang, p)
      | Ok r \<Rightarrow>
          (case filter_items api now sel (fst r) acc p of
             (Ok acc', p') \<Rightarrow>
               (case snd r of
                  None \<Rightarrow> Some (Ok acc', p')
                | Some next \<Rightarrow> list_and_filter_capres api now compartment sel (Some next) acc' p')
           | (Fail e, p') \<Rightarrow> Some (Fail e, p')
           | (Panic, p') \<Rightarrow> Some (Panic, p')
           | (Hang, p') \<Rightarrow> Some (Hang, p')))"

definition filter_capacity_reservations ::
  "capres_api \<Rightarrow> int \<Rightarrow> resource_selector \<Rightarrow> capres_provider \<Rightarrow> (err, loaded_capres list) go \<times> capres_provider" where
  "filter_capacity_reservations api now sel p =
     (case ca_hash api sel of
        Fail e \<Rightarrow> (Fail e, p)
      | Panic \<Rightarrow> (Panic, p)
      | Hang \<Rightarrow> (Hang, p)
      | Ok key \<Rightarrow>
          (let compartment = (case sel_compartment sel of None \<Rightarrow> cp_cluster_compartment p | Some c \<Rightarrow> c);
               (r, cache, p') =
                 get_or_load now (cp_selector_cache p) key
                   (\<lambda>k s. case list_and_filter_capres api now compartment sel None [] s of
                            None \<Rightarrow> (Hang, s) | Some q \<Rightarrow> q) p
           in (r, p'\<lparr>cp_selector_cache := cache\<rparr>)))"

text \<open>
  \<open>ResolveCapacityReservations\<close> returns what it has resolved together with an error when one
  occurs: \<open>Ok (results, error)\<close>.  A configuration with neither an OCID nor a filter is a nil
  pointer.
\<close>

fun resolve_configs ::
  "capres_api \<Rightarrow> int \<Rightarrow> capacity_reservation_config list \<Rightarrow> resolve_result list \<Rightarrow> capres_provider
    \<Rightarrow> (err, resolve_result list \<times> err option) go \<times> capres_provider" where
  "resolve_configs api now [] acc p = (Ok (acc, None), p)"
| "resolve_configs api now (cfg # cfgs) acc p =
     (case (crc_id cfg, crc_filter cfg) of
        (Some ocid, Some sel) \<Rightarrow>
          (Ok ([], Some (Sentinel InvalidCapacityReservationConfigVar
             ''define either ocid or capacityReservation filter'')), p)
      | (Some ocid, None) \<Rightarrow>
          (case get_capacity_reservation api now ocid p of
             (Ok c, p') \<Rightarrow> resolve_configs api now cfgs (acc @ [to_capacity_resolve_result c]) p'
           | (Fail e, p') \<Rightarrow> (Ok (acc, Some e), p')
           | (Panic, p') \<Rightarrow> (Panic, p')
           | (Hang, p') \<Rightarrow> (Hang, p'))
      | (None, Some sel) \<Rightarrow>
          (case filter_capacity_reservations api now sel p of
             (Ok cs, p') \<Rightarrow> resolve_configs api now cfgs (acc @ map to_capacity_resolve_result cs) p'
           | (Fail e, p') \<Rightarrow> (Ok (acc, Some e), p')
           | (Panic, p') \<Rightarrow> (Panic, p')
           | (Hang, p') \<Rightarrow> (Hang, p'))
      | (None, None) \<Rightarrow> (Panic, p))"

definition reconcile_usage :: "capres_provider \<Rightarrow> resolve_result \<Rightarrow> resolve_result" where
  "reconcile_usage p rr =
     (case cp_usage p (rr_ocid rr) of
        Some u \<Rightarrow> if rr_time rr < us_last_commit u then adjust_capacity_against_usage u rr else rr
      | None \<Rightarrow> rr)"

definition resolve_capacity_reservations ::
  "capres_api \<Rightarrow> int \<Rightarrow> capacity_reservation_config list \<Rightarrow> capres_provider
    \<Rightarrow> (err, resolve_result list \<times> err option) go \<times> capres_provider" where
  "resolve_capacity_reservations api now cfgs p =
     (if length cfgs = 0 then (Ok ([], Some (ErrText ''no capacityReservationConfig specified'')), p)
      else
        (case resolve_configs api now cfgs [] p of
           (Ok (rs, None), p') \<Rightarrow> (Ok (map (reconcile_usage p') rs, None), p')
         | (Ok (rs, Some e), p') \<Rightarrow> (Ok (rs, Some e), p')
         | (Fail e, p') \<Rightarrow> (Fail e, p')
         | (Panic, p') \<Rightarrow> (Panic, p')
         | (Hang, p') \<Rightarrow> (Hang, p')))"

subsection \<open>The ledger counts instances\<close>

text \<open>What a client of a ledger relies on: an adjustment adds to one entry.\<close>

locale tally =
  fixes count :: "'s \<Rightarrow> 'k \<Rightarrow> int"
    and adjust :: "'k \<Rightarrow> int \<Rightarrow> 's \<Rightarrow> 's"
  assumes count_adjust: "count (adjust k d s) k' = count s k' + (if k' = k then d else 0)"
begin

lemma count_adjusts:
  "count (fold (\<lambda>(k, d). adjust k d) kds s) k' =
     count s k' + sum_list (map snd (filter (\<lambda>(k, d). k = k') kds))"
  by (induction kds arbitrary: s) (auto simp: count_adjust)

lemma adjust_back: "count (adjust k (- d) (adjust k d s)) k' = count s k'"
  by (simp add: count_adjust)

end

definition ledger :: "usage \<Rightarrow> usage_key \<times> string \<Rightarrow> int" where
  "ledger u kf = (case map_of (us_map u) (fst kf) of None \<Rightarrow> 0 | Some m \<Rightarrow> from_ptr 0 (map_of m (snd kf)))"

definition ledger_ok :: "usage \<Rightarrow> bool" where
  "ledger_ok u \<longleftrightarrow> (\<forall>k m. map_of (us_map u) k = Some m \<longrightarrow> distinct (map fst m))"

lemma ledger_new [simp]: "ledger (new_usage now) kf = 0" "ledger_ok (new_usage now)"
  by (simp_all add: ledger_def new_usage_def ledger_ok_def)

lemma ledger_adjust:
  "ledger (adjust_usage now shape key fd delta u) kf =
     ledger u kf + (if kf = ((shape, key), fd) then delta else 0)"
  by (cases kf) (auto simp: ledger_def adjust_usage_def Let_def update_conv' split: option.splits)

interpretation usage_tally: tally ledger "\<lambda>kf. adjust_usage now (fst (fst kf)) (snd (fst kf)) (snd kf)"
  by unfold_locales (auto simp: ledger_adjust)

lemma ledger_ok_adjust: "ledger_ok u \<Longrightarrow> ledger_ok (adjust_usage now shape key fd delta u)"
  unfolding ledger_ok_def adjust_usage_def Let_def
  by (auto simp: update_conv' distinct_update split: option.splits if_splits)

lemma sum_fd_usage:
  "distinct (map fst m) \<Longrightarrow>
     sum_list (map snd m) = (\<Sum>fd \<in> fst ` set m. from_ptr 0 (map_of m fd))" for m :: fd_usage
proof (induction m)
  case (Cons x m)
  obtain f n where x: "x = (f, n)" by (cases x)
  have "(\<Sum>fd \<in> fst ` set m. from_ptr 0 (map_of (x # m) fd)) = (\<Sum>fd \<in> fst ` set m. from_ptr 0 (map_of m fd))"
    using Cons.prems x by (intro sum.cong) auto
  with Cons x show ?case by (simp add: sum.insert_if)
qed simp

text \<open>The events the provider is told of: an instance uses a reservation, or has released it.\<close>

datatype capres_event = InstanceUsed int oci_instance | InstanceReleased int oci_instance

fun capres_step :: "capres_event \<Rightarrow> capres_provider \<Rightarrow> (err, capres_provider) go" where
  "capres_step (InstanceUsed now i) p = mark_capres_used now i p"
| "capres_step (InstanceReleased now i) p = mark_capres_released now i p"

fun capres_run :: "capres_event list \<Rightarrow> capres_provider \<Rightarrow> (err, capres_provider) go" where
  "capres_run [] p = Ok p"
| "capres_run (e # es) p = go_bind (capres_step e p) (capres_run es)"

definition tracked :: "capres_provider \<Rightarrow> string \<Rightarrow> usage_key \<times> string \<Rightarrow> int" where
  "tracked p ocid kf = (case cp_usage p ocid of None \<Rightarrow> 0 | Some u \<Rightarrow> ledger u kf)"

definition occupies :: "string \<Rightarrow> usage_key \<times> string \<Rightarrow> oci_instance \<Rightarrow> bool" where
  "occupies ocid kf i \<longleftrightarrow> ins_capres i = Some ocid \<and> fst kf = (ins_shape i, key_of_instance i)
     \<and> ins_fd i = Some (snd kf)"

fun event_delta :: "string \<Rightarrow> usage_key \<times> string \<Rightarrow> capres_event \<Rightarrow> int" where
  "event_delta ocid kf (InstanceUsed now i) = (if occupies ocid kf i then 1 else 0)"
| "event_delta ocid kf (InstanceReleased now i) = (if occupies ocid kf i then -1 else 0)"

lemma tracked_step:
  "capres_step e p = Ok q \<Longrightarrow> tracked q ocid kf = tracked p ocid kf + event_delta ocid kf e"
  by (cases e; cases kf)
     (auto simp: mark_capres_used_def mark_capres_released_def mark_capres_def increase_usage_def
       decrease_usage_def tracked_def occupies_def get_or_create_usage_def go_simps ledger_adjust
       split: option.splits if_splits)

text \<open>
  C23. The ledger of a reservation counts instances: after any sequence of instances found to use
  reservations and instances found gone, the usage tracked for a reservation, a shape with its
  configuration, and a fault domain is what it was before, plus the instances used there, less
  those released there; events of other reservations, shapes or fault domains do not show.
\<close>

theorem tracked_usage_counts:
  assumes "capres_run es p = Ok q"
  shows "tracked q ocid kf = tracked p ocid kf
    + int (length (filter (\<lambda>e. case e of InstanceUsed now i \<Rightarrow> occupies ocid kf i | _ \<Rightarrow> False) es))
    - int (length (filter (\<lambda>e. case e of InstanceReleased now i \<Rightarrow> occupies ocid kf i | _ \<Rightarrow> False) es))"
  using assms
proof (induction es arbitrary: p)
  case (Cons e es)
  then obtain p' where s: "capres_step e p = Ok p'" "capres_run es p' = Ok q"
    by (auto simp: go_simps)
  have "tracked p' ocid kf = tracked p ocid kf + event_delta ocid kf e" by (rule tracked_step [OF s(1)])
  with Cons.IH [OF s(2)] show ?case by (cases e) auto
qed simp

theorem tracked_usage_counts_witness:
  "\<exists>q. capres_run [InstanceUsed 5 (plain_instance\<lparr>ins_capres := Some ''cr''\<rparr>),
               InstanceUsed 6 (plain_instance\<lparr>ins_capres := Some ''cr''\<rparr>),
               InstanceReleased 7 (plain_instance\<lparr>ins_capres := Some ''cr''\<rparr>)] (new_capres_provider ''c'') = Ok q
     \<and> tracked q ''cr'' ((''VM.Standard2.1'', ''VM.Standard2.1..''), ''FD-1'') = 1"
proof -
  let ?i = "plain_instance\<lparr>ins_capres := Some ''cr''\<rparr>"
  let ?es = "[InstanceUsed 5 ?i, InstanceUsed 6 ?i, InstanceReleased 7 ?i]"
  have "\<exists>q. capres_run ?es (new_capres_provider ''c'') = Ok q"
    by (simp add: mark_capres_used_def mark_capres_released_def mark_capres_def increase_usage_def
        decrease_usage_def plain_instance_def)
  then obtain q where q: "capres_run ?es (new_capres_provider ''c'') = Ok q" by blast
  have "occupies ''cr'' ((''VM.Standard2.1'', ''VM.Standard2.1..''), ''FD-1'') ?i"
    by (simp add: occupies_def plain_instance_def key_of_instance_def key_of_shape_def)
  with tracked_usage_counts [OF q, of "''cr''" "((''VM.Standard2.1'', ''VM.Standard2.1..''), ''FD-1'')"] q
  show ?thesis by (simp add: tracked_def new_capres_provider_def)
qed

subsection \<open>Availability\<close>

text \<open>
  The instances the ledger holds against an entry of a reservation: those of the entry's own key,
  or, where there is no such key, those of the bare shape; in the entry's fault domain, or in all
  where it has none.
\<close>

definition counted :: "usage \<Rightarrow> shape_availability \<Rightarrow> int option" where
  "counted u item =
     (let own = (sa_shape item, key_of_availability item);
          bare = (sa_shape item, key_of_shape (sa_shape item) None None);
          total = (\<lambda>k m. case sa_fd item of
                      Some fd \<Rightarrow> ledger u (k, fd)
                    | None \<Rightarrow> (\<Sum>fd \<in> fst ` set m. ledger u (k, fd)))
      in (case map_of (us_map u) own of
            Some m \<Rightarrow> Some (total own m)
          | None \<Rightarrow> map_option (total bare) (map_of (us_map u) bare)))"

text \<open>
  Adjusting a reservation for the instances placed since it was loaded: each entry keeps its
  total, shape and fault domain; where the ledger knows the entry, its used count grows by the
  instances counted there and is capped by the total, so that it never exceeds it; an entry the
  ledger does not know is unchanged.
\<close>

theorem adjusted_used_is_capped:
  assumes "ledger_ok u"
  shows "sa_total (adjust_item ad u item) = sa_total item \<and>
    sa_fd (adjust_item ad u item) = sa_fd item \<and>
    sa_shape (adjust_item ad u item) = sa_shape item \<and>
    (case counted u item of
       None \<Rightarrow> adjust_item ad u item = item
     | Some n \<Rightarrow> sa_used (adjust_item ad u item) = min (sa_total item) (sa_used item + n)
                 \<and> sa_used (adjust_item ad u item) \<le> sa_total item)"
proof -
  have fd_sum: "sum_list (map snd m) = (\<Sum>fd \<in> fst ` set m. ledger u (k, fd))"
    if "map_of (us_map u) k = Some m" for k m
  proof -
    have "distinct (map fst m)" using assms that unfolding ledger_ok_def by blast
    then show ?thesis using that by (simp add: sum_fd_usage ledger_def)
  qed
  have fd_one: "ledger u (k, fd) = (case map_of m fd of Some n \<Rightarrow> n | None \<Rightarrow> 0)"
    if "map_of (us_map u) k = Some m" for k m fd
    using that by (simp add: ledger_def from_ptr_None_iff split: option.splits)
  show ?thesis
    by (auto simp: adjust_item_def adjust_shape_availability_def counted_def Let_def fd_one
        fd_sum split: option.splits)
qed

theorem adjusted_used_is_capped_witness:
  "sa_used (adjust_item ''AD'' (new_usage 0)
      \<lparr>sa_ad = ''AD'', sa_fd = None, sa_total = 4, sa_used = 2, sa_shape = ''s'', sa_ocpu = None,
       sa_memory = None\<rparr>) = 2"
  using adjusted_used_is_capped [of "new_usage 0" "''AD''"
      "\<lparr>sa_ad = ''AD'', sa_fd = None, sa_total = 4, sa_used = 2, sa_shape = ''s'', sa_ocpu = None,
       sa_memory = None\<rparr>"]
  by (simp add: counted_def new_usage_def Let_def ledger_ok_def)

definition matching_in ::
  "resolve_result \<Rightarrow> string \<Rightarrow> rat option \<Rightarrow> rat option \<Rightarrow> bool \<Rightarrow> string \<Rightarrow> shape_availability list" where
  "matching_in rr shape ocpu gbs supported fd =
     filter (\<lambda>sa. avail_matches (key_of_shape shape ocpu gbs) shape supported sa \<and> from_ptr [] (sa_fd sa) = fd)
       (rr_avail rr)"

lemma availability_fold:
  "map_of (fold (add_availability shape ocpu gbs supported) sas out) fd =
     (let ms = filter (\<lambda>sa. avail_matches (key_of_shape shape ocpu gbs) shape supported sa
                 \<and> from_ptr [] (sa_fd sa) = fd) sas
      in (case map_of out fd of
            None \<Rightarrow>
              if ms = [] then None
              else Some \<lparr>sa_ad = [], sa_fd = None, sa_total = sum_list (map sa_total ms),
                     sa_used = sum_list (map sa_used ms), sa_shape = shape,
                     sa_ocpu = (if supported then ocpu else None),
                     sa_memory = (if supported then gbs else None)\<rparr>
          | Some v \<Rightarrow> Some (v\<lparr>sa_total := sa_total v + sum_list (map sa_total ms),
                         sa_used := sa_used v + sum_list (map sa_used ms)\<rparr>)))"
proof (induction sas arbitrary: out)
  case Nil
  then show ?case by (simp split: option.splits)
next
  case (Cons sa sas)
  show ?case
    unfolding fold_simps o_apply Cons.IH
    by (auto simp: add_availability_def Let_def update_conv' ac_simps split: option.splits)
qed

text \<open>
  The availability of a shape in a reservation: there is one entry for each fault domain in
  which the reservation has a matching one, its total and used counts are the sums of the matching
  ones there, and no entry carries its fault domain.  For a shape without a configuration every
  entry of the shape matches, otherwise those of the same key.
\<close>

theorem availability_sums_matching:
  "map_of (availability_for_shape rr shape ocpu gbs supported) fd =
     (let ms = matching_in rr shape ocpu gbs supported fd
      in if ms = [] then None
         else Some \<lparr>sa_ad = [], sa_fd = None, sa_total = sum_list (map sa_total ms),
                sa_used = sum_list (map sa_used ms), sa_shape = shape,
                sa_ocpu = (if supported then ocpu else None),
                sa_memory = (if supported then gbs else None)\<rparr>)"
  by (simp add: availability_for_shape_def availability_fold matching_in_def)

lemma availability_no_fd:
  "map_of (availability_for_shape rr shape ocpu gbs supported) fd = Some v \<Longrightarrow> sa_fd v = None"
  by (auto simp: availability_for_shape_def availability_fold Let_def split: if_splits)

subsection \<open>Resolving configurations\<close>

text \<open>A reservation that is named by its OCID and found in the cache.\<close>

lemma get_capres_cached:
  assumes "get_from_cache now (cp_cache p) ocid = Some c"
  shows "get_capacity_reservation api now ocid p =
    (Ok c, p\<lparr>cp_usage := (cp_usage p)(ocid := None)\<rparr>)"
  using assms by (simp add: get_capacity_reservation_def)

lemma get_capres_drops_usage:
  "get_capacity_reservation api now ocid p = (Ok c, p') \<Longrightarrow> cp_usage p' ocid = None"
  by (auto simp: get_capacity_reservation_def split: prod.splits go.splits)

lemma get_capres_other_usage:
  "get_capacity_reservation api now ocid p = (r, p') \<Longrightarrow> k \<noteq> ocid \<Longrightarrow> cp_usage p' k = cp_usage p k"
  by (auto simp: get_capacity_reservation_def split: prod.splits go.splits)

text \<open>
  A reservation configured by its OCID is never adjusted for the instances placed since it was
  loaded.  As long as the reservation is cached, resolving it returns the counts of the time it was
  loaded, whatever its ledger holds, and throws the ledger away.
\<close>

theorem resolve_by_ocid_ignores_usage:
  assumes cached: "get_from_cache now (cp_cache p) ocid = Some c" and id: "cr_id (fst c) = ocid"
  shows "resolve_capacity_reservations api now [\<lparr>crc_id = Some ocid, crc_filter = None\<rparr>] p =
    (Ok ([to_capacity_resolve_result c], None), p\<lparr>cp_usage := (cp_usage p)(ocid := None)\<rparr>)"
  using assms
  by (simp add: resolve_capacity_reservations_def get_capres_cached reconcile_usage_def)

definition example_capres :: capres where
  "example_capres = \<lparr>cr_id = ''cr'', cr_name = ''n'', cr_ad = ''p:A1'', cr_compartment = ''c'',
     cr_configs = [\<lparr>irc_config = None, irc_fd = None, irc_reserved = 1, irc_used = 0,
                    irc_shape = ''VM.Standard2.1''\<rparr>]\<rparr>"

theorem resolve_by_ocid_ignores_usage_witness:
  "let p = (new_capres_provider ''c'')\<lparr>cp_cache := cache_set 0 ''cr'' (example_capres, 0) new_default_cache\<rparr>;
       i = plain_instance\<lparr>ins_capres := Some ''cr''\<rparr>
   in (case mark_capres_used 5 i p of
         Ok q \<Rightarrow> tracked q ''cr'' ((''VM.Standard2.1'', ''VM.Standard2.1..''), ''FD-1'') = 1 \<and>
           fst (resolve_capacity_reservations undefined 9 [\<lparr>crc_id = Some ''cr'', crc_filter = None\<rparr>] q)
             = Ok ([to_capacity_resolve_result (example_capres, 0)], None)
       | _ \<Rightarrow> False)"
proof -
  let ?p = "(new_capres_provider ''c'')\<lparr>cp_cache := cache_set 0 ''cr'' (example_capres, 0) new_default_cache\<rparr>"
  let ?i = "plain_instance\<lparr>ins_capres := Some ''cr''\<rparr>"
  obtain q where q: "mark_capres_used 5 ?i ?p = Ok q" and cache: "cp_cache q = cp_cache ?p"
    by (simp add: mark_capres_used_def mark_capres_def increase_usage_def plain_instance_def)
  have "capres_run [InstanceUsed 5 ?i] ?p = Ok q" using q by simp
  from tracked_step [of "InstanceUsed 5 ?i", simplified, OF q]
  have "tracked q ''cr'' ((''VM.Standard2.1'', ''VM.Standard2.1..''), ''FD-1'') = 1"
    by (simp add: tracked_def new_capres_provider_def occupies_def plain_instance_def
        key_of_instance_def key_of_shape_def)
  moreover have "get_from_cache 9 (cp_cache q) ''cr'' = Some (example_capres, 0)"
    by (simp add: cache get_set_same new_default_cache_def new_load_cache_def)
  from resolve_by_ocid_ignores_usage [OF this]
  have "fst (resolve_capacity_reservations undefined 9 [\<lparr>crc_id = Some ''cr'', crc_filter = None\<rparr>] q)
      = Ok ([to_capacity_resolve_result (example_capres, 0)], None)"
    by (simp add: example_capres_def)
  ultimately show ?thesis using q by (simp add: Let_def)
qed

text \<open>
  Reservations that a selector resolves to, while that answer is cached, are adjusted: each is
  returned with the instances of its ledger added where the ledger is younger than the load, and
  the provider keeps its state.
\<close>

theorem resolve_by_selector_applies_usage:
  assumes "ca_hash api sel = Ok key" and "get_from_cache now (cp_selector_cache p) key = Some cs"
  shows "resolve_capacity_reservations api now [\<lparr>crc_id = None, crc_filter = Some sel\<rparr>] p =
    (Ok (map (\<lambda>c. case cp_usage p (cr_id (fst c)) of
                 Some u \<Rightarrow>
                   if snd c < us_last_commit u
                   then adjust_capacity_against_usage u (to_capacity_resolve_result c)
                   else to_capacity_resolve_result c
               | None \<Rightarrow> to_capacity_resolve_result c) cs, None), p)"
proof -
  have "filter_capacity_reservations api now sel p = (Ok cs, p)"
    using assms by (simp add: filter_capacity_reservations_def)
  then show ?thesis
    by (auto simp: resolve_capacity_reservations_def reconcile_usage_def split: option.splits)
qed

theorem resolve_by_selector_applies_usage_witness:
  "let sel = \<lparr>sel_compartment = None, sel_display_name = None, sel_freeform = [], sel_defined = []\<rparr>;
       api = \<lparr>ca_get = (\<lambda>_. Panic), ca_list = (\<lambda>_ _ _. Panic), ca_hash = (\<lambda>_. Ok ''k'')\<rparr>;
       p = (new_capres_provider ''c'')\<lparr>cp_selector_cache := cache_set 0 ''k'' [(example_capres, 0)] new_default_cache\<rparr>
   in resolve_capacity_reservations api 9 [\<lparr>crc_id = None, crc_filter = Some sel\<rparr>] p
        = (Ok ([to_capacity_resolve_result (example_capres, 0)], None), p)"
  unfolding Let_def
  by (subst resolve_by_selector_applies_usage [where key = "''k''" and cs = "[(example_capres, 0)]"])
     (simp_all add: get_set_same new_default_cache_def new_load_cache_def new_capres_provider_def)

text \<open>
  The label of a reservation is the last part of its OCID, shortened to its last 63 bytes, so
  it holds no dot and fits the length Kubernetes allows for a label value.
\<close>

theorem ocid_label_valid:
  "length (ocid_to_label_value ocid) \<le> 63 \<and> CHR ''.'' \<notin> set (ocid_to_label_value ocid) \<and>
     (\<exists>t. ocid = t @ ocid_to_label_value ocid)"
proof -
  let ?l = "last (split_on (CHR ''.'') ocid)"
  have "?l \<in> set (split_on (CHR ''.'') ocid)" by (rule last_in_set) simp
  then have no_dot: "CHR ''.'' \<notin> set ?l" by (rule split_on_pieces)
  have suffix: "ws \<noteq> [] \<Longrightarrow> \<exists>t. join_with sep ws = t @ last ws" for sep ws
  proof (induction sep ws rule: join_with.induct)
    case (3 sep w v vs)
    then obtain t where "join_with sep (v # vs) = t @ last (v # vs)" by blast
    then have "join_with sep (w # v # vs) = (w @ sep @ t) @ last (w # v # vs)" by simp
    then show ?case by blast
  qed auto
  obtain t where t: "ocid = t @ ?l"
    using suffix [of "split_on (CHR ''.'') ocid" "''.''"] join_split [of "CHR ''.''" ocid] by auto
  then have "ocid = (t @ take (length ?l - 63) ?l) @ drop (length ?l - 63) ?l" by simp
  then have "\<exists>u. ocid = u @ drop (length ?l - 63) ?l" by blast
  moreover have "\<exists>u. ocid = u @ ?l" using t by blast
  moreover have "CHR ''.'' \<notin> set (drop (length ?l - 63) ?l)" using no_dot by (auto dest: in_set_dropD)
  ultimately show ?thesis
    using no_dot unfolding ocid_to_label_value_def Let_def by simp
qed

end
