(* ===== verification/Cluster_Groups.thy ===== *)
theory Cluster_Groups
  imports Utils Load_Cache
begin

section \<open>Placement groups, compute clusters and other resources read through a cache\<close>

text \<open>
  \<open>pkg/providers/clusterplacementgroup\<close>, \<open>computecluster\<close>, \<open>identity\<close>, \<open>kms\<close> and
  \<open>blockstorage\<close>: resources the node class names by OCID or by a filter.  Each provider has a
  cache by OCID, and the first two a cache of the answers of filters, keyed by the digest of the
  filter.  The calls of the OCI API are arguments.
\<close>

record located_resource =
  lr_id :: string
  lr_name :: string
  lr_ad :: string
  lr_compartment :: string

record cpg_summary = located_resource +
  cpgs_deleted :: bool
  cpgs_freeform :: tags
  cpgs_defined :: defined_tags

record cluster_summary = located_resource +
  ccs_active :: bool
  ccs_freeform :: tags
  ccs_defined :: defined_tags

record located_result =
  lres_ocid :: string
  lres_name :: string
  lres_ad :: string
  lres_compartment :: string

definition result_of_located :: "'a located_resource_scheme \<Rightarrow> located_result" where
  "result_of_located c = \<lparr>lres_ocid = lr_id c, lres_name = lr_name c, lres_ad = lr_ad c,
     lres_compartment = lr_compartment c\<rparr>"

subsection \<open>Cluster placement groups\<close>

record cpg_provider =
  gp_cluster_compartment :: string
  gp_cache :: "located_resource load_cache"
  gp_selector_cache :: "cpg_summary list load_cache"

record cpg_api =
  ga_get :: "string \<Rightarrow> (err, located_resource) go"
  ga_list :: "string \<Rightarrow> string option \<Rightarrow> (err, cpg_summary) pager"
  ga_hash :: "resource_selector \<Rightarrow> (err, string) go"

definition new_cpg_provider :: "string \<Rightarrow> cpg_provider" where
  "new_cpg_provider compartment =
     \<lparr>gp_cluster_compartment = compartment, gp_cache = new_default_cache,
      gp_selector_cache = new_default_cache\<rparr>"

definition get_cpg :: "cpg_api \<Rightarrow> int \<Rightarrow> string \<Rightarrow> cpg_provider \<Rightarrow> (err, located_resource) go \<times> cpg_provider" where
  "get_cpg api now ocid p =
     (let (r, c, u) = get_or_load now (gp_cache p) ocid (\<lambda>k s. (ga_get api ocid, s)) ()
      in (r, p\<lparr>gp_cache := c\<rparr>))"

text \<open>The name of a filter is left to the service; the state is tested here.\<close>

definition keep_cpg :: "resource_selector \<Rightarrow> cpg_summary \<Rightarrow> (err, bool) go" where
  "keep_cpg sel item =
     (if \<not> cpgs_deleted item then Ok False
      else Ok (tag_filter (sel_freeform sel) (sel_defined sel) (cpgs_freeform item) (cpgs_defined item)))"

definition list_and_filter_cpgs ::
  "cpg_api \<Rightarrow> string \<Rightarrow> resource_selector \<Rightarrow> (err, cpg_summary list) go" where
  "list_and_filter_cpgs api compartment sel =
     fetch_filtered (ga_list api compartment (sel_display_name sel)) (keep_cpg sel)"

definition filter_cpgs ::
  "cpg_api \<Rightarrow> int \<Rightarrow> resource_selector \<Rightarrow> cpg_provider \<Rightarrow> (err, cpg_summary list) go \<times> cpg_provider" where
  "filter_cpgs api now sel p =
     (case ga_hash api sel of
        Fail e \<Rightarrow> (Fail e, p)
      | Panic \<Rightarrow> (Panic, p)
      | Hang \<Rightarrow> (Hang, p)
      | Ok key \<Rightarrow>
          (let compartment = (case sel_compartment sel of None \<Rightarrow> gp_cluster_compartment p | Some c \<Rightarrow> c);
               (r, c, u) = get_or_load now (gp_selector_cache p) key
                             (\<lambda>k s. (list_and_filter_cpgs api compartment sel, s)) ()
           in (r, p\<lparr>gp_selector_cache := c\<rparr>)))"

text \<open>What is resolved before an error is returned with it; a configuration with neither an OCID
  nor a filter is a nil pointer.\<close>

fun resolve_cpg_configs ::
  "cpg_api \<Rightarrow> int \<Rightarrow> placement_group_config list \<Rightarrow> located_result list \<Rightarrow> cpg_provider
    \<Rightarrow> (err, located_result list \<times> err option) go \<times> cpg_provider" where
  "resolve_cpg_configs api now [] acc p = (Ok (acc, None), p)"
| "resolve_cpg_configs api now (cfg # cfgs) acc p =
     (case (cpgc_id cfg, cpgc_filter cfg) of
        (Some ocid, Some sel) \<Rightarrow>
          (Ok ([], Some (Sentinel InvalidConfigVar ''define either ocid or clusterPlacementGroup selector'')), p)
      | (Some ocid, None) \<Rightarrow>
          (case get_cpg api now ocid p of
             (Ok c, p') \<Rightarrow> resolve_cpg_configs api now cfgs (acc @ [result_of_located c]) p'
           | (Fail e, p') \<Rightarrow> (Ok (acc, Some e), p')
           | (Panic, p') \<Rightarrow> (Panic, p')
           | (Hang, p') \<Rightarrow> (Hang, p'))
      | (None, Some sel) \<Rightarrow>
          (case filter_cpgs api now sel p of
             (Ok cs, p') \<Rightarrow> resolve_cpg_configs api now cfgs (acc @ map result_of_located cs) p'
           | (Fail e, p') \<Rightarrow> (Ok (acc, Some e), p')
           | (Panic, p') \<Rightarrow> (Panic, p')
           | (Hang, p') \<Rightarrow> (Hang, p'))
      | (None, None) \<Rightarrow> (Panic, p))"

definition resolve_cpgs ::
  "cpg_api \<Rightarrow> int \<Rightarrow> placement_group_config list \<Rightarrow> cpg_provider
    \<Rightarrow> (err, located_result list \<times> err option) go \<times> cpg_provider" where
  "resolve_cpgs api now cfgs p =
     (if length cfgs = 0 then (Ok ([], Some (ErrText ''no clusterPlacementGroup specified'')), p)
      else resolve_cpg_configs api now cfgs [] p)"

subsection \<open>Compute clusters\<close>

record cluster_provider =
  kp_cluster_compartment :: string
  kp_cache :: "located_resource load_cache"
  kp_selector_cache :: "cluster_summary list load_cache"

record cluster_api =
  ka_get :: "string \<Rightarrow> (err, located_resource) go"
  ka_list :: "string \<Rightarrow> string option \<Rightarrow> (err, cluster_summary) pager"
  ka_hash :: "resource_selector \<Rightarrow> (err, string) go"

definition new_cluster_provider :: "string \<Rightarrow> cluster_provider" where
  "new_cluster_provider compartment =
     \<lparr>kp_cluster_compartment = compartment, kp_cache = new_default_cache,
      kp_selector_cache = new_default_cache\<rparr>"

definition get_cluster ::
  "cluster_api \<Rightarrow> int \<Rightarrow> string \<Rightarrow> cluster_provider \<Rightarrow> (err, located_resource) go \<times> cluster_provider" where
  "get_cluster api now ocid p =
     (let (r, c, u) = get_or_load now (kp_cache p) ocid (\<lambda>k s. (ka_get api ocid, s)) ()
      in (r, p\<lparr>kp_cache := c\<rparr>))"

definition keep_cluster :: "resource_selector \<Rightarrow> cluster_summary \<Rightarrow> (err, bool) go" where
  "keep_cluster sel item =
     (if \<not> ccs_active item then Ok False
      else if sel_display_name sel \<noteq> None \<and> Some (lr_name item) \<noteq> sel_display_name sel then Ok False
      else Ok (tag_filter (sel_freeform sel) (sel_defined sel) (ccs_freeform item) (ccs_defined item)))"

definition list_and_filter_clusters ::
  "cluster_api \<Rightarrow> string \<Rightarrow> resource_selector \<Rightarrow> (err, cluster_summary list) go" where
  "list_and_filter_clusters api compartment sel =
     fetch_filtered (ka_list api compartment (sel_display_name sel)) (keep_cluster sel)"

definition filter_clusters ::
  "cluster_api \<Rightarrow> int \<Rightarrow> resource_selector \<Rightarrow> cluster_provider
    \<Rightarrow> (err, cluster_summary list) go \<times> cluster_provider" where
  "filter_clusters api now sel p =
     (case ka_hash api sel of
        Fail e \<Rightarrow> (Fail e, p)
      | Panic \<Rightarrow> (Panic, p)
      | Hang \<Rightarrow> (Hang, p)
      | Ok key \<Rightarrow>
          (let compartment = (case sel_compartment sel of None \<Rightarrow> kp_cluster_compartment p | Some c \<Rightarrow> c);
               (r, c, u) = get_or_load now (kp_selector_cache p) key
                             (\<lambda>k s. (list_and_filter_clusters api compartment sel, s)) ()
           in (r, p\<lparr>kp_selector_cache := c\<rparr>)))"

definition resolve_cluster ::
  "cluster_api \<Rightarrow> int \<Rightarrow> compute_cluster_config option \<Rightarrow> cluster_provider
    \<Rightarrow> (err, located_result) go \<times> cluster_provider" where
  "resolve_cluster api now cfg p =
     (case cfg of
        None \<Rightarrow> (Fail (ErrText ''no computeClusterConfig specified''), p)
      | Some k \<Rightarrow>
          (case (ccc_id k, ccc_filter k) of
             (Some ocid, Some sel) \<Rightarrow>
               (Fail (Sentinel InvalidConfigVar ''define either ocid or compute cluster selector''), p)
           | (Some ocid, None) \<Rightarrow>
               (let (r, p') = get_cluster api now ocid p in (map_ok result_of_located r, p'))
           | (None, Some sel) \<Rightarrow>
               (let (r, p') = filter_clusters api now sel p
                in (go_bind r (\<lambda>cs.
                      if length cs \<noteq> 1
                      then Fail (ErrText (''unique computeCluster is required, actual: '' @ show_nat (length cs)))
                      else map_ok result_of_located (index_go cs 0)), p'))
           | (None, None) \<Rightarrow> (Panic, p)))"

subsection \<open>Availability domains and compartments\<close>

record identity_provider =
  ip_compartment :: string
  ip_ad_map :: "(string \<times> string) list"
  ip_prefix :: string
  ip_cache :: "string load_cache"

text \<open>The domains are listed once; every one sets the prefix, so the last one decides.\<close>

fun record_ads :: "(string \<times> string) list \<Rightarrow> identity_provider \<Rightarrow> (err, identity_provider) go" where
  "record_ads [] p = Ok p"
| "record_ads ((name, ocid) # ads) p =
     go_bind (logical_ad_prefix name)
       (\<lambda>pre. record_ads ads (p\<lparr>ip_ad_map := (name, ocid) # filter (\<lambda>(n, o'). n \<noteq> name) (ip_ad_map p),
                              ip_prefix := pre\<rparr>))"

definition fetch_ad_list ::
  "(err, (string \<times> string) list) go \<Rightarrow> identity_provider \<Rightarrow> (err, identity_provider) go" where
  "fetch_ad_list answer p =
     (if 0 < length (ip_ad_map p) then Ok p else go_bind answer (\<lambda>ads. record_ads ads p))"

definition new_identity_provider ::
  "string \<Rightarrow> (err, (string \<times> string) list) go \<Rightarrow> (err, identity_provider) go" where
  "new_identity_provider compartment answer =
     fetch_ad_list answer \<lparr>ip_compartment = compartment, ip_ad_map = [], ip_prefix = [],
       ip_cache = new_default_cache\<rparr>"

definition resolve_compartment ::
  "(string \<Rightarrow> (err, string) go) \<Rightarrow> int \<Rightarrow> string \<Rightarrow> identity_provider \<Rightarrow> (err, string) go \<times> identity_provider" where
  "resolve_compartment get now ocid p =
     (let (r, c, u) = get_or_load now (ip_cache p) ocid (\<lambda>k s. (get k, s)) ()
      in (r, p\<lparr>ip_cache := c\<rparr>))"

subsection \<open>Encryption keys\<close>

record kms_result =
  kr_ocid :: string
  kr_name :: string

record kms_provider =
  mp_cache :: "kms_result load_cache"
  mp_clients :: "string list"

definition get_extensions :: "string \<Rightarrow> (err, string list) go" where
  "get_extensions ocid =
     (let parts = split_on (CHR ''.'') ocid
      in if length parts < 6 then Fail (ErrText (''invalid OCID format: '' @ ocid)) else Ok parts)"

text \<open>\<open>region\<close> is the SDK's table of region codes.\<close>

definition kms_endpoint :: "(string \<Rightarrow> string) \<Rightarrow> string \<Rightarrow> (err, string) go" where
  "kms_endpoint region kmsKeyId =
     go_bind (get_extensions kmsKeyId) (\<lambda>ext.
       go_bind (index_go ext 4) (\<lambda>vaultPrefix.
         go_bind (index_go ext 3) (\<lambda>regionCode.
           Ok (''https://'' @ vaultPrefix @ ''-management.kms.'' @ region regionCode @ ''.oraclecloud.com''))))"

text \<open>A client is made for an endpoint once (\<open>connect\<close>) and kept.\<close>

definition get_kms_client ::
  "(string \<Rightarrow> (err, unit) go) \<Rightarrow> string \<Rightarrow> string list \<Rightarrow> (err, unit) go \<times> string list" where
  "get_kms_client connect endpoint clients =
     (if endpoint \<in> set clients then (Ok (), clients)
      else (case connect endpoint of
              Ok u \<Rightarrow> (Ok (), endpoint # clients)
            | r \<Rightarrow> (r, clients)))"

definition get_kms_key ::
  "(string \<Rightarrow> string) \<Rightarrow> (string \<Rightarrow> (err, unit) go) \<Rightarrow> (string \<Rightarrow> string \<Rightarrow> (err, kms_result) go) \<Rightarrow> int
    \<Rightarrow> string \<Rightarrow> kms_provider \<Rightarrow> (err, kms_result) go \<times> kms_provider" where
  "get_kms_key region connect get_key now ocid p =
     (let (r, c, cl) =
            get_or_load now (mp_cache p) ocid
              (\<lambda>k clients.
                 case kms_endpoint region ocid of
                   Ok endpoint \<Rightarrow>
                     (let (r, clients') = get_kms_client connect endpoint clients
                      in (go_bind r (\<lambda>u. get_key endpoint ocid), clients'))
                 | Fail e \<Rightarrow> (Fail e, clients)
                 | Panic \<Rightarrow> (Panic, clients)
                 | Hang \<Rightarrow> (Hang, clients)) (mp_clients p)
      in (r, p\<lparr>mp_cache := c, mp_clients := cl\<rparr>))"

text \<open>A client that is handed in replaces the one the provider would build for the endpoint.\<close>

definition set_kms_client :: "string \<Rightarrow> kms_provider \<Rightarrow> kms_provider" where
  "set_kms_client endpoint p =
     p\<lparr>mp_clients := (if endpoint \<in> set (mp_clients p) then mp_clients p else endpoint # mp_clients p)\<rparr>"

definition resolve_kms_key_config ::
  "(string \<Rightarrow> string) \<Rightarrow> (string \<Rightarrow> (err, unit) go) \<Rightarrow> (string \<Rightarrow> string \<Rightarrow> (err, kms_result) go) \<Rightarrow> int
    \<Rightarrow> kms_key_config option \<Rightarrow> kms_provider \<Rightarrow> (err, kms_result option) go \<times> kms_provider" where
  "resolve_kms_key_config region connect get_key now cfg p =
     (case cfg of
        None \<Rightarrow> (Ok None, p)
      | Some k \<Rightarrow>
          (case kms_id k of
             None \<Rightarrow> (Ok None, p)
           | Some ocid \<Rightarrow>
               (let (r, p') = get_kms_key region connect get_key now ocid p in (map_ok Some r, p'))))"

subsection \<open>Boot volumes\<close>

definition get_boot_volume ::
  "(string \<Rightarrow> (err, boot_volume) go) \<Rightarrow> int \<Rightarrow> string \<Rightarrow> boot_volume load_cache
    \<Rightarrow> (err, boot_volume) go \<times> boot_volume load_cache" where
  "get_boot_volume get now ocid c =
     (let (r, c', u) = cache_refresh now c ocid (\<lambda>k s. (get ocid, s)) () in (r, c'))"

definition get_boot_volume_cached ::
  "(string \<Rightarrow> (err, boot_volume) go) \<Rightarrow> int \<Rightarrow> string \<Rightarrow> boot_volume load_cache
    \<Rightarrow> (err, boot_volume) go \<times> boot_volume load_cache" where
  "get_boot_volume_cached get now ocid c =
     (let (r, c', u) = get_or_load now c ocid (\<lambda>k s. (get ocid, s)) () in (r, c'))"

subsection \<open>The caches cannot be told from the services\<close>

lemmas cached_read_defs = get_or_load_pure get_cpg_def get_cluster_def resolve_compartment_def
  get_boot_volume_cached_def Let_def split_def

interpretation cpg_lookup: cached_lookup
  "\<lambda>p. get_from_cache now (gp_cache p)" "ga_get api" "get_cpg api now" "\<lambda>p. ttl_ok (gp_cache p)"
  by unfold_locales (auto simp: cached_read_defs get_after_set split: option.splits go.splits)

interpretation cluster_lookup: cached_lookup
  "\<lambda>p. get_from_cache now (kp_cache p)" "ka_get api" "get_cluster api now" "\<lambda>p. ttl_ok (kp_cache p)"
  by unfold_locales (auto simp: cached_read_defs get_after_set split: option.splits go.splits)

interpretation compartment_lookup: cached_lookup
  "\<lambda>p. get_from_cache now (ip_cache p)" get "resolve_compartment get now" "\<lambda>p. ttl_ok (ip_cache p)"
  by unfold_locales (auto simp: cached_read_defs get_after_set split: option.splits go.splits)

interpretation boot_volume_lookup: cached_lookup
  "get_from_cache now" get "get_boot_volume_cached get now" ttl_ok
  by unfold_locales (auto simp: cached_read_defs get_after_set split: option.splits go.splits)

text \<open>
  A compute cluster that is configured by a filter resolves exactly when the service lists one
  active cluster of the name and tags asked for: to that one; with none or several the answer is an
  error that says how many there are.
\<close>

theorem resolve_cluster_unique:
  assumes "ka_hash api sel = Ok key" "get_from_cache now (kp_selector_cache p) key = None"
    and "serves (ka_list api (from_ptr (kp_cluster_compartment p) (sel_compartment sel)) (sel_display_name sel)) None items"
  defines "want \<equiv> (\<lambda>i. ccs_active i \<and> (sel_display_name sel = None \<or> sel_display_name sel = Some (lr_name i))
      \<and> tag_filter (sel_freeform sel) (sel_defined sel) (ccs_freeform i) (ccs_defined i))"
  shows "fst (resolve_cluster api now (Some \<lparr>ccc_id = None, ccc_filter = Some sel\<rparr>) p) =
    (case filter want items of
       [i] \<Rightarrow> Ok (result_of_located i)
     | is \<Rightarrow> Fail (ErrText (''unique computeCluster is required, actual: '' @ show_nat (length is))))"
proof -
  have "list_and_filter_clusters api (from_ptr (kp_cluster_compartment p) (sel_compartment sel)) sel
      = Ok (filter want items)"
    unfolding list_and_filter_clusters_def using assms(3)
    by (rule fetch_filtered_serves) (auto simp: keep_cluster_def want_def)
  then have "fst (filter_clusters api now sel p) = Ok (filter want items)"
    using assms(1,2) by (simp add: filter_clusters_def get_or_load_pure Let_def split_def from_ptr_None_iff)
  then show ?thesis
    by (cases "filter_clusters api now sel p")
       (auto simp: resolve_cluster_def index_go_def split: list.splits)
qed

text \<open>
  Placement groups configured by a filter: what is resolved are the groups that the service
  lists as deleted and that carry the tags; a group in use is never among them.
\<close>

theorem resolve_cpg_filter_keeps_deleted:
  assumes "ga_hash api sel = Ok key" "get_from_cache now (gp_selector_cache p) key = None"
    and "serves (ga_list api (from_ptr (gp_cluster_compartment p) (sel_compartment sel)) (sel_display_name sel)) None items"
  shows "fst (resolve_cpgs api now [\<lparr>cpgc_id = None, cpgc_filter = Some sel\<rparr>] p) =
    Ok (map result_of_located
          (filter (\<lambda>i. cpgs_deleted i \<and>
              tag_filter (sel_freeform sel) (sel_defined sel) (cpgs_freeform i) (cpgs_defined i)) items), None)"
proof -
  let ?want = "\<lambda>i. cpgs_deleted i \<and>
      tag_filter (sel_freeform sel) (sel_defined sel) (cpgs_freeform i) (cpgs_defined i)"
  have "list_and_filter_cpgs api (from_ptr (gp_cluster_compartment p) (sel_compartment sel)) sel
      = Ok (filter ?want items)"
    unfolding list_and_filter_cpgs_def using assms(3)
    by (rule fetch_filtered_serves) (auto simp: keep_cpg_def)
  then have "fst (filter_cpgs api now sel p) = Ok (filter ?want items)"
    using assms(1,2) by (simp add: filter_cpgs_def get_or_load_pure Let_def split_def from_ptr_None_iff)
  then show ?thesis
    by (cases "filter_cpgs api now sel p") (auto simp: resolve_cpgs_def)
qed

definition example_selector :: resource_selector where
  "example_selector = \<lparr>sel_compartment = None, sel_display_name = None, sel_freeform = [], sel_defined = []\<rparr>"

theorem resolve_cluster_unique_witness:
  "let item = \<lparr>lr_id = ''k'', lr_name = ''n'', lr_ad = ''p:A1'', lr_compartment = ''c'', ccs_active = True,
         ccs_freeform = [], ccs_defined = []\<rparr>;
       api = \<lparr>ka_get = (\<lambda>_. Panic), ka_list = (\<lambda>c n page. Ok ([item, item\<lparr>ccs_active := False\<rparr>], None)),
         ka_hash = (\<lambda>_. Ok ''h'')\<rparr>
   in fst (resolve_cluster api 0 (Some \<lparr>ccc_id = None, ccc_filter = Some example_selector\<rparr>)
        (new_cluster_provider ''c'')) = Ok (result_of_located item)"
  unfolding Let_def
  by (subst resolve_cluster_unique [where key = "''h''"])
     (auto intro!: serves.last_page simp: new_cluster_provider_def new_default_cache_def get_new
        example_selector_def tag_filter_def)

theorem resolve_cpg_filter_keeps_deleted_witness:
  "let item = \<lparr>lr_id = ''g'', lr_name = ''n'', lr_ad = ''p:A1'', lr_compartment = ''c'', cpgs_deleted = False,
         cpgs_freeform = [], cpgs_defined = []\<rparr>;
       api = \<lparr>ga_get = (\<lambda>_. Panic), ga_list = (\<lambda>c n page. Ok ([item], None)), ga_hash = (\<lambda>_. Ok ''h'')\<rparr>
   in fst (resolve_cpgs api 0 [\<lparr>cpgc_id = None, cpgc_filter = Some example_selector\<rparr>]
        (new_cpg_provider ''c'')) = Ok ([], None)"
  unfolding Let_def
  by (subst resolve_cpg_filter_keeps_deleted [where key = "''h''"])
     (auto intro!: serves.last_page simp: new_cpg_provider_def new_default_cache_def get_new
        example_selector_def)

lemma kms_endpoint_total:
  "kms_endpoint region ocid =
     (let parts = split_on (CHR ''.'') ocid
      in if length parts < 6 then Fail (ErrText (''invalid OCID format: '' @ ocid))
         else Ok (''https://'' @ parts ! 4 @ ''-management.kms.'' @ region (parts ! 3) @ ''.oraclecloud.com''))"
  by (auto simp: kms_endpoint_def get_extensions_def index_go_def Let_def)

end
