(* ===== verification/Karpenter_Types.thy ===== *)
theory Karpenter_Types
  imports Api_Types Utils
begin

section \<open>The objects of Karpenter\<close>

text \<open>
  What this program reads and builds of Karpenter's own types: scheduling requirements, offerings,
  instance types, node claims and taints, and the internal instance type of
  \<open>pkg/providers/instancetype/instance_type.go\<close>.  Whether requirements are compatible, and which
  value \<open>Any()\<close> picks from a requirement, is Karpenter's code: an argument of the definitions that
  ask.  Resource quantities are exact rational numbers.
\<close>

datatype requirement = ReqIn "string list" | ReqDoesNotExist | ReqExists

type_synonym requirements = "(string \<times> requirement) list"
type_synonym resource_list = "(string \<times> rat) list"

record offering =
  off_reqs :: requirements
  off_price :: rat
  off_available :: bool
  off_capacity :: int

record overhead =
  ov_kube :: resource_list
  ov_system :: resource_list
  ov_eviction :: resource_list

record oci_instance_type =
  it_name :: string
  it_reqs :: requirements
  it_offerings :: "offering list"
  it_capacity :: resource_list
  it_overhead :: overhead
  it_shape_config :: bool
  it_ocpu :: "rat option"
  it_memory :: "rat option"
  it_baseline :: "baseline option"
  it_shape :: string
  it_platform_type :: string

record taint =
  tnt_key :: string
  tnt_value :: string
  tnt_effect :: string

record node_requirement =
  nreq_key :: string
  nreq_op :: string
  nreq_values :: "string list"

record owner_ref =
  own_api :: string
  own_kind :: string
  own_uid :: string

record node_claim =
  nc_name :: string
  nc_labels :: "(string \<times> string) list"
  nc_annotations :: "(string \<times> string) list"
  nc_owners :: "owner_ref list"
  nc_reqs :: "node_requirement list"
  nc_taints :: "taint list"
  nc_startup_taints :: "taint list"
  nc_class :: "string option"
  nc_provider_id :: string
  nc_image_id :: string
  nc_capacity :: resource_list
  nc_allocatable :: resource_list
  nc_created :: int
  nc_deleted :: "int option"

definition CapacityTypeLabelKey :: string where
  "CapacityTypeLabelKey = ''karpenter.sh/capacity-type''"
definition NodePoolLabelKey :: string where "NodePoolLabelKey = ''karpenter.sh/nodepool''"
definition LabelTopologyZone :: string where "LabelTopologyZone = ''topology.kubernetes.io/zone''"
definition CapacityTypeSpot :: string where "CapacityTypeSpot = ''spot''"
definition CapacityTypeOnDemand :: string where "CapacityTypeOnDemand = ''on-demand''"
definition CapacityTypeReserved :: string where "CapacityTypeReserved = ''reserved''"

lemmas capacity_types = CapacityTypeSpot_def CapacityTypeOnDemand_def CapacityTypeReserved_def

lemma capacity_types_differ [simp]:
  "CapacityTypeSpot \<noteq> CapacityTypeOnDemand" "CapacityTypeSpot \<noteq> CapacityTypeReserved"
  "CapacityTypeOnDemand \<noteq> CapacityTypeReserved" "CapacityTypeOnDemand \<noteq> CapacityTypeSpot"
  "CapacityTypeReserved \<noteq> CapacityTypeSpot" "CapacityTypeReserved \<noteq> CapacityTypeOnDemand"
  by (simp_all add: capacity_types)

lemma label_keys_differ [simp]:
  "CapacityTypeLabelKey \<noteq> LabelTopologyZone" "LabelTopologyZone \<noteq> CapacityTypeLabelKey"
  "ReservationIDLabel \<noteq> CapacityTypeLabelKey" "ReservationIDLabel \<noteq> LabelTopologyZone"
  "CapacityTypeLabelKey \<noteq> ReservationIDLabel" "LabelTopologyZone \<noteq> ReservationIDLabel"
  "OciFaultDomain \<noteq> CapacityTypeLabelKey" "OciFaultDomain \<noteq> LabelTopologyZone"
  "CapacityTypeLabelKey \<noteq> OciFaultDomain" "LabelTopologyZone \<noteq> OciFaultDomain"
  "OciFaultDomain \<noteq> ReservationIDLabel" "ReservationIDLabel \<noteq> OciFaultDomain"
  by (simp_all add: CapacityTypeLabelKey_def LabelTopologyZone_def ReservationIDLabel_def
      OciFaultDomain_def Group_def)

text \<open>\<open>Requirements.Get\<close> of a key that is absent is the requirement that it exists.\<close>

definition req_get :: "requirements \<Rightarrow> string \<Rightarrow> requirement" where
  "req_get rs k = (case map_of rs k of Some r \<Rightarrow> r | None \<Rightarrow> ReqExists)"

definition req_has :: "requirements \<Rightarrow> string \<Rightarrow> bool" where
  "req_has rs k = (map_of rs k \<noteq> None)"

fun req_is_in :: "requirement \<Rightarrow> bool" where
  "req_is_in (ReqIn vs) = (vs \<noteq> [])"
| "req_is_in _ = False"

type_synonym any_value = "requirement \<Rightarrow> string"

text \<open>What is relied on of \<open>Any()\<close>: a requirement of one value yields that value.\<close>

definition any_ok :: "any_value \<Rightarrow> bool" where
  "any_ok kany \<longleftrightarrow> (\<forall>v. kany (ReqIn [v]) = v)"

definition off_zone :: "any_value \<Rightarrow> offering \<Rightarrow> string" where
  "off_zone kany ofr = kany (req_get (off_reqs ofr) LabelTopologyZone)"

definition off_capacity_type :: "any_value \<Rightarrow> offering \<Rightarrow> string" where
  "off_capacity_type kany ofr = kany (req_get (off_reqs ofr) CapacityTypeLabelKey)"

definition off_reservation :: "any_value \<Rightarrow> offering \<Rightarrow> string" where
  "off_reservation kany ofr = kany (req_get (off_reqs ofr) ReservationIDLabel)"

definition available_offerings :: "offering list \<Rightarrow> offering list" where
  "available_offerings ofs = filter off_available ofs"

subsection \<open>The internal instance type\<close>

definition copy_and_update_offerings :: "offering list \<Rightarrow> oci_instance_type \<Rightarrow> oci_instance_type" where
  "copy_and_update_offerings ofs it =
     \<lparr>it_name = it_name it, it_reqs = it_reqs it, it_offerings = ofs, it_capacity = it_capacity it,
      it_overhead = it_overhead it, it_shape_config = it_shape_config it, it_ocpu = it_ocpu it,
      it_memory = it_memory it, it_baseline = it_baseline it, it_shape = it_shape it,
      it_platform_type = it_platform_type it\<rparr>"

definition is_burstable :: "oci_instance_type \<Rightarrow> bool" where
  "is_burstable it =
     (case it_baseline it of None \<Rightarrow> False | Some b \<Rightarrow> if b = BASELINE_1_1 then False else True)"

fun requirement_values :: "requirement \<Rightarrow> string list" where
  "requirement_values (ReqIn vs) = vs"
| "requirement_values _ = []"

definition print_instance_type :: "oci_instance_type \<Rightarrow> string" where
  "print_instance_type it =
     it_name it @ '':'' @
     join_with '','' (concat (map (\<lambda>ofr.
       case map_of (off_reqs ofr) CapacityTypeLabelKey of
         Some r \<Rightarrow> requirement_values r | None \<Rightarrow> []) (it_offerings it)))"

text \<open>\<open>Allocatable()\<close> of Karpenter is an argument.  The labels of a claim are a map.\<close>

definition set_label :: "string \<Rightarrow> string \<Rightarrow> (string \<times> string) list \<Rightarrow> (string \<times> string) list" where
  "set_label k v ls = (k, v) # filter (\<lambda>(k', v'). k' \<noteq> k) ls"

definition decorate_claim_by_type ::
  "(oci_instance_type \<Rightarrow> resource_list) \<Rightarrow> oci_instance_type option \<Rightarrow> node_claim \<Rightarrow> node_claim" where
  "decorate_claim_by_type allocatable ito nc =
     (case ito of
        None \<Rightarrow> nc
      | Some it \<Rightarrow>
          nc\<lparr>nc_labels := fold (\<lambda>(key, r) ls.
                 if length (requirement_values r) = 1
                 then set_label key (hd (requirement_values r)) ls else ls) (it_reqs it) (nc_labels nc),
             nc_capacity := filter (\<lambda>(n, q). q \<noteq> 0) (it_capacity it),
             nc_allocatable := filter (\<lambda>(n, q). q \<noteq> 0) (allocatable it)\<rparr>)"

text \<open>The comparison of a running instance with the type it should have; \<open>[]\<close> is no drift.\<close>

definition instance_drifted_from_type :: "oci_instance \<Rightarrow> oci_instance_type \<Rightarrow> (err, string) go" where
  "instance_drifted_from_type i it =
     (if ins_shape i \<noteq> it_shape it then Ok ''shapeMismatch''
      else if it_shape_config it then
        (case ins_shape_config i of
           None \<Rightarrow> Ok ''shapeConfigMismatch''
         | Some c \<Rightarrow>
             go_bind (case it_ocpu it of
                        None \<Rightarrow> Ok False
                      | Some o' \<Rightarrow> map_ok (\<lambda>x. o' \<noteq> x) (deref (isc_ocpus c)))
               (\<lambda>ocpu_differs. if ocpu_differs then Ok ''ocpuMismatch'' else
                 go_bind (case it_memory it of
                            None \<Rightarrow> Ok False
                          | Some m \<Rightarrow> map_ok (\<lambda>x. m \<noteq> x) (deref (isc_memory c)))
                   (\<lambda>mem_differs. if mem_differs then Ok ''memoryInGbsMismatch'' else
                     if it_baseline it \<noteq> None
                        \<and> it_baseline it \<noteq> Some (from_ptr BASELINE_1_1 (isc_baseline c))
                     then Ok ''cpuBaselineUtilizationMismatch'' else Ok [])))
      else Ok [])"

lemma set_label_lookup [simp]: "map_of (set_label k v ls) k' = (if k' = k then Some v else map_of ls k')"
  by (induction ls) (auto simp: set_label_def)

lemma type_drift_spec:
  assumes "pred_option (\<lambda>c. isc_ocpus c \<noteq> None \<and> isc_memory c \<noteq> None) (ins_shape_config i)"
  shows "\<exists>r. instance_drifted_from_type i it = Ok r \<and>
    (r = [] \<longleftrightarrow> ins_shape i = it_shape it \<and>
      (it_shape_config it \<longrightarrow>
        (\<exists>c. ins_shape_config i = Some c \<and>
           (it_ocpu it = None \<or> it_ocpu it = isc_ocpus c) \<and>
           (it_memory it = None \<or> it_memory it = isc_memory c) \<and>
           (it_baseline it = None \<or> it_baseline it = Some (from_ptr BASELINE_1_1 (isc_baseline c))))))"
  using assms
  by (cases "ins_shape_config i"; cases "it_ocpu it"; cases "it_memory it")
     (auto simp: instance_drifted_from_type_def)

text \<open>
  An instance is reported as different from its type exactly when its shape differs or, for a
  type with a shape configuration, one of the CPU count, the memory and the baseline that the type
  states is not the instance's; a missing baseline of the instance counts as the full one.
\<close>

theorem type_drift_iff:
  assumes "pred_option (\<lambda>c. isc_ocpus c \<noteq> None \<and> isc_memory c \<noteq> None) (ins_shape_config i)"
  shows "\<exists>r. instance_drifted_from_type i it = Ok r \<and>
    (r = [] \<longleftrightarrow> ins_shape i = it_shape it \<and>
      (it_shape_config it \<longrightarrow>
        (\<exists>c. ins_shape_config i = Some c \<and>
           (it_ocpu it = None \<or> it_ocpu it = isc_ocpus c) \<and>
           (it_memory it = None \<or> it_memory it = isc_memory c) \<and>
           (it_baseline it = None \<or> it_baseline it = Some (from_ptr BASELINE_1_1 (isc_baseline c))))))"
  by (rule type_drift_spec [OF assms])

definition plain_type :: oci_instance_type where
  "plain_type = \<lparr>it_name = ''VM.Standard2.1'', it_reqs = [], it_offerings = [], it_capacity = [],
     it_overhead = \<lparr>ov_kube = [], ov_system = [], ov_eviction = []\<rparr>, it_shape_config = False,
     it_ocpu = None, it_memory = None, it_baseline = None, it_shape = ''VM.Standard2.1'',
     it_platform_type = []\<rparr>"

definition plain_claim :: node_claim where
  "plain_claim = \<lparr>nc_name = ''claim'', nc_labels = [], nc_annotations = [], nc_owners = [],
     nc_reqs = [], nc_taints = [], nc_startup_taints = [], nc_class = None, nc_provider_id = [], nc_image_id = [],
     nc_capacity = [], nc_allocatable = [], nc_created = 0, nc_deleted = None\<rparr>"

theorem type_drift_iff_witness:
  "instance_drifted_from_type plain_instance plain_type = Ok []"
  using type_drift_iff [of plain_instance plain_type]
  by (auto simp: plain_instance_def plain_type_def)

end
