(* ===== verification/Placement.thy ===== *)
theory Placement
  imports Karpenter_Types Capacity_Reservation Cluster_Groups
begin

section \<open>Placing an instance\<close>

text \<open>
  \<open>pkg/providers/placement\<close>: the register of the instances of each node pool by domain and fault
  domain (\<open>ad_fd_summary.go\<close>), and the choice of where to launch the next one (\<open>provider.go\<close>).
  The offerings of the instance type that fit the claim become proposals; each is decorated with
  the reservation, the compute cluster or the placement group it must use, which can drop or
  multiply it; then the proposals are tried, each time the one whose domain holds the fewest
  instances of the pool, until one works or none is left.

  \<open>sort.Slice\<close> may order equal elements in any way, so the sort is an argument with the contract
  \<open>slice_sort\<close>.  The function that launches (\<open>placeFunc\<close>) is an argument that takes and returns a
  state of its own.
\<close>

subsection \<open>The register of a node pool\<close>

record instance_summary =
  isum_ad :: string
  isum_fd :: string
  isum_shape :: string
  isum_capres :: "string option"
  isum_ocpu :: "rat option"
  isum_memory :: "rat option"

type_synonym summary = "(string \<times> instance_summary) list"

definition new_ad_fd_summary :: summary where
  "new_ad_fd_summary = []"

definition summary_forget :: "string \<Rightarrow> summary \<Rightarrow> summary" where
  "summary_forget instanceId a = filter (\<lambda>(k, v). k \<noteq> instanceId) a"

definition summary_update_by ::
  "string \<Rightarrow> string \<Rightarrow> string \<Rightarrow> string \<Rightarrow> string option \<Rightarrow> rat option \<Rightarrow> rat option \<Rightarrow> summary \<Rightarrow> summary" where
  "summary_update_by instanceId ad fd shape capres ocpu mem a =
     (case map_of a instanceId of
        Some v \<Rightarrow> a
      | None \<Rightarrow>
          (instanceId, \<lparr>isum_ad = ad, isum_fd = fd, isum_shape = shape, isum_capres = capres,
             isum_ocpu = ocpu, isum_memory = mem\<rparr>) # a)"

text \<open>An instance without an OCID or a fault domain is a nil pointer.\<close>

definition summary_update :: "oci_instance option \<Rightarrow> summary \<Rightarrow> (err, summary) go" where
  "summary_update io a =
     (case io of
        None \<Rightarrow> Ok a
      | Some i \<Rightarrow>
          (let ocpu = (case ins_shape_config i of None \<Rightarrow> None | Some c \<Rightarrow> isc_ocpus c);
               mem = (case ins_shape_config i of None \<Rightarrow> None | Some c \<Rightarrow> isc_memory c)
           in go_bind (deref (ins_id i)) (\<lambda>iid.
                map_ok (\<lambda>fd. summary_update_by iid (ins_ad i) fd (ins_shape i) (ins_capres i) ocpu mem a)
                  (deref (ins_fd i)))))"

definition instance_count :: "summary \<Rightarrow> string \<Rightarrow> string option \<Rightarrow> nat" where
  "instance_count a ad fd =
     length (filter (\<lambda>(k, v). isum_ad v = ad \<and>
       (case fd of Some f \<Rightarrow> isum_fd v = f | None \<Rightarrow> True)) a)"

definition usage_for_capres ::
  "summary \<Rightarrow> string \<Rightarrow> string \<Rightarrow> rat option \<Rightarrow> rat option \<Rightarrow> (string \<times> int) list" where
  "usage_for_capres a capres shape ocpu mem =
     fold (\<lambda>(k, v) output.
         if isum_capres v = Some capres
            \<and> key_of_shape shape ocpu mem = key_of_shape (isum_shape v) (isum_ocpu v) (isum_memory v)
         then (case map_of output (isum_fd v) of
                 Some n \<Rightarrow> AList.update (isum_fd v) (n + 1) output
               | None \<Rightarrow> AList.update (isum_fd v) 1 output)
         else output) a []"

subsection \<open>Proposals\<close>

record proposal =
  prop_temp :: string
  prop_ad :: string
  prop_fd :: "string option"
  prop_capres :: "string option"
  prop_cluster :: "string option"
  prop_cpg :: "string option"

type_synonym proposal_sort = "(proposal \<Rightarrow> nat) \<Rightarrow> proposal list \<Rightarrow> proposal list"

text \<open>\<open>Propose\<close> sorts the caller's slice in place, so the sorted slice is returned as well.\<close>

definition propose ::
  "proposal_sort \<Rightarrow> proposal list \<Rightarrow> string \<Rightarrow> rat option \<Rightarrow> rat option \<Rightarrow> summary
    \<Rightarrow> proposal option \<times> proposal list \<times> summary" where
  "propose sorter proposals shape ocpu mem a =
     (if length proposals = 0 then (None, proposals, a)
      else
        let sorted = sorter (\<lambda>p. instance_count a (prop_ad p) (prop_fd p)) proposals;
            p = hd sorted
        in (Some p, sorted,
            summary_update_by (prop_temp p) (prop_ad p) (from_ptr [] (prop_fd p)) shape (prop_capres p)
              ocpu mem a))"

text \<open>
  The loop of \<open>PlaceInstance\<close>.  The first argument bounds its turns: it drops a proposal in each,
  so as many turns as there are proposals are enough (\<open>place_loop_complete\<close>).  Without a proposal
  the code dereferences nil, at the latest in the deferred call.
\<close>

fun place_loop ::
  "nat \<Rightarrow> proposal_sort \<Rightarrow> (proposal \<Rightarrow> 'w \<Rightarrow> (err, unit) go \<times> 'w) \<Rightarrow> oci_instance_type \<Rightarrow> proposal list
    \<Rightarrow> summary \<Rightarrow> 'w \<Rightarrow> (err, unit) go \<times> summary \<times> 'w" where
  "place_loop 0 sorter placeFunc it proposals a w = (Hang, a, w)"
| "place_loop (Suc n) sorter placeFunc it proposals a w =
     (case propose sorter proposals (it_shape it) (it_ocpu it) (it_memory it) a of
        (None, ps, a1) \<Rightarrow> (Panic, a1, w)
      | (Some pr, ps, a1) \<Rightarrow>
          (case placeFunc pr w of
             (Ok u, w1) \<Rightarrow> (Ok (), summary_forget (prop_temp pr) a1, w1)
           | (Fail e, w1) \<Rightarrow>
               (if 1 < length ps
                then place_loop n sorter placeFunc it (tl ps) (summary_forget (prop_temp pr) a1) w1
                else (Fail e, summary_forget (prop_temp pr) a1, w1))
           | (Panic, w1) \<Rightarrow> (Panic, summary_forget (prop_temp pr) a1, w1)
           | (Hang, w1) \<Rightarrow> (Hang, a1, w1)))"

subsection \<open>Decoration\<close>

text \<open>
  \<open>placementDecorateFunc\<close>: what the compute cluster and the placement groups of the node class
  resolve to is looked up once; the reservations at every proposal, and there an error is dropped
  and what was resolved before it is used.
\<close>

record placement_env =
  penv_capres :: capres_api
  penv_cpg :: cpg_api
  penv_cluster :: cluster_api
  penv_compat :: "node_requirement list \<Rightarrow> offering \<Rightarrow> bool"
  penv_any :: any_value
  penv_sort :: proposal_sort
  penv_now :: int
  penv_prefix :: string

record placement_state =
  pst_pools :: "string \<Rightarrow> summary option"
  pst_capres :: capres_provider
  pst_cpg :: cpg_provider
  pst_cluster :: cluster_provider

definition decorate_capres ::
  "resolve_result list \<Rightarrow> oci_instance_type \<Rightarrow> string \<Rightarrow> proposal \<Rightarrow> proposal list" where
  "decorate_capres rrs it label pr =
     (case List.find (\<lambda>rr. ocid_to_label_value (rr_ocid rr) = label) rrs of
        None \<Rightarrow> []
      | Some rr \<Rightarrow>
          (case map_of (availability_for_shape rr (it_shape it) (it_ocpu it) (it_memory it) (it_shape_config it))
                  (from_ptr [] (prop_fd pr)) of
             None \<Rightarrow> []
           | Some av \<Rightarrow>
               if sa_used av < sa_total av then [pr\<lparr>prop_capres := Some (rr_ocid rr)\<rparr>] else []))"

definition decorate ::
  "placement_env \<Rightarrow> node_class_spec \<Rightarrow> oci_instance_type \<Rightarrow> located_result option \<Rightarrow> located_result list option
    \<Rightarrow> proposal \<Rightarrow> capres_provider \<Rightarrow> (err, proposal list) go \<times> capres_provider" where
  "decorate env spec it cluster cpgs pr cp =
     (if cluster = None \<and> cpgs = None \<and> prop_capres pr = None then (Ok [pr], cp)
      else
        (case prop_capres pr of
           Some label \<Rightarrow>
             (if ncs_capres spec \<noteq> []
              then (case resolve_capacity_reservations (penv_capres env) (penv_now env) (ncs_capres spec) cp of
                      (r, cp') \<Rightarrow> (map_ok (\<lambda>(rrs, e). decorate_capres rrs it label pr) r, cp'))
              else (Ok [], cp))
         | None \<Rightarrow>
             (case cluster of
                Some c \<Rightarrow>
                  (if prop_ad pr \<noteq> lres_ad c then (Ok [], cp)
                   else (Ok [pr\<lparr>prop_cluster := Some (lres_ocid c)\<rparr>], cp))
              | None \<Rightarrow>
                  (case cpgs of
                     Some gs \<Rightarrow>
                       (Ok (map (\<lambda>g. \<lparr>prop_temp = prop_temp pr, prop_ad = prop_ad pr, prop_fd = prop_fd pr,
                                       prop_capres = None, prop_cluster = None, prop_cpg = Some (lres_ocid g)\<rparr>)
                              (filter (\<lambda>g. lres_ad g = prop_ad pr) gs)), cp)
                   | None \<Rightarrow> (Ok [], cp)))))"

text \<open>The proposal of an offering; the fault domain of the claim is read without looking whether its
  requirement has a value.\<close>

definition proposal_of ::
  "placement_env \<Rightarrow> node_claim \<Rightarrow> offering \<Rightarrow> (err, proposal) go" where
  "proposal_of env claim ofr =
     (let ad = zone_to_ad (off_zone (penv_any env) ofr) (penv_prefix env);
          reserved = req_has (off_reqs ofr) ReservationIDLabel
                     \<and> req_is_in (req_get (off_reqs ofr) ReservationIDLabel);
          base = \<lparr>prop_temp = nc_name claim, prop_ad = ad,
                   prop_fd = (if reserved \<and> req_has (off_reqs ofr) OciFaultDomain
                              then Some (penv_any env (req_get (off_reqs ofr) OciFaultDomain)) else None),
                   prop_capres = (if reserved then Some (off_reservation (penv_any env) ofr) else None),
                   prop_cluster = None, prop_cpg = None\<rparr>
      in (case List.find (\<lambda>r. nreq_key r = OciFaultDomain) (nc_reqs claim) of
            None \<Rightarrow> Ok base
          | Some r \<Rightarrow> map_ok (\<lambda>fd. base\<lparr>prop_fd := Some fd\<rparr>) (index_go (nreq_values r) 0)))"

fun all_proposals ::
  "(offering \<Rightarrow> (err, proposal) go) \<Rightarrow> (proposal \<Rightarrow> capres_provider \<Rightarrow> (err, proposal list) go \<times> capres_provider)
    \<Rightarrow> offering list \<Rightarrow> capres_provider \<Rightarrow> (err, proposal list) go \<times> capres_provider" where
  "all_proposals mk dec [] cp = (Ok [], cp)"
| "all_proposals mk dec (ofr # ofrs) cp =
     (case mk ofr of
        Ok pr \<Rightarrow>
          (case dec pr cp of
             (Ok ps, cp') \<Rightarrow>
               (let (r, cp'') = all_proposals mk dec ofrs cp' in (map_ok (\<lambda>qs. ps @ qs) r, cp''))
           | (r, cp') \<Rightarrow> (r, cp'))
      | Fail e \<Rightarrow> (Fail e, cp)
      | Panic \<Rightarrow> (Panic, cp)
      | Hang \<Rightarrow> (Hang, cp))"

definition resolve_placement ::
  "placement_env \<Rightarrow> node_class_spec \<Rightarrow> placement_state
    \<Rightarrow> (err, located_result option \<times> located_result list option) go \<times> placement_state" where
  "resolve_placement env spec s =
     (let (cluster, s1) =
            (case ncs_cluster spec of
               None \<Rightarrow> (Ok None, s)
             | Some k \<Rightarrow>
                 (let (r, p) = resolve_cluster (penv_cluster env) (penv_now env) (Some k) (pst_cluster s)
                  in (map_ok Some r, s\<lparr>pst_cluster := p\<rparr>)))
      in (case cluster of
            Ok c \<Rightarrow>
              (if 0 < length (ncs_cpgs spec)
               then (case resolve_cpgs (penv_cpg env) (penv_now env) (ncs_cpgs spec) (pst_cpg s1) of
                       (Ok (gs, None), p) \<Rightarrow> (Ok (c, Some gs), s1\<lparr>pst_cpg := p\<rparr>)
                     | (Ok (gs, Some e), p) \<Rightarrow> (Fail e, s1\<lparr>pst_cpg := p\<rparr>)
                     | (Fail e, p) \<Rightarrow> (Fail e, s1\<lparr>pst_cpg := p\<rparr>)
                     | (Panic, p) \<Rightarrow> (Panic, s1\<lparr>pst_cpg := p\<rparr>)
                     | (Hang, p) \<Rightarrow> (Hang, s1\<lparr>pst_cpg := p\<rparr>))
               else (Ok (c, None), s1))
          | Fail e \<Rightarrow> (Fail e, s1)
          | Panic \<Rightarrow> (Panic, s1)
          | Hang \<Rightarrow> (Hang, s1)))"

definition eligible_offerings :: "placement_env \<Rightarrow> node_claim \<Rightarrow> oci_instance_type \<Rightarrow> offering list" where
  "eligible_offerings env claim it =
     filter (penv_compat env (nc_reqs claim)) (available_offerings (it_offerings it))"

definition find_summary :: "string \<Rightarrow> placement_state \<Rightarrow> summary" where
  "find_summary pool s = (case pst_pools s pool of Some a \<Rightarrow> a | None \<Rightarrow> new_ad_fd_summary)"

definition place_instance ::
  "placement_env \<Rightarrow> node_claim \<Rightarrow> node_class_spec \<Rightarrow> oci_instance_type
    \<Rightarrow> (proposal \<Rightarrow> 'w \<Rightarrow> (err, unit) go \<times> 'w) \<Rightarrow> placement_state \<Rightarrow> 'w \<Rightarrow> (err, unit) go \<times> placement_state \<times> 'w" where
  "place_instance env claim spec it placeFunc s w =
     (let eligible = eligible_offerings env claim it
      in if length eligible = 0 then (Fail (ErrText ''no compatible offering''), s, w)
         else
           (case resolve_placement env spec s of
              (Ok (cluster, cpgs), s1) \<Rightarrow>
                (case all_proposals (proposal_of env claim) (decorate env spec it cluster cpgs) eligible
                        (pst_capres s1) of
                   (Ok ps, cp) \<Rightarrow>
                     (let pool = from_ptr [] (map_of (nc_labels claim) NodePoolLabelKey);
                          (r, a, w1) = place_loop (max 1 (length ps)) (penv_sort env) placeFunc it ps
                                         (find_summary pool s1) w
                      in (r, s1\<lparr>pst_capres := cp, pst_pools := (pst_pools s1)(pool \<mapsto> a)\<rparr>, w1))
                 | (Fail e, cp) \<Rightarrow> (Fail e, s1\<lparr>pst_capres := cp\<rparr>, w)
                 | (Panic, cp) \<Rightarrow> (Panic, s1\<lparr>pst_capres := cp\<rparr>, w)
                 | (Hang, cp) \<Rightarrow> (Hang, s1\<lparr>pst_capres := cp\<rparr>, w))
            | (Fail e, s1) \<Rightarrow> (Fail e, s1, w)
            | (Panic, s1) \<Rightarrow> (Panic, s1, w)
            | (Hang, s1) \<Rightarrow> (Hang, s1, w)))"

subsection \<open>What the provider is told\<close>

definition instance_found ::
  "string \<Rightarrow> oci_instance option \<Rightarrow> placement_state \<Rightarrow> (err, placement_state) go" where
  "instance_found pool i s =
     map_ok (\<lambda>a. s\<lparr>pst_pools := (pst_pools s)(pool \<mapsto> a)\<rparr>) (summary_update i (find_summary pool s))"

definition instance_forget :: "string \<Rightarrow> string \<Rightarrow> placement_state \<Rightarrow> placement_state" where
  "instance_forget pool instanceId s =
     s\<lparr>pst_pools := (pst_pools s)(pool \<mapsto> summary_forget instanceId (find_summary pool s))\<rparr>"

subsection \<open>The register\<close>

text \<open>A register keeps the first entry of a key until the key is forgotten.\<close>

locale register =
  fixes known :: "'s \<Rightarrow> 'k \<Rightarrow> 'v option"
    and enter :: "'k \<Rightarrow> 'v \<Rightarrow> 's \<Rightarrow> 's"
    and forget :: "'k \<Rightarrow> 's \<Rightarrow> 's"
  assumes known_enter: "known (enter k v s) k' =
      (if k' = k \<and> known s k = None then Some v else known s k')"
    and known_forget: "known (forget k s) k' = (if k' = k then None else known s k')"
begin

lemma forget_enter: "known s k = None \<Longrightarrow> known (forget k (enter k v s)) = known s"
  by (auto simp: known_enter known_forget)

lemma enter_twice: "known (enter k w (enter k v s)) = known (enter k v s)"
  by (auto simp: known_enter)

lemma forget_all: "known (fold forget ks s) k' = (if k' \<in> set ks then None else known s k')"
  by (induction ks arbitrary: s) (auto simp: known_forget)

end

lemma summary_update_by_eq:
  "summary_update_by k ad fd sh cr o' m a =
     (if map_of a k = None
      then (k, \<lparr>isum_ad = ad, isum_fd = fd, isum_shape = sh, isum_capres = cr, isum_ocpu = o', isum_memory = m\<rparr>) # a
      else a)"
  by (auto simp: summary_update_by_def split: option.splits)

lemma map_of_summary_forget: "map_of (summary_forget k a) k' = (if k' = k then None else map_of a k')"
  by (induction a) (auto simp: summary_forget_def)

interpretation pool_register: register map_of
  "\<lambda>k v. summary_update_by k (isum_ad v) (isum_fd v) (isum_shape v) (isum_capres v) (isum_ocpu v) (isum_memory v)"
  summary_forget
  by unfold_locales (auto simp: summary_update_by_eq map_of_summary_forget)

lemma summary_forget_fresh: "map_of a k = None \<Longrightarrow> summary_forget k a = a"
  by (induction a) (auto simp: summary_forget_def split: if_splits)

lemma forget_temp:
  "map_of a k = None \<Longrightarrow> summary_forget k (summary_update_by k ad fd sh cr o' m a) = a"
  by (simp add: summary_update_by_eq summary_forget_fresh) (simp add: summary_forget_def summary_forget_fresh [unfolded summary_forget_def])

subsection \<open>The loop over the proposals\<close>

definition load_of :: "summary \<Rightarrow> proposal \<Rightarrow> nat" where
  "load_of a p = instance_count a (prop_ad p) (prop_fd p)"

text \<open>A launch whose outcome depends on the proposal only, and that records what was tried.\<close>

definition launch_with :: "(proposal \<Rightarrow> err option) \<Rightarrow> proposal \<Rightarrow> proposal list \<Rightarrow> (err, unit) go \<times> proposal list" where
  "launch_with f pr tried = ((case f pr of None \<Rightarrow> Ok () | Some e \<Rightarrow> Fail e), tried @ [pr])"

lemma propose_nonempty:
  assumes "slice_sort sorter" "ps \<noteq> []"
  obtains p qs where "mset ps = add_mset p (mset qs)"
    and "\<And>q. q \<in> set ps \<Longrightarrow> load_of a p \<le> load_of a q"
    and "propose sorter ps sh o' m a = (Some p, p # qs,
       summary_update_by (prop_temp p) (prop_ad p) (from_ptr [] (prop_fd p)) sh (prop_capres p) o' m a)"
proof -
  let ?f = "\<lambda>p. instance_count a (prop_ad p) (prop_fd p)"
  let ?s = "sorter ?f ps"
  have len: "length ?s = length ps" by (rule slice_sort.sort_length [OF assms(1)])
  then obtain p qs where pq: "?s = p # qs" using assms(2) by (cases ?s) auto
  have "mset ?s = mset ps" by (rule slice_sort.sort_mset [OF assms(1)])
  then have "mset ps = add_mset p (mset qs)" using pq by simp
  moreover have "load_of a p \<le> load_of a q" if "q \<in> set ps" for q
    using slice_sort.sort_hd_least(2) [OF assms(1,2) that, of ?f] pq by (simp add: load_of_def)
  moreover have "propose sorter ps sh o' m a = (Some p, p # qs,
       summary_update_by (prop_temp p) (prop_ad p) (from_ptr [] (prop_fd p)) sh (prop_capres p) o' m a)"
    using assms(2) pq by (simp add: propose_def Let_def)
  ultimately show thesis by (rule that)
qed

definition tried_run :: "(proposal \<Rightarrow> err option) \<Rightarrow> proposal list \<Rightarrow> proposal list \<Rightarrow> (err, unit) go \<Rightarrow> bool" where
  "tried_run f ps tried r \<longleftrightarrow>
     tried \<noteq> [] \<and> mset tried \<subseteq># mset ps \<and> (\<forall>p \<in> set (butlast tried). f p \<noteq> None)
   \<and> (case f (last tried) of
        None \<Rightarrow> r = Ok ()
      | Some e \<Rightarrow> r = Fail e \<and> mset tried = mset ps)"

lemma tried_run_Cons:
  assumes "mset ps = add_mset p (mset qs)" "f p \<noteq> None" "tried_run f qs tried r"
  shows "tried_run f ps (p # tried) r"
  using assms by (auto simp: tried_run_def split: option.splits)

lemma place_loop_tries:
  assumes "slice_sort sorter" "ps \<noteq> []" "length ps \<le> n"
  shows "\<exists>r a' tried. place_loop n sorter (launch_with f) it ps a w = (r, a', w @ tried)
    \<and> tried_run f ps tried r \<and> (\<forall>q \<in> set ps. load_of a (hd tried) \<le> load_of a q)"
  using assms(2,3)
proof (induction n arbitrary: ps a w)
  case (Suc n)
  obtain p qs where pq: "mset ps = add_mset p (mset qs)"
    and least: "\<And>q. q \<in> set ps \<Longrightarrow> load_of a p \<le> load_of a q"
    and pr: "propose sorter ps (it_shape it) (it_ocpu it) (it_memory it) a = (Some p, p # qs,
       summary_update_by (prop_temp p) (prop_ad p) (from_ptr [] (prop_fd p)) (it_shape it)
         (prop_capres p) (it_ocpu it) (it_memory it) a)"
    by (rule propose_nonempty [OF assms(1) Suc.prems(1)]) blast
  define a1 where "a1 = summary_forget (prop_temp p)
       (summary_update_by (prop_temp p) (prop_ad p) (from_ptr [] (prop_fd p)) (it_shape it)
         (prop_capres p) (it_ocpu it) (it_memory it) a)"
  show ?case
  proof (cases "f p")
    case None
    have "place_loop (Suc n) sorter (launch_with f) it ps a w = (Ok (), a1, w @ [p])"
      using pr None by (simp add: launch_with_def a1_def)
    moreover have "tried_run f ps [p] (Ok ())" using None pq by (simp add: tried_run_def)
    ultimately show ?thesis using least by (intro exI [of _ "Ok ()"] exI [of _ a1] exI [of _ "[p]"]) simp
  next
    case (Some e)
    have len: "length ps = Suc (length qs)" using pq by (metis size_add_mset size_mset)
    show ?thesis
    proof (cases "qs = []")
      case True
      have "place_loop (Suc n) sorter (launch_with f) it ps a w = (Fail e, a1, w @ [p])"
        using pr Some True by (simp add: launch_with_def a1_def)
      moreover have "tried_run f ps [p] (Fail e)" using Some pq True by (simp add: tried_run_def)
      ultimately show ?thesis using least by (intro exI [of _ "Fail e"] exI [of _ a1] exI [of _ "[p]"]) simp
    next
      case False
      then have "length qs \<le> n" "qs \<noteq> []" using len Suc.prems(2) by auto
      from Suc.IH [OF this(2,1), of a1 "w @ [p]"] obtain r a' tried where
        rec: "place_loop n sorter (launch_with f) it qs a1 (w @ [p]) = (r, a', (w @ [p]) @ tried)"
          "tried_run f qs tried r" by blast
      have "place_loop (Suc n) sorter (launch_with f) it ps a w = (r, a', w @ (p # tried))"
        using pr Some False rec(1) by (simp add: launch_with_def a1_def)
      moreover have "tried_run f ps (p # tried) r" using pq Some rec(2) by (intro tried_run_Cons) auto
      ultimately show ?thesis using least
        by (intro exI [of _ r] exI [of _ a'] exI [of _ "p # tried"]) simp
    qed
  qed
qed simp

text \<open>
  C25. What the placement loop does with the proposals it has, for any outcome of the launches: it
  tries some of them, each at most once, the first being one whose domain holds the fewest
  instances of the pool; it goes on after a failure and stops at the first success; it succeeds
  exactly when some proposal would launch, and otherwise has tried all of them and returns the
  error of the last.
\<close>

theorem place_loop_complete:
  assumes sorter: "slice_sort sorter" and ps: "ps \<noteq> []"
  shows "\<exists>r a' tried.
    place_loop (length ps) sorter (launch_with f) it ps a [] = (r, a', tried)
    \<and> tried_run f ps tried r
    \<and> (\<forall>q \<in> set ps. load_of a (hd tried) \<le> load_of a q)
    \<and> (r = Ok () \<longleftrightarrow> (\<exists>p \<in> set ps. f p = None))"
proof -
  obtain r a' tried where t: "place_loop (length ps) sorter (launch_with f) it ps a [] = (r, a', tried)"
    "tried_run f ps tried r" "\<forall>q \<in> set ps. load_of a (hd tried) \<le> load_of a q"
    using place_loop_tries [OF sorter ps, of "length ps" f it a "[]"] by auto
  have sub: "set tried \<subseteq> set ps" "tried \<noteq> []"
    using t(2) set_mset_mono [of "mset tried" "mset ps"] by (simp_all add: tried_run_def)
  have "r = Ok () \<longleftrightarrow> (\<exists>p \<in> set ps. f p = None)"
  proof (cases "f (last tried)")
    case None
    moreover have "last tried \<in> set ps" using sub last_in_set [OF sub(2)] by blast
    ultimately have "\<exists>p \<in> set ps. f p = None" by blast
    then show ?thesis using t(2) None by (simp add: tried_run_def)
  next
    case (Some e)
    with t(2) have r: "r = Fail e" "set ps = set tried"
      by (auto simp: tried_run_def dest: mset_eq_setD)
    have "f p \<noteq> None" if "p \<in> set tried" for p
    proof -
      have "tried = butlast tried @ [last tried]" using sub(2) by simp
      with that have "p \<in> set (butlast tried) \<or> p = last tried"
        by (metis Un_iff empty_iff empty_set insert_iff list.simps(15) set_append)
      then show ?thesis using Some t(2) by (auto simp: tried_run_def)
    qed
    with r show ?thesis by auto
  qed
  with t show ?thesis by blast
qed

text \<open>A pool with two instances in the first domain: the second is tried first, then the first.\<close>

definition plain_proposal :: "string \<Rightarrow> proposal" where
  "plain_proposal ad = \<lparr>prop_temp = ''claim'', prop_ad = ad, prop_fd = None, prop_capres = None,
     prop_cluster = None, prop_cpg = None\<rparr>"

definition plain_pool :: summary where
  "plain_pool = summary_update_by ''i1'' ''AD-1'' ''FD-1'' ''VM'' None None None
     (summary_update_by ''i2'' ''AD-1'' ''FD-2'' ''VM'' None None None new_ad_fd_summary)"

theorem place_loop_complete_witness:
  "let ps = [plain_proposal ''AD-1'', plain_proposal ''AD-2''];
       f = (\<lambda>p. if prop_ad p = ''AD-2'' then Some NoCapacityError else None)
   in \<exists>r a' tried. place_loop (length ps) slice_stable (launch_with f) plain_type ps plain_pool [] = (r, a', tried)
        \<and> r = Ok ()"
proof -
  let ?ps = "[plain_proposal ''AD-1'', plain_proposal ''AD-2'']"
  let ?f = "\<lambda>p. if prop_ad p = ''AD-2'' then Some NoCapacityError else None"
  have "?ps \<noteq> []" by simp
  from place_loop_complete [OF stable.slice_sort_axioms this, of ?f plain_type plain_pool]
  obtain r a' tried where
    "place_loop (length ?ps) slice_stable (launch_with ?f) plain_type ?ps plain_pool [] = (r, a', tried)"
    "r = Ok () \<longleftrightarrow> (\<exists>p \<in> set ?ps. ?f p = None)" by blast
  then show ?thesis by (simp add: plain_proposal_def)
qed

text \<open>
  Whatever the launches do, the loop leaves the register of the pool as it found it: the entry
  a proposal makes under the name of the claim is removed before the next is tried, provided that
  the name is not the OCID of an instance in the register and the launch returns.
\<close>

lemma place_loop_restores:
  assumes "slice_sort sorter"
    and "ps \<noteq> []" "length ps \<le> n" "\<forall>p \<in> set ps. map_of a (prop_temp p) = None"
    and "place_loop n sorter placeFunc it ps a w = (r, a', w')" "r \<noteq> Hang"
  shows "a' = a"
  using assms(2-)
proof (induction n arbitrary: ps w)
  case (Suc n)
  obtain p qs where pq: "mset ps = add_mset p (mset qs)"
    and pr: "propose sorter ps (it_shape it) (it_ocpu it) (it_memory it) a = (Some p, p # qs,
       summary_update_by (prop_temp p) (prop_ad p) (from_ptr [] (prop_fd p)) (it_shape it)
         (prop_capres p) (it_ocpu it) (it_memory it) a)"
    by (rule propose_nonempty [OF assms(1) Suc.prems(1)]) blast
  have set_ps: "set ps = insert p (set qs)" using pq by (metis set_mset_add_mset_insert set_mset_mset)
  have len: "length ps = Suc (length qs)" using pq by (metis size_add_mset size_mset)
  have undo: "summary_forget (prop_temp p)
       (summary_update_by (prop_temp p) (prop_ad p) (from_ptr [] (prop_fd p)) (it_shape it)
         (prop_capres p) (it_ocpu it) (it_memory it) a) = a"
    using Suc.prems(3) set_ps by (simp add: forget_temp)
  obtain q w1 where q: "placeFunc p w = (q, w1)" by (cases "placeFunc p w")
  show ?case
  proof (cases "\<exists>e. q = Fail e \<and> qs \<noteq> []")
    case True
    then obtain e where e: "q = Fail e" "qs \<noteq> []" by blast
    have "place_loop n sorter placeFunc it qs a w1 = (r, a', w')"
      using Suc.prems(4) pr q e undo by simp
    moreover have "length qs \<le> n" using len Suc.prems(2) by simp
    moreover have "\<forall>p \<in> set qs. map_of a (prop_temp p) = None" using Suc.prems(3) set_ps by auto
    ultimately show ?thesis using Suc.IH [of qs w1] e(2) Suc.prems(5) by blast
  next
    case False
    then show ?thesis using Suc.prems(4,5) pr q undo by (cases q) (auto split: if_splits)
  qed
qed simp

subsection \<open>What decoration does\<close>

text \<open>
  An offering is a reserved one when it asks for a reservation by its label.  A launch is in the
  fault domain the claim asks for, or else in the one its reserved offering names.
\<close>

definition asks_reservation :: "offering \<Rightarrow> bool" where
  "asks_reservation ofr \<longleftrightarrow> (\<exists>r. map_of (off_reqs ofr) ReservationIDLabel = Some r \<and> req_is_in r)"

definition launch_fd :: "any_value \<Rightarrow> node_claim \<Rightarrow> offering \<Rightarrow> string option" where
  "launch_fd kany claim ofr =
     (case List.find (\<lambda>r. nreq_key r = OciFaultDomain) (nc_reqs claim) of
        Some r \<Rightarrow> Some (hd (nreq_values r))
      | None \<Rightarrow> if asks_reservation ofr then map_option kany (map_of (off_reqs ofr) OciFaultDomain) else None)"

text \<open>
  What a reservation holds of a shape in a fault domain: the entries that match, added up.
\<close>

definition entries_for :: "oci_instance_type \<Rightarrow> string \<Rightarrow> resolve_result \<Rightarrow> shape_availability list" where
  "entries_for it fd rr =
     filter (\<lambda>sa. avail_matches (key_of_shape (it_shape it) (it_ocpu it) (it_memory it)) (it_shape it)
          (it_shape_config it) sa \<and> from_ptr [] (sa_fd sa) = fd) (rr_avail rr)"

text \<open>
  The reservations of the node class are looked up anew for every proposal, each time with the
  caches the previous lookup left.
\<close>

definition capres_turn :: "placement_env \<Rightarrow> node_class_spec \<Rightarrow> capres_provider \<Rightarrow> capres_provider" where
  "capres_turn env spec cp =
     snd (resolve_capacity_reservations (penv_capres env) (penv_now env) (ncs_capres spec) cp)"

definition looked_up :: "placement_env \<Rightarrow> node_class_spec \<Rightarrow> capres_provider \<Rightarrow> resolve_result list \<Rightarrow> bool" where
  "looked_up env spec cp rrs \<longleftrightarrow>
     (\<exists>n e cp'. resolve_capacity_reservations (penv_capres env) (penv_now env) (ncs_capres spec)
                  ((capres_turn env spec ^^ n) cp) = (Ok (rrs, e), cp'))"

text \<open>
  The rules of placement, for a launch \<open>q\<close> and the offering it is for.  A reserved offering is
  launched in the reservation with its label, one the node class names and that has room left for
  the shape in the fault domain, and in nothing else.  Any other is launched in the compute cluster
  of the node class, which must be in its domain, or else in a placement group of its domain.
\<close>

definition placed_by ::
  "placement_env \<Rightarrow> node_claim \<Rightarrow> node_class_spec \<Rightarrow> oci_instance_type \<Rightarrow> capres_provider
    \<Rightarrow> located_result option \<Rightarrow> located_result list option \<Rightarrow> offering \<Rightarrow> proposal \<Rightarrow> bool" where
  "placed_by env claim spec it cp cluster cpgs ofr q \<longleftrightarrow>
     prop_temp q = nc_name claim
   \<and> prop_ad q = zone_to_ad (off_zone (penv_any env) ofr) (penv_prefix env)
   \<and> prop_fd q = launch_fd (penv_any env) claim ofr
   \<and> (if asks_reservation ofr
      then prop_cluster q = None \<and> prop_cpg q = None
        \<and> (\<exists>rrs rr. looked_up env spec cp rrs \<and> rr \<in> set rrs \<and> prop_capres q = Some (rr_ocid rr)
             \<and> ocid_to_label_value (rr_ocid rr) = off_reservation (penv_any env) ofr
             \<and> sum_list (map sa_used (entries_for it (from_ptr [] (prop_fd q)) rr))
                 < sum_list (map sa_total (entries_for it (from_ptr [] (prop_fd q)) rr)))
      else prop_capres q = None
        \<and> (case cluster of
             Some c \<Rightarrow> prop_cluster q = Some (lres_ocid c) \<and> lres_ad c = prop_ad q \<and> prop_cpg q = None
           | None \<Rightarrow> prop_cluster q = None
               \<and> (case cpgs of
                    None \<Rightarrow> prop_cpg q = None
                  | Some gs \<Rightarrow> \<exists>g \<in> set gs. prop_cpg q = Some (lres_ocid g) \<and> lres_ad g = prop_ad q)))"

lemma find_SomeD: "List.find P xs = Some x \<Longrightarrow> x \<in> set xs \<and> P x"
  by (induction xs) (auto split: if_splits)

lemma decorate_capres_elem:
  "q \<in> set (decorate_capres rrs it label pr) \<Longrightarrow>
   \<exists>rr av. rr \<in> set rrs \<and> ocid_to_label_value (rr_ocid rr) = label
     \<and> map_of (availability_for_shape rr (it_shape it) (it_ocpu it) (it_memory it) (it_shape_config it))
         (from_ptr [] (prop_fd pr)) = Some av
     \<and> sa_used av < sa_total av \<and> q = pr\<lparr>prop_capres := Some (rr_ocid rr)\<rparr>"
  unfolding decorate_capres_def
  by (cases "List.find (\<lambda>rr. ocid_to_label_value (rr_ocid rr) = label) rrs")
     (auto dest!: find_SomeD split: option.splits if_splits, metis)

lemma decorate_capres_temp: "q \<in> set (decorate_capres rrs it label pr) \<Longrightarrow> prop_temp q = prop_temp pr"
  by (drule decorate_capres_elem) auto

lemma availability_sums:
  "map_option (\<lambda>v. (sa_used v, sa_total v))
       (map_of (fold (add_availability (it_shape it) (it_ocpu it) (it_memory it) (it_shape_config it)) sas out) fd) =
     (let es = filter (\<lambda>sa. avail_matches (key_of_shape (it_shape it) (it_ocpu it) (it_memory it)) (it_shape it)
                  (it_shape_config it) sa \<and> from_ptr [] (sa_fd sa) = fd) sas;
          add = \<lambda>(u, t). (u + sum_list (map sa_used es), t + sum_list (map sa_total es))
      in case map_of out fd of
           Some v \<Rightarrow> Some (add (sa_used v, sa_total v))
         | None \<Rightarrow> if es = [] then None else Some (add (0, 0)))"
proof (induction sas arbitrary: out)
  case (Cons sa sas)
  show ?case unfolding fold_Cons o_apply Cons.IH
    by (auto simp: add_availability_def update_conv' Let_def split: option.splits)
qed (auto split: option.splits)

lemma availability_entries:
  assumes "map_of (availability_for_shape rr (it_shape it) (it_ocpu it) (it_memory it) (it_shape_config it)) fd = Some av"
  shows "sa_used av = sum_list (map sa_used (entries_for it fd rr))"
    "sa_total av = sum_list (map sa_total (entries_for it fd rr))"
  using availability_sums [of it "rr_avail rr" "[]" fd] assms
  by (auto simp: availability_for_shape_def entries_for_def Let_def split: if_splits)

lemma proposal_of_fields:
  assumes "proposal_of env claim ofr = Ok pr"
  shows "prop_temp pr = nc_name claim" "prop_cluster pr = None" "prop_cpg pr = None"
    "prop_ad pr = zone_to_ad (off_zone (penv_any env) ofr) (penv_prefix env)"
    "prop_fd pr = launch_fd (penv_any env) claim ofr"
    "prop_capres pr = (if asks_reservation ofr then Some (off_reservation (penv_any env) ofr) else None)"
proof -
  have r: "(req_has (off_reqs ofr) ReservationIDLabel \<and> req_is_in (req_get (off_reqs ofr) ReservationIDLabel)) =
      asks_reservation ofr"
    by (auto simp: req_has_def req_get_def asks_reservation_def)
  have fd: "req_has (off_reqs ofr) OciFaultDomain \<Longrightarrow>
      Some (penv_any env (req_get (off_reqs ofr) OciFaultDomain)) = map_option (penv_any env) (map_of (off_reqs ofr) OciFaultDomain)"
    "\<not> req_has (off_reqs ofr) OciFaultDomain \<Longrightarrow> map_of (off_reqs ofr) OciFaultDomain = None"
    by (auto simp: req_has_def req_get_def)
  have i: "index_go xs 0 = Ok x \<Longrightarrow> x = hd xs" for xs :: "string list" and x
    by (cases xs) (auto simp: index_go_def)
  show "prop_temp pr = nc_name claim" "prop_cluster pr = None" "prop_cpg pr = None"
    "prop_ad pr = zone_to_ad (off_zone (penv_any env) ofr) (penv_prefix env)"
    "prop_fd pr = launch_fd (penv_any env) claim ofr"
    "prop_capres pr = (if asks_reservation ofr then Some (off_reservation (penv_any env) ofr) else None)"
    using assms fd by (auto simp: proposal_of_def Let_def go_simps r launch_fd_def split: option.splits dest!: i)
qed

lemma decorate_reserved:
  assumes "decorate env spec it cluster cpgs pr cp = (Ok ps, cp')" "q \<in> set ps" "prop_capres pr = Some label"
  shows "\<exists>rrs e rr. resolve_capacity_reservations (penv_capres env) (penv_now env) (ncs_capres spec) cp = (Ok (rrs, e), cp')
    \<and> rr \<in> set rrs \<and> q = pr\<lparr>prop_capres := Some (rr_ocid rr)\<rparr> \<and> ocid_to_label_value (rr_ocid rr) = label
    \<and> sum_list (map sa_used (entries_for it (from_ptr [] (prop_fd pr)) rr))
        < sum_list (map sa_total (entries_for it (from_ptr [] (prop_fd pr)) rr))"
proof -
  from assms obtain rrs e where r:
    "resolve_capacity_reservations (penv_capres env) (penv_now env) (ncs_capres spec) cp = (Ok (rrs, e), cp')"
    "q \<in> set (decorate_capres rrs it label pr)"
    by (auto simp: decorate_def go_simps split: if_splits prod.splits)
  from decorate_capres_elem [OF r(2)] availability_entries r(1) show ?thesis by (metis (no_types, lifting))
qed

lemma decorate_placed:
  assumes d: "decorate env spec it cluster cpgs pr cp = (Ok ps, cp')" "q \<in> set ps"
    and p: "proposal_of env claim ofr = Ok pr"
    and cp: "cp = (capres_turn env spec ^^ n) cp0"
  shows "placed_by env claim spec it cp0 cluster cpgs ofr q"
proof (cases "asks_reservation ofr")
  case True
  with proposal_of_fields [OF p] have "prop_capres pr = Some (off_reservation (penv_any env) ofr)" by simp
  from decorate_reserved [OF d this] obtain rrs e rr where
    l: "resolve_capacity_reservations (penv_capres env) (penv_now env) (ncs_capres spec) cp = (Ok (rrs, e), cp')" and
    q: "rr \<in> set rrs" "q = pr\<lparr>prop_capres := Some (rr_ocid rr)\<rparr>"
      "ocid_to_label_value (rr_ocid rr) = off_reservation (penv_any env) ofr"
      "sum_list (map sa_used (entries_for it (from_ptr [] (prop_fd pr)) rr))
        < sum_list (map sa_total (entries_for it (from_ptr [] (prop_fd pr)) rr))" by blast
  have "looked_up env spec cp0 rrs" using l unfolding looked_up_def cp by blast
  with q True proposal_of_fields [OF p] show ?thesis
    by (auto simp: placed_by_def intro!: exI [of _ rrs] exI [of _ rr])
next
  case False
  with proposal_of_fields [OF p] d show ?thesis
    by (cases cluster; cases cpgs) (auto simp: placed_by_def decorate_def split: if_splits, rule bexI, simp_all)
qed

lemma decorate_turn:
  assumes "decorate env spec it cluster cpgs pr cp = (r, cp')"
  shows "cp' = cp \<or> cp' = capres_turn env spec cp"
  using assms by (auto simp: decorate_def capres_turn_def split: if_splits option.splits prod.splits)

lemma all_proposals_elem:
  assumes "all_proposals mk dec ofrs cp = (Ok ps, cp')" "q \<in> set ps"
    and turn: "\<And>pr c r c'. dec pr c = (r, c') \<Longrightarrow> c' = c \<or> c' = f c"
  shows "\<exists>ofr pr n c' l. ofr \<in> set ofrs \<and> mk ofr = Ok pr \<and> dec pr ((f ^^ n) cp) = (Ok l, c') \<and> q \<in> set l"
  using assms(1,2)
proof (induction ofrs arbitrary: ps cp)
  case (Cons ofr ofrs)
  from Cons.prems(1) obtain pr l c1 qs where s: "mk ofr = Ok pr" "dec pr cp = (Ok l, c1)"
    "all_proposals mk dec ofrs c1 = (Ok qs, cp')" "ps = l @ qs"
    by (auto simp: go_simps split: go.splits prod.splits)
  show ?case
  proof (cases "q \<in> set l")
    case True
    with s(1,2) show ?thesis by (intro exI [of _ ofr] exI [of _ pr] exI [of _ 0]) auto
  next
    case False
    with s(4) Cons.prems(2) have "q \<in> set qs" by simp
    from Cons.IH [OF s(3) this] obtain ofr' pr' n c' l' where
      i: "ofr' \<in> set ofrs" "mk ofr' = Ok pr'" "dec pr' ((f ^^ n) c1) = (Ok l', c')" "q \<in> set l'" by blast
    from turn [OF s(2)] have "\<exists>k. (f ^^ n) c1 = (f ^^ k) cp"
      by (auto intro: exI [of _ n] exI [of _ "Suc n"] simp: funpow_swap1)
    with i show ?thesis by (metis list.set_intros(2))
  qed
qed simp

text \<open>The proposals for a claim, after decoration.\<close>

definition claim_proposals ::
  "placement_env \<Rightarrow> node_claim \<Rightarrow> node_class_spec \<Rightarrow> oci_instance_type \<Rightarrow> located_result option
    \<Rightarrow> located_result list option \<Rightarrow> capres_provider \<Rightarrow> (err, proposal list) go \<times> capres_provider" where
  "claim_proposals env claim spec it cluster cpgs =
     all_proposals (proposal_of env claim) (decorate env spec it cluster cpgs) (eligible_offerings env claim it)"

lemma claim_proposals_placed:
  assumes "claim_proposals env claim spec it cluster cpgs cp = (Ok ps, cp')" "q \<in> set ps"
  shows "\<exists>ofr \<in> set (eligible_offerings env claim it). placed_by env claim spec it cp cluster cpgs ofr q"
proof -
  obtain ofr pr n c' l where e: "ofr \<in> set (eligible_offerings env claim it)" "proposal_of env claim ofr = Ok pr"
    "decorate env spec it cluster cpgs pr ((capres_turn env spec ^^ n) cp) = (Ok l, c')" "q \<in> set l"
    using all_proposals_elem [OF assms [unfolded claim_proposals_def], of "capres_turn env spec"] decorate_turn
    by blast
  from decorate_placed [OF e(3,4,2) refl] e(1) show ?thesis by blast
qed

lemma claim_proposals_temp:
  assumes "claim_proposals env claim spec it cluster cpgs cp = (Ok ps, cp')" "q \<in> set ps"
  shows "prop_temp q = nc_name claim"
  using claim_proposals_placed [OF assms] by (auto simp: placed_by_def)

lemma resolve_placement_given:
  assumes "resolve_placement env spec s = (Ok (cluster, cpgs), s1)"
  shows "pst_capres s1 = pst_capres s" "cluster = None \<longleftrightarrow> ncs_cluster spec = None" "cpgs = None \<longleftrightarrow> ncs_cpgs spec = []"
  using assms by (auto simp: resolve_placement_def go_simps Let_def split: go.splits prod.splits option.splits if_splits)

lemma place_instance_cases:
  assumes "place_instance env claim spec it placeFunc s w = (r, s', w')"
  obtains (none) "w' = w" "pst_pools s' = pst_pools s"
  | (run) cluster cpgs s1 cp ps a where
      "resolve_placement env spec s = (Ok (cluster, cpgs), s1)"
      "claim_proposals env claim spec it cluster cpgs (pst_capres s1) = (Ok ps, cp)"
      "place_loop (max 1 (length ps)) (penv_sort env) placeFunc it ps
         (find_summary (from_ptr [] (map_of (nc_labels claim) NodePoolLabelKey)) s1) w = (r, a, w')"
      "s' = s1\<lparr>pst_capres := cp, pst_pools := (pst_pools s1)
         (from_ptr [] (map_of (nc_labels claim) NodePoolLabelKey) \<mapsto> a)\<rparr>"
proof -
  have pools: "pst_pools (snd (resolve_placement env spec s)) = pst_pools s"
    by (auto simp: resolve_placement_def Let_def split: go.splits prod.splits option.splits)
  obtain q s1 where q: "resolve_placement env spec s = (q, s1)"
    by (cases "resolve_placement env spec s")
  show thesis
  proof (cases "eligible_offerings env claim it = []")
    case True
    with assms show thesis by (intro none) (auto simp: place_instance_def)
  next
    case False
    show thesis
    proof (cases q)
      case (Ok cc)
      obtain cluster cpgs where cc: "cc = (cluster, cpgs)" by (cases cc)
      obtain qp cp where p: "claim_proposals env claim spec it cluster cpgs (pst_capres s1) = (qp, cp)"
        by (cases "claim_proposals env claim spec it cluster cpgs (pst_capres s1)")
      show thesis
      proof (cases qp)
        case (Ok ps)
        obtain r' a' w1 where l: "place_loop (max 1 (length ps)) (penv_sort env) placeFunc it ps
          (find_summary (from_ptr [] (map_of (nc_labels claim) NodePoolLabelKey)) s1) w = (r', a', w1)"
          by (cases "place_loop (max 1 (length ps)) (penv_sort env) placeFunc it ps
            (find_summary (from_ptr [] (map_of (nc_labels claim) NodePoolLabelKey)) s1) w")
        show thesis
          using assms q p l cc Ok \<open>q = Ok cc\<close> False
          by (intro run [of cluster cpgs s1 ps cp a'])
             (auto simp: place_instance_def claim_proposals_def Let_def)
      qed (use assms q p cc \<open>q = Ok cc\<close> False pools in
            \<open>auto simp: place_instance_def claim_proposals_def Let_def intro!: none\<close>)
    qed (use assms q False pools in \<open>auto simp: place_instance_def Let_def intro!: none\<close>)
  qed
qed

lemma place_loop_nil: "place_loop (Suc n) sorter placeFunc it [] a w = (Panic, a, w)"
  by (simp add: propose_def)

lemma run_tries_proposals:
  assumes "slice_sort sorter"
    and "place_loop (max 1 (length ps)) sorter (launch_with f) it ps a [] = (r, a', tried)"
  shows "set tried \<subseteq> set ps"
proof (cases "ps = []")
  case True
  with assms(2) show ?thesis by (simp add: place_loop_nil del: place_loop.simps)
next
  case False
  then have "max 1 (length ps) = length ps" by (cases ps) auto
  with place_loop_tries [OF assms(1) False order_refl, of f it a "[]"] assms(2)
  have "tried_run f ps tried r" by auto
  then have "mset tried \<subseteq># mset ps" by (simp add: tried_run_def)
  from set_mset_mono [OF this] show ?thesis by simp
qed

text \<open>
  C24. Every launch that placing a claim tries is one the rules of placement allow: it is in the
  domain of an offering of the instance type that is available and fits the claim, carries the
  name of the claim and is in the fault domain the claim or its reserved offering asks for.  For a
  reserved offering it uses the reservation with the label of that offering, which the lookup of
  the reservations of the node class returned and which has fewer instances of the shape in that
  fault domain than it holds, and nothing else.  For any other offering it uses no reservation, but
  the compute cluster of the node class if that names one, in whose domain it is, or else one of
  the placement groups of its domain if the node class names any.
\<close>

theorem place_instance_follows_rules:
  assumes "slice_sort (penv_sort env)"
    and "place_instance env claim spec it (launch_with f) s [] = (r, s', tried)" "q \<in> set tried"
  shows "\<exists>cluster cpgs s1 ofr. resolve_placement env spec s = (Ok (cluster, cpgs), s1)
    \<and> (cluster = None \<longleftrightarrow> ncs_cluster spec = None) \<and> (cpgs = None \<longleftrightarrow> ncs_cpgs spec = [])
    \<and> ofr \<in> set (it_offerings it) \<and> off_available ofr \<and> penv_compat env (nc_reqs claim) ofr
    \<and> placed_by env claim spec it (pst_capres s) cluster cpgs ofr q"
  using assms(2)
proof (cases rule: place_instance_cases)
  case none
  with assms(3) show ?thesis by simp
next
  case (run cluster cpgs s1 cp ps a)
  from run_tries_proposals [OF assms(1) run(3)] assms(3) have "q \<in> set ps" by blast
  from claim_proposals_placed [OF run(2) this] run(1) resolve_placement_given [OF run(1)] show ?thesis
    by (auto simp: eligible_offerings_def available_offerings_def)
qed

text \<open>
  Placing a claim leaves the register of every node pool as it was, whether it succeeds or
  fails: the entry a proposal makes under the name of the claim does not outlive its launch, unless
  a launch never returns.  The name of the claim must not be the OCID of a registered instance.
\<close>

theorem place_instance_keeps_register:
  assumes "slice_sort (penv_sort env)"
    and "place_instance env claim spec it placeFunc s w = (r, s', w')" "r \<noteq> Hang"
    and "map_of (find_summary (from_ptr [] (map_of (nc_labels claim) NodePoolLabelKey)) s) (nc_name claim) = None"
  shows "find_summary pool s' = find_summary pool s"
  using assms(2)
proof (cases rule: place_instance_cases)
  case none
  then show ?thesis by (simp add: find_summary_def)
next
  case (run cluster cpgs s1 cp ps a)
  let ?pool = "from_ptr [] (map_of (nc_labels claim) NodePoolLabelKey)"
  have "pst_pools s1 = pst_pools s"
    using run(1) by (auto simp: resolve_placement_def Let_def split: go.splits prod.splits option.splits if_splits)
  then have same: "find_summary p s1 = find_summary p s" for p by (simp add: find_summary_def)
  have "a = find_summary ?pool s1"
  proof (cases "ps = []")
    case True
    with run(3) show ?thesis by (simp add: place_loop_nil del: place_loop.simps)
  next
    case False
    have "\<forall>p \<in> set ps. map_of (find_summary ?pool s1) (prop_temp p) = None"
      using claim_proposals_temp [OF run(2)] assms(4) same by simp
    from place_loop_restores [OF assms(1) False _ this run(3) assms(3)] show ?thesis by simp
  qed
  then show ?thesis using run(4) same by (auto simp: find_summary_def)
qed

text \<open>
  A node class with a compute cluster in one domain and a claim whose offerings, none of them
  reserved, are all in others: no proposal is left, and placing the instance dereferences a nil
  proposal instead of returning an error.
\<close>

theorem place_instance_panics_outside_cluster:
  assumes "resolve_placement env spec s = (Ok (Some c, cpgs), s1)"
    and "eligible_offerings env claim it \<noteq> []"
    and "\<forall>r \<in> set (nc_reqs claim). nreq_key r \<noteq> OciFaultDomain"
    and "\<forall>ofr \<in> set (eligible_offerings env claim it). \<not> req_has (off_reqs ofr) ReservationIDLabel
      \<and> zone_to_ad (off_zone (penv_any env) ofr) (penv_prefix env) \<noteq> lres_ad c"
  shows "fst (place_instance env claim spec it placeFunc s w) = Panic"
proof -
  have fd: "List.find (\<lambda>r. nreq_key r = OciFaultDomain) (nc_reqs claim) = None"
    using assms(3) by (simp add: find_None_iff)
  have "all_proposals (proposal_of env claim) (decorate env spec it (Some c) cpgs) ofrs cp = (Ok [], cp)"
    if "set ofrs \<subseteq> set (eligible_offerings env claim it)" for ofrs cp
    using that assms(4) fd by (induction ofrs) (auto simp: proposal_of_def decorate_def Let_def)
  from this [OF order_refl] show ?thesis
    using assms(1,2) by (simp add: place_instance_def place_loop_nil Let_def del: place_loop.simps)
qed

subsection \<open>Worked examples\<close>

definition example_any :: any_value where
  "example_any r = (case r of ReqIn (v # vs) \<Rightarrow> v | _ \<Rightarrow> [])"

definition example_env :: "placement_env" where
  "example_env = \<lparr>
     penv_capres = \<lparr>ca_get = (\<lambda>_. Panic), ca_list = (\<lambda>_ _ _. Panic), ca_hash = (\<lambda>_. Panic)\<rparr>,
     penv_cpg = \<lparr>ga_get = (\<lambda>_. Panic), ga_list = (\<lambda>_ _ _. Panic), ga_hash = (\<lambda>_. Panic)\<rparr>,
     penv_cluster = \<lparr>ka_get = (\<lambda>k. Ok \<lparr>lr_id = k, lr_name = ''n'', lr_ad = ''p:AD-1'', lr_compartment = ''c''\<rparr>),
       ka_list = (\<lambda>_ _ _. Panic), ka_hash = (\<lambda>_. Panic)\<rparr>,
     penv_compat = (\<lambda>_ _. True), penv_any = example_any, penv_sort = slice_stable, penv_now = 0,
     penv_prefix = ''p''\<rparr>"

definition example_places :: placement_state where
  "example_places = \<lparr>pst_pools = Map.empty, pst_capres = new_capres_provider ''c'',
     pst_cpg = new_cpg_provider ''c'', pst_cluster = new_cluster_provider ''c''\<rparr>"

definition example_place_type :: "string \<Rightarrow> oci_instance_type" where
  "example_place_type zone = plain_type\<lparr>it_offerings :=
     [\<lparr>off_reqs = [(LabelTopologyZone, ReqIn [zone])], off_price = 0, off_available = True, off_capacity = 0\<rparr>]\<rparr>"

definition example_cluster_spec :: node_class_spec where
  "example_cluster_spec = empty_spec\<lparr>ncs_cluster := Some \<lparr>ccc_id = Some ''k'', ccc_filter = None\<rparr>\<rparr>"

lemmas example_placement = example_any_def example_env_def example_places_def example_place_type_def
  example_cluster_spec_def empty_spec_def plain_type_def plain_claim_def

lemma example_resolves:
  "\<exists>s1. resolve_placement example_env example_cluster_spec example_places =
     (Ok (Some \<lparr>lres_ocid = ''k'', lres_name = ''n'', lres_ad = ''p:AD-1'', lres_compartment = ''c''\<rparr>, None), s1)"
  by (simp add: example_placement resolve_placement_def resolve_cluster_def get_cluster_def
      new_cluster_provider_def new_default_cache_def get_or_load_pure get_new result_of_located_def)

lemma example_eligible:
  "eligible_offerings example_env plain_claim (example_place_type zone) =
     [\<lparr>off_reqs = [(LabelTopologyZone, ReqIn [zone])], off_price = 0, off_available = True, off_capacity = 0\<rparr>]"
  by (simp add: eligible_offerings_def available_offerings_def example_placement)

theorem place_instance_panics_outside_cluster_witness:
  "fst (place_instance example_env plain_claim example_cluster_spec (example_place_type ''AD-2'')
     (launch_with (\<lambda>p. None)) example_places []) = Panic"
proof -
  obtain s1 where r: "resolve_placement example_env example_cluster_spec example_places =
     (Ok (Some \<lparr>lres_ocid = ''k'', lres_name = ''n'', lres_ad = ''p:AD-1'', lres_compartment = ''c''\<rparr>, None), s1)"
    using example_resolves by blast
  show ?thesis
    by (rule place_instance_panics_outside_cluster [OF r])
       (simp_all add: example_eligible, simp_all add: plain_claim_def example_env_def
          example_any_def off_zone_def req_get_def req_has_def zone_to_ad_def)
qed

text \<open>
  A node class with two reservations, each with room for one more instance, and an offering of the
  second.
\<close>

definition example_reserved_env :: placement_env where
  "example_reserved_env = example_env\<lparr>penv_capres := \<lparr>
     ca_get = (\<lambda>k. Ok \<lparr>cr_id = k, cr_name = ''n'', cr_ad = ''p:AD-2'', cr_compartment = ''c'',
       cr_configs = [\<lparr>irc_config = None, irc_fd = None, irc_reserved = 2, irc_used = 1, irc_shape = ''VM.Standard2.1''\<rparr>]\<rparr>),
     ca_list = (\<lambda>_ _ _. Panic), ca_hash = (\<lambda>_. Panic)\<rparr>\<rparr>"

definition example_reserved_spec :: node_class_spec where
  "example_reserved_spec = empty_spec\<lparr>ncs_capres :=
     [\<lparr>crc_id = Some ''ocid.r1'', crc_filter = None\<rparr>, \<lparr>crc_id = Some ''ocid.r2'', crc_filter = None\<rparr>]\<rparr>"

definition example_reserved_offering :: offering where
  "example_reserved_offering = \<lparr>off_reqs = [(LabelTopologyZone, ReqIn [''AD-2'']), (ReservationIDLabel, ReqIn [''r2''])],
     off_price = 0, off_available = True, off_capacity = 1\<rparr>"

definition example_reserved_type :: oci_instance_type where
  "example_reserved_type = plain_type\<lparr>it_offerings := [example_reserved_offering]\<rparr>"

lemma example_reserved_eligible:
  "eligible_offerings example_reserved_env plain_claim example_reserved_type = [example_reserved_offering]"
  by (simp add: eligible_offerings_def available_offerings_def example_reserved_env_def example_reserved_type_def
      example_reserved_offering_def example_env_def)

lemma example_reserved_proposal:
  "proposal_of example_reserved_env plain_claim example_reserved_offering =
     Ok \<lparr>prop_temp = ''claim'', prop_ad = ''p:AD-2'', prop_fd = None, prop_capres = Some ''r2'', prop_cluster = None,
         prop_cpg = None\<rparr>"
  by (simp add: proposal_of_def example_reserved_env_def example_env_def example_any_def example_reserved_offering_def
      plain_claim_def off_zone_def off_reservation_def req_get_def req_has_def zone_to_ad_def Let_def)

definition example_reservation :: "string \<Rightarrow> resolve_result" where
  "example_reservation k = \<lparr>rr_ocid = k, rr_name = ''n'', rr_ad = ''p:AD-2'', rr_compartment = ''c'',
     rr_avail = [\<lparr>sa_ad = ''p:AD-2'', sa_fd = None, sa_total = 2, sa_used = 1, sa_shape = ''VM.Standard2.1'',
       sa_ocpu = None, sa_memory = None\<rparr>], rr_time = 0\<rparr>"

lemma example_reserved_resolves:
  "\<exists>cp'. resolve_capacity_reservations (penv_capres example_reserved_env) (penv_now example_reserved_env)
       (ncs_capres example_reserved_spec) (new_capres_provider ''c'')
     = (Ok ([example_reservation ''ocid.r1'', example_reservation ''ocid.r2''], None), cp')"
  by (simp add: resolve_capacity_reservations_def get_capacity_reservation_def example_reserved_env_def
      example_reserved_spec_def example_env_def empty_spec_def new_capres_provider_def new_default_cache_def
      get_or_load_pure get_new cache_simps reconcile_usage_def to_capacity_resolve_result_def example_reservation_def Let_def)

lemma example_reserved_decorate:
  "\<exists>cp'. decorate example_reserved_env example_reserved_spec example_reserved_type None None
       \<lparr>prop_temp = ''claim'', prop_ad = ''p:AD-2'', prop_fd = None, prop_capres = Some ''r2'', prop_cluster = None,
         prop_cpg = None\<rparr> (new_capres_provider ''c'')
     = (Ok [\<lparr>prop_temp = ''claim'', prop_ad = ''p:AD-2'', prop_fd = None, prop_capres = Some ''ocid.r2'', prop_cluster = None,
         prop_cpg = None\<rparr>], cp')"
proof -
  have l: "ocid_to_label_value ''ocid.r1'' = ''r1''" "ocid_to_label_value ''ocid.r2'' = ''r2''" by code_simp+
  have "ncs_capres example_reserved_spec \<noteq> []" by (simp add: example_reserved_spec_def)
  with example_reserved_resolves show ?thesis
    by (auto simp: decorate_def decorate_capres_def l example_reservation_def availability_for_shape_def
        add_availability_def avail_matches_def example_reserved_type_def plain_type_def)
qed

theorem place_instance_follows_rules_witness:
  "\<exists>q. snd (snd (place_instance example_reserved_env plain_claim example_reserved_spec example_reserved_type
      (launch_with (\<lambda>p. None)) example_places [])) = [q] \<and> prop_ad q = ''p:AD-2'' \<and> prop_cluster q = None
    \<and> (\<exists>ocid. prop_capres q = Some ocid \<and> ocid_to_label_value ocid = ''r2'')"
proof -
  let ?run = "place_instance example_reserved_env plain_claim example_reserved_spec example_reserved_type
      (launch_with (\<lambda>p. None)) example_places []"
  obtain r s' tried where run: "?run = (r, s', tried)" by (cases ?run)
  obtain cp' where d: "decorate example_reserved_env example_reserved_spec example_reserved_type None None
       \<lparr>prop_temp = ''claim'', prop_ad = ''p:AD-2'', prop_fd = None, prop_capres = Some ''r2'', prop_cluster = None,
         prop_cpg = None\<rparr> (new_capres_provider ''c'')
     = (Ok [\<lparr>prop_temp = ''claim'', prop_ad = ''p:AD-2'', prop_fd = None, prop_capres = Some ''ocid.r2'', prop_cluster = None,
         prop_cpg = None\<rparr>], cp')" using example_reserved_decorate by blast
  have "resolve_placement example_reserved_env example_reserved_spec example_places = (Ok (None, None), example_places)"
    by (simp add: resolve_placement_def example_reserved_spec_def empty_spec_def)
  moreover have "pst_capres example_places = new_capres_provider ''c''" by (simp add: example_places_def)
  ultimately have "\<exists>q. tried = [q]" using run
    by (auto simp: place_instance_def example_reserved_eligible example_reserved_proposal d,
        auto simp: launch_with_def propose_def example_reserved_env_def example_env_def slice_stable_def Let_def)
  then obtain q where q: "tried = [q]" ..
  have srt: "slice_sort (penv_sort example_reserved_env :: proposal_sort)"
    by (simp add: example_reserved_env_def example_env_def stable.slice_sort_axioms)
  have "q \<in> set tried" using q by simp
  from place_instance_follows_rules [OF srt run this]
  have "prop_ad q = ''p:AD-2'' \<and> prop_cluster q = None \<and> (\<exists>ocid. prop_capres q = Some ocid \<and> ocid_to_label_value ocid = ''r2'')"
    by (auto simp: placed_by_def asks_reservation_def example_reserved_type_def example_reserved_offering_def
        example_reserved_env_def example_env_def example_any_def off_zone_def off_reservation_def req_get_def zone_to_ad_def)
  with run q show ?thesis by simp
qed

theorem place_instance_keeps_register_witness:
  "find_summary [] (fst (snd (place_instance example_env plain_claim empty_spec (example_place_type ''AD-2'')
      (\<lambda>p w. (Fail NoCapacityError, w)) example_places ()))) = []"
proof -
  let ?run = "place_instance example_env plain_claim empty_spec (example_place_type ''AD-2'')
      (\<lambda>p w. (Fail NoCapacityError, w)) example_places ()"
  obtain r s' w where run: "?run = (r, s', w)" by (cases ?run)
  have r: "r \<noteq> Hang" using run
    by (auto simp: place_instance_def example_eligible, auto simp: example_placement resolve_placement_def
        proposal_of_def decorate_def off_zone_def req_get_def req_has_def propose_def
        slice_stable_def Let_def)
  have srt: "slice_sort (penv_sort example_env :: proposal_sort)"
    by (simp add: example_env_def stable.slice_sort_axioms)
  from place_instance_keeps_register [OF srt run r, of "[]"] run show ?thesis
    by (simp add: find_summary_def example_places_def new_ad_fd_summary_def)
qed

end
