(* ===== verification/Network_Families.thy ===== *)
theory Network_Families
  imports Api_Types
begin

section \<open>IP families and resolved networks\<close>

text \<open>
  \<open>pkg/providers/network/resolve_result.go\<close>: the IP families of the cluster, how the flag that
  names them is read, and the result of resolving a network configuration.
\<close>

datatype ip_family = IPv4 | IPv6

fun ip_family_of :: "string \<Rightarrow> ip_family option" where
  "ip_family_of s = (if s = ''IPv4'' then Some IPv4 else if s = ''IPv6'' then Some IPv6 else None)"

text \<open>\<open>strings.TrimSpace\<close> on ASCII text.\<close>

definition is_space :: "char \<Rightarrow> bool" where
  "is_space c \<longleftrightarrow> c = CHR '' '' \<or> c \<in> {CHR 0x09, CHR 0x0A, CHR 0x0B, CHR 0x0C, CHR 0x0D}"

definition trim_space :: "string \<Rightarrow> string" where
  "trim_space s = rev (dropWhile is_space (rev (dropWhile is_space s)))"

text \<open>The flag can be given several times; each use adds to the families.\<close>

fun parse_families :: "string list \<Rightarrow> (err, ip_family list) go" where
  "parse_families [] = Ok []"
| "parse_families (f # fs) =
     (case ip_family_of (trim_space f) of
        None \<Rightarrow> Fail (ErrText (''unsupported ip family: '' @ trim_space f))
      | Some ipf \<Rightarrow> map_ok ((#) ipf) (parse_families fs))"

definition ip_family_value_set :: "string \<Rightarrow> ip_family list \<Rightarrow> (err, ip_family list) go" where
  "ip_family_value_set s families = map_ok (\<lambda>ipfs. families @ ipfs) (parse_families (split_on (CHR '','') s))"

definition is_ipv6_single_stack :: "ip_family list \<Rightarrow> bool" where
  "is_ipv6_single_stack fs \<longleftrightarrow> length fs = 1 \<and> IPv6 \<in> set fs"

definition is_ipv6 :: "ip_family list \<Rightarrow> bool" where
  "is_ipv6 fs \<longleftrightarrow> IPv6 \<in> set fs"

definition default_secondary_vnic_ip_count :: "ip_family list \<Rightarrow> int" where
  "default_secondary_vnic_ip_count fs = (if is_ipv6_single_stack fs then 256 else 32)"

lemma default_ip_count_positive: "0 < default_secondary_vnic_ip_count fs"
  by (simp add: default_secondary_vnic_ip_count_def)

lemma ip_family_value_set_appends:
  "ip_family_value_set s fs = Ok fs' \<Longrightarrow>
   length fs' = length fs + length (split_on (CHR '','') s) \<and> take (length fs) fs' = fs"
proof -
  have "length ys = length xs" if "parse_families xs = Ok ys" for xs ys
    using that by (induction xs arbitrary: ys) (auto simp: go_simps split: option.splits)
  then show "ip_family_value_set s fs = Ok fs' \<Longrightarrow> ?thesis"
    by (auto simp: ip_family_value_set_def go_simps)
qed

subsection \<open>Subnets and security groups\<close>

record subnet =
  sub_id :: "string option"
  sub_ad :: "string option"
  sub_vcn :: "string option"
  sub_cidr :: "string option"
  sub_ipv4_blocks :: "string list"
  sub_ipv6_cidr :: "string option"
  sub_ipv6_blocks :: "string list"
  sub_name :: string
  sub_freeform :: tags
  sub_defined :: defined_tags

record security_group =
  sg_id :: string
  sg_vcn :: "string option"
  sg_name :: string
  sg_freeform :: tags
  sg_defined :: defined_tags

record subnet_and_nsgs =
  sans_subnet :: "subnet option"
  sans_nsgs :: "security_group list"
  sans_ipv6 :: "bool option"
  sans_ipv4 :: "bool option"

record network_resolve_result =
  nrr_primary :: "subnet_and_nsgs option"
  nrr_others :: "subnet_and_nsgs list"

definition nsg_ids :: "subnet_and_nsgs \<Rightarrow> string list" where
  "nsg_ids san = map sg_id (sans_nsgs san)"

end
