(* ===== verification/Network_Provider.thy ===== *)
theory Network_Provider
  imports Network_Families Utils Load_Cache
begin

section \<open>Resolving the network of a node class\<close>

text \<open>
  \<open>pkg/providers/network/provider.go\<close>: the subnets and security groups that a node class names or
  selects, the checks that make a usable network of them, and the lookup of network interfaces.
  The client of the virtual network service is an argument.  Errors that the code gathers
  (\<open>multierr\<close>) are a list, in the order in which they are appended; the text of an error that is
  printed into another is kept.
\<close>

record vcn_provider =
  vp_compartment :: string
  vp_npn :: bool
  vp_families :: "ip_family list"
  vp_subnets :: "subnet load_cache"
  vp_subnet_lists :: "subnet list load_cache"
  vp_nsgs :: "security_group load_cache"
  vp_nsg_lists :: "security_group list load_cache"
  vp_vnics :: "oci_vnic load_cache"

record vcn_api =
  vn_get_subnet :: "string \<Rightarrow> (err, subnet) go"
  vn_list_subnets :: "string \<Rightarrow> string option \<Rightarrow> (err, subnet) pager"
  vn_get_nsg :: "string \<Rightarrow> (err, security_group) go"
  vn_list_nsgs :: "string \<Rightarrow> string option \<Rightarrow> (err, security_group) pager"
  vn_get_vnic :: "string \<Rightarrow> (err, oci_vnic) go"
  vn_hash :: "resource_selector \<Rightarrow> (err, string) go"

definition new_vcn_provider ::
  "string \<Rightarrow> bool \<Rightarrow> ip_family list \<Rightarrow> oci_vnic load_cache option \<Rightarrow> (err, vcn_provider) go" where
  "new_vcn_provider compartment npn families vnics =
     (case vnics of
        None \<Rightarrow> Fail (ErrText ''VNIC cache is required'')
      | Some c \<Rightarrow> Ok \<lparr>vp_compartment = compartment, vp_npn = npn, vp_families = families,
          vp_subnets = new_default_cache, vp_subnet_lists = new_default_cache,
          vp_nsgs = new_default_cache, vp_nsg_lists = new_default_cache, vp_vnics = c\<rparr>)"

subsection \<open>Lookups\<close>

definition get_subnet :: "vcn_api \<Rightarrow> int \<Rightarrow> string \<Rightarrow> vcn_provider \<Rightarrow> (err, subnet) go \<times> vcn_provider" where
  "get_subnet api now ocid p =
     (let (r, c, u) = get_or_load now (vp_subnets p) ocid (\<lambda>k s. (vn_get_subnet api k, s)) ()
      in (r, p\<lparr>vp_subnets := c\<rparr>))"

definition get_nsg :: "vcn_api \<Rightarrow> int \<Rightarrow> string \<Rightarrow> vcn_provider \<Rightarrow> (err, security_group) go \<times> vcn_provider" where
  "get_nsg api now ocid p =
     (let (r, c, u) = get_or_load now (vp_nsgs p) ocid (\<lambda>k s. (vn_get_nsg api ocid, s)) ()
      in (r, p\<lparr>vp_nsgs := c\<rparr>))"

definition list_and_filter_subnets ::
  "vcn_api \<Rightarrow> string \<Rightarrow> resource_selector \<Rightarrow> (err, subnet list) go" where
  "list_and_filter_subnets api compartment sel =
     fetch_filtered (vn_list_subnets api compartment (sel_display_name sel))
       (\<lambda>s. Ok (tag_filter (sel_freeform sel) (sel_defined sel) (sub_freeform s) (sub_defined s)))"

definition list_and_filter_nsgs ::
  "vcn_api \<Rightarrow> string \<Rightarrow> resource_selector \<Rightarrow> (err, security_group list) go" where
  "list_and_filter_nsgs api compartment sel =
     fetch_filtered (vn_list_nsgs api compartment (sel_display_name sel))
       (\<lambda>s. Ok (tag_filter (sel_freeform sel) (sel_defined sel) (sg_freeform s) (sg_defined s)))"

text \<open>The key of a selector is its digest, which can fail.\<close>

definition filter_subnets ::
  "vcn_api \<Rightarrow> int \<Rightarrow> resource_selector \<Rightarrow> vcn_provider \<Rightarrow> (err, subnet list) go \<times> vcn_provider" where
  "filter_subnets api now sel p =
     st_bind (vn_hash api sel, p) (\<lambda>key p.
       let compartment = from_ptr (vp_compartment p) (sel_compartment sel);
           (r, c, u) = get_or_load now (vp_subnet_lists p) key
                         (\<lambda>k s. (list_and_filter_subnets api compartment sel, s)) ()
       in (r, p\<lparr>vp_subnet_lists := c\<rparr>))"

definition filter_nsg ::
  "vcn_api \<Rightarrow> int \<Rightarrow> resource_selector \<Rightarrow> vcn_provider \<Rightarrow> (err, security_group list) go \<times> vcn_provider" where
  "filter_nsg api now sel p =
     st_bind (vn_hash api sel, p) (\<lambda>key p.
       let compartment = from_ptr (vp_compartment p) (sel_compartment sel);
           (r, c, u) = get_or_load now (vp_nsg_lists p) key
                         (\<lambda>k s. (list_and_filter_nsgs api compartment sel, s)) ()
       in (r, p\<lparr>vp_nsg_lists := c\<rparr>))"

definition get_vnic :: "vcn_api \<Rightarrow> int \<Rightarrow> string \<Rightarrow> vcn_provider \<Rightarrow> (err, oci_vnic) go \<times> vcn_provider" where
  "get_vnic api now ocid p =
     (let (r, c, u) = cache_refresh now (vp_vnics p) ocid (\<lambda>k s. (vn_get_vnic api ocid, s)) ()
      in (r, p\<lparr>vp_vnics := c\<rparr>))"

definition get_vnic_cached ::
  "vcn_api \<Rightarrow> int \<Rightarrow> string \<Rightarrow> vcn_provider \<Rightarrow> (err, oci_vnic) go \<times> vcn_provider" where
  "get_vnic_cached api now ocid p =
     (let (r, c, u) = get_or_load now (vp_vnics p) ocid (\<lambda>k s. (vn_get_vnic api ocid, s)) ()
      in (r, p\<lparr>vp_vnics := c\<rparr>))"

text \<open>A selector that is nil is dereferenced.\<close>

fun resolve_nsgs ::
  "vcn_api \<Rightarrow> int \<Rightarrow> nsg_config list \<Rightarrow> vcn_provider \<Rightarrow> (err, security_group list) go \<times> vcn_provider" where
  "resolve_nsgs api now [] p = (Ok [], p)"
| "resolve_nsgs api now (c # cs) p =
     st_bind
       (case (nsg_id c, nsg_filter c) of
          (Some i, Some f) \<Rightarrow>
            (Fail (ErrText ''define either networkSecurityGroup ids or networkSecurityGroup selectors''), p)
        | (Some i, None) \<Rightarrow> (let (r, p') = get_nsg api now i p in (map_ok (\<lambda>g. [g]) r, p'))
        | (None, Some f) \<Rightarrow> filter_nsg api now f p
        | (None, None) \<Rightarrow> (Panic, p))
       (\<lambda>gs p. let (r, p') = resolve_nsgs api now cs p in (map_ok (\<lambda>hs. gs @ hs) r, p'))"

definition resolve_subnet ::
  "vcn_api \<Rightarrow> int \<Rightarrow> subnet_config \<Rightarrow> vcn_provider \<Rightarrow> (err, subnet) go \<times> vcn_provider" where
  "resolve_subnet api now c p =
     (case (sn_id c, sn_filter c) of
        (Some i, Some f) \<Rightarrow> (Fail (ErrText ''define either ocid or subnet selector''), p)
      | (Some i, None) \<Rightarrow> get_subnet api now i p
      | (None, Some f) \<Rightarrow>
          st_bind (filter_subnets api now f p) (\<lambda>ss p.
            if length ss = 0 then (Fail (ErrText ''no subnet selector''), p)
            else if 1 < length ss then (Fail (ErrText ''more than one subnet match selector''), p)
            else (index_go ss 0, p))
      | (None, None) \<Rightarrow> (Fail (ErrText ''define either ocid or subnet selector''), p))"

subsection \<open>One interface\<close>

definition is_from_different_vcn :: "security_group \<Rightarrow> subnet \<Rightarrow> bool" where
  "is_from_different_vcn g s \<longleftrightarrow>
     (sg_vcn g = None \<and> sub_vcn s \<noteq> None) \<or> (sg_vcn g \<noteq> None \<and> sub_vcn s = None)
     \<or> (sg_vcn g \<noteq> None \<and> sub_vcn s \<noteq> None \<and> sg_vcn g \<noteq> sub_vcn s)"

fun check_cidrs :: "string \<Rightarrow> subnet \<Rightarrow> ip_family list \<Rightarrow> err option" where
  "check_cidrs ident s [] = None"
| "check_cidrs ident s (IPv4 # fs) =
     (if sub_cidr s = None then Some (ErrText (ident @ '': no cidr block for ipv4''))
      else check_cidrs ident s fs)"
| "check_cidrs ident s (IPv6 # fs) =
     (if sub_ipv6_cidr s = None \<and> length (sub_ipv6_blocks s) = 0
      then Some (ErrText (ident @ '': no cidr block for ipv6''))
      else check_cidrs ident s fs)"

definition no_network :: subnet_and_nsgs where
  "no_network = \<lparr>sans_subnet = None, sans_nsgs = [], sans_ipv6 = None, sans_ipv4 = None\<rparr>"

text \<open>The result is returned with the error, as far as it was filled in.\<close>

definition resolve_subnet_and_nsg ::
  "vcn_api \<Rightarrow> int \<Rightarrow> string \<Rightarrow> subnet_and_nsg \<Rightarrow> vcn_provider
    \<Rightarrow> (err, subnet_and_nsgs \<times> err option) go \<times> vcn_provider" where
  "resolve_subnet_and_nsg api now ident c p =
     st_bind (deref (san_subnet c), p) (\<lambda>sc p.
       case resolve_subnet api now sc p of
         (Fail e, p) \<Rightarrow> (Ok (no_network, Some (ErrText (ident @ '': '' @ err_text e))), p)
       | (Panic, p) \<Rightarrow> (Panic, p)
       | (Hang, p) \<Rightarrow> (Hang, p)
       | (Ok s, p) \<Rightarrow>
           (let sn = no_network\<lparr>sans_subnet := Some s\<rparr>
            in if 0 < length (san_nsgs c)
               then (case resolve_nsgs api now (san_nsgs c) p of
                       (Fail e, p) \<Rightarrow> (Ok (sn, Some (ErrText (ident @ '': '' @ err_text e))), p)
                     | (Panic, p) \<Rightarrow> (Panic, p)
                     | (Hang, p) \<Rightarrow> (Hang, p)
                     | (Ok gs, p) \<Rightarrow>
                         if \<exists>g \<in> set gs. is_from_different_vcn g s
                         then (Ok (sn, Some (ErrText ''subnet and networkSecurityGroup are not in a same vcn'')), p)
                         else (Ok (sn\<lparr>sans_nsgs := gs\<rparr>, check_cidrs ident s (vp_families p)), p))
               else (Ok (sn, check_cidrs ident s (vp_families p)), p)))"

definition resolve_simple_vnic ::
  "vcn_api \<Rightarrow> int \<Rightarrow> string \<Rightarrow> 'a simple_vnic_config_scheme \<Rightarrow> vcn_provider
    \<Rightarrow> (err, subnet_and_nsgs \<times> err option) go \<times> vcn_provider" where
  "resolve_simple_vnic api now ident c p =
     st_bind (deref (svc_subnet_and_nsg c), p) (resolve_subnet_and_nsg api now ident)"

subsection \<open>The number of addresses\<close>

definition ip_count_to_check :: "vcn_provider \<Rightarrow> secondary_vnic_config \<Rightarrow> int" where
  "ip_count_to_check p c =
     (case svn_ip_count c of
        None \<Rightarrow> default_secondary_vnic_ip_count (vp_families p)
      | Some n \<Rightarrow> n)"

fun check_ip_counts :: "bool \<Rightarrow> int \<Rightarrow> int list \<Rightarrow> err option" where
  "check_ip_counts single ipCountSum [] =
     (if ipCountSum > 256 then Some (ErrText ''total IP count of all VNICs can't be over 256'') else None)"
| "check_ip_counts single ipCountSum (n # ns) =
     (if n > 256 then Some (ErrText ''max IP count per VNIC can't be over 256'')
      else if \<not> is_power_of_two (word_of_int n) then Some (ErrText ''IP count must be power of 2'')
      else if single \<and> \<not> (n = 1 \<or> n = 16 \<or> n = 256)
      then Some (ErrText ''single stack IPv6 nodepool only IP count 1, 16 and 256 will be supported'')
      else check_ip_counts single (ipCountSum + n) ns)"

definition validate_ip_counts :: "vcn_provider \<Rightarrow> network_config \<Rightarrow> err option" where
  "validate_ip_counts p cfg =
     check_ip_counts (is_ipv6_single_stack (vp_families p)) 0 (map (ip_count_to_check p) (nc_secondary cfg))"

definition get_cidr_blocks :: "string option \<Rightarrow> string list \<Rightarrow> string list" where
  "get_cidr_blocks dflt all_blocks =
     (case dflt of
        Some d \<Rightarrow> if length all_blocks = 0 \<and> trim_space d \<noteq> [] then [d] else all_blocks
      | None \<Rightarrow> all_blocks)"

definition cidr_error :: "string \<Rightarrow> subnet \<Rightarrow> string \<Rightarrow> err" where
  "cidr_error family s bound =
     ErrText (''max IP count for single CIDR '' @ family @ '' subnet '' @ [CHR 0x27] @ from_ptr [] (sub_id s)
       @ [CHR 0x27] @ '' can't over '' @ bound)"

definition validate_against_cidrs ::
  "vcn_provider \<Rightarrow> secondary_vnic_config \<Rightarrow> subnet_and_nsgs \<Rightarrow> err option" where
  "validate_against_cidrs p c san =
     (case sans_subnet san of
        None \<Rightarrow> None
      | Some s \<Rightarrow>
          (let n = ip_count_to_check p c
           in if is_ipv6 (vp_families p) \<and> svc_assign_ipv6 c = Some True
              then (if length (get_cidr_blocks (sub_ipv6_cidr s) (sub_ipv6_blocks s)) = 1 \<and> n > 16
                    then Some (cidr_error ''IPv6'' s ''16'') else None)
              else (if length (get_cidr_blocks (sub_cidr s) (sub_ipv4_blocks s)) = 1 \<and> n > 32
                    then Some (cidr_error ''IPv4'' s ''32'') else None)))"

subsection \<open>The whole configuration\<close>

fun resolve_secondaries ::
  "vcn_api \<Rightarrow> int \<Rightarrow> nat \<Rightarrow> secondary_vnic_config list \<Rightarrow> vcn_provider
    \<Rightarrow> (err, subnet_and_nsgs list \<times> err list) go \<times> vcn_provider" where
  "resolve_secondaries api now idx [] p = (Ok ([], []), p)"
| "resolve_secondaries api now idx (c # cs) p =
     st_bind (resolve_simple_vnic api now (''second vnic '' @ show_nat idx) c p) (\<lambda>(san, e) p.
       let errs = (case e of
                     Some e \<Rightarrow> [e]
                   | None \<Rightarrow> (case validate_against_cidrs p c san of None \<Rightarrow> [] | Some e \<Rightarrow> [e]))
       in st_bind (resolve_secondaries api now (Suc idx) cs p) (\<lambda>(sans, errs') p.
            (Ok (san # sans, errs @ errs'), p)))"

definition resolve_primary ::
  "vcn_api \<Rightarrow> int \<Rightarrow> network_config \<Rightarrow> vcn_provider
    \<Rightarrow> (err, subnet_and_nsgs option \<times> err list) go \<times> vcn_provider" where
  "resolve_primary api now cfg p =
     (case nc_primary cfg of
        None \<Rightarrow> (Ok (None, [ErrText ''networkConfig.primaryVnicConfig is required'']), p)
      | Some v \<Rightarrow>
          st_bind (resolve_simple_vnic api now ''primaryVnic'' v p) (\<lambda>(san, e) p.
            (Ok (Some san,
               (case e of None \<Rightarrow> [] | Some e \<Rightarrow> [e]) @
               (case sans_subnet san of
                  Some s \<Rightarrow> if sub_ad s \<noteq> None then [ErrText ''ad local subnet is not supported''] else []
                | None \<Rightarrow> [])), p)))"

definition resolve_network_config ::
  "vcn_api \<Rightarrow> int \<Rightarrow> network_config option \<Rightarrow> vcn_provider
    \<Rightarrow> (err, network_resolve_result \<times> err list) go \<times> vcn_provider" where
  "resolve_network_config api now cfgo p =
     (case cfgo of
        None \<Rightarrow> (Fail (ErrText ''networkConfig is required''), p)
      | Some cfg \<Rightarrow>
          st_bind (resolve_primary api now cfg p) (\<lambda>(primary, errs) p.
            if vp_npn p
            then (if length (nc_secondary cfg) = 0
                  then (Ok (\<lparr>nrr_primary = primary, nrr_others = []\<rparr>,
                          errs @ [ErrText ''no secondaryVnicConfigs found'']), p)
                  else st_bind (resolve_secondaries api now 0 (nc_secondary cfg) p) (\<lambda>(sans, errs') p.
                         (Ok (\<lparr>nrr_primary = primary, nrr_others = sans\<rparr>,
                            errs @ (case validate_ip_counts p cfg of None \<Rightarrow> [] | Some e \<Rightarrow> [e]) @ errs'), p)))
            else (Ok (\<lparr>nrr_primary = primary, nrr_others = []\<rparr>,
                    errs @ (if 0 < length (nc_secondary cfg)
                            then [ErrText ''secondaryVnicConfigs is not allowed''] else [])), p)))"

subsection \<open>What a resolved network guarantees\<close>

text \<open>The lookups change the caches only.\<close>

definition same_setup :: "vcn_provider \<Rightarrow> vcn_provider \<Rightarrow> bool" where
  "same_setup p p' \<longleftrightarrow> vp_families p' = vp_families p \<and> vp_npn p' = vp_npn p \<and> vp_compartment p' = vp_compartment p"

lemma same_setup_refl [simp]: "same_setup p p"
  by (simp add: same_setup_def)

lemma same_setup_trans: "same_setup p q \<Longrightarrow> same_setup q r \<Longrightarrow> same_setup p r"
  by (simp add: same_setup_def)

lemma lookups_keep_setup:
  "get_subnet api now i p = (r1, p1) \<Longrightarrow> same_setup p p1"
  "get_nsg api now i p = (r2, p2) \<Longrightarrow> same_setup p p2"
  "filter_subnets api now f p = (r3, p3) \<Longrightarrow> same_setup p p3"
  "filter_nsg api now f p = (r4, p4) \<Longrightarrow> same_setup p p4"
  by (auto simp: get_subnet_def get_nsg_def filter_subnets_def filter_nsg_def same_setup_def st_bind_def
      Let_def split: go.splits prod.splits)

lemma resolve_subnet_keeps_setup:
  "resolve_subnet api now c p = (r, p') \<Longrightarrow> same_setup p p'"
  using lookups_keep_setup(1) [of api now "the (sn_id c)" p]
    lookups_keep_setup(3) [of api now "the (sn_filter c)" p]
  by (auto simp: resolve_subnet_def st_bind_def split: option.splits go.splits prod.splits if_splits)

lemma resolve_nsgs_keeps_setup:
  "resolve_nsgs api now cs p = (r, p') \<Longrightarrow> same_setup p p'"
proof (induction cs arbitrary: p r p')
  case (Cons c cs)
  let ?one = "case (nsg_id c, nsg_filter c) of
      (Some i, Some f) \<Rightarrow>
        (Fail (ErrText ''define either networkSecurityGroup ids or networkSecurityGroup selectors''), p)
    | (Some i, None) \<Rightarrow> (let (r, p') = get_nsg api now i p in (map_ok (\<lambda>g. [g]) r, p'))
    | (None, Some f) \<Rightarrow> filter_nsg api now f p
    | (None, None) \<Rightarrow> (Panic, p)"
  obtain q p1 where q: "?one = (q, p1)" by (cases ?one) auto
  have "same_setup p p1" using q lookups_keep_setup(2) [of api now "the (nsg_id c)" p]
      lookups_keep_setup(4) [of api now "the (nsg_filter c)" p]
    by (auto split: option.splits prod.splits)
  moreover obtain q2 p2 where q2: "resolve_nsgs api now cs p1 = (q2, p2)"
    by (cases "resolve_nsgs api now cs p1") auto
  moreover have "same_setup p1 p2" by (rule Cons.IH [OF q2])
  moreover have "p' = p1 \<or> p' = p2" using Cons.prems q q2 by (auto simp: st_bind_def split: go.splits)
  ultimately show ?case by (auto intro: same_setup_trans)
qed simp

lemma check_cidrs_None:
  "check_cidrs ident s fs = None \<longleftrightarrow>
     (IPv4 \<in> set fs \<longrightarrow> sub_cidr s \<noteq> None)
   \<and> (IPv6 \<in> set fs \<longrightarrow> sub_ipv6_cidr s \<noteq> None \<or> sub_ipv6_blocks s \<noteq> [])"
  by (induction ident s fs rule: check_cidrs.induct) auto

lemma ip_count_cong: "vp_families p = vp_families q \<Longrightarrow> ip_count_to_check p = ip_count_to_check q"
  by (rule ext) (simp add: ip_count_to_check_def split: option.split)

lemma against_cidrs_cong:
  "vp_families p = vp_families q \<Longrightarrow> validate_against_cidrs p = validate_against_cidrs q"
  by (intro ext) (simp add: validate_against_cidrs_def ip_count_cong [of p q] split: option.split)

text \<open>An interface that can be used: its subnet has addresses of every family of the cluster, and
  its security groups are in the network of the subnet.\<close>

definition usable_network :: "ip_family list \<Rightarrow> subnet_and_nsgs \<Rightarrow> bool" where
  "usable_network fs san \<longleftrightarrow>
     (\<exists>s. sans_subnet san = Some s \<and> (\<forall>g \<in> set (sans_nsgs san). sg_vcn g = sub_vcn s)
        \<and> (IPv4 \<in> set fs \<longrightarrow> sub_cidr s \<noteq> None)
        \<and> (IPv6 \<in> set fs \<longrightarrow> sub_ipv6_cidr s \<noteq> None \<or> sub_ipv6_blocks s \<noteq> []))"

lemma resolve_simple_vnic_ok:
  assumes "resolve_simple_vnic api now ident c p = (Ok (san, e), p')"
  shows "same_setup p p' \<and> (e = None \<longrightarrow> usable_network (vp_families p) san)"
proof -
  obtain cfg sc where c: "svc_subnet_and_nsg c = Some cfg" "san_subnet cfg = Some sc"
    using assms by (cases "svc_subnet_and_nsg c"; cases "san_subnet (the (svc_subnet_and_nsg c))")
      (auto simp: resolve_simple_vnic_def resolve_subnet_and_nsg_def)
  obtain r1 p1 where r1: "resolve_subnet api now sc p = (r1, p1)" by (cases "resolve_subnet api now sc p")
  note k1 = resolve_subnet_keeps_setup [OF r1]
  obtain r2 p2 where r2: "resolve_nsgs api now (san_nsgs cfg) p1 = (r2, p2)"
    by (cases "resolve_nsgs api now (san_nsgs cfg) p1")
  note k2 = resolve_nsgs_keeps_setup [OF r2]
  have vcn: "sg_vcn g = sub_vcn s" if "\<not> is_from_different_vcn g s" for g s
    using that by (cases "sg_vcn g"; cases "sub_vcn s") (auto simp: is_from_different_vcn_def)
  show ?thesis
    using assms c r1 r2 k1 k2
    by (auto simp: resolve_simple_vnic_def resolve_subnet_and_nsg_def no_network_def usable_network_def
        check_cidrs_None same_setup_def vcn Let_def split: go.splits if_splits)
qed

lemma resolve_secondaries_ok:
  assumes "resolve_secondaries api now idx cs p = (Ok (sans, errs), p')"
  shows "same_setup p p' \<and> length sans = length cs \<and>
    (errs = [] \<longrightarrow> list_all2 (\<lambda>c san. usable_network (vp_families p) san
        \<and> validate_against_cidrs p c san = None) cs sans)"
  using assms
proof (induction cs arbitrary: idx p sans errs p')
  case (Cons c cs)
  from Cons.prems obtain san e p1 sans' errs' where s:
    "resolve_simple_vnic api now (''second vnic '' @ show_nat idx) c p = (Ok (san, e), p1)"
    "resolve_secondaries api now (Suc idx) cs p1 = (Ok (sans', errs'), p')"
    "sans = san # sans'"
    "errs = (case e of Some e \<Rightarrow> [e]
       | None \<Rightarrow> (case validate_against_cidrs p1 c san of None \<Rightarrow> [] | Some e \<Rightarrow> [e])) @ errs'"
    by (auto simp: st_bind_Ok_iff Let_def)
  note one = resolve_simple_vnic_ok [OF s(1)] and rest = Cons.IH [OF s(2)]
  have fam: "validate_against_cidrs p1 c' san' = validate_against_cidrs p c' san'" for c' san'
    using one against_cidrs_cong [of p1 p] by (simp add: same_setup_def)
  show ?case
    using one rest s(3,4) fam
    by (auto simp: same_setup_def list_all2_mono split: option.splits)
qed simp

lemma resolve_primary_ok:
  assumes "resolve_primary api now cfg p = (Ok (primary, errs), p')"
  shows "same_setup p p' \<and> (errs = [] \<longrightarrow>
    (\<exists>san. primary = Some san \<and> usable_network (vp_families p) san
       \<and> (\<forall>s. sans_subnet san = Some s \<longrightarrow> sub_ad s = None)))"
proof (cases "nc_primary cfg")
  case None
  with assms show ?thesis by (auto simp: resolve_primary_def)
next
  case (Some v)
  from assms Some obtain san e where s: "resolve_simple_vnic api now ''primaryVnic'' v p = (Ok (san, e), p')"
    "primary = Some san" "errs = (case e of None \<Rightarrow> [] | Some e \<Rightarrow> [e]) @
       (case sans_subnet san of
          Some s \<Rightarrow> if sub_ad s \<noteq> None then [ErrText ''ad local subnet is not supported''] else []
        | None \<Rightarrow> [])"
    by (auto simp: resolve_primary_def st_bind_Ok_iff)
  from resolve_simple_vnic_ok [OF s(1)] s(2,3) show ?thesis
    by (auto split: option.splits if_splits)
qed

lemma check_ip_counts_None:
  "check_ip_counts single t ns = None \<longleftrightarrow>
     (\<forall>n \<in> set ns. n \<le> 256 \<and> is_power_of_two (word_of_int n) \<and> (single \<longrightarrow> n = 1 \<or> n = 16 \<or> n = 256))
   \<and> t + sum_list ns \<le> 256"
  by (induction single t ns rule: check_ip_counts.induct) (auto simp: algebra_simps)

lemma small_power_of_two:
  assumes "- (2 ^ 63) \<le> n" "n \<le> 256"
  shows "is_power_of_two (word_of_int n) \<longleftrightarrow> n \<in> {1, 2, 4, 8, 16, 32, 64, 128, 256}"
proof (cases "n \<le> 0")
  case True
  have "sint (word_of_int n :: 64 word) = n"
    using assms by (simp add: signed_of_int signed_take_bit_int_eq_self)
  then have "(word_of_int n :: 64 word) \<le>s 0" using True by (simp add: word_sle_eq)
  with True show ?thesis by (auto simp: is_power_of_two_def)
next
  case False
  have u: "unat (word_of_int n :: 64 word) = nat n"
    using False assms(2) by (simp add: unat_eq_nat_uint uint_word_of_int)
  have "is_power_of_two (word_of_int n) \<longleftrightarrow> (\<exists>k < 63. (word_of_int n :: 64 word) = 2 ^ k)"
    by (rule power_of_two_word)
  also have "\<dots> \<longleftrightarrow> (\<exists>k < 63. nat n = 2 ^ k)"
    using u unat_pow2 by (metis unsigned_word_eqI)
  also have "\<dots> \<longleftrightarrow> (\<exists>k \<le> 8. nat n = 2 ^ k)"
  proof -
    have "k \<le> 8" if "nat n = 2 ^ k" for k
    proof -
      have "nat n \<le> 2 ^ 8" using assms(2) by simp
      then have "(2 :: nat) ^ k \<le> 2 ^ 8" by (simp only: that)
      then show ?thesis by (rule power_le_imp_le_exp [rotated]) simp
    qed
    moreover have "8 < (63 :: nat)" by simp
    ultimately show ?thesis by (meson le_less_trans)
  qed
  also have "\<dots> \<longleftrightarrow> (\<exists>k \<in> {0, 1, 2, 3, 4, 5, 6, 7, 8}. nat n = 2 ^ k)"
  proof -
    have "{..8} = {0, 1, 2, 3, 4, 5, 6, 7, 8 :: nat}" by auto
    then show ?thesis by (metis atMost_iff)
  qed
  also have "\<dots> \<longleftrightarrow> n \<in> {1, 2, 4, 8, 16, 32, 64, 128, 256}"
    using False by auto
  finally show ?thesis .
qed

text \<open>
  C32. The address counts of the secondary interfaces are accepted exactly when each is a power of
  two from 1 to 256, in a cluster with IPv6 alone one of 1, 16 and 256, and they add up to at most
  256; an interface that states none counts with the default of the cluster.
\<close>

theorem ip_counts_valid_iff:
  assumes "\<forall>c \<in> set (nc_secondary cfg). - (2 ^ 63) \<le> ip_count_to_check p c"
  shows "validate_ip_counts p cfg = None \<longleftrightarrow>
    (\<forall>c \<in> set (nc_secondary cfg).
       ip_count_to_check p c \<in> {1, 2, 4, 8, 16, 32, 64, 128, 256}
       \<and> (is_ipv6_single_stack (vp_families p) \<longrightarrow> ip_count_to_check p c \<in> {1, 16, 256}))
    \<and> sum_list (map (ip_count_to_check p) (nc_secondary cfg)) \<le> 256"
proof -
  have "ip_count_to_check p c \<le> 256 \<and> is_power_of_two (word_of_int (ip_count_to_check p c)) \<longleftrightarrow>
      ip_count_to_check p c \<in> {1, 2, 4, 8, 16, 32, 64, 128, 256}" if "c \<in> set (nc_secondary cfg)" for c
  proof -
    have "- (2 ^ 63) \<le> ip_count_to_check p c" using that assms by blast
    from small_power_of_two [OF this] show ?thesis by auto
  qed
  then show ?thesis
    by (simp add: validate_ip_counts_def check_ip_counts_None) blast
qed

text \<open>
  C33. When a network configuration resolves without an error, it can be used: the primary interface
  has a regional subnet; the subnet of every interface has addresses of each family of the cluster
  and its security groups are in the network of the subnet; with native pod networking there is one
  resolved interface for each secondary one that is configured, at least one, with address counts
  that are valid and fit its subnet; otherwise none is configured.
\<close>

theorem resolved_network_is_usable:
  assumes "resolve_network_config api now (Some cfg) p = (Ok (out, []), p')"
  shows "(\<exists>san. nrr_primary out = Some san \<and> usable_network (vp_families p) san
        \<and> pred_option (\<lambda>s. sub_ad s = None) (sans_subnet san))
    \<and> (if vp_npn p
       then nc_secondary cfg \<noteq> [] \<and> validate_ip_counts p cfg = None
         \<and> list_all2 (\<lambda>c san. usable_network (vp_families p) san \<and> validate_against_cidrs p c san = None)
             (nc_secondary cfg) (nrr_others out)
       else nc_secondary cfg = [] \<and> nrr_others out = [])"
proof -
  obtain primary errs p1 where pr: "resolve_primary api now cfg p = (Ok (primary, errs), p1)"
    using assms by (auto simp: resolve_network_config_def st_bind_Ok_iff)
  note one = resolve_primary_ok [OF pr]
  have prim: "\<exists>san. primary = Some san \<and> usable_network (vp_families p) san
      \<and> pred_option (\<lambda>s. sub_ad s = None) (sans_subnet san)" if "errs = []"
    using one that by (auto simp: option.pred_set)
  have npn: "vp_npn p1 = vp_npn p" using one by (simp add: same_setup_def)
  show ?thesis
  proof (cases "vp_npn p")
    case False
    with assms pr npn prim show ?thesis
      by (auto simp: resolve_network_config_def split: if_splits)
  next
    case True
    with assms pr npn have ne: "nc_secondary cfg \<noteq> []" and e: "errs = []"
      by (auto simp: resolve_network_config_def st_bind_Ok_iff split: if_splits)
    with assms pr npn True obtain sans p2 where s:
      "resolve_secondaries api now 0 (nc_secondary cfg) p1 = (Ok (sans, []), p2)"
      "out = \<lparr>nrr_primary = primary, nrr_others = sans\<rparr>" "validate_ip_counts p2 cfg = None"
      by (auto simp: resolve_network_config_def st_bind_Ok_iff split: option.splits)
    note two = resolve_secondaries_ok [OF s(1)]
    have fam: "vp_families p1 = vp_families p" "vp_families p2 = vp_families p"
      using one two by (simp_all add: same_setup_def)
    note cnt = ip_count_cong [OF fam(1)] ip_count_cong [OF fam(2)]
    have vac: "validate_against_cidrs p1 = validate_against_cidrs p"
      by (rule against_cidrs_cong [OF fam(1)])
    have valid: "validate_ip_counts p cfg = None"
      using s(3) by (simp add: validate_ip_counts_def cnt fam)
    have "list_all2 (\<lambda>c san. usable_network (vp_families p) san \<and> validate_against_cidrs p c san = None)
        (nc_secondary cfg) sans"
      using two by (simp add: vac fam)
    with valid prim [OF e] ne True show ?thesis unfolding s(2) by simp
  qed
qed

subsection \<open>A worked example\<close>

definition example_subnet :: subnet where
  "example_subnet = \<lparr>sub_id = Some ''s'', sub_ad = None, sub_vcn = Some ''v'', sub_cidr = Some ''10.0.0.0/16'',
     sub_ipv4_blocks = [''10.0.0.0/16''], sub_ipv6_cidr = None, sub_ipv6_blocks = [], sub_name = ''n'',
     sub_freeform = [], sub_defined = []\<rparr>"

definition example_vcn_api :: vcn_api where
  "example_vcn_api = \<lparr>vn_get_subnet = (\<lambda>_. Ok example_subnet), vn_list_subnets = (\<lambda>_ _ _. Panic),
     vn_get_nsg = (\<lambda>_. Panic), vn_list_nsgs = (\<lambda>_ _ _. Panic), vn_get_vnic = (\<lambda>_. Panic),
     vn_hash = (\<lambda>_. Panic)\<rparr>"

definition example_vcn :: vcn_provider where
  "example_vcn = \<lparr>vp_compartment = ''c'', vp_npn = True, vp_families = [IPv4],
     vp_subnets = new_default_cache, vp_subnet_lists = new_default_cache,
     vp_nsgs = new_default_cache, vp_nsg_lists = new_default_cache, vp_vnics = new_default_cache\<rparr>"

definition example_simple_vnic :: simple_vnic_config where
  "example_simple_vnic = \<lparr>svc_subnet_and_nsg = Some \<lparr>san_subnet = Some \<lparr>sn_id = Some ''s'', sn_filter = None\<rparr>,
     san_nsgs = []\<rparr>, svc_assign_ipv6 = None, svc_assign_public = None, svc_display_name = None,
     svc_ipv6_cidrs = [], svc_skip_check = None, svc_security = []\<rparr>"

definition example_network :: network_config where
  "example_network = \<lparr>nc_primary = Some example_simple_vnic,
     nc_secondary = [simple_vnic_config.extend example_simple_vnic
       \<lparr>svn_application = None, svn_ip_count = Some 16, svn_nic_index = None\<rparr>]\<rparr>"

lemmas example_network_defs = example_subnet_def example_vcn_api_def example_vcn_def example_simple_vnic_def
  example_network_def simple_vnic_config.defs

theorem ip_counts_valid_iff_witness:
  "validate_ip_counts example_vcn example_network = None"
  by (subst ip_counts_valid_iff)
     (simp_all add: example_network_defs ip_count_to_check_def is_ipv6_single_stack_def)

theorem resolved_network_is_usable_witness:
  "\<exists>out. fst (resolve_network_config example_vcn_api 0 (Some example_network) example_vcn) = Ok (out, [])
     \<and> length (nrr_others out) = 1"
proof -
  have new: "get_from_cache 0 new_default_cache k = None" for k
    by (simp add: new_default_cache_def get_new)
  have "\<exists>out p'. resolve_network_config example_vcn_api 0 (Some example_network) example_vcn = (Ok (out, []), p')"
    by (simp add: resolve_network_config_def resolve_primary_def resolve_simple_vnic_def
        resolve_subnet_and_nsg_def resolve_subnet_def get_subnet_def get_or_load_pure example_network_defs
        new no_network_def validate_ip_counts_def ip_count_to_check_def
        is_ipv6_single_stack_def validate_against_cidrs_def is_ipv6_def get_cidr_blocks_def
        small_power_of_two [of 16, simplified] get_after_set split_def Let_def split: option.splits)
  then obtain out p' where r:
    "resolve_network_config example_vcn_api 0 (Some example_network) example_vcn = (Ok (out, []), p')" by blast
  from resolved_network_is_usable [OF r] have "length (nrr_others out) = 1"
    by (auto simp: example_network_defs list_all2_Cons1)
  with r show ?thesis by simp
qed

end
