(* ===== verification/Shape_Model.thy ===== *)
theory Shape_Model
  imports Karpenter_Types Float_Arith
begin

section \<open>Compute shapes\<close>

text \<open>
  \<open>pkg/providers/instancetype\<close>: what is read off a shape of the compute service (\<open>shape.go\<close>), the
  baselines of burstable shapes (\<open>burstable.go\<close>), the memory a virtual machine really has
  (\<open>vm_memory_overhead.go\<close>), and whether a shape can be given a platform configuration and how
  many CPUs are left then (\<open>platformconfig.go\<close>).

  A shape has a name: the provider keys its shapes by it, after dereferencing it.  Floating point
  numbers are rationals, rounded after each operation to the width Go computes it in, without the
  fused operations some platforms use; they are finite, as the validation of the flags makes sure.
\<close>

record ocpu_options =
  oo_min :: "rat option"
  oo_max :: "rat option"

record memory_options =
  mo_min :: "rat option"
  mo_max :: "rat option"
  mo_default :: "rat option"

record vnic_options =
  vo_min :: "int option"
  vo_max :: "rat option"
  vo_default :: "rat option"

record bool_options =
  bo_allowed :: "bool list"
  bo_default :: "bool option"

record percent_options =
  po_min :: "int option"
  po_max :: "int option"
  po_default :: "int option"

record platform_options =
  pt_type :: string
  pt_secure_boot :: "bool_options option"
  pt_tpm :: "bool_options option"
  pt_measured_boot :: "bool_options option"
  pt_memory_encryption :: "bool_options option"
  pt_smt :: "bool_options option"
  pt_acs :: "bool_options option"
  pt_virtual_instructions :: "bool_options option"
  pt_iommu :: "bool_options option"
  pt_numa :: "string list option"
  pt_cores_percent :: "percent_options option"

record shape =
  sh_name :: string
  sh_ocpus :: "rat option"
  sh_memory :: "rat option"
  sh_gpus :: "int option"
  sh_gpu_description :: "string option"
  sh_disks_size :: "rat option"
  sh_flexible :: "bool option"
  sh_always_free :: bool
  sh_ocpu_options :: "ocpu_options option"
  sh_memory_options :: "memory_options option"
  sh_max_vnics :: "int option"
  sh_vnic_options :: "vnic_options option"
  sh_baselines :: "string list"
  sh_platform :: "platform_options option"

subsection \<open>Reading a shape\<close>

definition is_arm_shape :: "shape \<Rightarrow> bool" where
  "is_arm_shape sh =
     (let u = to_upper (sh_name sh)
      in has_prefix u ''VM.STANDARD.A'' \<and> \<not> contains_str u ''AMD'' \<or> has_prefix u ''BM.STANDARD.A'')"

definition is_gpu_shape :: "shape \<Rightarrow> bool" where
  "is_gpu_shape sh = (case sh_gpus sh of None \<Rightarrow> False | Some n \<Rightarrow> n > 0)"

definition is_amd_gpu_shape :: "shape \<Rightarrow> bool" where
  "is_amd_gpu_shape sh =
     (case sh_gpu_description sh of None \<Rightarrow> False | Some d \<Rightarrow> contains_str (to_upper d) ''AMD'')"

definition is_bm_shape :: "string \<Rightarrow> bool" where
  "is_bm_shape name = has_prefix (to_upper name) ''BM''"

definition is_dense_io_shape :: "shape \<Rightarrow> bool" where
  "is_dense_io_shape sh =
     (contains_str (to_upper (sh_name sh)) ''DENSEIO''
      \<and> (case sh_disks_size sh of None \<Rightarrow> False | Some d \<Rightarrow> d > 0))"

definition is_flex_shape :: "shape \<Rightarrow> (err, bool) go" where
  "is_flex_shape sh = deref (sh_flexible sh)"

definition architecture :: "shape \<Rightarrow> string" where
  "architecture sh = (if is_arm_shape sh then ''arm64'' else ''amd64'')"

subsection \<open>Baselines\<close>

fun baseline_name :: "baseline \<Rightarrow> string" where
  "baseline_name BASELINE_1_8 = ''BASELINE_1_8''"
| "baseline_name BASELINE_1_2 = ''BASELINE_1_2''"
| "baseline_name BASELINE_1_1 = ''BASELINE_1_1''"

definition to_launch_instance_cpu_baseline :: "baseline \<Rightarrow> string" where
  "to_launch_instance_cpu_baseline b =
     (if b = BASELINE_1_2 then ''BASELINE_1_2''
      else if b = BASELINE_1_8 then ''BASELINE_1_8'' else ''BASELINE_1_1'')"

definition from_instance_cpu_baseline :: "string \<Rightarrow> baseline" where
  "from_instance_cpu_baseline s =
     (if s = ''BASELINE_1_8'' then BASELINE_1_8
      else if s = ''BASELINE_1_2'' then BASELINE_1_2 else BASELINE_1_1)"

lemma baseline_round_trip: "from_instance_cpu_baseline (to_launch_instance_cpu_baseline b) = b"
  by (cases b) (simp_all add: from_instance_cpu_baseline_def to_launch_instance_cpu_baseline_def)

subsection \<open>The memory of a virtual machine\<close>

record vm_memory_overhead =
  vmo_base :: rat
  vmo_per_gb :: rat
  vmo_percent :: rat

definition max_int64 :: int where "max_int64 = 2 ^ 63 - 1"

definition overhead_mib :: "vm_memory_overhead \<Rightarrow> rat \<Rightarrow> int" where
  "overhead_mib c gbs =
     (let fixed = f64 (vmo_base c + f64 (vmo_per_gb c * gbs));
          percent = f64 (f64 (vmo_percent c * gbs) * 1024);
          overhead = \<lceil>max (max fixed percent) 0\<rceil>
      in if overhead \<ge> 2 ^ 63 then max_int64 else overhead)"

text \<open>The name of the shape is an option here, nil for a nil shape.\<close>

definition memory_capacity_mib :: "string option \<Rightarrow> rat \<Rightarrow> vm_memory_overhead \<Rightarrow> int" where
  "memory_capacity_mib shapeName gbs overhead =
     (let declared = \<lfloor>f64 (gbs * 1024)\<rfloor>
      in if (case shapeName of None \<Rightarrow> False | Some n \<Rightarrow> is_bm_shape n) then declared
         else (let capacity = declared - overhead_mib overhead gbs
               in if capacity < 1 then 1 else capacity))"

definition default_vm_memory_overhead :: vm_memory_overhead where
  "default_vm_memory_overhead = \<lparr>vmo_base = 600, vmo_per_gb = 19, vmo_percent = 0\<rparr>"

subsection \<open>Platform configuration\<close>

record evaluation =
  ev_compatible :: bool
  ev_reason :: string
  ev_field :: string

definition resolve_platform_boolean :: "bool option \<Rightarrow> bool option \<Rightarrow> bool option" where
  "resolve_platform_boolean request dflt = (if request \<noteq> None then request else dflt)"

definition evaluate_platform_boolean :: "bool option \<Rightarrow> bool list \<Rightarrow> string" where
  "evaluate_platform_boolean request allowed =
     (case request of
        None \<Rightarrow> []
      | Some b \<Rightarrow>
          if length allowed = 0 then ''field_not_supported''
          else if b \<notin> set allowed then ''unsupported_value'' else [])"

text \<open>The zero value of an options structure allows nothing and has no default.\<close>

definition allowed_of :: "bool_options option \<Rightarrow> bool list" where
  "allowed_of bo = (case bo of None \<Rightarrow> [] | Some b \<Rightarrow> bo_allowed b)"

definition default_of :: "bool_options option \<Rightarrow> bool option" where
  "default_of bo = (case bo of None \<Rightarrow> None | Some b \<Rightarrow> bo_default b)"

fun first_failure :: "(string \<times> string) list \<Rightarrow> string \<times> string" where
  "first_failure [] = ([], [])"
| "first_failure ((reason, field) # rest) = (if reason \<noteq> [] then (reason, field) else first_failure rest)"

definition evaluate_numa :: "string option \<Rightarrow> string list option \<Rightarrow> string" where
  "evaluate_numa request allowed =
     (case request of
        None \<Rightarrow> []
      | Some n \<Rightarrow>
          (case allowed of
             None \<Rightarrow> ''field_not_supported''
           | Some as \<Rightarrow>
               if length as = 0 then ''field_not_supported''
               else if n \<notin> set as then ''unsupported_value'' else []))"

definition evaluate_percentage :: "int option \<Rightarrow> percent_options option \<Rightarrow> string" where
  "evaluate_percentage request bounds =
     (case request of
        None \<Rightarrow> []
      | Some n \<Rightarrow>
          (case bounds of
             None \<Rightarrow> ''field_not_supported''
           | Some b \<Rightarrow>
               (case (po_min b, po_max b) of
                  (Some lo, Some hi) \<Rightarrow>
                    if lo > hi then ''invalid_field_metadata''
                    else if n < lo \<or> n > hi then ''unsupported_value'' else []
                | _ \<Rightarrow> ''invalid_field_metadata'')))"

definition evaluate_capabilities :: "platform_options \<Rightarrow> platform_config \<Rightarrow> string \<times> string" where
  "evaluate_capabilities opts r = first_failure
     [(evaluate_platform_boolean (pc_secure_boot r) (allowed_of (pt_secure_boot opts)), ''secureBootEnabled''),
      (evaluate_platform_boolean (pc_tpm r) (allowed_of (pt_tpm opts)), ''trustedPlatformModuleEnabled''),
      (evaluate_platform_boolean (pc_measured_boot r) (allowed_of (pt_measured_boot opts)), ''measuredBootEnabled''),
      (evaluate_platform_boolean (pc_memory_encryption r) (allowed_of (pt_memory_encryption opts)),
         ''memoryEncryptionEnabled''),
      (evaluate_platform_boolean (pc_smt r) (allowed_of (pt_smt opts)), ''symmetricMultiThreadingEnabled''),
      (evaluate_platform_boolean (pc_acs r) (allowed_of (pt_acs opts)), ''accessControlServiceEnabled''),
      (evaluate_platform_boolean (pc_virtual_instructions r) (allowed_of (pt_virtual_instructions opts)),
         ''virtualInstructionsEnabled''),
      (evaluate_platform_boolean (pc_iommu r) (allowed_of (pt_iommu opts)), ''inputOutputMemoryManagementUnitEnabled''),
      (evaluate_numa (pc_numa r) (pt_numa opts), ''numaNodesPerSocket''),
      (evaluate_percentage (pc_cores_percent r) (pt_cores_percent opts), ''percentageOfCoresEnabled'')]"

definition shielded_compatible :: "shape \<Rightarrow> bool option \<Rightarrow> bool option \<Rightarrow> bool" where
  "shielded_compatible sh tpm measured =
     (if is_bm_shape (sh_name sh) then \<not> (measured = Some True)
      else \<not> (tpm \<noteq> None \<and> measured \<noteq> None \<and> tpm \<noteq> measured))"

definition evaluate_platform_config :: "shape \<Rightarrow> platform_config option \<Rightarrow> evaluation" where
  "evaluate_platform_config sh request =
     (let fail = (\<lambda>reason field. \<lparr>ev_compatible = False, ev_reason = reason, ev_field = field\<rparr>)
      in if platform_is_empty request then \<lparr>ev_compatible = True, ev_reason = [], ev_field = []\<rparr>
         else (case (sh_platform sh, request) of
                 (Some opts, Some r) \<Rightarrow>
                   if pt_type opts = [] then fail ''missing_platform_metadata'' []
                   else if fst (evaluate_capabilities opts r) \<noteq> []
                   then fail (fst (evaluate_capabilities opts r)) (snd (evaluate_capabilities opts r))
                   else
                     (let secure = resolve_platform_boolean (pc_secure_boot r) (default_of (pt_secure_boot opts));
                          tpm = resolve_platform_boolean (pc_tpm r) (default_of (pt_tpm opts));
                          measured = resolve_platform_boolean (pc_measured_boot r) (default_of (pt_measured_boot opts));
                          encrypted = resolve_platform_boolean (pc_memory_encryption r)
                            (default_of (pt_memory_encryption opts))
                      in if \<not> shielded_compatible sh tpm measured
                         then fail ''unsupported_shielded_combination'' ''measuredBootEnabled''
                         else if from_ptr False encrypted
                           \<and> (from_ptr False secure \<or> from_ptr False tpm \<or> from_ptr False measured)
                         then fail ''confidential_shielded_conflict'' ''memoryEncryptionEnabled''
                         else \<lparr>ev_compatible = True, ev_reason = [], ev_field = []\<rparr>)
               | _ \<Rightarrow> fail ''missing_platform_metadata'' []))"

definition adjust_vcpu :: "rat \<Rightarrow> shape \<Rightarrow> platform_config \<Rightarrow> rat" where
  "adjust_vcpu baseline sh r =
     (let opts = sh_platform sh;
          smt = resolve_platform_boolean (pc_smt r)
                  (case opts of None \<Rightarrow> None | Some o' \<Rightarrow> default_of (pt_smt o'));
          percentage = (case pc_cores_percent r of
              Some n \<Rightarrow> Some n
            | None \<Rightarrow> (case opts of None \<Rightarrow> None
                | Some o' \<Rightarrow> (case pt_cores_percent o' of None \<Rightarrow> None | Some b \<Rightarrow> po_default b)));
          arm = is_arm_shape sh;
          threads = (if arm then 1 else 2)
      in if percentage = None \<and> smt = None then baseline
         else
           (let cores = f64 (baseline / threads);
                cores' = (case percentage of
                    None \<Rightarrow> cores
                  | Some n \<Rightarrow>
                      if opts \<noteq> None \<and> pt_type (the opts) \<in> {''INTEL_SKYLAKE_BM'', ''INTEL_ICELAKE_BM''}
                      then f64 (2 * max 1 (of_int \<lfloor>f64 (f64 (f64 (cores / 2) * of_int n) / 100)\<rfloor>))
                      else of_int \<lceil>f64 (f64 (cores * of_int n) / 100)\<rceil>);
                threads' = (if \<not> arm \<and> smt = Some False then 1 else threads)
            in f32 (f64 (cores' * threads'))))"

subsection \<open>Properties of the memory estimate\<close>

definition raw_overhead :: "vm_memory_overhead \<Rightarrow> rat \<Rightarrow> rat" where
  "raw_overhead c gbs =
     max (max (f64 (vmo_base c + f64 (vmo_per_gb c * gbs))) (f64 (f64 (vmo_percent c * gbs) * 1024))) 0"

lemma overhead_mib_eq: "overhead_mib c gbs = min \<lceil>raw_overhead c gbs\<rceil> (2 ^ 63 - 1)"
proof -
  have "(if 2 ^ 63 \<le> x then 2 ^ 63 - 1 else x) = min x (2 ^ 63 - 1)" for x :: int
    by (auto simp: min_def)
  then show ?thesis unfolding overhead_mib_def raw_overhead_def max_int64_def Let_def .
qed

lemma overhead_nonneg: "0 \<le> overhead_mib c gbs"
proof -
  have "(0 :: rat) \<le> raw_overhead c gbs" by (simp add: raw_overhead_def)
  then have "0 \<le> \<lceil>raw_overhead c gbs\<rceil>" by (metis ceiling_mono ceiling_zero)
  then show ?thesis by (simp add: overhead_mib_eq)
qed

lemma overhead_percent_mono:
  assumes "vmo_percent c \<le> q" "0 \<le> gbs"
  shows "overhead_mib c gbs \<le> overhead_mib (c\<lparr>vmo_percent := q\<rparr>) gbs"
proof -
  have "f64 (f64 (vmo_percent c * gbs) * 1024) \<le> f64 (f64 (q * gbs) * 1024)"
    using assms by (intro f64_mono mult_right_mono) auto
  then have "raw_overhead c gbs \<le> raw_overhead (c\<lparr>vmo_percent := q\<rparr>) gbs"
    unfolding raw_overhead_def by (intro max.mono) simp_all
  from ceiling_mono [OF this] show ?thesis by (simp only: overhead_mib_eq min.mono order_refl)
qed

text \<open>
  Raising the percentage of the memory overhead can only lower the capacity that is reported
  for a shape, whatever the fixed part is; and for any setting the capacity of a virtual machine
  stays at least one MiB and, above that, at most what the shape declares.
\<close>

theorem memory_percent_conservative:
  assumes "vmo_percent c \<le> q" "0 \<le> gbs"
  shows "memory_capacity_mib n gbs (c\<lparr>vmo_percent := q\<rparr>) \<le> memory_capacity_mib n gbs c
    \<and> memory_capacity_mib n gbs c \<le> max 1 \<lfloor>f64 (gbs * 1024)\<rfloor>
    \<and> (\<not> pred_option is_bm_shape n \<or> n = None \<longrightarrow> 1 \<le> memory_capacity_mib n gbs c)"
  using overhead_percent_mono [OF assms] overhead_nonneg [of c gbs]
  by (cases n) (auto simp: memory_capacity_mib_def Let_def)

theorem memory_percent_conservative_witness:
  "memory_capacity_mib (Some ''VM.Standard.E5.Flex'') 8 (default_vm_memory_overhead\<lparr>vmo_percent := 3 / 40\<rparr>)
     \<le> memory_capacity_mib (Some ''VM.Standard.E5.Flex'') 8 default_vm_memory_overhead"
  using memory_percent_conservative [of default_vm_memory_overhead "3 / 40" 8]
  by (simp add: default_vm_memory_overhead_def)

text \<open>
  With the default overhead a virtual machine that declares \<open>g\<close> GiB is reported with
  \<open>1005 g - 600\<close> MiB, and with no less than one; bare metal keeps what it declares.
\<close>

theorem default_memory_capacity:
  assumes "0 \<le> g" "g < 2 ^ 40"
  shows "memory_capacity_mib (Some n) (of_int g) default_vm_memory_overhead =
    (if is_bm_shape n then 1024 * g else max 1 (1005 * g - 600))"
proof -
  have d: "f64 (of_int g * 1024) = of_int (g * 1024)"
    using f64_int [of "g * 1024"] assms by simp
  have p: "f64 (19 * of_int g) = of_int (19 * g)"
    using f64_int [of "19 * g"] assms by simp
  have f: "f64 (600 + of_int (19 * g)) = of_int (600 + 19 * g)"
    using f64_int [of "600 + 19 * g"] assms by simp
  have "raw_overhead default_vm_memory_overhead (of_int g) = of_int (600 + 19 * g)"
    using p f assms(1) by (simp add: raw_overhead_def default_vm_memory_overhead_def)
  then have "overhead_mib default_vm_memory_overhead (of_int g) = 600 + 19 * g"
    using assms by (simp only: overhead_mib_eq ceiling_of_int) simp
  then show ?thesis
    using d by (auto simp: memory_capacity_mib_def max_def Let_def floor_of_int simp del: of_int_mult)
qed

text \<open>The memory in MiB that virtual machines declare and that was measured on them: the estimate of
  every one is between 64 and 1024 MiB below the measurement.\<close>

definition published_measurements :: "(int \<times> int) list" where
  "published_measurements =
     [(8, 7657), (8, 7646), (8, 7644), (12, 11669), (16, 15698), (28, 27628), (32, 31631), (50, 49825),
      (50, 49896), (50, 49894), (128, 128292), (128, 128286), (128, 128284)]"

theorem default_memory_capacity_witness:
  "list_all (\<lambda>(gbs, actual).
      let modelled = memory_capacity_mib (Some ''VM.Standard.E5.Flex'') (of_int gbs) default_vm_memory_overhead
      in 64 \<le> actual - modelled \<and> actual - modelled < 1024) published_measurements"
proof -
  have "\<not> is_bm_shape ''VM.Standard.E5.Flex''"
    by (simp add: is_bm_shape_def has_prefix_def to_upper_def char_upper_def)
  then show ?thesis
    by (simp add: published_measurements_def default_memory_capacity [of 8, simplified]
        default_memory_capacity [of 12, simplified] default_memory_capacity [of 16, simplified]
        default_memory_capacity [of 28, simplified] default_memory_capacity [of 32, simplified]
        default_memory_capacity [of 50, simplified] default_memory_capacity [of 128, simplified] Let_def)
qed

subsection \<open>Properties of the platform configuration\<close>

text \<open>What a shape must offer for a request, without the order of the checks.\<close>

definition offers :: "bool option \<Rightarrow> bool_options option \<Rightarrow> bool" where
  "offers request bo \<longleftrightarrow> pred_option (\<lambda>b. b \<in> set (allowed_of bo)) request"

definition offers_all :: "platform_options \<Rightarrow> platform_config \<Rightarrow> bool" where
  "offers_all opts r \<longleftrightarrow>
     offers (pc_secure_boot r) (pt_secure_boot opts) \<and> offers (pc_tpm r) (pt_tpm opts)
   \<and> offers (pc_measured_boot r) (pt_measured_boot opts)
   \<and> offers (pc_memory_encryption r) (pt_memory_encryption opts)
   \<and> offers (pc_smt r) (pt_smt opts) \<and> offers (pc_acs r) (pt_acs opts)
   \<and> offers (pc_virtual_instructions r) (pt_virtual_instructions opts)
   \<and> offers (pc_iommu r) (pt_iommu opts)
   \<and> pred_option (\<lambda>n. \<exists>as. pt_numa opts = Some as \<and> n \<in> set as) (pc_numa r)
   \<and> pred_option (\<lambda>n. \<exists>b lo hi. pt_cores_percent opts = Some b \<and> po_min b = Some lo
        \<and> po_max b = Some hi \<and> lo \<le> n \<and> n \<le> hi) (pc_cores_percent r)"

definition in_force :: "bool option \<Rightarrow> bool_options option \<Rightarrow> bool option" where
  "in_force request bo = (case request of Some b \<Rightarrow> Some b | None \<Rightarrow> default_of bo)"

lemma resolve_in_force: "resolve_platform_boolean request (default_of bo) = in_force request bo"
  by (cases request) (simp_all add: resolve_platform_boolean_def in_force_def)

lemma evaluate_platform_boolean_ok: "evaluate_platform_boolean request (allowed_of bo) = [] \<longleftrightarrow> offers request bo"
  by (auto simp: evaluate_platform_boolean_def offers_def split: option.splits)

lemma evaluate_numa_ok:
  "evaluate_numa request allowed = [] \<longleftrightarrow> pred_option (\<lambda>n. \<exists>as. allowed = Some as \<and> n \<in> set as) request"
  by (auto simp: evaluate_numa_def split: option.splits)

lemma evaluate_percentage_ok:
  "evaluate_percentage request bounds = [] \<longleftrightarrow> pred_option (\<lambda>n. \<exists>b lo hi. bounds = Some b
     \<and> po_min b = Some lo \<and> po_max b = Some hi \<and> lo \<le> n \<and> n \<le> hi) request"
  by (auto simp: evaluate_percentage_def split: option.splits)

lemma first_failure_none: "fst (first_failure cs) = [] \<longleftrightarrow> (\<forall>(reason, field) \<in> set cs. reason = [])"
  by (induction cs rule: first_failure.induct) auto

lemma evaluate_capabilities_ok: "fst (evaluate_capabilities opts r) = [] \<longleftrightarrow> offers_all opts r"
  by (simp add: evaluate_capabilities_def first_failure_none evaluate_platform_boolean_ok evaluate_numa_ok
      evaluate_percentage_ok offers_all_def)

text \<open>
  C34. A shape is compatible with a non-empty platform request exactly when it describes its
  platform, offers every value that is requested, and the settings then in force - a requested
  value, or else the default of the shape - are consistent: no measured boot on bare metal, on a
  virtual machine measured boot and the platform module both or neither when both are known, and no
  memory encryption together with a part of the shielded boot.
\<close>

theorem platform_compatible_iff:
  assumes "r \<noteq> empty_platform"
  shows "ev_compatible (evaluate_platform_config sh (Some r)) \<longleftrightarrow>
    (\<exists>opts. sh_platform sh = Some opts \<and> pt_type opts \<noteq> [] \<and> offers_all opts r \<and>
      (let secure = in_force (pc_secure_boot r) (pt_secure_boot opts);
           tpm = in_force (pc_tpm r) (pt_tpm opts);
           measured = in_force (pc_measured_boot r) (pt_measured_boot opts);
           encrypted = in_force (pc_memory_encryption r) (pt_memory_encryption opts)
       in (if is_bm_shape (sh_name sh) then measured \<noteq> Some True
           else tpm = None \<or> measured = None \<or> tpm = measured)
        \<and> (encrypted = Some True \<longrightarrow> secure \<noteq> Some True \<and> tpm \<noteq> Some True \<and> measured \<noteq> Some True)))"
proof -
  have ptr: "from_ptr False b \<longleftrightarrow> b = Some True" for b by (cases b) auto
  show ?thesis
  proof (cases "sh_platform sh")
    case None
    with assms show ?thesis by (simp add: evaluate_platform_config_def platform_is_empty_def Let_def)
  next
    case (Some opts)
    with assms show ?thesis
      by (simp add: evaluate_platform_config_def platform_is_empty_def resolve_in_force
          evaluate_capabilities_ok shielded_compatible_def ptr Let_def)
  qed
qed

definition example_platform_options :: platform_options where
  "example_platform_options = \<lparr>pt_type = ''AMD_VM'', pt_secure_boot = None, pt_tpm = None, pt_measured_boot = None,
     pt_memory_encryption = Some \<lparr>bo_allowed = [True, False], bo_default = Some False\<rparr>,
     pt_smt = None, pt_acs = None, pt_virtual_instructions = None, pt_iommu = None, pt_numa = None,
     pt_cores_percent = Some \<lparr>po_min = Some 25, po_max = Some 100, po_default = None\<rparr>\<rparr>"

definition example_shape :: "string \<Rightarrow> shape" where
  "example_shape name = \<lparr>sh_name = name, sh_ocpus = Some 2, sh_memory = Some 16, sh_gpus = None,
     sh_gpu_description = None, sh_disks_size = None, sh_flexible = Some False, sh_always_free = False,
     sh_ocpu_options = None, sh_memory_options = None, sh_max_vnics = None, sh_vnic_options = None,
     sh_baselines = [], sh_platform = Some example_platform_options\<rparr>"

theorem platform_compatible_iff_witness:
  "ev_compatible (evaluate_platform_config (example_shape ''VM.Standard.E4'')
     (Some (empty_platform\<lparr>pc_memory_encryption := Some True\<rparr>)))"
  by (subst platform_compatible_iff)
     (simp_all add: empty_platform_def example_shape_def example_platform_options_def offers_all_def
        offers_def allowed_of_def in_force_def default_of_def)

definition enabled_cores :: "bool \<Rightarrow> rat \<Rightarrow> int \<Rightarrow> rat" where
  "enabled_cores sockets cores n =
     (if sockets then f64 (2 * max 1 (of_int \<lfloor>f64 (f64 (f64 (cores / 2) * of_int n) / 100)\<rfloor>))
      else of_int \<lceil>f64 (f64 (cores * of_int n) / 100)\<rceil>)"

lemma enabled_cores_bounds:
  assumes "2 \<le> k" "k < 2 ^ 20" "0 \<le> n" "n \<le> 100"
  shows "\<exists>m. enabled_cores sockets (of_int k) n = of_int m \<and> 0 \<le> m \<and> m \<le> k"
proof -
  have "k * n \<le> k * 100" using assms by (intro mult_left_mono) auto
  also have "\<dots> < 2 ^ 53" using assms(2) by simp
  finally have kn: "f64 (of_int k * of_int n) = of_int k * of_int n"
    using f64_int [of "k * n"] assms by simp
  have k: "f64 (of_int k) = of_int k" using f64_int [of k] assms by simp
  have le: "(of_int k * of_int n / 100 :: rat) \<le> of_int k"
    using mult_left_mono [of "of_int n" "100 :: rat" "of_int k"] assms by simp
  show ?thesis
  proof (cases sockets)
    case False
    have "f64 (of_int k * of_int n / 100) \<le> of_int k" using f64_mono [OF le] k by simp
    moreover have "(0 :: rat) \<le> f64 (of_int k * of_int n / 100)" using assms by simp
    ultimately have "0 \<le> \<lceil>f64 (of_int k * of_int n / 100)\<rceil>" "\<lceil>f64 (of_int k * of_int n / 100)\<rceil> \<le> k"
      by (simp_all add: ceiling_le_iff)
    then show ?thesis using False kn by (simp add: enabled_cores_def)
  next
    case True
    let ?f = "\<lfloor>f64 (of_int k * of_int n / 100) / 2\<rfloor>"
    have "f64 (of_int k * of_int n / 100) \<le> of_int k" using f64_mono [OF le] k by simp
    then have "f64 (of_int k * of_int n / 100) / 2 \<le> of_int k / 2" by simp
    then have f: "?f \<le> k div 2"
      using floor_mono by (metis floor_divide_of_int_eq of_int_numeral)
    define m where "m = 2 * max 1 ?f"
    have "m \<le> k" using f assms(1) by (auto simp: m_def)
    moreover have m0: "0 \<le> m" by (simp add: m_def)
    ultimately have "f64 (of_int m) = of_int m" using f64_int [of m] assms(2) by simp
    moreover have "enabled_cores True (of_int k) n = f64 (of_int m)"
    proof -
      have "f64 (f64 (of_int k / 2) * of_int n) = f64 (of_int k * of_int n / 2)"
        by (simp only: f64_half k times_divide_eq_left)
      also have "\<dots> = of_int k * of_int n / 2" by (simp only: f64_half kn)
      finally have "f64 (f64 (f64 (of_int k / 2) * of_int n) / 100) = f64 (of_int k * of_int n / 2 / 100)"
        by (rule arg_cong [where f = "\<lambda>x. f64 (x / 100)"])
      also have "f64 (of_int k * of_int n / 2 / 100) = f64 (of_int k * of_int n / 100 / 2)" by simp
      also have "\<dots> = f64 (of_int k * of_int n / 100) / 2" by (rule f64_half)
      finally have "enabled_cores True (of_int k) n = f64 (2 * max 1 (of_int ?f))"
        by (simp only: enabled_cores_def if_True)
      also have "(2 * max 1 (of_int ?f) :: rat) = of_int m"
        unfolding m_def by (simp only: of_int_mult of_int_numeral of_int_max of_int_1)
      finally show ?thesis .
    qed
    ultimately show ?thesis using True \<open>m \<le> k\<close> m0 by (intro exI [of _ m]) simp
  qed
qed

text \<open>
  Platform settings never add CPUs: for a shape with \<open>k\<close> cores of which at most all are
  enabled, the CPUs that remain are at least zero and at most those of the shape.
\<close>

theorem adjust_vcpu_bounds:
  assumes "b = of_int ((if is_arm_shape sh then 1 else 2) * k)" "2 \<le> k" "k < 2 ^ 20"
    and "\<forall>n. pc_cores_percent r = Some n \<longrightarrow> 0 \<le> n \<and> n \<le> 100"
    and "\<forall>opts bounds n. sh_platform sh = Some opts \<longrightarrow> pt_cores_percent opts = Some bounds
           \<longrightarrow> po_default bounds = Some n \<longrightarrow> 0 \<le> n \<and> n \<le> 100"
  shows "0 \<le> adjust_vcpu b sh r \<and> adjust_vcpu b sh r \<le> b"
proof -
  let ?opts = "sh_platform sh" and ?arm = "is_arm_shape sh"
  let ?smt = "resolve_platform_boolean (pc_smt r) (case ?opts of None \<Rightarrow> None | Some o' \<Rightarrow> default_of (pt_smt o'))"
  let ?pct = "case pc_cores_percent r of Some n \<Rightarrow> Some n
     | None \<Rightarrow> (case ?opts of None \<Rightarrow> None
         | Some o' \<Rightarrow> (case pt_cores_percent o' of None \<Rightarrow> None | Some b \<Rightarrow> po_default b))"
  let ?sockets = "?opts \<noteq> None \<and> pt_type (the ?opts) \<in> {''INTEL_SKYLAKE_BM'', ''INTEL_ICELAKE_BM''}"
  define t where "t = (if ?arm then 1 else 2 :: int)"
  define t' where "t' = (if \<not> ?arm \<and> ?smt = Some False then 1 else t)"
  have t: "0 < t'" "t' \<le> t" "t \<le> 2" by (auto simp: t_def t'_def)
  have b: "b = of_int (t * k)" using assms(1) by (simp add: t_def)
  have cores: "f64 (b / of_int t) = of_int k"
    using f64_int [of k] assms(2,3) b t by simp
  have "0 \<le> n \<and> n \<le> 100" if "?pct = Some n" for n
    using that assms(4,5) by (auto split: option.splits)
  then obtain m where m: "(case ?pct of None \<Rightarrow> of_int k | Some n \<Rightarrow> enabled_cores ?sockets (of_int k) n) = of_int m"
    "0 \<le> m" "m \<le> k"
    using enabled_cores_bounds [OF assms(2,3)] assms(2) by (cases ?pct) fastforce+
  have adj: "adjust_vcpu b sh r = (if ?pct = None \<and> ?smt = None then b else f32 (f64 (of_int m * of_int t')))"
  proof -
    have "adjust_vcpu b sh r = (if ?pct = None \<and> ?smt = None then b else f32 (f64
      ((case ?pct of None \<Rightarrow> f64 (b / of_int t) | Some n \<Rightarrow> enabled_cores ?sockets (f64 (b / of_int t)) n) * of_int t')))"
      by (simp add: adjust_vcpu_def enabled_cores_def t_def t'_def Let_def cong: option.case_cong if_cong)
    then show ?thesis by (simp only: cores m(1))
  qed
  have "m * t' \<le> k * t" using m(2,3) t by (intro mult_mono) auto
  moreover have "k * t \<le> k * 2" using assms(2) t by (intro mult_left_mono) auto
  moreover have "0 \<le> m * t'" using m(2) t by simp
  ultimately have r: "0 \<le> m * t'" "m * t' \<le> k * t" "m * t' < 2 ^ 21" using assms(3) by auto
  then have "f32 (f64 (of_int (m * t'))) = of_int (m * t')"
    using f64_int [of "m * t'"] f32_int [of "m * t'"] by simp
  then have "f32 (f64 (of_int m * of_int t')) = of_int (m * t')" by simp
  moreover have "(of_int (m * t') :: rat) \<le> b" using r(2) b by (simp only: of_int_le_iff mult.commute)
  moreover have "(0 :: rat) \<le> of_int (m * t')" using r(1) by (simp only: of_int_0_le_iff)
  moreover have "0 \<le> b" using b assms(2) t by simp
  ultimately show ?thesis using adj by auto
qed

theorem adjust_vcpu_bounds_witness:
  "adjust_vcpu 8 (example_shape ''VM.Standard.E4'') (empty_platform\<lparr>pc_cores_percent := Some 50\<rparr>) \<le> 8"
proof -
  have x86: "\<not> is_arm_shape (example_shape ''VM.Standard.E4'')"
    by (simp add: is_arm_shape_def example_shape_def has_prefix_def to_upper_def char_upper_def)
  show ?thesis
    using adjust_vcpu_bounds [of 8 "example_shape ''VM.Standard.E4''" 4
      "empty_platform\<lparr>pc_cores_percent := Some 50\<rparr>"] x86
    by (simp add: empty_platform_def example_shape_def example_platform_options_def)
qed

end
