(* ===== verification/Shape_Resources.thy ===== *)
theory Shape_Resources
  imports Shape_Model Network_Families "HOL-Library.AList"
begin

section \<open>Resources of an instance type\<close>

text \<open>
  The part of \<open>pkg/providers/instancetype/provider.go\<close> that turns a shape and a node class into the
  capacity and the overhead of an instance type, its price and its number of network interfaces.

  How a quantity or a floating point number is written and read is library code: an argument
  (\<open>quantity_lib\<close>).  Reading a quantity that is not one panics in \<open>MustParse\<close>; an unreadable
  percentage panics in the code's own function.
\<close>

record quantity_lib =
  ql_parse :: "string \<Rightarrow> rat option"
  ql_parse_float :: "string \<Rightarrow> rat option"
  ql_print_float :: "rat \<Rightarrow> string"

definition must_parse :: "quantity_lib \<Rightarrow> string \<Rightarrow> (err, rat) go" where
  "must_parse lib s = deref (ql_parse lib s)"

text \<open>Resource lists are maps; \<open>lo.Assign\<close> lets the later map win.\<close>

definition set_resource :: "string \<Rightarrow> rat \<Rightarrow> resource_list \<Rightarrow> resource_list" where
  "set_resource k v rs = AList.update k v rs"

definition assign_resources :: "resource_list \<Rightarrow> resource_list \<Rightarrow> resource_list" where
  "assign_resources rs override = fold (\<lambda>(k, v). set_resource k v) override rs"

text \<open>A kubelet map of overrides, each value read as a quantity.\<close>

definition parse_resources :: "quantity_lib \<Rightarrow> tags \<Rightarrow> (err, resource_list) go" where
  "parse_resources lib m = map_go (\<lambda>(k, v). map_ok (\<lambda>q. (k, q)) (must_parse lib v)) m"

subsection \<open>Reserved resources\<close>

definition kube_reserved_cpu :: "rat \<Rightarrow> rat" where
  "kube_reserved_cpu vcpu =
     (if vcpu = 1 then 60 else if vcpu = 2 then 72 else if vcpu = 3 then 80
      else if vcpu = 4 then 85 else if vcpu = 5 then 90
      else f32 (90 + f32 (f32 (vcpu - 5) * (5 / 2))))"

definition kube_reserved_gib :: "rat \<Rightarrow> rat" where
  "kube_reserved_gib gbs =
     (if gbs \<le> 4 then f32 (1 / 4 * gbs)
      else if gbs \<le> 8 then f32 (f32 (f32 (1 / 5) * f32 (gbs - 4)) + 1)
      else if gbs \<le> 16 then f32 (f32 (f32 (1 / 10) * f32 (gbs - 8)) + f32 (9 / 5))
      else if gbs \<le> 128 then f32 (f32 (f32 (3 / 50) * f32 (gbs - 16)) + f32 (13 / 5))
      else f32 (f32 (f32 (1 / 50) * f32 (gbs - 128)) + f32 (233 / 25)))"

definition kube_reserved :: "quantity_lib \<Rightarrow> rat \<Rightarrow> rat \<Rightarrow> kubelet_config option \<Rightarrow> (err, resource_list) go" where
  "kube_reserved lib vcpu gbs kc =
     (let res = [(''cpu'', of_int (trunc_int (kube_reserved_cpu vcpu)) / 1000),
                 (''memory'', of_int \<lceil>f64 (kube_reserved_gib gbs * 2 ^ 30)\<rceil>)]
      in map_ok (assign_resources res)
           (parse_resources lib (case kc of None \<Rightarrow> [] | Some c \<Rightarrow> from_ptr [] (kc_kube_reserved c))))"

definition system_reserved :: "quantity_lib \<Rightarrow> kubelet_config option \<Rightarrow> (err, resource_list) go" where
  "system_reserved lib kc =
     (let res = [(''cpu'', 1 / 10), (''memory'', 100 * 2 ^ 20)]
      in map_ok (assign_resources res)
           (parse_resources lib (case kc of None \<Rightarrow> [] | Some c \<Rightarrow> from_ptr [] (kc_system_reserved c))))"

subsection \<open>Eviction thresholds\<close>

text \<open>\<open>strings.Trim\<close> takes percent signs off both ends.\<close>

definition must_parse_percentage :: "quantity_lib \<Rightarrow> string \<Rightarrow> (err, rat) go" where
  "must_parse_percentage lib v =
     map_ok (\<lambda>p. if p = 100 then 0 else p) (deref (ql_parse_float lib (trim_char (CHR ''%'') v)))"

definition has_suffix_char :: "char \<Rightarrow> string \<Rightarrow> bool" where
  "has_suffix_char c s \<longleftrightarrow> s \<noteq> [] \<and> last s = c"

definition parse_eviction_signal :: "quantity_lib \<Rightarrow> rat \<Rightarrow> string \<Rightarrow> (err, rat) go" where
  "parse_eviction_signal lib capacity signal =
     (if has_suffix_char (CHR ''%'') signal
      then go_bind (must_parse_percentage lib signal) (\<lambda>p.
             must_parse lib (ql_print_float lib (of_int \<lceil>f64 (f64 (f64 capacity / 100) * p)\<rceil>)))
      else must_parse lib signal)"

text \<open>One of the two maps; the disk signal counts when the size of the disk is known.\<close>

definition eviction_signals ::
  "quantity_lib \<Rightarrow> rat \<Rightarrow> rat option \<Rightarrow> tags \<Rightarrow> (err, resource_list) go" where
  "eviction_signals lib memory storage m =
     go_bind (case map_of m ''memory.available'' of
                None \<Rightarrow> Ok []
              | Some v \<Rightarrow> map_ok (\<lambda>q. [(''memory'', q)]) (parse_eviction_signal lib memory v))
       (\<lambda>mem. go_bind (case (storage, map_of m ''nodefs.available'') of
                (Some st, Some v) \<Rightarrow> map_ok (\<lambda>q. [(''ephemeral-storage'', q)]) (parse_eviction_signal lib st v)
              | _ \<Rightarrow> Ok [])
       (\<lambda>disk. Ok (mem @ disk)))"

text \<open>\<open>resources.MaxResources\<close>: each resource with the largest of its quantities.\<close>

definition max_resources :: "resource_list \<Rightarrow> resource_list \<Rightarrow> resource_list" where
  "max_resources a b =
     fold (\<lambda>(k, v) rs. case map_of rs k of
         None \<Rightarrow> set_resource k v rs
       | Some w \<Rightarrow> if v > w then set_resource k v rs else rs) (a @ b) []"

definition eviction_threshold ::
  "quantity_lib \<Rightarrow> rat \<Rightarrow> int option \<Rightarrow> kubelet_config option \<Rightarrow> (err, resource_list) go" where
  "eviction_threshold lib gbs diskGbs kc =
     (case kc of
        None \<Rightarrow> Ok []
      | Some c \<Rightarrow>
          (let memory = of_int (trunc_int (f64 (f64 (f64 (gbs * 1024) * 1024) * 1024)));
               storage = map_option (\<lambda>g. of_int g * 10 ^ 9) diskGbs
           in go_bind (eviction_signals lib memory storage (from_ptr [] (kc_eviction_hard c))) (\<lambda>hard.
                map_ok (max_resources hard) (eviction_signals lib memory storage (from_ptr [] (kc_eviction_soft c))))))"

subsection \<open>Capacity\<close>

definition pods :: "int \<Rightarrow> kubelet_config option \<Rightarrow> secondary_vnic_config list \<Rightarrow> ip_family list \<Rightarrow> int" where
  "pods vcpu kc vnics fs =
     (let count = kubelet_max_pods kc vnics (default_secondary_vnic_ip_count fs)
      in case kc of
           None \<Rightarrow> count
         | Some c \<Rightarrow>
             (case kc_pods_per_core c of
                None \<Rightarrow> count
              | Some n \<Rightarrow> if n \<noteq> 0 then min (n * vcpu) count else count))"

definition gpu_count :: "shape \<Rightarrow> int" where
  "gpu_count sh = (case sh_gpus sh of None \<Rightarrow> 0 | Some n \<Rightarrow> n)"

definition gpu_resource_name :: "shape \<Rightarrow> string" where
  "gpu_resource_name sh = (if is_amd_gpu_shape sh then ''amd.com/gpu'' else ''nvidia.com/gpu'')"

definition vcpu_of :: "string set \<Rightarrow> shape \<Rightarrow> rat \<Rightarrow> rat" where
  "vcpu_of oneVcpuPerOcpu sh ocpu =
     (if to_upper (sh_name sh) \<in> oneVcpuPerOcpu then ocpu else f32 (2 * ocpu))"

definition set_capacity ::
  "shape \<Rightarrow> rat \<Rightarrow> rat \<Rightarrow> node_class_spec \<Rightarrow> ip_family list \<Rightarrow> vm_memory_overhead
    \<Rightarrow> oci_instance_type \<Rightarrow> oci_instance_type" where
  "set_capacity sh vcpu gbs spec fs overhead it =
     (let res = [(''cpu'', of_int (trunc_int (f32 (vcpu * 1000))) / 1000),
                 (''memory'', of_int (memory_capacity_mib (Some (sh_name sh)) gbs overhead) * 1024 * 1024),
                 (''pods'', of_int (pods (trunc_int vcpu) (ncs_kubelet spec) (nc_secondary (ncs_network spec)) fs))]
            @ (case va_size (vc_boot (ncs_volume spec)) of
                 None \<Rightarrow> [] | Some g \<Rightarrow> [(''ephemeral-storage'', of_int g * 10 ^ 9)])
            @ (if gpu_count sh > 0 then [(gpu_resource_name sh, of_int (gpu_count sh))] else [])
      in it\<lparr>it_capacity := res\<rparr>)"

definition set_overhead ::
  "quantity_lib \<Rightarrow> rat \<Rightarrow> rat \<Rightarrow> node_class_spec \<Rightarrow> oci_instance_type \<Rightarrow> (err, oci_instance_type) go" where
  "set_overhead lib vcpu gbs spec it =
     go_bind (kube_reserved lib vcpu gbs (ncs_kubelet spec)) (\<lambda>kube.
     go_bind (system_reserved lib (ncs_kubelet spec)) (\<lambda>system.
     go_bind (eviction_threshold lib gbs (va_size (vc_boot (ncs_volume spec))) (ncs_kubelet spec)) (\<lambda>evict.
       Ok (it\<lparr>it_overhead := \<lparr>ov_kube = kube, ov_system = system, ov_eviction = evict\<rparr>\<rparr>))))"

subsection \<open>Prices\<close>

record shape_price =
  spr_ocpu :: rat
  spr_memory :: rat
  spr_disk :: rat

text \<open>The prices are a map from upper-case names; when the name is not in it, the first prefix in
  the order in which the map is ranged over is taken.\<close>

definition calculate_prices ::
  "(string \<times> shape_price) list \<Rightarrow> shape \<Rightarrow> rat \<Rightarrow> rat \<Rightarrow> baseline \<Rightarrow> rat \<times> bool" where
  "calculate_prices prices sh ocpu gbs b =
     (let shapeUp = to_upper (sh_name sh);
          si = (case map_of prices shapeUp of
                  Some p \<Rightarrow> Some p
                | None \<Rightarrow> map_option snd (List.find (\<lambda>(k, v). has_prefix shapeUp k) prices))
      in case si of
           None \<Rightarrow> (0, False)
         | Some p \<Rightarrow>
             if gpu_count sh > 0 then (f64 (spr_ocpu p * of_int (gpu_count sh)), True)
             else
               (let discount = (case b of BASELINE_1_2 \<Rightarrow> 1 / 2 | BASELINE_1_8 \<Rightarrow> 1 / 8 | BASELINE_1_1 \<Rightarrow> 1);
                    disks = from_ptr 0 (sh_disks_size sh)
                in (f64 (f64 (f64 (f64 (spr_ocpu p * ocpu) * discount) + f64 (spr_memory p * gbs))
                      + f64 (spr_disk p * disks)), True)))"

subsection \<open>Network interfaces\<close>

definition max_vnic_attachments :: "shape \<Rightarrow> rat \<Rightarrow> (err, int) go" where
  "max_vnic_attachments sh ocpu =
     (case (sh_flexible sh, sh_vnic_options sh, sh_ocpu_options sh) of
        (Some True, Some v, Some oo) \<Rightarrow>
          (case (vo_min v, vo_max v, oo_min oo) of
             (Some vnicMin, Some vnicMax, Some minOcpu) \<Rightarrow>
               if ocpu > minOcpu
               then (let perOcpu = from_ptr 1 (vo_default v);
                         possible = f32 (f32 (of_int vnicMin) + f32 (f32 (ocpu - minOcpu) * perOcpu))
                     in Ok (trunc_int (if possible > vnicMax then vnicMax else possible)))
               else Ok vnicMin
           | _ \<Rightarrow> deref (sh_max_vnics sh))
      | _ \<Rightarrow> deref (sh_max_vnics sh))"

subsection \<open>Properties of the reservations\<close>

text \<open>Rounding a given number, from the power of two below it.\<close>

lemma f32_at:
  assumes "pow2 e \<le> x" "x < pow2 (e + 1)" "round_half_even (x * pow2 (23 - e)) = m"
  shows "f32 x = of_int m / pow2 (23 - e)"
proof -
  have x: "0 < x" using assms(1) pow2_pos [of e] by linarith
  have "pow2 (e - 23) * pow2 (23 - e) = 1"
  proof (cases "23 \<le> e")
    case True
    then show ?thesis by (cases "e = 23") (auto simp: pow2_def nat_diff_distrib)
  next
    case False
    then show ?thesis by (auto simp: pow2_def)
  qed
  then have inv: "pow2 (e - 23) = 1 / pow2 (23 - e)" by (simp add: field_simps)
  have "exponent_of x = e" by (rule exponent_of_unique [OF assms(1,2)])
  then show ?thesis
    using x assms(3) by (simp add: f32_def fround_def fround_pos_def inv Let_def)
qed

text \<open>The memory reservation is linear in pieces, which meet at their ends, also after rounding.\<close>

definition piece :: "rat \<Rightarrow> rat \<Rightarrow> rat \<Rightarrow> rat \<Rightarrow> rat" where
  "piece slope start base gbs = f32 (f32 (slope * f32 (gbs - start)) + base)"

lemma piece_mono: "0 \<le> slope \<Longrightarrow> a \<le> b \<Longrightarrow> piece slope start base a \<le> piece slope start base b"
  unfolding piece_def by (intro f32_mono add_right_mono mult_left_mono) auto

lemma piece_start: "0 \<le> slope \<Longrightarrow> start \<le> a \<Longrightarrow> f32 base = base \<Longrightarrow> base \<le> piece slope start base a"
  using piece_mono [of slope start a start base] by (simp add: piece_def)

lemma round_near: "\<bar>x - of_int m\<bar> < 1 / 2 \<Longrightarrow> round_half_even x = m"
  using round_half_even_near [of x] by linarith

lemma round_tie: "x = of_int m + 1 / 2 \<Longrightarrow> even m \<Longrightarrow> round_half_even x = m"
  using floor_unique [of m x] by (simp add: round_half_even_def Let_def)

lemma f32_near:
  "pow2 e \<le> x \<Longrightarrow> x < pow2 (e + 1) \<Longrightarrow> \<bar>x * pow2 (23 - e) - of_int m\<bar> < 1 / 2 \<Longrightarrow>
   f32 x = of_int m / pow2 (23 - e)"
  using f32_at round_near by blast

lemma f32_constants:
  "f32 (1 / 5) = 13421773 / 2 ^ 26" "f32 (9 / 5) = 15099494 / 2 ^ 23" "f32 (1 / 10) = 13421773 / 2 ^ 27"
  "f32 (13 / 5) = 10905190 / 2 ^ 22" "f32 (3 / 50) = 16106127 / 2 ^ 28" "f32 (233 / 25) = 9772728 / 2 ^ 20"
  using f32_near [of "-3" "1 / 5" 13421773] f32_near [of 0 "9 / 5" 15099494] f32_near [of "-4" "1 / 10" 13421773]
    f32_near [of 1 "13 / 5" 10905190] f32_near [of "-5" "3 / 50" 16106127] f32_near [of 3 "233 / 25" 9772728]
  by (simp_all add: pow2_def)

lemma f32_fixed:
  "f32 (15099494 / 2 ^ 23) = 15099494 / 2 ^ 23" "f32 (10905190 / 2 ^ 22) = 10905190 / 2 ^ 22"
  "f32 (9772728 / 2 ^ 20) = 9772728 / 2 ^ 20"
  using f32_near [of 0 "15099494 / 2 ^ 23" 15099494] f32_near [of 1 "10905190 / 2 ^ 22" 10905190]
    f32_near [of 3 "9772728 / 2 ^ 20" 9772728]
  by (simp_all add: pow2_def)

lemma f32_ints: "f32 1 = 1" "f32 (8 - 4) = 4" "f32 (16 - 8) = 8" "f32 (128 - 16) = 112"
  using f32_int [of 1] f32_int [of 4] f32_int [of 8] f32_int [of 112] by simp_all

lemma f32_inner:
  "f32 (13421773 / 2 ^ 26 * 4) = 13421773 / 2 ^ 24" "f32 (13421773 / 2 ^ 27 * 8) = 13421773 / 2 ^ 24"
  "f32 (16106127 / 2 ^ 28 * 112) = 14092861 / 2 ^ 21"
  using f32_near [of "-1" "13421773 / 2 ^ 24" 13421773] f32_near [of 2 "16106127 / 2 ^ 28 * 112" 14092861]
  by (simp_all add: pow2_def)

lemma f32_outer:
  "f32 (13421773 / 2 ^ 24 + 1) = 15099494 / 2 ^ 23"
  "f32 (13421773 / 2 ^ 24 + 15099494 / 2 ^ 23) = 10905190 / 2 ^ 22"
  "f32 (14092861 / 2 ^ 21 + 10905190 / 2 ^ 22) = 9772728 / 2 ^ 20"
  using f32_at [of 0 "13421773 / 2 ^ 24 + 1" 15099494]
    f32_near [of 1 "13421773 / 2 ^ 24 + 15099494 / 2 ^ 23" 10905190]
    f32_near [of 3 "14092861 / 2 ^ 21 + 10905190 / 2 ^ 22" 9772728] round_tie [of "30198989 / 2" 15099494]
  by (simp_all add: pow2_def)

lemma piece_ends:
  "piece (f32 (1 / 5)) 4 1 8 = f32 (9 / 5)"
  "piece (f32 (1 / 10)) 8 (f32 (9 / 5)) 16 = f32 (13 / 5)"
  "piece (f32 (3 / 50)) 16 (f32 (13 / 5)) 128 = f32 (233 / 25)"
  by (simp_all only: piece_def f32_constants f32_ints f32_inner f32_outer)

lemma kube_reserved_gib_pieces:
  "kube_reserved_gib gbs =
     (if gbs \<le> 4 then f32 (1 / 4 * gbs)
      else if gbs \<le> 8 then piece (f32 (1 / 5)) 4 1 gbs
      else if gbs \<le> 16 then piece (f32 (1 / 10)) 8 (f32 (9 / 5)) gbs
      else if gbs \<le> 128 then piece (f32 (3 / 50)) 16 (f32 (13 / 5)) gbs
      else piece (f32 (1 / 50)) 128 (f32 (233 / 25)) gbs)"
  by (simp add: kube_reserved_gib_def piece_def)

lemma piece_within:
  "4 \<le> g \<Longrightarrow> 1 \<le> piece (f32 (1 / 5)) 4 1 g" "g \<le> 8 \<Longrightarrow> piece (f32 (1 / 5)) 4 1 g \<le> f32 (9 / 5)"
  "8 \<le> g \<Longrightarrow> f32 (9 / 5) \<le> piece (f32 (1 / 10)) 8 (f32 (9 / 5)) g"
  "g \<le> 16 \<Longrightarrow> piece (f32 (1 / 10)) 8 (f32 (9 / 5)) g \<le> f32 (13 / 5)"
  "16 \<le> g \<Longrightarrow> f32 (13 / 5) \<le> piece (f32 (3 / 50)) 16 (f32 (13 / 5)) g"
  "g \<le> 128 \<Longrightarrow> piece (f32 (3 / 50)) 16 (f32 (13 / 5)) g \<le> f32 (233 / 25)"
  "128 \<le> g \<Longrightarrow> f32 (233 / 25) \<le> piece (f32 (1 / 50)) 128 (f32 (233 / 25)) g"
proof -
  have idem: "f32 1 = 1" "f32 (f32 (9 / 5)) = f32 (9 / 5)" "f32 (f32 (13 / 5)) = f32 (13 / 5)"
    "f32 (f32 (233 / 25)) = f32 (233 / 25)"
    by (simp_all only: f32_constants f32_fixed f32_ints)
  have pos: "0 \<le> f32 (1 / 5)" "0 \<le> f32 (1 / 10)" "0 \<le> f32 (3 / 50)" "0 \<le> f32 (1 / 50)" by simp_all
  show "4 \<le> g \<Longrightarrow> 1 \<le> piece (f32 (1 / 5)) 4 1 g"
    "8 \<le> g \<Longrightarrow> f32 (9 / 5) \<le> piece (f32 (1 / 10)) 8 (f32 (9 / 5)) g"
    "16 \<le> g \<Longrightarrow> f32 (13 / 5) \<le> piece (f32 (3 / 50)) 16 (f32 (13 / 5)) g"
    "128 \<le> g \<Longrightarrow> f32 (233 / 25) \<le> piece (f32 (1 / 50)) 128 (f32 (233 / 25)) g"
    by (rule piece_start; (rule pos idem | assumption))+
  show "g \<le> 8 \<Longrightarrow> piece (f32 (1 / 5)) 4 1 g \<le> f32 (9 / 5)"
    "g \<le> 16 \<Longrightarrow> piece (f32 (1 / 10)) 8 (f32 (9 / 5)) g \<le> f32 (13 / 5)"
    "g \<le> 128 \<Longrightarrow> piece (f32 (3 / 50)) 16 (f32 (13 / 5)) g \<le> f32 (233 / 25)"
    using piece_mono [OF pos(1), of g 8] piece_mono [OF pos(2), of g 16] piece_mono [OF pos(3), of g 128]
    by (metis piece_ends)+
qed

definition rising :: "rat \<Rightarrow> rat \<Rightarrow> (rat \<Rightarrow> rat) \<Rightarrow> bool" where
  "rising t v f \<longleftrightarrow> (\<forall>x y. t \<le> x \<longrightarrow> x \<le> y \<longrightarrow> v \<le> f x \<and> f x \<le> f y)"

lemma rising_glue:
  assumes "rising s u f" "rising t v h" "s \<le> t" "u \<le> v" "\<And>x. x \<le> t \<Longrightarrow> f x \<le> v"
  shows "rising s u (\<lambda>x. if x \<le> t then f x else h x)"
  unfolding rising_def
proof (intro allI impI)
  fix x y
  assume "s \<le> x" "x \<le> y"
  show "u \<le> (if x \<le> t then f x else h x)
      \<and> (if x \<le> t then f x else h x) \<le> (if y \<le> t then f y else h y)"
  proof (cases "x \<le> t")
    case True
    have "f x \<le> h y" if "t < y"
      using that assms(2) assms(5) [OF True] unfolding rising_def by (meson less_imp_le order_refl order_trans)
    with True show ?thesis using assms(1) \<open>s \<le> x\<close> \<open>x \<le> y\<close> by (auto simp: rising_def)
  next
    case False
    then have "v \<le> h x" "h x \<le> h y" using assms(2) \<open>x \<le> y\<close> by (auto simp: rising_def)
    with False show ?thesis using assms(4) \<open>x \<le> y\<close> by auto
  qed
qed

lemma kube_reserved_gib_rising: "rising 0 0 kube_reserved_gib"
proof -
  have first: "f32 (1 / 4 * x) \<le> 1" if "x \<le> 4" for x
    using that f32_mono [of "1 / 4 * x" 1] f32_ints(1) by simp
  have levels: "(1 :: rat) \<le> f32 (9 / 5)" "f32 (9 / 5) \<le> f32 (13 / 5)" "f32 (13 / 5) \<le> f32 (233 / 25)"
    using f32_ints(1) f32_mono [of 1 "9 / 5"] by (simp_all add: f32_mono)
  have r: "rising 0 0 (\<lambda>x. f32 (1 / 4 * x))"
    "rising 4 1 (piece (f32 (1 / 5)) 4 1)"
    "rising 8 (f32 (9 / 5)) (piece (f32 (1 / 10)) 8 (f32 (9 / 5)))"
    "rising 16 (f32 (13 / 5)) (piece (f32 (3 / 50)) 16 (f32 (13 / 5)))"
    "rising 128 (f32 (233 / 25)) (piece (f32 (1 / 50)) 128 (f32 (233 / 25)))"
    unfolding rising_def using piece_within(1,3,5,7) by (auto intro!: piece_mono f32_mono)
  note g4 = rising_glue [OF r(4) r(5) _ levels(3) piece_within(6)]
  note g3 = rising_glue [OF r(3) g4 _ levels(2) piece_within(4)]
  note g2 = rising_glue [OF r(2) g3 _ levels(1) piece_within(2)]
  have "rising 0 0 (\<lambda>gbs. if gbs \<le> 4 then f32 (1 / 4 * gbs)
      else if gbs \<le> 8 then piece (f32 (1 / 5)) 4 1 gbs
      else if gbs \<le> 16 then piece (f32 (1 / 10)) 8 (f32 (9 / 5)) gbs
      else if gbs \<le> 128 then piece (f32 (3 / 50)) 16 (f32 (13 / 5)) gbs
      else piece (f32 (1 / 50)) 128 (f32 (233 / 25)) gbs)"
    by (rule rising_glue [OF r(1) g2 _ _ first]) simp_all
  then show ?thesis by (simp only: kube_reserved_gib_pieces [abs_def])
qed

text \<open>
  The memory that is reserved for the kubelet grows with the memory of the shape, also across
  the ends of the pieces and after rounding to single precision, and is never negative.
\<close>

theorem kube_memory_mono:
  assumes "0 \<le> gbs" "gbs \<le> gbs'"
  shows "0 \<le> kube_reserved_gib gbs \<and> kube_reserved_gib gbs \<le> kube_reserved_gib gbs'"
  using kube_reserved_gib_rising assms by (auto simp: rising_def)

theorem kube_memory_mono_witness: "kube_reserved_gib 8 \<le> kube_reserved_gib (17 / 2)"
  using kube_memory_mono [of 8 "17 / 2"] by simp

lemma cpu_formula_mono: "x \<le> y \<Longrightarrow> f32 (90 + f32 (f32 (x - 5) * (5 / 2))) \<le> f32 (90 + f32 (f32 (y - 5) * (5 / 2)))"
  by (intro f32_mono add_left_mono mult_right_mono) auto

lemma kube_reserved_cpu_step:
  fixes n :: int
  assumes "1 \<le> n"
  shows "kube_reserved_cpu (of_int n) \<le> kube_reserved_cpu (of_int (n + 1))"
proof (cases "n \<le> 4")
  case True
  with assms have "n \<in> {1, 2, 3, 4}" by auto
  then show ?thesis by (auto simp: kube_reserved_cpu_def)
next
  case False
  have formula: "kube_reserved_cpu (of_int m) = f32 (90 + f32 (f32 (of_int m - 5) * (5 / 2)))" if "5 \<le> m" for m :: int
  proof (cases "m = 5")
    case True
    then show ?thesis using f32_int [of 90] by (simp add: kube_reserved_cpu_def)
  next
    case False
    have "(of_int m :: rat) \<noteq> 1" "(of_int m :: rat) \<noteq> 2" "(of_int m :: rat) \<noteq> 3" "(of_int m :: rat) \<noteq> 4"
      "(of_int m :: rat) \<noteq> 5" using that False by (auto simp: of_int_eq_iff [of m 5, simplified])
    then show ?thesis by (simp add: kube_reserved_cpu_def)
  qed
  show ?thesis using False formula [of n] formula [of "n + 1"] cpu_formula_mono [of "of_int n" "of_int (n + 1)"] by simp
qed

text \<open>
  The CPU that is reserved for the kubelet grows with a whole number of CPUs.  For a fraction it
  does not: the formula for six and more is used between the first ones too, and reserves more for
  one and a half CPUs than for two.
\<close>

theorem kube_cpu_mono_whole:
  "kube_reserved_cpu (of_nat (Suc m)) \<le> kube_reserved_cpu (of_nat (Suc m + d))
    \<and> kube_reserved_cpu 2 < kube_reserved_cpu (3 / 2)"
proof
  show "kube_reserved_cpu (of_nat (Suc m)) \<le> kube_reserved_cpu (of_nat (Suc m + d))"
  proof (induction d)
    case (Suc d)
    have "kube_reserved_cpu (of_nat (Suc m + d)) \<le> kube_reserved_cpu (of_nat (Suc m + Suc d))"
      using kube_reserved_cpu_step [of "int (Suc m + d)"] by (simp add: add.commute)
    with Suc show ?case by (rule order_trans)
  qed simp
  have "f32 (- (7 / 2)) = - (7 / 2)" "f32 (- (35 / 4)) = - (35 / 4)" "f32 (325 / 4) = 325 / 4"
    using f32_near [of 1 "7 / 2" "7 * 2 ^ 21"] f32_near [of 3 "35 / 4" "35 * 2 ^ 18"]
      f32_near [of 6 "325 / 4" "325 * 2 ^ 15"]
    by (simp_all add: f32_def fround_minus pow2_def)
  then show "kube_reserved_cpu 2 < kube_reserved_cpu (3 / 2)" by (simp add: kube_reserved_cpu_def)
qed

text \<open>
  The number of network interfaces of a flexible shape is within the bounds the shape states,
  for every CPU count, and more CPUs never give fewer of them.
\<close>

theorem max_vnics_bounds:
  assumes "sh_flexible sh = Some True" "sh_vnic_options sh = Some v" "sh_ocpu_options sh = Some oo"
    and "vo_min v = Some lo" "vo_max v = Some hi" "oo_min oo = Some m"
    and "0 \<le> lo" "lo < 2 ^ 24" "of_int lo \<le> hi" "0 \<le> from_ptr 1 (vo_default v)" "ocpu \<le> ocpu'"
  shows "\<exists>n n'. max_vnic_attachments sh ocpu = Ok n \<and> max_vnic_attachments sh ocpu' = Ok n'
    \<and> lo \<le> n \<and> of_int n \<le> hi \<and> n \<le> n'"
proof -
  let ?per = "from_ptr 1 (vo_default v)"
  define g where "g x = f32 (f32 (of_int lo) + f32 (f32 (x - m) * ?per))" for x
  define k where "k x = (if m < x then trunc_int (min (g x) hi) else lo)" for x
  have eq: "max_vnic_attachments sh x = Ok (k x)" for x
    using assms(1-6) by (simp add: max_vnic_attachments_def g_def k_def min_def Let_def)
  have g_mono: "x \<le> y \<Longrightarrow> g x \<le> g y" for x y
    unfolding g_def using assms(10) by (intro f32_mono add_left_mono mult_right_mono) auto
  have flo: "f32 (of_int lo) = of_int lo" using f32_int [of lo] assms(7,8) by simp
  have "g m = of_int lo" by (simp add: g_def flo)
  then have low: "m \<le> x \<Longrightarrow> of_int lo \<le> g x" for x using g_mono [of m x] by simp
  have k_low: "lo \<le> k x" for x
  proof (cases "m < x")
    case True
    then have "of_int lo \<le> min (g x) hi" using low assms(9) by simp
    from trunc_int_mono [OF this] True show ?thesis by (simp add: k_def)
  qed (simp add: k_def)
  have k_hi: "of_int (k x) \<le> hi" for x
  proof (cases "m < x")
    case True
    then have "0 \<le> min (g x) hi" using low [of x] assms(7,9)
      by (metis less_imp_le min.boundedI of_int_0_le_iff order_trans)
    then have "of_int (trunc_int (min (g x) hi)) \<le> min (g x) hi"
      by (simp only: trunc_int_nonneg of_int_floor_le)
    also have "\<dots> \<le> hi" by simp
    finally show ?thesis using True by (simp add: k_def)
  qed (use assms(9) in \<open>simp add: k_def\<close>)
  have "k ocpu \<le> k ocpu'"
  proof (cases "m < ocpu")
    case True
    then have "min (g ocpu) hi \<le> min (g ocpu') hi" using g_mono [OF assms(11)] by auto
    from trunc_int_mono [OF this] True show ?thesis using assms(11) by (simp add: k_def)
  qed (use k_low in \<open>simp add: k_def\<close>)
  with eq k_low k_hi show ?thesis by blast
qed

theorem max_vnics_bounds_witness:
  "\<exists>n. max_vnic_attachments ((example_shape ''VM.Standard.E4.Flex'')\<lparr>sh_flexible := Some True,
      sh_vnic_options := Some \<lparr>vo_min = Some 2, vo_max = Some 24, vo_default = None\<rparr>,
      sh_ocpu_options := Some \<lparr>oo_min = Some 1, oo_max = Some 64\<rparr>\<rparr>) 4 = Ok n \<and> 2 \<le> n"
  using max_vnics_bounds [of "(example_shape ''VM.Standard.E4.Flex'')\<lparr>sh_flexible := Some True,
      sh_vnic_options := Some \<lparr>vo_min = Some 2, vo_max = Some 24, vo_default = None\<rparr>,
      sh_ocpu_options := Some \<lparr>oo_min = Some 1, oo_max = Some 64\<rparr>\<rparr>"
      "\<lparr>vo_min = Some 2, vo_max = Some 24, vo_default = None\<rparr>" "\<lparr>oo_min = Some 1, oo_max = Some 64\<rparr>" 2 24 1 4 4]
  by auto

subsection \<open>Properties of the thresholds and prices\<close>

lemma set_resource_lookup [simp]: "map_of (set_resource k v rs) k' = (if k' = k then Some v else map_of rs k')"
  by (simp add: set_resource_def update_conv)

lemma assign_resources_lookup:
  "map_of (assign_resources rs override) k =
     (case map_of (rev override) k of Some v \<Rightarrow> Some v | None \<Rightarrow> map_of rs k)"
  by (induction override arbitrary: rs)
     (auto simp: assign_resources_def map_add_def split: option.splits)

definition larger :: "rat option \<Rightarrow> rat option \<Rightarrow> rat option" where
  "larger a b = (case (a, b) of
     (Some x, Some y) \<Rightarrow> Some (max x y) | (Some x, None) \<Rightarrow> Some x | (None, y) \<Rightarrow> y)"

lemma max_fold:
  "distinct (map fst xs) \<Longrightarrow>
   map_of (fold (\<lambda>(k, v) rs. case map_of rs k of
         None \<Rightarrow> set_resource k v rs
       | Some w \<Rightarrow> if v > w then set_resource k v rs else rs) xs rs) k = larger (map_of rs k) (map_of xs k)"
proof (induction xs arbitrary: rs)
  case (Cons x xs)
  obtain k' v where x: "x = (k', v)" by (cases x)
  have none: "map_of xs k' = None" using Cons.prems x by (simp add: map_of_eq_None_iff)
  show ?case
    using Cons.IH [of "case map_of rs k' of None \<Rightarrow> set_resource k' v rs
       | Some w \<Rightarrow> if v > w then set_resource k' v rs else rs"] Cons.prems x none
    by (cases "map_of rs k'") (auto simp: larger_def max_def split: option.splits)
qed (simp add: larger_def split: option.splits)

lemma max_resources_lookup:
  "distinct (map fst a) \<Longrightarrow> distinct (map fst b) \<Longrightarrow>
   map_of (max_resources a b) k = larger (map_of a k) (map_of b k)"
  by (simp add: max_resources_def max_fold) (simp add: larger_def split: option.splits)

lemma eviction_signals_distinct: "eviction_signals lib m st sig = Ok rs \<Longrightarrow> distinct (map fst rs)"
  by (auto simp: eviction_signals_def go_simps split: option.splits)

text \<open>The memory threshold one map states, when it can be read.\<close>

definition memory_signal :: "quantity_lib \<Rightarrow> rat \<Rightarrow> tags \<Rightarrow> rat option" where
  "memory_signal lib memory sig =
     (case map_of sig ''memory.available'' of
        None \<Rightarrow> None
      | Some v \<Rightarrow> (case parse_eviction_signal lib memory v of Ok x \<Rightarrow> Some x | _ \<Rightarrow> None))"

lemma eviction_signals_memory:
  assumes "eviction_signals lib m st sig = Ok rs"
  shows "map_of rs ''memory'' = memory_signal lib m sig
    \<and> (memory_signal lib m sig = None \<longleftrightarrow> map_of sig ''memory.available'' = None)"
  using assms by (auto simp: eviction_signals_def memory_signal_def go_simps split: option.splits)

definition memory_bytes :: "rat \<Rightarrow> rat" where
  "memory_bytes gbs = of_int (trunc_int (f64 (f64 (f64 (gbs * 1024) * 1024) * 1024)))"

text \<open>
  The memory threshold for evictions is the larger of the hard and the soft one, each read off
  its own setting; with only one of them set it is that one, with none there is none, and a setting
  is never dropped.
\<close>

theorem eviction_memory_is_max:
  assumes "eviction_threshold lib gbs disk (Some c) = Ok res"
  shows "map_of res ''memory'' = larger (memory_signal lib (memory_bytes gbs) (from_ptr [] (kc_eviction_hard c)))
        (memory_signal lib (memory_bytes gbs) (from_ptr [] (kc_eviction_soft c)))
    \<and> (map_of res ''memory'' = None \<longleftrightarrow> map_of (from_ptr [] (kc_eviction_hard c)) ''memory.available'' = None
        \<and> map_of (from_ptr [] (kc_eviction_soft c)) ''memory.available'' = None)"
proof -
  from assms obtain h s where hs:
    "eviction_signals lib (memory_bytes gbs) (map_option (\<lambda>g. of_int g * 10 ^ 9) disk) (from_ptr [] (kc_eviction_hard c)) = Ok h"
    "eviction_signals lib (memory_bytes gbs) (map_option (\<lambda>g. of_int g * 10 ^ 9) disk) (from_ptr [] (kc_eviction_soft c)) = Ok s"
    "res = max_resources h s"
    by (auto simp: eviction_threshold_def memory_bytes_def go_simps Let_def)
  have "map_of res ''memory'' = larger (map_of h ''memory'') (map_of s ''memory'')"
    using hs eviction_signals_distinct by (simp add: max_resources_lookup)
  with eviction_signals_memory [OF hs(1)] eviction_signals_memory [OF hs(2)] show ?thesis
    by (auto simp: larger_def split: option.splits)
qed

definition example_kubelet :: kubelet_config where
  "example_kubelet = \<lparr>kc_cluster_dns = None, kc_extra_args = None, kc_node_labels = None, kc_max_pods = None,
     kc_pods_per_core = None, kc_system_reserved = None, kc_kube_reserved = None,
     kc_eviction_hard = Some [(''memory.available'', ''100Mi'')],
     kc_eviction_soft = Some [(''memory.available'', ''200Mi'')],
     kc_eviction_grace = None, kc_eviction_max_grace = None, kc_gc_high = None, kc_gc_low = None\<rparr>"

definition example_quantities :: quantity_lib where
  "example_quantities = \<lparr>ql_parse = (\<lambda>s. if s = ''100Mi'' then Some (100 * 2 ^ 20)
       else if s = ''200Mi'' then Some (200 * 2 ^ 20) else None),
     ql_parse_float = (\<lambda>_. None), ql_print_float = (\<lambda>_. [])\<rparr>"

theorem eviction_memory_is_max_witness:
  "\<exists>res. eviction_threshold example_quantities 16 None (Some example_kubelet) = Ok res
     \<and> map_of res ''memory'' = Some (200 * 2 ^ 20)"
proof -
  have "\<exists>res. eviction_threshold example_quantities 16 None (Some example_kubelet) = Ok res"
    by (simp add: eviction_threshold_def eviction_signals_def parse_eviction_signal_def has_suffix_char_def
        must_parse_def example_kubelet_def example_quantities_def Let_def)
  then obtain res where r: "eviction_threshold example_quantities 16 None (Some example_kubelet) = Ok res" ..
  from eviction_memory_is_max [OF r] r show ?thesis
    by (simp add: memory_signal_def parse_eviction_signal_def has_suffix_char_def must_parse_def
        example_kubelet_def example_quantities_def larger_def)
qed

text \<open>
  The price of a shape whose own name is not listed depends on the order in which the price map
  is ranged over: with two listed prefixes of the name either price can come out.
\<close>

theorem prefix_price_depends_on_order:
  "\<exists>prices prices' sh. mset prices = mset prices' \<and> distinct (map fst prices)
     \<and> fst (calculate_prices prices sh 1 0 BASELINE_1_1) \<noteq> fst (calculate_prices prices' sh 1 0 BASELINE_1_1)"
proof -
  let ?p = "(''VM.STANDARD'', \<lparr>spr_ocpu = 1, spr_memory = 0, spr_disk = 0\<rparr>)"
  let ?q = "(''VM.STANDARD.E'', \<lparr>spr_ocpu = 2, spr_memory = 0, spr_disk = 0\<rparr>)"
  have up: "to_upper ''VM.STANDARD.E9'' = ''VM.STANDARD.E9''" by (simp add: to_upper_def char_upper_def)
  have i: "f64 1 = 1" "f64 2 = 2" using f64_int [of 1] f64_int [of 2] by simp_all
  have "fst (calculate_prices [?p, ?q] (example_shape ''VM.STANDARD.E9'') 1 0 BASELINE_1_1) = 1"
    "fst (calculate_prices [?q, ?p] (example_shape ''VM.STANDARD.E9'') 1 0 BASELINE_1_1) = 2"
    by (simp_all add: calculate_prices_def example_shape_def up has_prefix_def gpu_count_def i Let_def)
  then have "fst (calculate_prices [?p, ?q] (example_shape ''VM.STANDARD.E9'') 1 0 BASELINE_1_1)
      \<noteq> fst (calculate_prices [?q, ?p] (example_shape ''VM.STANDARD.E9'') 1 0 BASELINE_1_1)" by simp
  moreover have "mset [?p, ?q] = mset [?q, ?p]" "distinct (map fst [?p, ?q])" by simp_all
  ultimately show ?thesis by blast
qed

end
