(* ===== verification/Offerings.thy ===== *)
theory Offerings
  imports Shape_Resources Capacity_Reservation Cluster_Groups Unavailable_Offerings
begin

section \<open>Instance types and their offerings\<close>

text \<open>
  The provider of \<open>pkg/providers/instancetype/provider.go\<close>: the instance types of a flexible shape,
  their offerings (on demand, spot, reserved), what makes an offering unavailable, the requirements
  of an instance type, the list of all of them, and the refresh of shapes and prices.

  Go ranges over a map in any order; a map that is ranged over is an association list in that
  order.  The reservations, clusters and placement groups are resolved with their own providers,
  whose caches change: \<open>resolvers\<close> is the state that is passed through.  Advice about the memory of
  a shape, the version of the cluster and the value \<open>Any()\<close> picks are arguments.
\<close>

definition PreemptibleTaintKey :: string where "PreemptibleTaintKey = ''oci.oraclecloud.com/oke-is-preemptible''"
definition NvidiaGpuTaintKey :: string where "NvidiaGpuTaintKey = ''nvidia.com/gpu''"
definition AmdGpuTaintKey :: string where "AmdGpuTaintKey = ''amd.com/gpu''"

record type_provider =
  tp_region :: string
  tp_compartment :: string
  tp_shapes :: "(string \<times> (shape \<times> string list)) list"
  tp_prices :: "(string \<times> shape_price) list"
  tp_preemptible :: "string list"
  tp_cluster_shapes :: "string list"
  tp_one_vcpu :: "string list"
  tp_shape_configs :: "shape_config list"
  tp_minor :: "int option"
  tp_families :: "ip_family list"
  tp_unavailable :: "unavailable_offerings option"
  tp_overhead :: vm_memory_overhead

record resolvers =
  rs_capres :: capres_provider
  rs_cpg :: cpg_provider
  rs_cluster :: cluster_provider

record type_env =
  te_capres :: capres_api
  te_cpg :: cpg_api
  te_cluster :: cluster_api
  te_lib :: quantity_lib
  te_any :: any_value
  te_fmt :: "rat \<Rightarrow> string"
  te_now :: int
  te_advice :: "string \<Rightarrow> string \<Rightarrow> rat option"

subsection \<open>Flexible shapes\<close>

definition blank_type :: "string \<Rightarrow> string \<Rightarrow> oci_instance_type" where
  "blank_type name shape =
     \<lparr>it_name = name, it_reqs = [], it_offerings = [], it_capacity = [],
      it_overhead = \<lparr>ov_kube = [], ov_system = [], ov_eviction = []\<rparr>, it_shape_config = False,
      it_ocpu = None, it_memory = None, it_baseline = None, it_shape = shape, it_platform_type = []\<rparr>"

fun baseline_factor :: "baseline \<Rightarrow> rat" where
  "baseline_factor BASELINE_1_1 = 1"
| "baseline_factor BASELINE_1_2 = 2"
| "baseline_factor BASELINE_1_8 = 8"

fun baseline_suffix :: "baseline \<Rightarrow> string" where
  "baseline_suffix BASELINE_1_1 = ''1_1b''"
| "baseline_suffix BASELINE_1_2 = ''1_2b''"
| "baseline_suffix BASELINE_1_8 = ''1_8b''"

definition flex_type_name :: "string \<Rightarrow> rat \<Rightarrow> rat \<Rightarrow> baseline \<Rightarrow> string" where
  "flex_type_name shape ocpu memory b =
     join_with ''.'' [shape, show_fixed 0 ocpu @ ''o'', show_fixed 0 memory @ ''g'', baseline_suffix b]"

definition baseline_supported :: "shape \<Rightarrow> baseline \<Rightarrow> bool" where
  "baseline_supported sh b \<longleftrightarrow> b = BASELINE_1_1 \<or> baseline_name b \<in> set (sh_baselines sh)"

text \<open>The memory of a configuration; \<open>None\<close> when it is outside the range of the shape.\<close>

definition flex_memory :: "shape \<Rightarrow> shape_config \<Rightarrow> rat \<Rightarrow> baseline \<Rightarrow> (err, rat option) go" where
  "flex_memory sh cfg ocpu b =
     go_bind (deref (sh_memory_options sh)) (\<lambda>mo.
       case shc_memory cfg of
         Some m \<Rightarrow>
           go_bind (deref (mo_min mo)) (\<lambda>lo.
             if m < lo then Ok None
             else map_ok (\<lambda>hi. if m > hi then None else Some m) (deref (mo_max mo)))
       | None \<Rightarrow> map_ok (\<lambda>d. Some (f32 (f32 (ocpu * d) / baseline_factor b))) (deref (mo_default mo)))"

definition flex_type :: "shape \<Rightarrow> shape_config \<Rightarrow> (err, oci_instance_type option) go" where
  "flex_type sh cfg =
     (case shc_ocpus cfg of
        None \<Rightarrow> Ok None
      | Some ocpu \<Rightarrow>
          go_bind (deref (sh_ocpu_options sh)) (\<lambda>oo.
          go_bind (deref (oo_max oo)) (\<lambda>mx.
            if ocpu > mx then Ok None
            else go_bind (deref (oo_min oo)) (\<lambda>mn.
              if ocpu < mn then Ok None
              else
                (let b = from_ptr BASELINE_1_1 (shc_baseline cfg)
                 in if \<not> baseline_supported sh b then Ok None
                    else map_ok (map_option (\<lambda>memory.
                           (blank_type (flex_type_name (sh_name sh) ocpu memory b) (sh_name sh))
                             \<lparr>it_ocpu := Some ocpu, it_memory := Some memory, it_baseline := Some b,
                              it_shape_config := True\<rparr>))
                         (flex_memory sh cfg ocpu b))))))"

fun flex_types :: "shape \<Rightarrow> shape_config list \<Rightarrow> (err, oci_instance_type list) go" where
  "flex_types sh [] = Ok []"
| "flex_types sh (c # cs) =
     go_bind (flex_type sh c) (\<lambda>t. map_ok (\<lambda>ts. (case t of None \<Rightarrow> ts | Some t \<Rightarrow> t # ts)) (flex_types sh cs))"

definition shape_configs_in_use :: "type_provider \<Rightarrow> node_class_spec \<Rightarrow> shape_config list" where
  "shape_configs_in_use p spec =
     (let cs = (if 0 < length (ncs_shape_configs spec) then ncs_shape_configs spec else tp_shape_configs p)
      in if 1 < length cs \<and> (case tp_minor p of None \<Rightarrow> True | Some m \<Rightarrow> m < 31) then take 1 cs else cs)"

definition list_flex_types ::
  "type_provider \<Rightarrow> shape \<Rightarrow> node_class_spec option \<Rightarrow> (err, oci_instance_type list) go" where
  "list_flex_types p sh spec =
     (case spec of None \<Rightarrow> Ok [] | Some s \<Rightarrow> flex_types sh (shape_configs_in_use p s))"

subsection \<open>Offerings\<close>

text \<open>The label of the zone is what follows the first colon of the domain; without one the code panics.\<close>

definition make_requirement :: "string \<Rightarrow> string \<Rightarrow> (err, requirements) go" where
  "make_requirement ad capType =
     map_ok (\<lambda>zone.
       [(CapacityTypeLabelKey, ReqIn [capType]), (LabelTopologyZone, ReqIn [zone])]
       @ (if capType \<noteq> CapacityTypeReserved then [(ReservationIDLabel, ReqDoesNotExist)] else []))
       (ad_to_zone ad)"

definition make_offering :: "string \<Rightarrow> rat \<Rightarrow> string \<Rightarrow> bool \<Rightarrow> (err, offering) go" where
  "make_offering ad price capType available =
     map_ok (\<lambda>reqs. \<lparr>off_reqs = reqs, off_price = price, off_available = available, off_capacity = 0\<rparr>)
       (make_requirement ad capType)"

definition make_on_demand ::
  "string \<Rightarrow> string list \<Rightarrow> rat \<Rightarrow> bool \<Rightarrow> (string \<Rightarrow> string \<Rightarrow> bool) \<Rightarrow> (err, offering list) go" where
  "make_on_demand shape ads price available restrict =
     map_go (\<lambda>ad. make_offering ad price CapacityTypeOnDemand (available \<and> restrict shape ad)) ads"

definition make_spot :: "string list \<Rightarrow> rat \<Rightarrow> (err, offering list) go" where
  "make_spot ads price = map_go (\<lambda>ad. make_offering ad (f64 (price * (1 / 2))) CapacityTypeSpot True) ads"

definition reserved_requirements :: "string \<Rightarrow> shape_availability \<Rightarrow> requirements" where
  "reserved_requirements capResId info =
     [(ReservationIDLabel, ReqIn [capResId])]
     @ (case sa_fd info of None \<Rightarrow> [] | Some fd \<Rightarrow> [(OciFaultDomain, ReqIn [fd])])"

definition reserved_offering :: "rat \<Rightarrow> string \<Rightarrow> string \<Rightarrow> shape_availability \<Rightarrow> (err, offering) go" where
  "reserved_offering price ocid ad sa =
     (let avail = (if sa_total sa - sa_used sa < 0 then 0 else sa_total sa - sa_used sa)
      in map_ok (\<lambda>ofr. ofr\<lparr>off_capacity := avail,
                        off_reqs := off_reqs ofr @ reserved_requirements (ocid_to_label_value ocid) sa\<rparr>)
           (make_offering ad price CapacityTypeReserved (avail \<noteq> 0)))"

definition make_reserved ::
  "rat \<Rightarrow> ((string \<times> string) \<times> (string \<times> shape_availability) list) list \<Rightarrow> (err, offering list) go" where
  "make_reserved price avail_map =
     map_ok concat (map_go (\<lambda>((ocid, ad), fds). map_go (\<lambda>(fd, sa). reserved_offering price ocid ad sa) fds)
       avail_map)"

definition check_taint_exists :: "taint list \<Rightarrow> string \<Rightarrow> bool" where
  "check_taint_exists taints key = (\<exists>t \<in> set taints. tnt_key t = key \<and> tnt_effect t = ''NoSchedule'')"

definition is_preemptible_shape :: "type_provider \<Rightarrow> string \<Rightarrow> bool" where
  "is_preemptible_shape p name =
     (let up = to_upper name
      in up \<in> set (tp_preemptible p) \<or> (\<exists>k \<in> set (tp_preemptible p). has_prefix up k))"

definition is_cluster_shape :: "type_provider \<Rightarrow> string \<Rightarrow> bool" where
  "is_cluster_shape p name = (to_upper name \<in> set (tp_cluster_shapes p))"

definition type_compartment :: "type_provider \<Rightarrow> node_class_spec \<Rightarrow> string" where
  "type_compartment p spec = (case ncs_compartment spec of Some c \<Rightarrow> c | None \<Rightarrow> tp_compartment p)"

definition placement_restrict ::
  "type_provider \<Rightarrow> located_result option \<Rightarrow> string list \<Rightarrow> string \<Rightarrow> string \<Rightarrow> bool" where
  "placement_restrict p cluster cpgAds shape ad =
     (case cluster of
        Some c \<Rightarrow> is_cluster_shape p shape \<and> ad = lres_ad c
      | None \<Rightarrow> if 0 < length cpgAds then ad \<in> set cpgAds else True)"

definition get_placement_restrict ::
  "type_env \<Rightarrow> type_provider \<Rightarrow> node_class_spec \<Rightarrow> resolvers
    \<Rightarrow> (err, string \<Rightarrow> string \<Rightarrow> bool) go \<times> resolvers" where
  "get_placement_restrict env p spec s =
     (case ncs_cluster spec of
        Some k \<Rightarrow>
          (let (r, kp) = resolve_cluster (te_cluster env) (te_now env) (Some k) (rs_cluster s)
           in (map_ok (\<lambda>c. placement_restrict p (Some c) []) r, s\<lparr>rs_cluster := kp\<rparr>))
      | None \<Rightarrow>
          (if 0 < length (ncs_cpgs spec)
           then (let (r, gp) = resolve_cpgs (te_cpg env) (te_now env) (ncs_cpgs spec) (rs_cpg s)
                 in (go_bind r (\<lambda>(gs, e). case e of
                       None \<Rightarrow> Ok (placement_restrict p None (map lres_ad gs))
                     | Some e \<Rightarrow> Fail e), s\<lparr>rs_cpg := gp\<rparr>))
           else (Ok (placement_restrict p None []), s)))"

text \<open>The offerings recently seen without capacity, for the tenancy and for the compartment.\<close>

definition seen_unavailable ::
  "type_env \<Rightarrow> type_provider \<Rightarrow> node_class_spec \<Rightarrow> string \<Rightarrow> oci_instance_type \<Rightarrow> offering \<Rightarrow> bool" where
  "seen_unavailable env p spec shape it ofr =
     (case tp_unavailable p of
        None \<Rightarrow> False
      | Some u \<Rightarrow>
          (let i = (\<lambda>compartment. \<lparr>oi_shape = shape, oi_ocpu = it_ocpu it, oi_memory = it_memory it,
                 oi_zone = off_zone (te_any env) ofr, oi_capacity_type = off_capacity_type (te_any env) ofr,
                 oi_compartment = compartment\<rparr>)
           in off_capacity_type (te_any env) ofr \<noteq> CapacityTypeReserved \<and> off_available ofr
              \<and> (is_unavailable (te_fmt env) (te_now env) (i []) u
                 \<or> is_unavailable (te_fmt env) (te_now env) (i (type_compartment p spec)) u)))"

definition encrypted_memory :: "shape \<Rightarrow> node_class_spec \<Rightarrow> bool" where
  "encrypted_memory sh spec =
     (case ncs_platform spec of
        None \<Rightarrow> False
      | Some r \<Rightarrow>
          if r = empty_platform then False
          else from_ptr False (resolve_platform_boolean (pc_memory_encryption r)
                 (case sh_platform sh of None \<Rightarrow> None | Some o' \<Rightarrow> default_of (pt_memory_encryption o'))))"

text \<open>What is done to every offering once all are made: the two loops over them.\<close>

definition finish_offering ::
  "type_env \<Rightarrow> type_provider \<Rightarrow> node_class_spec \<Rightarrow> shape \<Rightarrow> evaluation \<Rightarrow> oci_instance_type \<Rightarrow> offering \<Rightarrow> offering" where
  "finish_offering env p spec sh ev it ofr =
     (let o1 = (if seen_unavailable env p spec (sh_name sh) it ofr then ofr\<lparr>off_available := False\<rparr> else ofr)
      in if \<not> ev_compatible ev
            \<or> (encrypted_memory sh spec \<and> off_capacity_type (te_any env) o1 \<noteq> CapacityTypeOnDemand)
         then o1\<lparr>off_available := False\<rparr> else o1)"

text \<open>The reservations, when the node class has any; \<open>None\<close> is the nil map.\<close>

definition reserved_capacity ::
  "type_env \<Rightarrow> node_class_spec \<Rightarrow> oci_instance_type \<Rightarrow> resolvers
    \<Rightarrow> (err, ((string \<times> string) \<times> (string \<times> shape_availability) list) list option) go \<times> resolvers" where
  "reserved_capacity env spec it s =
     (if 0 < length (ncs_capres spec)
      then (let (r, cp) = resolve_capacity_reservations (te_capres env) (te_now env) (ncs_capres spec) (rs_capres s)
            in (go_bind r (\<lambda>(rrs, e). case e of
                  None \<Rightarrow> Ok (Some (slice_availability_for_shape rrs (it_shape it) (it_ocpu it) (it_memory it)
                              (it_shape_config it)))
                | Some e \<Rightarrow> Fail e), s\<lparr>rs_capres := cp\<rparr>))
      else (Ok None, s))"

definition more_offerings ::
  "type_provider \<Rightarrow> shape \<Rightarrow> string list \<Rightarrow> bool \<Rightarrow> rat \<Rightarrow> taint list \<Rightarrow> oci_instance_type
    \<Rightarrow> ((string \<times> string) \<times> (string \<times> shape_availability) list) list option
    \<Rightarrow> (err, offering list) go" where
  "more_offerings p sh ads available price taints it capres =
     go_bind (if available \<and> is_preemptible_shape p (sh_name sh) \<and> \<not> is_burstable it
                 \<and> (case capres of None \<Rightarrow> True | Some m \<Rightarrow> length m = 0)
                 \<and> check_taint_exists taints PreemptibleTaintKey
              then make_spot ads price else Ok []) (\<lambda>spot.
     map_ok (\<lambda>reserved. spot @ reserved)
       (case capres of None \<Rightarrow> Ok [] | Some m \<Rightarrow> if available then make_reserved price m else Ok []))"

definition set_offerings ::
  "type_env \<Rightarrow> type_provider \<Rightarrow> node_class_spec \<Rightarrow> shape \<Rightarrow> string list \<Rightarrow> bool \<Rightarrow> rat \<Rightarrow> taint list \<Rightarrow> evaluation
    \<Rightarrow> oci_instance_type \<Rightarrow> resolvers \<Rightarrow> (err, oci_instance_type) go \<times> resolvers" where
  "set_offerings env p spec sh ads available price taints ev it s =
     st_bind (get_placement_restrict env p spec s) (\<lambda>restrict s.
     st_bind (make_on_demand (sh_name sh) ads price available restrict, s) (\<lambda>demand s.
     st_bind (reserved_capacity env spec it s) (\<lambda>capres s.
       (map_ok (\<lambda>more. it\<lparr>it_offerings := map (finish_offering env p spec sh ev it)
                                (it_offerings it @ demand @ more)\<rparr>)
          (more_offerings p sh ads available price taints it capres), s))))"

subsection \<open>One instance type\<close>

definition decorate_type ::
  "type_env \<Rightarrow> type_provider \<Rightarrow> node_class_spec \<Rightarrow> shape \<Rightarrow> string list \<Rightarrow> taint list
    \<Rightarrow> oci_instance_type \<Rightarrow> resolvers \<Rightarrow> (err, oci_instance_type) go \<times> resolvers" where
  "decorate_type env p spec sh ads taints it s =
     (let ev = evaluate_platform_config sh (ncs_platform spec);
          it1 = it\<lparr>it_platform_type := (case sh_platform sh of None \<Rightarrow> [] | Some o' \<Rightarrow> pt_type o')\<rparr>;
          b = from_ptr BASELINE_1_1 (it_baseline it)
      in st_bind (case it_ocpu it of Some x \<Rightarrow> Ok x | None \<Rightarrow> deref (sh_ocpus sh), s) (\<lambda>ocpu s.
         st_bind (case it_memory it of Some x \<Rightarrow> Ok x | None \<Rightarrow> deref (sh_memory sh), s) (\<lambda>gbs s.
           (let v0 = vcpu_of (set (tp_one_vcpu p)) sh ocpu;
                vcpu = (case ncs_platform spec of
                    Some r \<Rightarrow> if ev_compatible ev \<and> r \<noteq> empty_platform then adjust_vcpu v0 sh r else v0
                  | None \<Rightarrow> v0);
                it2 = set_capacity sh vcpu gbs spec (tp_families p) (tp_overhead p) it1
            in st_bind (set_overhead (te_lib env) vcpu gbs spec it2, s) (\<lambda>it3 s.
                 (let it4 = (case te_advice env (sh_name sh) (it_name it3) of
                        None \<Rightarrow> it3
                      | Some m \<Rightarrow> it3\<lparr>it_capacity := set_resource ''memory'' m (it_capacity it3)\<rparr>);
                      (price, priced) = calculate_prices (tp_prices p) sh ocpu gbs b
                  in st_bind (case sh_max_vnics sh of
                                None \<Rightarrow> Ok (- 1)
                              | Some n \<Rightarrow> map_ok (\<lambda>k. k - 1) (max_vnic_attachments sh ocpu), s) (\<lambda>vnics s.
                       set_offerings env p spec sh ads
                         (\<not> sh_always_free sh \<and> priced
                          \<and> \<not> (nc_secondary (ncs_network spec) \<noteq> []
                               \<and> vnics < int (length (nc_secondary (ncs_network spec)))))
                         price taints ev it4 s)))))))"

definition presence :: "bool \<Rightarrow> string \<Rightarrow> string \<times> requirement" where
  "presence b key = (key, if b then ReqIn [''true''] else ReqDoesNotExist)"

definition finalize_requirements ::
  "type_env \<Rightarrow> type_provider \<Rightarrow> shape \<Rightarrow> string list \<Rightarrow> oci_instance_type \<Rightarrow> (err, oci_instance_type) go" where
  "finalize_requirements env p sh ads it =
     go_bind (map_go ad_to_zone ads) (\<lambda>zones.
       (let avail = available_offerings (it_offerings it);
            reserved = filter (\<lambda>ofr. off_capacity_type (te_any env) ofr = CapacityTypeReserved) avail
        in map_ok (\<lambda>flex. it\<lparr>it_reqs :=
             [(''node.kubernetes.io/instance-type'', ReqIn [it_name it]),
              (''kubernetes.io/arch'', ReqIn [architecture sh]),
              (''kubernetes.io/os'', ReqIn [''linux'']),
              (LabelTopologyZone, ReqIn zones),
              (''topology.kubernetes.io/region'', ReqIn [tp_region p]),
              (''node.kubernetes.io/windows-build'', ReqDoesNotExist),
              (CapacityTypeLabelKey, ReqIn (map (off_capacity_type (te_any env)) avail)),
              (ReservationIDLabel, if length reserved = 0 then ReqDoesNotExist
                 else ReqIn (map (off_reservation (te_any env)) reserved)),
              presence (is_gpu_shape sh) OciGpuShape,
              presence (is_bm_shape (sh_name sh)) OciBmShape,
              presence (is_dense_io_shape sh) OciDenseIoShape,
              presence flex OciFlexShape,
              (OciInstanceShape, ReqIn [it_shape it])]\<rparr>) (is_flex_shape sh)))"

fun decorate_types ::
  "type_env \<Rightarrow> type_provider \<Rightarrow> node_class_spec \<Rightarrow> shape \<Rightarrow> string list \<Rightarrow> taint list
    \<Rightarrow> oci_instance_type list \<Rightarrow> resolvers \<Rightarrow> (err, oci_instance_type list) go \<times> resolvers" where
  "decorate_types env p spec sh ads taints [] s = (Ok [], s)"
| "decorate_types env p spec sh ads taints (it # its) s =
     st_bind (decorate_type env p spec sh ads taints it s) (\<lambda>it1 s.
     st_bind (finalize_requirements env p sh ads it1, s) (\<lambda>it2 s.
     st_bind (decorate_types env p spec sh ads taints its s) (\<lambda>rest s. (Ok (it2 # rest), s))))"

definition make_instance_types ::
  "type_env \<Rightarrow> type_provider \<Rightarrow> node_class_spec \<Rightarrow> taint list \<Rightarrow> shape \<Rightarrow> string list \<Rightarrow> resolvers
    \<Rightarrow> (err, oci_instance_type list) go \<times> resolvers" where
  "make_instance_types env p spec taints sh ads s =
     st_bind (if sh_flexible sh = Some True then list_flex_types p sh (Some spec)
              else Ok [blank_type (sh_name sh) (sh_name sh)], s)
       (\<lambda>its s. decorate_types env p spec sh ads taints its s)"

subsection \<open>All instance types\<close>

definition offers_gpu :: "taint list \<Rightarrow> bool" where
  "offers_gpu taints = (check_taint_exists taints NvidiaGpuTaintKey \<or> check_taint_exists taints AmdGpuTaintKey)"

fun list_shapes ::
  "type_env \<Rightarrow> type_provider \<Rightarrow> node_class_spec \<Rightarrow> taint list \<Rightarrow> (string \<times> (shape \<times> string list)) list \<Rightarrow> resolvers
    \<Rightarrow> (err, oci_instance_type list) go \<times> resolvers" where
  "list_shapes env p spec taints [] s = (Ok [], s)"
| "list_shapes env p spec taints ((name, sh, ads) # rest) s =
     (if is_gpu_shape sh \<and> \<not> offers_gpu taints then list_shapes env p spec taints rest s
      else st_bind (make_instance_types env p spec taints sh ads s) (\<lambda>ts s.
           st_bind (list_shapes env p spec taints rest s) (\<lambda>us s. (Ok (ts @ us), s))))"

definition list_instance_types ::
  "type_env \<Rightarrow> type_provider \<Rightarrow> string \<Rightarrow> node_class_spec \<Rightarrow> taint list \<Rightarrow> resolvers
    \<Rightarrow> (err, oci_instance_type list) go \<times> resolvers" where
  "list_instance_types env p className spec taints s =
     st_bind (list_shapes env p spec taints (tp_shapes p) s) (\<lambda>ts s.
       if length ts = 0
       then (Fail (ErrText (''no suitable instance types found for node class: '' @ className)), s)
       else (Ok ts, s))"

subsection \<open>Refreshing what the provider knows\<close>

text \<open>
  \<open>reloadConfigFile\<close>, after the file has been read and parsed: prices, preemptible shapes and the
  lists of shapes.  A price without a name is a nil pointer.  The preemptible shapes are added to
  those known, the others replace them.
\<close>

record shape_meta =
  sm_prices :: "(string option \<times> shape_price) list"
  sm_preemptible :: "string list"
  sm_cluster :: "string list"
  sm_one_vcpu :: "string list"

definition price_map :: "(string option \<times> shape_price) list \<Rightarrow> (err, (string \<times> shape_price) list) go" where
  "price_map ps =
     map_ok (\<lambda>kvs. fold (\<lambda>(k, v) m. AList.update k v m) kvs [])
       (map_go (\<lambda>(n, v). map_ok (\<lambda>s. (to_upper s, v)) (deref n)) ps)"

definition reload_config :: "(err, shape_meta) go \<Rightarrow> type_provider \<Rightarrow> (err, unit) go \<times> type_provider" where
  "reload_config file p =
     st_bind (file, p) (\<lambda>c p.
     st_bind (price_map (sm_prices c), p) (\<lambda>prices p.
       (Ok (), p\<lparr>tp_prices := prices,
                 tp_preemptible := fold (\<lambda>s known. List.insert (to_upper s) known) (sm_preemptible c) (tp_preemptible p),
                 tp_cluster_shapes := map to_upper (sm_cluster c),
                 tp_one_vcpu := map to_upper (sm_one_vcpu c)\<rparr>)))"

text \<open>
  \<open>refreshShapes\<close>: the shapes of every domain, page by page.  The page token is declared outside
  the loop over the domains and never cleared, so the second domain is asked from the token of the
  last page of the first on.
\<close>

partial_function (option) list_shape_pages ::
  "(err, shape) pager \<Rightarrow> shape list \<Rightarrow> string option \<Rightarrow> (err, shape list \<times> string option) go option" where
  "list_shape_pages fetch acc page =
     (case fetch page of
        Fail e \<Rightarrow> Some (Fail e)
      | Panic \<Rightarrow> Some Panic
      | Hang \<Rightarrow> Some Hang
      | Ok r \<Rightarrow>
          (case snd r of
             None \<Rightarrow> Some (Ok (acc @ fst r, page))
           | Some p \<Rightarrow> list_shape_pages fetch (acc @ fst r) (Some p)))"

fun shapes_by_ad ::
  "(string \<Rightarrow> (err, shape) pager) \<Rightarrow> string list \<Rightarrow> string option \<Rightarrow> (err, (string \<times> shape list) list) go" where
  "shapes_by_ad api [] page = Ok []"
| "shapes_by_ad api (ad # ads) page =
     go_bind (case list_shape_pages (api ad) [] page of None \<Rightarrow> Hang | Some r \<Rightarrow> r) (\<lambda>(shapes, page').
       map_ok (\<lambda>rest. (ad, shapes) # rest) (shapes_by_ad api ads page'))"

definition add_shape :: "string \<Rightarrow> shape \<Rightarrow> (string \<times> (shape \<times> string list)) list \<Rightarrow> (string \<times> (shape \<times> string list)) list" where
  "add_shape ad sh m =
     (case map_of m (sh_name sh) of
        None \<Rightarrow> m @ [(sh_name sh, (sh, [ad]))]
      | Some (s, ads) \<Rightarrow> AList.update (sh_name sh) (s, ads @ [ad]) m)"

definition shape_ad_map :: "(string \<times> shape list) list \<Rightarrow> (string \<times> (shape \<times> string list)) list" where
  "shape_ad_map by_ad = fold (\<lambda>(ad, shs). fold (add_shape ad) shs) by_ad []"

definition refresh_shapes ::
  "(string \<Rightarrow> (err, shape) pager) \<Rightarrow> string list \<Rightarrow> type_provider \<Rightarrow> (err, unit) go \<times> type_provider" where
  "refresh_shapes api ads p =
     st_bind (shapes_by_ad api ads None, p) (\<lambda>by_ad p. (Ok (), p\<lparr>tp_shapes := shape_ad_map by_ad\<rparr>))"

definition refresh_cluster_version :: "(err, int) go \<Rightarrow> type_provider \<Rightarrow> (err, unit) go \<times> type_provider" where
  "refresh_cluster_version minor p = st_bind (minor, p) (\<lambda>m p. (Ok (), p\<lparr>tp_minor := Some m\<rparr>))"

subsection \<open>Properties of the offerings\<close>

lemma map_go_elem:
  "map_go f xs = Ok ys \<Longrightarrow> y \<in> set ys \<Longrightarrow> \<exists>x \<in> set xs. f x = Ok y"
  by (induction xs arbitrary: ys) (auto simp: go_simps)

lemma make_offering_fields:
  assumes "make_offering ad price ct available = Ok ofr" "any_ok kany"
  shows "off_available ofr = available" "off_capacity_type kany ofr = ct" "off_price ofr = price"
    "ad_to_zone ad = Ok (off_zone kany ofr)" "\<not> req_has (off_reqs ofr) OciFaultDomain"
  using assms
  by (auto simp: make_offering_def make_requirement_def go_simps off_capacity_type_def off_zone_def
      req_get_def req_has_def any_ok_def)

lemma on_demand_elem:
  assumes "make_on_demand shape ads price available restrict = Ok ofs" "ofr \<in> set ofs" "any_ok kany"
  shows "off_capacity_type kany ofr = CapacityTypeOnDemand"
    "\<exists>ad \<in> set ads. ad_to_zone ad = Ok (off_zone kany ofr) \<and> off_available ofr = (available \<and> restrict shape ad)"
  using map_go_elem [OF assms(1) [unfolded make_on_demand_def] assms(2)] make_offering_fields [OF _ assms(3)]
  by metis+

lemma spot_elem:
  assumes "make_spot ads price = Ok ofs" "ofr \<in> set ofs" "any_ok kany"
  shows "off_capacity_type kany ofr = CapacityTypeSpot" "\<exists>ad \<in> set ads. ad_to_zone ad = Ok (off_zone kany ofr)"
  using map_go_elem [OF assms(1) [unfolded make_spot_def] assms(2)] make_offering_fields [OF _ assms(3)]
  by metis+

lemma reserved_elem:
  assumes "reserved_offering price ocid ad sa = Ok ofr" "any_ok kany"
  shows "off_capacity_type kany ofr = CapacityTypeReserved"
    "off_capacity ofr = max 0 (sa_total sa - sa_used sa)" "off_available ofr \<longleftrightarrow> 0 < off_capacity ofr"
    "off_reservation kany ofr = ocid_to_label_value ocid" "ad_to_zone ad = Ok (off_zone kany ofr)"
    "req_has (off_reqs ofr) OciFaultDomain \<longleftrightarrow> sa_fd sa \<noteq> None"
proof -
  from assms(1) obtain zone where z: "ad_to_zone ad = Ok zone"
    "off_reqs ofr = [(CapacityTypeLabelKey, ReqIn [CapacityTypeReserved]), (LabelTopologyZone, ReqIn [zone])]
       @ reserved_requirements (ocid_to_label_value ocid) sa"
    "off_capacity ofr = (if sa_total sa - sa_used sa < 0 then 0 else sa_total sa - sa_used sa)"
    "off_available ofr = (off_capacity ofr \<noteq> 0)"
    by (auto simp: reserved_offering_def make_offering_def make_requirement_def go_simps Let_def)
  show "off_capacity_type kany ofr = CapacityTypeReserved" "off_reservation kany ofr = ocid_to_label_value ocid"
    "ad_to_zone ad = Ok (off_zone kany ofr)" "req_has (off_reqs ofr) OciFaultDomain \<longleftrightarrow> sa_fd sa \<noteq> None"
    using z assms(2)
    by (auto simp: off_capacity_type_def off_reservation_def off_zone_def req_get_def req_has_def any_ok_def
        reserved_requirements_def split: option.splits)
  show "off_capacity ofr = max 0 (sa_total sa - sa_used sa)" "off_available ofr \<longleftrightarrow> 0 < off_capacity ofr"
    using z by auto
qed

lemma make_reserved_elem:
  assumes "make_reserved price m = Ok ofs" "ofr \<in> set ofs"
  shows "\<exists>ocid ad fds fd sa. ((ocid, ad), fds) \<in> set m \<and> (fd, sa) \<in> set fds \<and> reserved_offering price ocid ad sa = Ok ofr"
proof -
  from assms obtain oss os where os: "map_go (\<lambda>((ocid, ad), fds). map_go (\<lambda>(fd, sa). reserved_offering price ocid ad sa) fds) m = Ok oss"
    "os \<in> set oss" "ofr \<in> set os" by (auto simp: make_reserved_def go_simps)
  from map_go_elem [OF os(1,2)] obtain ocid ad fds where
    m: "((ocid, ad), fds) \<in> set m" "map_go (\<lambda>(fd, sa). reserved_offering price ocid ad sa) fds = Ok os" by auto
  from map_go_elem [OF m(2) os(3)] obtain fd sa where "(fd, sa) \<in> set fds"
    "reserved_offering price ocid ad sa = Ok ofr" by auto
  with m(1) show ?thesis by blast
qed

lemma finish_offering_fields [simp]:
  "off_reqs (finish_offering env p spec sh ev it ofr) = off_reqs ofr"
  "off_capacity (finish_offering env p spec sh ev it ofr) = off_capacity ofr"
  "off_price (finish_offering env p spec sh ev it ofr) = off_price ofr"
  by (simp_all add: finish_offering_def Let_def)

lemma finish_offering_types [simp]:
  "off_zone kany (finish_offering env p spec sh ev it ofr) = off_zone kany ofr"
  "off_capacity_type kany (finish_offering env p spec sh ev it ofr) = off_capacity_type kany ofr"
  by (simp_all add: off_zone_def off_capacity_type_def)

lemma off_update_types [simp]:
  "off_zone kany (ofr\<lparr>off_available := b\<rparr>) = off_zone kany ofr"
  "off_capacity_type kany (ofr\<lparr>off_available := b\<rparr>) = off_capacity_type kany ofr"
  by (simp_all add: off_zone_def off_capacity_type_def)

lemma finish_available:
  "off_available (finish_offering env p spec sh ev it ofr) \<longleftrightarrow>
     off_available ofr \<and> \<not> seen_unavailable env p spec (sh_name sh) it ofr \<and> ev_compatible ev
   \<and> (encrypted_memory sh spec \<longrightarrow> off_capacity_type (te_any env) ofr = CapacityTypeOnDemand)"
  by (auto simp: finish_offering_def Let_def)

text \<open>What an offering of each kind rests on.\<close>

definition offering_backed ::
  "type_env \<Rightarrow> type_provider \<Rightarrow> shape \<Rightarrow> string list \<Rightarrow> bool \<Rightarrow> taint list \<Rightarrow> oci_instance_type
    \<Rightarrow> (string \<Rightarrow> string \<Rightarrow> bool) \<Rightarrow> offering \<Rightarrow> bool" where
  "offering_backed env p sh ads available taints it restrict ofr \<longleftrightarrow>
     available \<and>
     (off_capacity_type (te_any env) ofr = CapacityTypeOnDemand
        \<and> (\<exists>ad \<in> set ads. ad_to_zone ad = Ok (off_zone (te_any env) ofr) \<and> restrict (sh_name sh) ad)
    \<or> off_capacity_type (te_any env) ofr = CapacityTypeSpot
        \<and> (\<exists>ad \<in> set ads. ad_to_zone ad = Ok (off_zone (te_any env) ofr))
        \<and> is_preemptible_shape p (sh_name sh) \<and> \<not> is_burstable it \<and> check_taint_exists taints PreemptibleTaintKey
    \<or> off_capacity_type (te_any env) ofr = CapacityTypeReserved \<and> 0 < off_capacity ofr)"

lemma more_offerings_backed:
  assumes "more_offerings p sh ads available price taints it capres = Ok ofs" "ofr \<in> set ofs"
    and "off_available ofr" "any_ok (te_any env)"
  shows "offering_backed env p sh ads available taints it restrict ofr"
proof -
  let ?spot = "available \<and> is_preemptible_shape p (sh_name sh) \<and> \<not> is_burstable it
      \<and> (case capres of None \<Rightarrow> True | Some m \<Rightarrow> length m = 0) \<and> check_taint_exists taints PreemptibleTaintKey"
  from assms(1) obtain spot reserved where o:
    "(if ?spot then make_spot ads price else Ok []) = Ok spot"
    "(case capres of None \<Rightarrow> Ok [] | Some m \<Rightarrow> if available then make_reserved price m else Ok []) = Ok reserved"
    "ofs = spot @ reserved"
    by (auto simp: more_offerings_def go_simps)
  from o(3) assms(2) consider "ofr \<in> set spot" | "ofr \<in> set reserved" by auto
  then show ?thesis
  proof cases
    case 1
    with o(1) have c: ?spot "make_spot ads price = Ok spot" by (auto split: if_splits)
    from spot_elem [OF c(2) 1 assms(4)] c(1) show ?thesis by (auto simp: offering_backed_def)
  next
    case 2
    with o(2) obtain m where m: "make_reserved price m = Ok reserved" "available"
      by (auto split: option.splits if_splits)
    from make_reserved_elem [OF m(1) 2] obtain ocid ad sa where "reserved_offering price ocid ad sa = Ok ofr"
      by blast
    from reserved_elem [OF this assms(4)] m(2) assms(3) show ?thesis by (auto simp: offering_backed_def)
  qed
qed

text \<open>
  C29. An offering of an instance type that is available is one the code has grounds for: the shape
  fits the platform request; with encrypted memory it is on demand; it was not recently seen without
  capacity, unless it is reserved; on demand it is in a domain of the shape that the placement of the
  node class allows; on spot the shape is preemptible, not burstable and the pool has the taint; a
  reserved one has capacity left.
\<close>

theorem available_offering_grounds:
  assumes "set_offerings env p spec sh ads available price taints ev it s = (Ok it', s')"
    and "it_offerings it = []" "ofr \<in> set (it_offerings it')" "off_available ofr" "any_ok (te_any env)"
  shows "ev_compatible ev
    \<and> (encrypted_memory sh spec \<longrightarrow> off_capacity_type (te_any env) ofr = CapacityTypeOnDemand)
    \<and> \<not> seen_unavailable env p spec (sh_name sh) it ofr
    \<and> (\<exists>restrict s1. get_placement_restrict env p spec s = (Ok restrict, s1)
         \<and> offering_backed env p sh ads available taints it restrict ofr)"
proof -
  from assms(1,2) obtain restrict s1 demand capres s2 more where o:
    "get_placement_restrict env p spec s = (Ok restrict, s1)"
    "make_on_demand (sh_name sh) ads price available restrict = Ok demand"
    "more_offerings p sh ads available price taints it capres = Ok more"
    "it_offerings it' = map (finish_offering env p spec sh ev it) (demand @ more)"
    by (auto simp: set_offerings_def go_simps)
  from assms(3) o(4) obtain q where q: "q \<in> set (demand @ more)" "ofr = finish_offering env p spec sh ev it q"
    by auto
  note fin = assms(4) [unfolded q(2) finish_available]
  have "offering_backed env p sh ads available taints it restrict q"
  proof (cases "q \<in> set demand")
    case True
    from on_demand_elem [OF o(2) True assms(5)] fin show ?thesis by (auto simp: offering_backed_def)
  next
    case False
    with q(1) have "q \<in> set more" by simp
    from more_offerings_backed [OF o(3) this _ assms(5)] fin show ?thesis by blast
  qed
  moreover have "seen_unavailable env p spec (sh_name sh) it ofr = seen_unavailable env p spec (sh_name sh) it q"
    using fin assms(4) by (auto simp: seen_unavailable_def q(2) split: option.splits)
  ultimately show ?thesis using o(1) fin by (auto simp: offering_backed_def q(2))
qed

subsection \<open>Worked examples\<close>

definition first_value :: any_value where
  "first_value r = (case r of ReqIn (v # vs) \<Rightarrow> v | _ \<Rightarrow> [])"

lemma first_value_ok: "any_ok first_value"
  by (simp add: any_ok_def first_value_def)

definition example_type_env :: type_env where
  "example_type_env = \<lparr>
     te_capres = \<lparr>ca_get = (\<lambda>_. Panic), ca_list = (\<lambda>_ _ _. Panic), ca_hash = (\<lambda>_. Panic)\<rparr>,
     te_cpg = \<lparr>ga_get = (\<lambda>_. Panic), ga_list = (\<lambda>_ _ _. Panic), ga_hash = (\<lambda>_. Panic)\<rparr>,
     te_cluster = \<lparr>ka_get = (\<lambda>k. Ok \<lparr>lr_id = k, lr_name = ''n'', lr_ad = ''p:AD-1'', lr_compartment = ''c''\<rparr>),
       ka_list = (\<lambda>_ _ _. Panic), ka_hash = (\<lambda>_. Panic)\<rparr>,
     te_lib = example_quantities, te_any = first_value, te_fmt = (\<lambda>_. []), te_now = 0, te_advice = (\<lambda>_ _. None)\<rparr>"

definition example_types :: type_provider where
  "example_types = \<lparr>tp_region = ''r'', tp_compartment = ''c'', tp_shapes = [], tp_prices = [],
     tp_preemptible = [''VM.STANDARD.E4''], tp_cluster_shapes = [], tp_one_vcpu = [], tp_shape_configs = [],
     tp_minor = Some 31, tp_families = [IPv4], tp_unavailable = None, tp_overhead = default_vm_memory_overhead\<rparr>"

definition example_resolvers :: resolvers where
  "example_resolvers = \<lparr>rs_capres = new_capres_provider ''c'', rs_cpg = new_cpg_provider ''c'',
     rs_cluster = new_cluster_provider ''c''\<rparr>"

definition fits_platform :: evaluation where
  "fits_platform = \<lparr>ev_compatible = True, ev_reason = [], ev_field = []\<rparr>"

lemma example_ads: "ad_to_zone ''p:AD-1'' = Ok ''AD-1''" "ad_to_zone ''p:AD-2'' = Ok ''AD-2''"
  by (simp_all add: ad_to_zone_def index_go_def)

theorem available_offering_grounds_witness:
  "\<exists>it' s' ofr. set_offerings example_type_env example_types empty_spec (example_shape ''VM.Standard.E4'')
      [''p:AD-1''] True 1 [] fits_platform (blank_type ''t'' ''VM.Standard.E4'') example_resolvers = (Ok it', s')
    \<and> ofr \<in> set (it_offerings it') \<and> off_available ofr
    \<and> \<not> encrypted_memory (example_shape ''VM.Standard.E4'') empty_spec
    \<and> (\<exists>restrict. offering_backed example_type_env example_types (example_shape ''VM.Standard.E4'') [''p:AD-1'']
         True [] (blank_type ''t'' ''VM.Standard.E4'') restrict ofr)"
proof -
  let ?run = "set_offerings example_type_env example_types empty_spec (example_shape ''VM.Standard.E4'')
      [''p:AD-1''] True 1 [] fits_platform (blank_type ''t'' ''VM.Standard.E4'') example_resolvers"
  have "\<exists>it' s' ofr. ?run = (Ok it', s') \<and> ofr \<in> set (it_offerings it') \<and> off_available ofr"
    by (simp add: set_offerings_def get_placement_restrict_def empty_spec_def make_on_demand_def make_offering_def
        make_requirement_def example_ads reserved_capacity_def more_offerings_def check_taint_exists_def
        finish_available seen_unavailable_def example_types_def fits_platform_def encrypted_memory_def
        blank_type_def placement_restrict_def)
  then obtain it' s' ofr where r: "?run = (Ok it', s')" "ofr \<in> set (it_offerings it')" "off_available ofr" by blast
  have a: "any_ok (te_any example_type_env)" by (simp add: example_type_env_def first_value_ok)
  from available_offering_grounds [OF r(1) _ r(2,3) a] have
    "\<exists>restrict. offering_backed example_type_env example_types (example_shape ''VM.Standard.E4'') [''p:AD-1'']
         True [] (blank_type ''t'' ''VM.Standard.E4'') restrict ofr" by (auto simp: blank_type_def)
  moreover have "\<not> encrypted_memory (example_shape ''VM.Standard.E4'') empty_spec"
    by (simp add: encrypted_memory_def empty_spec_def)
  ultimately show ?thesis using r by blast
qed

text \<open>
  Spot offerings do not respect the placement of the node class: for a class with a compute
  cluster in one domain, a preemptible shape is still offered on spot, and available, in another.
\<close>

theorem spot_ignores_placement:
  "\<exists>it' s' ofr. set_offerings example_type_env example_types
       (empty_spec\<lparr>ncs_cluster := Some \<lparr>ccc_id = Some ''k'', ccc_filter = None\<rparr>\<rparr>)
       (example_shape ''VM.Standard.E4'') [''p:AD-2''] True 1
       [\<lparr>tnt_key = PreemptibleTaintKey, tnt_value = [], tnt_effect = ''NoSchedule''\<rparr>] fits_platform
       (blank_type ''t'' ''VM.Standard.E4'') example_resolvers = (Ok it', s')
     \<and> ofr \<in> set (it_offerings it') \<and> off_available ofr
     \<and> off_zone first_value ofr = ''AD-2''
     \<and> filter (\<lambda>q. off_capacity_type first_value q = CapacityTypeOnDemand \<and> off_available q) (it_offerings it') = []"
proof -
  let ?spec = "empty_spec\<lparr>ncs_cluster := Some \<lparr>ccc_id = Some ''k'', ccc_filter = None\<rparr>\<rparr>"
  let ?cluster = "\<lparr>lres_ocid = ''k'', lres_name = ''n'', lres_ad = ''p:AD-1'', lres_compartment = ''c''\<rparr>"
  let ?sh = "example_shape ''VM.Standard.E4''"
  have "\<exists>s1. get_placement_restrict example_type_env example_types ?spec example_resolvers =
      (Ok (placement_restrict example_types (Some ?cluster) []), s1)"
    by (simp add: get_placement_restrict_def example_type_env_def example_resolvers_def resolve_cluster_def
        get_cluster_def new_cluster_provider_def new_default_cache_def get_or_load_pure get_new
        result_of_located_def)
  then obtain s1 where r: "get_placement_restrict example_type_env example_types ?spec example_resolvers =
      (Ok (placement_restrict example_types (Some ?cluster) []), s1)" ..
  have restr: "\<not> placement_restrict example_types (Some ?cluster) [] n ''p:AD-2''" for n
    by (simp add: placement_restrict_def)
  have spec: "ncs_capres ?spec = []" "\<not> encrypted_memory ?sh ?spec"
    by (simp_all add: empty_spec_def encrypted_memory_def)
  have pre: "is_preemptible_shape example_types (sh_name ?sh)"
  proof -
    have "to_upper ''VM.Standard.E4'' = ''VM.STANDARD.E4''" by code_simp
    then show ?thesis by (simp add: is_preemptible_shape_def example_types_def example_shape_def)
  qed
  have seen: "\<not> seen_unavailable example_type_env example_types ?spec n it q" for n it q
    by (simp add: seen_unavailable_def example_types_def)
  have res: "reserved_capacity example_type_env ?spec it s = (Ok None, s)" for it s
    by (simp add: reserved_capacity_def spec)
  have run: "set_offerings example_type_env example_types ?spec ?sh [''p:AD-2''] True 1
      [\<lparr>tnt_key = PreemptibleTaintKey, tnt_value = [], tnt_effect = ''NoSchedule''\<rparr>] fits_platform
      (blank_type ''t'' ''VM.Standard.E4'') example_resolvers =
    (Ok ((blank_type ''t'' ''VM.Standard.E4'')\<lparr>it_offerings := map (finish_offering example_type_env example_types ?spec ?sh
        fits_platform (blank_type ''t'' ''VM.Standard.E4''))
      [\<lparr>off_reqs = [(CapacityTypeLabelKey, ReqIn [CapacityTypeOnDemand]), (LabelTopologyZone, ReqIn [''AD-2'']),
          (ReservationIDLabel, ReqDoesNotExist)], off_price = 1, off_available = False, off_capacity = 0\<rparr>,
       \<lparr>off_reqs = [(CapacityTypeLabelKey, ReqIn [CapacityTypeSpot]), (LabelTopologyZone, ReqIn [''AD-2'']),
          (ReservationIDLabel, ReqDoesNotExist)], off_price = f64 (1 / 2), off_available = True, off_capacity = 0\<rparr>]\<rparr>), s1)"
    using pre restr
    by (simp add: set_offerings_def r res more_offerings_def make_on_demand_def make_spot_def make_offering_def
        make_requirement_def example_ads check_taint_exists_def is_burstable_def blank_type_def)
  show ?thesis
    by (intro exI [of _ "finish_offering example_type_env example_types ?spec ?sh fits_platform
         (blank_type ''t'' ''VM.Standard.E4'') \<lparr>off_reqs = [(CapacityTypeLabelKey, ReqIn [CapacityTypeSpot]),
          (LabelTopologyZone, ReqIn [''AD-2'']), (ReservationIDLabel, ReqDoesNotExist)],
          off_price = f64 (1 / 2), off_available = True, off_capacity = 0\<rparr>"] exI conjI, rule run)
       (simp_all add: finish_available seen spec fits_platform_def off_zone_def off_capacity_type_def
          req_get_def first_value_def)
qed

lemma set_alist_update: "p \<in> set (AList.update k v al) \<Longrightarrow> p = (k, v) \<or> p \<in> set al"
  by (induction al) (auto split: if_splits)

lemma availability_entries_no_fd:
  "(fd, sa) \<in> set (availability_for_shape rr shape ocpu gbs supported) \<Longrightarrow> sa_fd sa = None"
proof -
  have "(fd, sa) \<in> set (fold (add_availability shape ocpu gbs supported) sas out) \<Longrightarrow>
      \<forall>(fd, sa) \<in> set out. sa_fd sa = None \<Longrightarrow> sa_fd sa = None" for sas out
  proof (induction sas arbitrary: out)
    case (Cons x sas)
    have "\<forall>(fd, sa) \<in> set (add_availability shape ocpu gbs supported x out). sa_fd sa = None"
      using Cons.prems(2)
      by (auto simp: add_availability_def Let_def dest!: set_alist_update map_of_SomeD split: option.splits)
    with Cons.IH [of "add_availability shape ocpu gbs supported x out"] Cons.prems(1) show ?case by simp
  qed auto
  from this [of "rr_avail rr" "[]"] show
    "(fd, sa) \<in> set (availability_for_shape rr shape ocpu gbs supported) \<Longrightarrow> sa_fd sa = None"
    by (simp add: availability_for_shape_def)
qed

lemma slice_entries_no_fd:
  assumes "(k, fds) \<in> set (slice_availability_for_shape rrs shape ocpu gbs supported)" "(fd, sa) \<in> set fds"
  shows "sa_fd sa = None"
proof -
  let ?f = "\<lambda>rr out. let inner = availability_for_shape rr shape ocpu gbs supported
      in if 0 < length inner then AList.update (rr_ocid rr, rr_ad rr) inner out else out"
  have "\<forall>(k, fds) \<in> set out. \<forall>(fd, sa) \<in> set fds. sa_fd sa = None \<Longrightarrow>
      (k, fds) \<in> set (fold ?f rrs out) \<Longrightarrow> (fd, sa) \<in> set fds \<Longrightarrow> sa_fd sa = None" for out
  proof (induction rrs arbitrary: out)
    case (Cons rr rrs)
    have "\<forall>(k, fds) \<in> set (?f rr out). \<forall>(fd, sa) \<in> set fds. sa_fd sa = None"
      using Cons.prems(1) availability_entries_no_fd
      by (auto simp: Let_def dest!: set_alist_update)
    from Cons.IH [OF this] Cons.prems(2,3) show ?case by simp
  qed auto
  from this [of "[]"] assms show ?thesis by (simp add: slice_availability_for_shape_def)
qed

text \<open>
  A reserved offering never states a fault domain, also when the reservation is for one: the
  availability it is made from has lost its fault domain.
\<close>

theorem reserved_offering_has_no_fd:
  assumes "make_reserved price (slice_availability_for_shape rrs shape ocpu gbs supported) = Ok ofs" "ofr \<in> set ofs"
  shows "\<not> req_has (off_reqs ofr) OciFaultDomain"
proof -
  from make_reserved_elem [OF assms] obtain ocid ad fds fd sa where e:
    "((ocid, ad), fds) \<in> set (slice_availability_for_shape rrs shape ocpu gbs supported)" "(fd, sa) \<in> set fds"
    "reserved_offering price ocid ad sa = Ok ofr" by blast
  have "sa_fd sa = None" by (rule slice_entries_no_fd [OF e(1,2)])
  with reserved_elem(6) [OF e(3) first_value_ok] show ?thesis by simp
qed

definition example_avail :: resolve_result where
  "example_avail = \<lparr>rr_ocid = ''ocid1.x'', rr_name = ''n'', rr_ad = ''p:AD-1'', rr_compartment = ''c'',
     rr_avail = [\<lparr>sa_ad = ''p:AD-1'', sa_fd = Some ''FD-1'', sa_total = 3, sa_used = 1, sa_shape = ''VM.Standard.E4'',
       sa_ocpu = None, sa_memory = None\<rparr>], rr_time = 0\<rparr>"

theorem reserved_offering_has_no_fd_witness:
  "\<exists>ofs. make_reserved 1 (slice_availability_for_shape [example_avail] ''VM.Standard.E4'' None None False) = Ok ofs
     \<and> length ofs = 1 \<and> (\<forall>ofr \<in> set ofs. \<not> req_has (off_reqs ofr) OciFaultDomain)"
proof -
  have "\<exists>ofs. make_reserved 1 (slice_availability_for_shape [example_avail] ''VM.Standard.E4'' None None False) = Ok ofs
      \<and> length ofs = 1"
    by (simp add: slice_availability_for_shape_def availability_for_shape_def add_availability_def
        avail_matches_def example_avail_def make_reserved_def reserved_offering_def make_offering_def
        make_requirement_def example_ads Let_def)
  with reserved_offering_has_no_fd show ?thesis by blast
qed

subsection \<open>Properties of the instance types\<close>

text \<open>
  C30. An instance type that is made of a flexible shape stays within what the shape allows: its CPU
  count is in the range of the shape, a memory size that was configured is too, and a reduced
  baseline is one the shape supports.  Memory that is computed from the default per CPU is not
  compared with the range.
\<close>

theorem flex_type_in_range:
  assumes "flex_type sh cfg = Ok (Some it)"
  shows "\<exists>oo lo hi ocpu memory b. sh_ocpu_options sh = Some oo \<and> oo_min oo = Some lo \<and> oo_max oo = Some hi
    \<and> shc_ocpus cfg = Some ocpu \<and> lo \<le> ocpu \<and> ocpu \<le> hi
    \<and> b = from_ptr BASELINE_1_1 (shc_baseline cfg) \<and> baseline_supported sh b
    \<and> it_ocpu it = Some ocpu \<and> it_memory it = Some memory \<and> it_baseline it = Some b \<and> it_shape_config it
    \<and> it_shape it = sh_name sh \<and> it_name it = flex_type_name (sh_name sh) ocpu memory b
    \<and> (case shc_memory cfg of
         Some m \<Rightarrow> memory = m \<and> (\<exists>mo mlo mhi. sh_memory_options sh = Some mo \<and> mo_min mo = Some mlo
                    \<and> mo_max mo = Some mhi \<and> mlo \<le> m \<and> m \<le> mhi)
       | None \<Rightarrow> \<exists>mo d. sh_memory_options sh = Some mo \<and> mo_default mo = Some d
                    \<and> memory = f32 (f32 (ocpu * d) / baseline_factor b))"
proof -
  obtain ocpu where o: "shc_ocpus cfg = Some ocpu" using assms by (auto simp: flex_type_def split: option.splits)
  obtain oo where oo: "sh_ocpu_options sh = Some oo" using assms o by (cases "sh_ocpu_options sh") (auto simp: flex_type_def)
  obtain hi where hi: "oo_max oo = Some hi" using assms o oo by (cases "oo_max oo") (auto simp: flex_type_def)
  have le: "ocpu \<le> hi" using assms o oo hi by (auto simp: flex_type_def split: if_splits)
  obtain lo where lo: "oo_min oo = Some lo" using assms o oo hi le by (cases "oo_min oo") (auto simp: flex_type_def)
  have ge: "lo \<le> ocpu" using assms o oo hi lo le by (auto simp: flex_type_def split: if_splits)
  define b where "b = from_ptr BASELINE_1_1 (shc_baseline cfg)"
  from assms o oo hi lo le ge obtain memory where m: "baseline_supported sh b" "flex_memory sh cfg ocpu b = Ok (Some memory)"
    "it = (blank_type (flex_type_name (sh_name sh) ocpu memory b) (sh_name sh))
       \<lparr>it_ocpu := Some ocpu, it_memory := Some memory, it_baseline := Some b, it_shape_config := True\<rparr>"
    by (auto simp: flex_type_def go_simps b_def Let_def dest!: sym [of "Some it"] split: if_splits)
  have "case shc_memory cfg of
         Some m \<Rightarrow> memory = m \<and> (\<exists>mo mlo mhi. sh_memory_options sh = Some mo \<and> mo_min mo = Some mlo
                    \<and> mo_max mo = Some mhi \<and> mlo \<le> m \<and> m \<le> mhi)
       | None \<Rightarrow> \<exists>mo d. sh_memory_options sh = Some mo \<and> mo_default mo = Some d
                    \<and> memory = f32 (f32 (ocpu * d) / baseline_factor b)"
  proof (cases "sh_memory_options sh")
    case None
    with m(2) show ?thesis by (simp add: flex_memory_def)
  next
    case (Some mo)
    with m(2) show ?thesis
      by (cases "mo_min mo"; cases "mo_max mo"; cases "mo_default mo")
         (auto simp: flex_memory_def split: option.splits if_splits)
  qed
  moreover have "it_ocpu it = Some ocpu" "it_memory it = Some memory" "it_baseline it = Some b" "it_shape_config it"
    "it_shape it = sh_name sh" "it_name it = flex_type_name (sh_name sh) ocpu memory b"
    using m(3) by (simp_all add: blank_type_def)
  ultimately show ?thesis using o oo hi lo le ge m(1) b_def by blast
qed

definition example_flex_shape :: shape where
  "example_flex_shape = (example_shape ''VM.Standard.E4.Flex'')\<lparr>sh_flexible := Some True,
     sh_ocpu_options := Some \<lparr>oo_min = Some 1, oo_max = Some 64\<rparr>,
     sh_memory_options := Some \<lparr>mo_min = Some 1, mo_max = Some 1024, mo_default = Some 16\<rparr>\<rparr>"

theorem flex_type_in_range_witness:
  "\<exists>it. flex_type example_flex_shape \<lparr>shc_baseline = None, shc_ocpus = Some 2, shc_memory = Some 32\<rparr> = Ok (Some it)
     \<and> it_memory it = Some 32"
proof -
  have "\<exists>it. flex_type example_flex_shape \<lparr>shc_baseline = None, shc_ocpus = Some 2, shc_memory = Some 32\<rparr> = Ok (Some it)"
    by (simp add: flex_type_def example_flex_shape_def flex_memory_def baseline_supported_def)
  then obtain it where it:
    "flex_type example_flex_shape \<lparr>shc_baseline = None, shc_ocpus = Some 2, shc_memory = Some 32\<rparr> = Ok (Some it)" ..
  from flex_type_in_range [OF it] it show ?thesis by auto
qed

text \<open>
  The name of an instance type does not identify its configuration: the CPU count and the memory
  are printed without decimals, so that two configurations that differ by a fraction get one name.
\<close>

theorem flex_names_collide:
  "\<exists>it it'. flex_type example_flex_shape \<lparr>shc_baseline = None, shc_ocpus = Some 2, shc_memory = Some 32\<rparr> = Ok (Some it)
     \<and> flex_type example_flex_shape \<lparr>shc_baseline = None, shc_ocpus = Some (9 / 4), shc_memory = Some 32\<rparr> = Ok (Some it')
     \<and> it_name it = it_name it' \<and> it_ocpu it \<noteq> it_ocpu it'"
proof -
  have "\<lfloor>9 / 4 :: rat\<rfloor> = 2" by (rule floor_unique) simp_all
  then have "show_fixed 0 (9 / 4) = show_fixed 0 2"
    by (simp add: show_fixed_def round_half_even_def Let_def)
  then show ?thesis
    by (simp add: flex_type_def example_flex_shape_def flex_memory_def baseline_supported_def
        flex_type_name_def blank_type_def)
qed

lemma set_offerings_shape:
  assumes "set_offerings env p spec sh ads available price taints ev it s = (Ok it', s')"
  shows "it_shape it' = it_shape it"
  using assms by (auto simp: set_offerings_def st_bind_Ok_iff go_simps)

lemma set_overhead_shape: "set_overhead lib vcpu gbs spec it = Ok it' \<Longrightarrow> it_shape it' = it_shape it"
  by (auto simp: set_overhead_def go_simps)

lemma set_capacity_shape: "it_shape (set_capacity sh vcpu gbs spec fs overhead it) = it_shape it"
  by (simp add: set_capacity_def)

lemma decorate_type_shape:
  assumes "decorate_type env p spec sh ads taints it s = (Ok it', s')"
  shows "it_shape it' = it_shape it"
proof -
  from assms obtain vcpu gbs ty it3 s3 available price ev where
    o: "set_overhead (te_lib env) vcpu gbs spec (set_capacity sh vcpu gbs spec (tp_families p) (tp_overhead p)
          (it\<lparr>it_platform_type := ty\<rparr>)) = Ok it3"
    and r: "set_offerings env p spec sh ads available price taints ev
          (case te_advice env (sh_name sh) (it_name it3) of None \<Rightarrow> it3
           | Some m \<Rightarrow> it3\<lparr>it_capacity := set_resource ''memory'' m (it_capacity it3)\<rparr>) s3 = (Ok it', s')"
    unfolding decorate_type_def Let_def st_bind_Ok_iff case_prod_unfold
    by (elim exE conjE) (simp only: prod.inject, blast)
  from set_offerings_shape [OF r] have "it_shape it' = it_shape it3" by (simp split: option.splits)
  also have "\<dots> = it_shape it" using set_overhead_shape [OF o] by (simp add: set_capacity_shape)
  finally show ?thesis .
qed

lemma decorate_types_shape:
  assumes "decorate_types env p spec sh ads taints its s = (Ok ts, s')" "t \<in> set ts"
  shows "\<exists>it \<in> set its. it_shape t = it_shape it"
  using assms
proof (induction its arbitrary: s ts)
  case (Cons it its)
  from Cons.prems(1) obtain it1 s1 it2 rest where d:
    "decorate_type env p spec sh ads taints it s = (Ok it1, s1)"
    "finalize_requirements env p sh ads it1 = Ok it2"
    "decorate_types env p spec sh ads taints its s1 = (Ok rest, s')" "ts = it2 # rest"
    by (auto simp: st_bind_Ok_iff)
  have "it_shape it2 = it_shape it1"
    using d(2) by (auto simp: finalize_requirements_def go_simps Let_def)
  with d Cons.prems(2) Cons.IH [OF d(3)] decorate_type_shape [OF d(1)] show ?case by auto
qed simp

lemma flex_types_shape: "flex_types sh cs = Ok ts \<Longrightarrow> t \<in> set ts \<Longrightarrow> it_shape t = sh_name sh"
proof (induction cs arbitrary: ts)
  case (Cons c cs)
  have "it_shape it = sh_name sh" if "flex_type sh c = Ok (Some it)" for it
    using that by (auto simp: flex_type_def go_simps blank_type_def Let_def dest!: sym [of "Some it"] split: option.splits if_splits)
  with Cons show ?case by (auto simp: go_simps split: option.splits)
qed simp

lemma make_instance_types_shape:
  assumes "make_instance_types env p spec taints sh ads s = (Ok ts, s')" "t \<in> set ts"
  shows "it_shape t = sh_name sh"
proof -
  from assms(1) obtain its s1 where m:
    "(if sh_flexible sh = Some True then list_flex_types p sh (Some spec)
       else Ok [blank_type (sh_name sh) (sh_name sh)]) = Ok its"
    "decorate_types env p spec sh ads taints its s1 = (Ok ts, s')"
    by (auto simp: make_instance_types_def st_bind_Ok_iff)
  from decorate_types_shape [OF m(2) assms(2)] obtain it where "it \<in> set its" "it_shape t = it_shape it" by blast
  with m(1) flex_types_shape show ?thesis
    by (auto simp: list_flex_types_def blank_type_def split: if_splits)
qed

lemma list_shapes_elem:
  assumes "list_shapes env p spec taints shs s = (Ok ts, s')" "t \<in> set ts"
  shows "\<exists>name sh ads. (name, sh, ads) \<in> set shs \<and> it_shape t = sh_name sh \<and> (is_gpu_shape sh \<longrightarrow> offers_gpu taints)"
  using assms
proof (induction shs arbitrary: s ts)
  case (Cons x shs)
  obtain name sh ads where x: "x = (name, sh, ads)" by (cases x)
  show ?case
  proof (cases "is_gpu_shape sh \<and> \<not> offers_gpu taints")
    case True
    with Cons x show ?thesis by simp blast
  next
    case False
    with Cons.prems(1) x obtain t1 s1 us where d: "make_instance_types env p spec taints sh ads s = (Ok t1, s1)"
      "list_shapes env p spec taints shs s1 = (Ok us, s')" "ts = t1 @ us"
      by (auto simp: st_bind_Ok_iff)
    from d(3) Cons.prems(2) consider "t \<in> set t1" | "t \<in> set us" by auto
    then show ?thesis
    proof cases
      case 1
      from make_instance_types_shape [OF d(1) 1] False x show ?thesis by auto
    next
      case 2
      from Cons.IH [OF d(2) 2] x show ?thesis by auto
    qed
  qed
qed simp

text \<open>
  C31. The list of instance types, when there is one, is not empty, each of its types is of a shape the
  provider knows, and a shape with GPUs is in it only for a pool that has one of the GPU taints.
\<close>

theorem listed_types_sound:
  assumes "list_instance_types env p className spec taints s = (Ok ts, s')"
  shows "ts \<noteq> [] \<and> (\<forall>t \<in> set ts. \<exists>name sh ads. (name, sh, ads) \<in> set (tp_shapes p)
    \<and> it_shape t = sh_name sh \<and> (is_gpu_shape sh \<longrightarrow> offers_gpu taints))"
  using assms list_shapes_elem
  by (auto simp: list_instance_types_def st_bind_Ok_iff split: if_splits)

lemma example_set_offerings:
  "\<exists>it'. set_offerings example_type_env p empty_spec sh [''p:AD-1''] available price [] ev it s = (Ok it', s)"
  by (simp add: set_offerings_def get_placement_restrict_def empty_spec_def make_on_demand_def make_offering_def
      make_requirement_def example_ads reserved_capacity_def more_offerings_def check_taint_exists_def)

lemma example_set_overhead: "\<exists>it'. set_overhead lib vcpu gbs empty_spec it = Ok it'"
  by (simp add: set_overhead_def kube_reserved_def system_reserved_def eviction_threshold_def empty_spec_def
      parse_resources_def)

lemma example_decorate:
  "\<exists>it'. decorate_type example_type_env p empty_spec (example_shape n) [''p:AD-1''] []
     (blank_type m n) s = (Ok it', s)"
proof -
  have 1: "sh_ocpus (example_shape n) = Some 2" "sh_memory (example_shape n) = Some 16"
    "sh_max_vnics (example_shape n) = None" "ncs_platform empty_spec = None"
    by (simp_all add: example_shape_def empty_spec_def)
  obtain F where "\<And>lib vcpu gbs it. set_overhead lib vcpu gbs empty_spec it = Ok (F lib vcpu gbs it)"
    using example_set_overhead by metis
  moreover obtain G where "\<And>p sh available price ev it s. set_offerings example_type_env p empty_spec sh [''p:AD-1'']
      available price [] ev it s = (Ok (G p sh available price ev it s), s)"
    using example_set_offerings by metis
  ultimately show ?thesis using 1 by (simp add: decorate_type_def blank_type_def Let_def case_prod_unfold)
qed

theorem listed_types_sound_witness:
  "\<exists>ts s'. list_instance_types example_type_env
      (example_types\<lparr>tp_shapes := [(''VM.Standard.E4'', (example_shape ''VM.Standard.E4'', [''p:AD-1'']))]\<rparr>)
      ''class'' empty_spec [] example_resolvers = (Ok ts, s')
    \<and> ts \<noteq> [] \<and> (\<forall>t \<in> set ts. it_shape t = ''VM.Standard.E4'')"
proof -
  let ?sh = "example_shape ''VM.Standard.E4''"
  let ?p = "example_types\<lparr>tp_shapes := [(''VM.Standard.E4'', (?sh, [''p:AD-1'']))]\<rparr>"
  have sh: "\<not> is_gpu_shape ?sh" "sh_flexible ?sh = Some False" "is_flex_shape ?sh = Ok False" "sh_name ?sh = ''VM.Standard.E4''"
    by (simp_all add: is_gpu_shape_def example_shape_def is_flex_shape_def)
  obtain it where "decorate_type example_type_env ?p empty_spec ?sh [''p:AD-1''] []
      (blank_type ''VM.Standard.E4'' ''VM.Standard.E4'') example_resolvers = (Ok it, example_resolvers)"
    using example_decorate by blast
  with sh have "\<exists>ts. list_instance_types example_type_env ?p ''class'' empty_spec [] example_resolvers = (Ok ts, example_resolvers)"
    by (simp add: list_instance_types_def make_instance_types_def finalize_requirements_def example_ads Let_def)
  then obtain ts where r: "list_instance_types example_type_env ?p ''class'' empty_spec [] example_resolvers = (Ok ts, example_resolvers)" ..
  from listed_types_sound [OF r] sh r show ?thesis by auto
qed

end
