(* ===== verification/Image_Provider.thy ===== *)
theory Image_Provider
  imports Api_Types Load_Cache Utils
begin

section \<open>Images\<close>

text \<open>
  \<open>pkg/providers/image/provider.go\<close>: which image an instance of a shape is launched from.  The
  images of the configuration are fetched by OCID or listed and filtered, sorted by age, and for
  the images of OKE filtered and sorted again by how well their kubelet fits the cluster; the
  first of them that supports the shape is taken.

  Every operation runs in one of two modes, the flag \<open>co\<close> (\<open>cachedOnly\<close>): a launch asks the
  service for what the caches do not hold, while the other mode gives up with \<open>errNotCached\<close>.  The
  compute API, the hash of a selector and the parser of versions are arguments.
\<close>

record semver =
  sv_major :: int
  sv_minor :: int

record oci_image =
  img_id :: string
  img_name :: "string option"
  img_compartment :: "string option"
  img_os :: string
  img_os_version :: string
  img_created :: int
  img_base :: "string option"
  img_freeform :: tags
  img_defined :: defined_tags

record image_result =
  ir_images :: "oci_image list"
  ir_type :: image_type
  ir_os :: string
  ir_os_version :: string

record image_provider =
  ip_ocid_cache :: "oci_image load_cache"
  ip_filter_cache :: "oci_image list load_cache"
  ip_shape_cache :: "string set load_cache"
  ip_prebaked :: string
  ip_hardened :: string
  ip_version :: "semver option"

record image_env =
  ie_get :: "string \<Rightarrow> (err, oci_image) go"
  ie_list :: "string option \<Rightarrow> string \<Rightarrow> string \<Rightarrow> (err, oci_image) pager"
  ie_shapes :: "string \<Rightarrow> (err, string) pager"
  ie_hash :: "image_selector \<Rightarrow> (err, string) go"
  ie_semver :: "string \<Rightarrow> (err, semver) go"
  ie_now :: int

definition new_image_provider :: "string \<Rightarrow> string \<Rightarrow> image_provider" where
  "new_image_provider prebaked hardened =
     \<lparr>ip_ocid_cache = new_default_cache, ip_filter_cache = new_default_cache,
      ip_shape_cache = new_default_cache, ip_prebaked = prebaked, ip_hardened = hardened,
      ip_version = None\<rparr>"

text \<open>\<open>errors.Is\<close> of the sentinel looks through what wraps an error.\<close>

definition errNotCached :: err where
  "errNotCached = Sentinel NotCachedVar ''not cached''"

fun is_not_cached :: "err \<Rightarrow> bool" where
  "is_not_cached (Sentinel NotCachedVar s) = True"
| "is_not_cached (WrapCause m e) = is_not_cached e"
| "is_not_cached (WrapW m e) = is_not_cached e"
| "is_not_cached e = False"

subsection \<open>Looking up images and their shapes\<close>

definition get_image ::
  "image_env \<Rightarrow> bool \<Rightarrow> string \<Rightarrow> image_provider \<Rightarrow> (err, oci_image) go \<times> image_provider" where
  "get_image env co ocid p =
     (if co
      then (case get_cached (ie_now env) (ip_ocid_cache p) ocid of
              Some img \<Rightarrow> (Ok img, p)
            | None \<Rightarrow> (Fail errNotCached, p))
      else (let (r, c, u) = get_or_load (ie_now env) (ip_ocid_cache p) ocid (\<lambda>k s. (ie_get env k, s)) ()
            in (r, p\<lparr>ip_ocid_cache := c\<rparr>)))"

definition list_and_filter_images ::
  "(err, oci_image) pager \<Rightarrow> (oci_image \<Rightarrow> bool) \<Rightarrow> (err, oci_image list) go" where
  "list_and_filter_images fetch keep = fetch_filtered fetch (\<lambda>i. Ok (keep i))"

text \<open>The compartment that is listed depends on the type of the image, the key of the cache does not.\<close>

definition image_compartment :: "image_type \<Rightarrow> image_selector \<Rightarrow> image_provider \<Rightarrow> string option" where
  "image_compartment ty sel p =
     (case ty of
        OKEImage \<Rightarrow> (case isel_compartment sel of None \<Rightarrow> Some (ip_prebaked p) | Some c \<Rightarrow> Some c)
      | PlatformImage \<Rightarrow> None
      | CustomImage \<Rightarrow> isel_compartment sel)"

definition filter_image ::
  "image_env \<Rightarrow> bool \<Rightarrow> image_type \<Rightarrow> image_selector \<Rightarrow> image_provider
    \<Rightarrow> (err, oci_image list) go \<times> image_provider" where
  "filter_image env co ty sel p =
     st_bind (ie_hash env sel, p) (\<lambda>k p.
       if co
       then (case get_cached (ie_now env) (ip_filter_cache p) k of
               Some is \<Rightarrow> (Ok is, p)
             | None \<Rightarrow> (Fail errNotCached, p))
       else (let (r, c, u) = get_or_load (ie_now env) (ip_filter_cache p) k (\<lambda>_ s.
                   (list_and_filter_images
                      (ie_list env (image_compartment ty sel p) (isel_os sel) (isel_os_version sel))
                      (\<lambda>i. tag_filter (isel_freeform sel) (isel_defined sel) (img_freeform i) (img_defined i)), s)) ()
             in (r, p\<lparr>ip_filter_cache := c\<rparr>)))"

definition list_shapes_for_image ::
  "image_env \<Rightarrow> bool \<Rightarrow> string \<Rightarrow> image_provider \<Rightarrow> (err, string set) go \<times> image_provider" where
  "list_shapes_for_image env co ocid p =
     (if co
      then (case get_cached (ie_now env) (ip_shape_cache p) ocid of
              Some ss \<Rightarrow> (Ok ss, p)
            | None \<Rightarrow> (Fail errNotCached, p))
      else (let (r, c, u) = get_or_load (ie_now env) (ip_shape_cache p) ocid
                   (\<lambda>k s. (map_ok set (fetch_all (ie_shapes env ocid)), s)) ()
            in (r, p\<lparr>ip_shape_cache := c\<rparr>)))"

subsection \<open>The kubelet of an image\<close>

text \<open>
  The tag is looked for on the image, then on the image it was made from, and so on; nothing bounds
  the walk, so it is a partial function.
\<close>

partial_function (option) extract_kubelet_version ::
  "image_env \<Rightarrow> bool \<Rightarrow> oci_image \<Rightarrow> image_provider \<Rightarrow> ((err, semver) go \<times> image_provider) option" where
  "extract_kubelet_version env co i p =
     (case map_of (img_freeform i) ''k8s_version'' of
        Some v \<Rightarrow> Some (ie_semver env (trim_char (CHR ''v'') (to_lower v)), p)
      | None \<Rightarrow>
          (case img_base i of
             None \<Rightarrow> Some (Fail (ErrText ''missing k8s_version tag''), p)
           | Some b \<Rightarrow>
               (case fst (get_image env co b p) of
                  Ok base \<Rightarrow> extract_kubelet_version env co base (snd (get_image env co b p))
                | Fail e \<Rightarrow> Some (Fail e, snd (get_image env co b p))
                | Panic \<Rightarrow> Some (Panic, snd (get_image env co b p))
                | Hang \<Rightarrow> Some (Hang, snd (get_image env co b p)))))"

definition kubelet_score :: "semver \<Rightarrow> semver \<Rightarrow> int" where
  "kubelet_score cluster klet =
     (if sv_major klet \<noteq> sv_major cluster then - 1
      else if sv_minor klet > sv_minor cluster then - 1
      else
        (let diff = sv_minor cluster - sv_minor klet
         in if sv_major klet = 1 \<and> sv_minor klet < 25 \<and> diff > 2 then - 1
            else if diff > 3 then - 1
            else diff))"

text \<open>The loop of \<open>filterAndSortImages\<close>: what it keeps, and the map of the scores.\<close>

fun score_images ::
  "image_env \<Rightarrow> bool \<Rightarrow> semver \<Rightarrow> oci_image list \<Rightarrow> oci_image list \<Rightarrow> (string \<rightharpoonup> int) \<Rightarrow> image_provider
    \<Rightarrow> (err, oci_image list \<times> (string \<rightharpoonup> int)) go \<times> image_provider" where
  "score_images env co cv [] out scores p = (Ok (out, scores), p)"
| "score_images env co cv (i # is) out scores p =
     (case extract_kubelet_version env co i p of
        None \<Rightarrow> (Hang, p)
      | Some (Panic, p1) \<Rightarrow> (Panic, p1)
      | Some (Hang, p1) \<Rightarrow> (Hang, p1)
      | Some (Fail e, p1) \<Rightarrow>
          (if is_not_cached e then (Fail e, p1) else score_images env co cv is out scores p1)
      | Some (Ok v, p1) \<Rightarrow>
          (let score = kubelet_score cv v
           in if score < 0 then score_images env co cv is out scores p1
              else score_images env co cv is (out @ [i]) (scores(img_id i \<mapsto> score)) p1))"

definition is_prebaked :: "image_config \<Rightarrow> oci_image list \<Rightarrow> image_provider \<Rightarrow> bool" where
  "is_prebaked cfg images p =
     (if ic_id cfg \<noteq> None then img_compartment (hd images) = Some (ip_prebaked p)
      else ic_type cfg = OKEImage)"

definition filter_and_sort_images ::
  "image_env \<Rightarrow> bool \<Rightarrow> oci_image list \<Rightarrow> image_config \<Rightarrow> image_provider
    \<Rightarrow> (err, oci_image list) go \<times> image_provider" where
  "filter_and_sort_images env co images cfg p =
     (if length images = 0 then (Fail (ErrText ''no image available''), p)
      else
        (let sorted = slice_stable (\<lambda>i. - img_created i) images
         in if \<not> is_prebaked cfg sorted p then (Ok sorted, p)
            else
              (case ip_version p of
                 None \<Rightarrow> (Fail (ErrText ''cannot detect cluster version''), p)
               | Some cv \<Rightarrow>
                   st_bind (score_images env co cv sorted [] Map.empty p) (\<lambda>(out, scores) p.
                     (Ok (slice_stable (\<lambda>i. case scores (img_id i) of None \<Rightarrow> 0 | Some s \<Rightarrow> s) out), p)))))"

subsection \<open>Resolving a configuration\<close>

definition to_image_resolve_result :: "oci_image list \<Rightarrow> image_config \<Rightarrow> image_result option" where
  "to_image_resolve_result images cfg =
     (if length images = 0 then None
      else Some \<lparr>ir_images = images, ir_type = ic_type cfg, ir_os = img_os (hd images),
                 ir_os_version = img_os_version (hd images)\<rparr>)"

definition candidate_images ::
  "image_env \<Rightarrow> bool \<Rightarrow> image_config \<Rightarrow> image_provider \<Rightarrow> (err, oci_image list) go \<times> image_provider" where
  "candidate_images env co cfg p =
     (case ic_id cfg of
        Some ocid \<Rightarrow> st_bind (get_image env co ocid p) (\<lambda>i p. (Ok [i], p))
      | None \<Rightarrow>
          (case ic_filter cfg of
             Some sel \<Rightarrow> filter_image env co (ic_type cfg) sel p
           | None \<Rightarrow> (Ok [], p)))"

text \<open>The names are printed to the log, an image without one is a nil pointer.\<close>

definition resolve_images ::
  "image_env \<Rightarrow> bool \<Rightarrow> image_config option \<Rightarrow> image_provider \<Rightarrow> (err, image_result) go \<times> image_provider" where
  "resolve_images env co cfgo p =
     (case cfgo of
        None \<Rightarrow> (Fail (ErrText ''either image ocid or image filter is required''), p)
      | Some cfg \<Rightarrow>
          if ic_id cfg \<noteq> None \<and> ic_filter cfg \<noteq> None
          then (Fail (ErrText ''cannot define image ocid and image filter together''), p)
          else
            st_bind (candidate_images env co cfg p) (\<lambda>images p.
            st_bind (filter_and_sort_images env co images cfg p) (\<lambda>images p.
              if length images = 0 then (Fail (ErrText ''no image match''), p)
              else st_bind (map_go (\<lambda>i. deref (img_name i)) images, p) (\<lambda>names p.
                (deref (to_image_resolve_result images cfg), p)))))"

fun first_for_shape ::
  "image_env \<Rightarrow> bool \<Rightarrow> string \<Rightarrow> oci_image list \<Rightarrow> image_provider
    \<Rightarrow> (err, oci_image option) go \<times> image_provider" where
  "first_for_shape env co shape [] p = (Ok None, p)"
| "first_for_shape env co shape (i # is) p =
     st_bind (list_shapes_for_image env co (img_id i) p) (\<lambda>shapes p.
       if shape \<in> shapes then (Ok (Some i), p) else first_for_shape env co shape is p)"

definition resolve_image_for_shape ::
  "image_env \<Rightarrow> bool \<Rightarrow> image_config option \<Rightarrow> string \<Rightarrow> image_provider
    \<Rightarrow> (err, image_result) go \<times> image_provider" where
  "resolve_image_for_shape env co cfgo shape p =
     st_bind (resolve_images env co cfgo p) (\<lambda>images p.
     st_bind (first_for_shape env co shape (ir_images images) p) (\<lambda>first p.
       (case first of
          None \<Rightarrow> (Fail (ErrText (''no image suitable for shape '' @ shape)), p)
        | Some i \<Rightarrow>
            (go_bind (deref cfgo) (\<lambda>cfg. deref (to_image_resolve_result [i] cfg)), p))))"

text \<open>\<open>ResolveImageForShapeCached\<close>: every error is a miss.\<close>

definition resolve_image_for_shape_cached ::
  "image_env \<Rightarrow> image_config option \<Rightarrow> string \<Rightarrow> image_provider
    \<Rightarrow> (err, image_result option) go \<times> image_provider" where
  "resolve_image_for_shape_cached env cfgo shape p =
     (case resolve_image_for_shape env True cfgo shape p of
        (Ok r, p1) \<Rightarrow> (Ok (Some r), p1)
      | (Fail e, p1) \<Rightarrow> (Ok None, p1)
      | (Panic, p1) \<Rightarrow> (Panic, p1)
      | (Hang, p1) \<Rightarrow> (Hang, p1))"

text \<open>The first argument is the version the Kubernetes API reports, nil without a client.\<close>

definition refresh_image_version ::
  "(err, string) go option \<Rightarrow> image_env \<Rightarrow> image_provider \<Rightarrow> (err, unit) go \<times> image_provider" where
  "refresh_image_version server env p =
     (case server of
        None \<Rightarrow> (Ok (), p)
      | Some srv \<Rightarrow> st_bind (cluster_version (ie_semver env) srv, p) (\<lambda>v p. (Ok (), p\<lparr>ip_version := Some v\<rparr>)))"

subsection \<open>Facts about the lookups\<close>

text \<open>The kubelet of an image, as the service states it: the tag of its nearest tagged ancestor.\<close>

inductive kubelet_of :: "image_env \<Rightarrow> oci_image \<Rightarrow> semver \<Rightarrow> bool" for env where
  tagged: "map_of (img_freeform i) ''k8s_version'' = Some s \<Longrightarrow>
     ie_semver env (trim_char (CHR ''v'') (to_lower s)) = Ok v \<Longrightarrow> kubelet_of env i v"
| based: "map_of (img_freeform i) ''k8s_version'' = None \<Longrightarrow> img_base i = Some b \<Longrightarrow>
     ie_get env b = Ok base \<Longrightarrow> kubelet_of env base v \<Longrightarrow> kubelet_of env i v"

inductive_cases kubelet_ofE: "kubelet_of env i v"

lemma kubelet_of_iff:
  "kubelet_of env i v \<longleftrightarrow>
     (case map_of (img_freeform i) ''k8s_version'' of
        Some s \<Rightarrow> ie_semver env (trim_char (CHR ''v'') (to_lower s)) = Ok v
      | None \<Rightarrow> \<exists>b base. img_base i = Some b \<and> ie_get env b = Ok base \<and> kubelet_of env base v)"
  by (auto split: option.splits intro: tagged based elim: kubelet_ofE)

lemma kubelet_of_unique: "kubelet_of env i v \<Longrightarrow> kubelet_of env i w \<Longrightarrow> v = w"
  by (induction rule: kubelet_of.induct) (auto elim: kubelet_ofE)

definition supports :: "image_env \<Rightarrow> oci_image \<Rightarrow> string \<Rightarrow> bool" where
  "supports env i shape = (\<exists>ss. fetch_all (ie_shapes env (img_id i)) = Ok ss \<and> shape \<in> set ss)"

text \<open>The caches hold only what the service would answer.\<close>

definition images_honest :: "image_env \<Rightarrow> image_provider \<Rightarrow> bool" where
  "images_honest env p \<longleftrightarrow>
     faithful (\<lambda>k i. ie_get env k = Ok i) (ip_ocid_cache p)
   \<and> faithful (\<lambda>k ss. \<exists>l. fetch_all (ie_shapes env k) = Ok l \<and> ss = set l) (ip_shape_cache p)"

lemma images_honest_filter [simp]: "images_honest env (p\<lparr>ip_filter_cache := c\<rparr>) = images_honest env p"
  by (simp add: images_honest_def)

lemma get_image_honest:
  assumes "get_image env co k p = (r, p')" "images_honest env p"
  shows "images_honest env p'" "\<And>i. r = Ok i \<Longrightarrow> ie_get env k = Ok i"
    "\<And>i. ie_get env k = Ok i \<Longrightarrow> r = Ok i \<or> r = Fail errNotCached"
proof -
  let ?c = "get_from_cache (ie_now env) (ip_ocid_cache p) k"
  from assms(2) have c: "?c = Some i \<Longrightarrow> ie_get env k = Ok i" for i
    by (auto simp: images_honest_def dest: faithful_get)
  have "images_honest env p' \<and> (\<forall>i. r = Ok i \<longrightarrow> ie_get env k = Ok i)
      \<and> (\<forall>i. ie_get env k = Ok i \<longrightarrow> r = Ok i \<or> r = Fail errNotCached)"
  proof (cases ?c)
    case (Some j)
    with assms c [OF Some] show ?thesis
      by (auto simp: get_image_def get_cached_def split: if_splits)
  next
    case None
    show ?thesis
    proof (cases co)
      case True
      with None assms show ?thesis by (auto simp: get_image_def get_cached_def)
    next
      case False
      consider "r = ie_get env k" "p' = p"
        | j where "r = Ok j" "ie_get env k = Ok j" "p' = p\<lparr>ip_ocid_cache := cache_set (ie_now env) k j (ip_ocid_cache p)\<rparr>"
        using False None assms(1) by (cases "ie_get env k") (simp_all add: get_image_def get_or_load_pure, blast)
      then show ?thesis
      proof cases
        case 1
        with assms(2) show ?thesis by simp
      next
        case 2
        then have "images_honest env p'"
          using assms(2) faithful_set [of "\<lambda>k i. ie_get env k = Ok i" "ip_ocid_cache p" k j "ie_now env"]
          by (simp add: images_honest_def)
        with 2 show ?thesis by simp
      qed
    qed
  qed
  then show "images_honest env p'" "\<And>i. r = Ok i \<Longrightarrow> ie_get env k = Ok i"
    "\<And>i. ie_get env k = Ok i \<Longrightarrow> r = Ok i \<or> r = Fail errNotCached" by blast+
qed

lemma get_image_frame: "ip_version (snd (get_image env co k p)) = ip_version p"
  by (auto simp: get_image_def get_or_load_pure split: option.splits go.splits)

lemma list_shapes_honest:
  assumes "list_shapes_for_image env co k p = (Ok ss, p')" "images_honest env p"
  shows "images_honest env p' \<and> (\<exists>l. fetch_all (ie_shapes env k) = Ok l \<and> ss = set l)"
proof (cases "get_from_cache (ie_now env) (ip_shape_cache p) k")
  case None
  with assms show ?thesis
    by (auto simp: list_shapes_for_image_def get_cached_def get_or_load_pure images_honest_def faithful_set go_simps
        split: if_splits go.splits)
next
  case (Some ss')
  with assms(2) have "\<exists>l. fetch_all (ie_shapes env k) = Ok l \<and> ss' = set l"
    by (auto simp: images_honest_def dest: faithful_get)
  with assms Some show ?thesis
    by (auto simp: list_shapes_for_image_def get_cached_def split: if_splits)
qed

lemma extract_kubelet_honest:
  assumes "extract_kubelet_version env co i p = Some q"
  shows "images_honest env p \<longrightarrow> images_honest env (snd q) \<and> (\<forall>v. fst q = Ok v \<longrightarrow> kubelet_of env i v)
     \<and> (\<forall>v. kubelet_of env i v \<longrightarrow> fst q = Ok v \<or> fst q = Fail errNotCached)"
proof (rule extract_kubelet_version.raw_induct [OF _ assms])
  fix rec env co p q and i :: oci_image
  assume IH: "\<And>env co i p q. rec env co i p = Some q \<Longrightarrow> images_honest env p \<longrightarrow>
      images_honest env (snd q) \<and> (\<forall>v. fst q = Ok v \<longrightarrow> kubelet_of env i v)
      \<and> (\<forall>v. kubelet_of env i v \<longrightarrow> fst q = Ok v \<or> fst q = Fail errNotCached)"
    and eq: "(case map_of (img_freeform i) ''k8s_version'' of
        Some v \<Rightarrow> Some (ie_semver env (trim_char (CHR ''v'') (to_lower v)), p)
      | None \<Rightarrow>
          (case img_base i of
             None \<Rightarrow> Some (Fail (ErrText ''missing k8s_version tag''), p)
           | Some b \<Rightarrow>
               (case fst (get_image env co b p) of
                  Ok base \<Rightarrow> rec env co base (snd (get_image env co b p))
                | Fail e \<Rightarrow> Some (Fail e, snd (get_image env co b p))
                | Panic \<Rightarrow> Some (Panic, snd (get_image env co b p))
                | Hang \<Rightarrow> Some (Hang, snd (get_image env co b p))))) = Some q"
  show "images_honest env p \<longrightarrow> images_honest env (snd q) \<and> (\<forall>v. fst q = Ok v \<longrightarrow> kubelet_of env i v)
      \<and> (\<forall>v. kubelet_of env i v \<longrightarrow> fst q = Ok v \<or> fst q = Fail errNotCached)"
  proof (cases "map_of (img_freeform i) ''k8s_version''")
    case (Some s)
    with eq show ?thesis by (auto simp: kubelet_of_iff [of env i])
  next
    case no_tag: None
    show ?thesis
    proof (cases "img_base i")
      case None
      with eq no_tag show ?thesis by (auto simp: kubelet_of_iff [of env i])
    next
      case (Some b)
      obtain r p1 where g: "get_image env co b p = (r, p1)" by fastforce
      note honest = get_image_honest [OF g]
      have k: "kubelet_of env i v \<longleftrightarrow> (\<exists>base. ie_get env b = Ok base \<and> kubelet_of env base v)" for v
        using no_tag Some by (simp add: kubelet_of_iff [of env i])
      show ?thesis
      proof (cases r)
        case (Ok base)
        with eq no_tag Some g have "rec env co base p1 = Some q" by simp
        from IH [OF this] honest Ok show ?thesis unfolding k by auto
      next
        case (Fail e)
        with eq no_tag Some g honest show ?thesis unfolding k by auto
      next
        case Panic
        with eq no_tag Some g honest show ?thesis unfolding k by auto
      next
        case Hang
        with eq no_tag Some g honest show ?thesis unfolding k by auto
      qed
    qed
  qed
qed

lemma extract_kubelet_frame:
  assumes "extract_kubelet_version env co i p = Some q"
  shows "ip_version (snd q) = ip_version p"
proof (rule extract_kubelet_version.raw_induct [OF _ assms])
  fix rec env co p q and i :: oci_image
  assume IH: "\<And>env co i p q. rec env co i p = Some q \<Longrightarrow> ip_version (snd q) = ip_version p"
    and eq: "(case map_of (img_freeform i) ''k8s_version'' of
        Some v \<Rightarrow> Some (ie_semver env (trim_char (CHR ''v'') (to_lower v)), p)
      | None \<Rightarrow>
          (case img_base i of
             None \<Rightarrow> Some (Fail (ErrText ''missing k8s_version tag''), p)
           | Some b \<Rightarrow>
               (case fst (get_image env co b p) of
                  Ok base \<Rightarrow> rec env co base (snd (get_image env co b p))
                | Fail e \<Rightarrow> Some (Fail e, snd (get_image env co b p))
                | Panic \<Rightarrow> Some (Panic, snd (get_image env co b p))
                | Hang \<Rightarrow> Some (Hang, snd (get_image env co b p))))) = Some q"
  from eq IH show "ip_version (snd q) = ip_version p"
    by (auto simp: get_image_frame split: option.splits go.splits)
qed

subsection \<open>The version skew\<close>

text \<open>
  A kubelet fits the cluster when it has the same major version and a minor version that is not
  newer and at most three older, two for a kubelet of 1.24 and before; its score is then the
  distance.
\<close>

theorem kubelet_score_policy:
  "kubelet_score cluster klet =
     (if sv_major klet = sv_major cluster
         \<and> sv_minor klet \<in> {sv_minor cluster - (if sv_major klet = 1 \<and> sv_minor klet < 25 then 2 else 3) .. sv_minor cluster}
      then sv_minor cluster - sv_minor klet else - 1)"
  by (auto simp: kubelet_score_def Let_def)

subsection \<open>Which image is chosen\<close>

definition compatible :: "image_env \<Rightarrow> semver \<Rightarrow> oci_image \<Rightarrow> bool" where
  "compatible env cv i \<longleftrightarrow> (\<exists>v. kubelet_of env i v \<and> 0 \<le> kubelet_score cv v)"

lemma compatible_iff: "kubelet_of env i v \<Longrightarrow> compatible env cv i \<longleftrightarrow> 0 \<le> kubelet_score cv v"
  by (auto simp: compatible_def dest: kubelet_of_unique)

lemma not_cached_errNotCached [simp]: "is_not_cached errNotCached"
  by (simp add: errNotCached_def)

lemma score_images_spec:
  assumes "score_images env co cv is out scores p = (Ok (out', scores'), p')"
    and "images_honest env p" "distinct (map img_id is)"
  shows "images_honest env p' \<and> out' = out @ filter (compatible env cv) is
    \<and> (\<forall>k. k \<notin> img_id ` set is \<longrightarrow> scores' k = scores k)
    \<and> (\<forall>i v. i \<in> set is \<longrightarrow> kubelet_of env i v \<longrightarrow> 0 \<le> kubelet_score cv v \<longrightarrow>
         scores' (img_id i) = Some (kubelet_score cv v))"
  using assms
proof (induction "is" arbitrary: out scores p)
  case (Cons i "is")
  obtain r p1 where e: "extract_kubelet_version env co i p = Some (r, p1)"
    using Cons.prems(1) by (cases "extract_kubelet_version env co i p") auto
  have h: "images_honest env p1" "\<And>v. r = Ok v \<Longrightarrow> kubelet_of env i v"
    "\<And>v. kubelet_of env i v \<Longrightarrow> r = Ok v \<or> r = Fail errNotCached"
    using extract_kubelet_honest [OF e] Cons.prems(2) by auto
  have d: "distinct (map img_id is)" "img_id i \<notin> img_id ` set is" using Cons.prems(3) by auto
  show ?case
  proof (cases "\<exists>v. r = Ok v \<and> 0 \<le> kubelet_score cv v")
    case True
    then obtain v where v: "r = Ok v" "0 \<le> kubelet_score cv v" by blast
    with Cons.prems(1) e have
      "score_images env co cv is (out @ [i]) (scores(img_id i \<mapsto> kubelet_score cv v)) p1 = (Ok (out', scores'), p')"
      by (simp add: Let_def)
    from Cons.IH [OF this h(1) d(1)] have IH: "images_honest env p'" "out' = (out @ [i]) @ filter (compatible env cv) is"
      "\<And>k. k \<notin> img_id ` set is \<Longrightarrow> scores' k = (scores(img_id i \<mapsto> kubelet_score cv v)) k"
      "\<And>j w. j \<in> set is \<Longrightarrow> kubelet_of env j w \<Longrightarrow> 0 \<le> kubelet_score cv w \<Longrightarrow>
         scores' (img_id j) = Some (kubelet_score cv w)" by auto
    have "compatible env cv i" using h(2) [OF v(1)] v(2) by (auto simp: compatible_def)
    moreover have "scores' (img_id i) = Some (kubelet_score cv v)" using IH(3) [OF d(2)] by simp
    moreover have "w = v" if "kubelet_of env i w" for w using kubelet_of_unique [OF that h(2) [OF v(1)]] .
    ultimately show ?thesis using IH by auto
  next
    case False
    then have sc: "score_images env co cv is out scores p1 = (Ok (out', scores'), p')"
      using Cons.prems(1) e by (cases r) (auto simp: Let_def split: if_splits)
    have "\<not> compatible env cv i"
    proof
      assume "compatible env cv i"
      then obtain v where v: "kubelet_of env i v" "0 \<le> kubelet_score cv v" by (auto simp: compatible_def)
      with h(3) False have "r = Fail errNotCached" by blast
      with Cons.prems(1) e show False by simp
    qed
    with Cons.IH [OF sc h(1) d(1)] show ?thesis by (auto simp: compatible_def)
  qed
qed simp

text \<open>Better: a smaller skew, and among equals the newer image.\<close>

definition no_worse :: "image_env \<Rightarrow> semver \<Rightarrow> oci_image \<Rightarrow> oci_image \<Rightarrow> bool" where
  "no_worse env cv i j \<longleftrightarrow>
     (\<exists>v w. kubelet_of env i v \<and> kubelet_of env j w
        \<and> (kubelet_score cv v < kubelet_score cv w
           \<or> kubelet_score cv v = kubelet_score cv w \<and> img_created j \<le> img_created i))"

lemma stable_sorted_twice:
  "sorted_wrt (\<lambda>i j. f i < f j \<or> f i = f j \<and> (g i :: int) \<le> g j)
     (slice_stable (f :: 'a \<Rightarrow> int) (filter P (slice_stable g xs)))"
proof -
  have "sorted_wrt (\<lambda>i j. f i < f j \<or> f i = f j \<and> g i \<le> g j) (insort_key f x ys)"
    if "sorted_wrt (\<lambda>i j. f i < f j \<or> f i = f j \<and> g i \<le> g j) ys" "\<forall>y \<in> set ys. g x \<le> g y" for x ys
    using that
  proof (induction ys)
    case (Cons y ys)
    then show ?case by (auto simp: set_insort_key)
  qed simp
  then have "sorted_wrt (\<lambda>i j. f i < f j \<or> f i = f j \<and> g i \<le> g j) (sort_key f ys)"
    if "sorted_wrt (\<lambda>i j. g i \<le> g j) ys" for ys
    using that by (induction ys) (auto simp: set_insort_key)
  moreover have "sorted_wrt (\<lambda>i j. g i \<le> g j) (filter P (sort_key g xs))"
  proof -
    have "sorted (map g (sort_key g xs))" by simp
    then have "sorted_wrt (\<lambda>i j. g i \<le> g j) (sort_key g xs)" by (simp add: sorted_map)
    then show ?thesis by (rule sorted_wrt_filter)
  qed
  ultimately show ?thesis by (simp add: slice_stable_def)
qed

lemma filter_and_sort_spec:
  assumes "filter_and_sort_images env co images cfg p = (Ok out, p')"
    and "images_honest env p" "distinct (map img_id images)" "ic_id cfg = None" "ic_type cfg = OKEImage"
  shows "images_honest env p' \<and> (\<exists>cv. ip_version p = Some cv
    \<and> set out = {i \<in> set images. compatible env cv i} \<and> sorted_wrt (no_worse env cv) out)"
proof -
  let ?sorted = "slice_stable (\<lambda>i. - img_created i) images"
  have ids: "set ?sorted = set images" "distinct (map img_id ?sorted)"
    using assms(3) stable.sort_mset [of "\<lambda>i. - img_created i" images]
    by (metis set_mset_mset, metis mset_map mset_eq_imp_distinct_iff)
  from assms(1,4,5) obtain cv out0 scores p1 where o: "ip_version p = Some cv"
    "score_images env co cv ?sorted [] Map.empty p = (Ok (out0, scores), p')"
    "out = slice_stable (\<lambda>i. case scores (img_id i) of None \<Rightarrow> 0 | Some s \<Rightarrow> s) out0"
    by (auto simp: filter_and_sort_images_def is_prebaked_def st_bind_Ok_iff Let_def split: if_splits option.splits)
  from score_images_spec [OF o(2) assms(2) ids(2)] have s: "images_honest env p'"
    "out0 = filter (compatible env cv) ?sorted"
    "\<And>i v. i \<in> set ?sorted \<Longrightarrow> kubelet_of env i v \<Longrightarrow> 0 \<le> kubelet_score cv v \<Longrightarrow>
       scores (img_id i) = Some (kubelet_score cv v)" by auto
  let ?f = "\<lambda>i. case scores (img_id i) of None \<Rightarrow> 0 | Some s \<Rightarrow> s"
  have out: "set out = {i \<in> set images. compatible env cv i}"
    using ids(1) by (auto simp: o(3) s(2) stable.sort_set)
  have "sorted_wrt (\<lambda>i j. ?f i < ?f j \<or> ?f i = ?f j \<and> - img_created i \<le> - img_created j) out"
    unfolding o(3) s(2) by (rule stable_sorted_twice)
  then have "sorted_wrt (no_worse env cv) out"
  proof (rule sorted_wrt_mono_rel [rotated])
    fix i j assume ij: "i \<in> set out" "j \<in> set out"
      and le: "?f i < ?f j \<or> ?f i = ?f j \<and> - img_created i \<le> - img_created j"
    from ij out obtain v w where "kubelet_of env i v" "0 \<le> kubelet_score cv v" "kubelet_of env j w"
      "0 \<le> kubelet_score cv w" by (auto simp: compatible_def)
    moreover from this have "?f i = kubelet_score cv v" "?f j = kubelet_score cv w"
      using s(3) ij out ids(1) by auto
    ultimately show "no_worse env cv i j" using le unfolding no_worse_def by fastforce
  qed
  with o(1) s(1) out show ?thesis by blast
qed

lemma first_for_shape_spec:
  assumes "first_for_shape env co shape is p = (Ok (Some i), p')" "images_honest env p"
  shows "\<exists>a b. is = a @ i # b \<and> supports env i shape \<and> (\<forall>j \<in> set a. \<not> supports env j shape)"
  using assms
proof (induction "is" arbitrary: p)
  case (Cons j "is")
  from Cons.prems(1) obtain ss p1 where l: "list_shapes_for_image env co (img_id j) p = (Ok ss, p1)"
    "(if shape \<in> ss then (Ok (Some j), p1) else first_for_shape env co shape is p1) = (Ok (Some i), p')"
    by (auto simp: st_bind_Ok_iff)
  from list_shapes_honest [OF l(1) Cons.prems(2)] have h: "images_honest env p1"
    "supports env j shape \<longleftrightarrow> shape \<in> ss" by (auto simp: supports_def)
  show ?case
  proof (cases "shape \<in> ss")
    case True
    with l(2) h show ?thesis by fastforce
  next
    case False
    with l(2) have "first_for_shape env co shape is p1 = (Ok (Some i), p')" by simp
    from Cons.IH [OF this h(1)] obtain a b where "is = a @ i # b" "supports env i shape" "\<forall>j \<in> set a. \<not> supports env j shape"
      by blast
    with False h(2) show ?thesis by (intro exI [of _ "j # a"] exI [of _ b]) auto
  qed
qed simp

lemma candidate_images_honest:
  assumes "candidate_images env co cfg p = (r, p')" "images_honest env p" "ic_id cfg = None"
  shows "images_honest env p'"
  using assms
  by (auto simp: candidate_images_def filter_image_def st_bind_def get_or_load_pure
      split: option.splits go.splits if_splits prod.splits)

text \<open>
  For a configuration of OKE images, the image that is resolved for a shape supports the shape
  and has a kubelet that fits the cluster, and no image of the list that fits and supports the
  shape is better: none has a smaller version skew, and none of the same skew is newer.
\<close>

theorem image_for_shape_best:
  assumes "candidate_images env co cfg p = (Ok images, p1)"
    and "resolve_image_for_shape env co (Some cfg) shape p = (Ok r, p')"
    and "ic_id cfg = None" "ic_type cfg = OKEImage" "images_honest env p" "distinct (map img_id images)"
  shows "\<exists>i cv. ir_images r = [i] \<and> ip_version p1 = Some cv \<and> i \<in> set images \<and> supports env i shape
    \<and> compatible env cv i
    \<and> (\<forall>j \<in> set images. j \<noteq> i \<longrightarrow> supports env j shape \<longrightarrow> compatible env cv j \<longrightarrow> no_worse env cv i j)"
proof -
  from assms(1,2) obtain out p2 res i p3 where o:
    "filter_and_sort_images env co images cfg p1 = (Ok out, p2)"
    "to_image_resolve_result out cfg = Some res"
    "first_for_shape env co shape (ir_images res) p2 = (Ok (Some i), p3)"
    "to_image_resolve_result [i] cfg = Some r"
    by (auto simp: resolve_image_for_shape_def resolve_images_def st_bind_Ok_iff deref_eq_Ok_iff go_bind_eq_Ok_iff
        split: if_splits option.splits)
  have h1: "images_honest env p1" by (rule candidate_images_honest [OF assms(1,5,3)])
  from filter_and_sort_spec [OF o(1) h1 assms(6,3,4)] obtain cv where f: "images_honest env p2"
    "ip_version p1 = Some cv" "set out = {i \<in> set images. compatible env cv i}" "sorted_wrt (no_worse env cv) out"
    by blast
  from o(2) have "ir_images res = out" by (auto simp: to_image_resolve_result_def split: if_splits)
  with first_for_shape_spec [OF o(3) f(1)] obtain a b where ab: "out = a @ i # b" "supports env i shape"
    "\<forall>j \<in> set a. \<not> supports env j shape" by blast
  have "no_worse env cv i j" if "j \<in> set images" "j \<noteq> i" "supports env j shape" "compatible env cv j" for j
  proof -
    from that f(3) ab have "j \<in> set b" by auto
    with f(4) ab(1) show ?thesis by (auto simp: sorted_wrt_append)
  qed
  moreover have "i \<in> set images" "compatible env cv i" using ab(1) f(3) by auto
  moreover have "ir_images r = [i]" using o(4) by (auto simp: to_image_resolve_result_def)
  ultimately show ?thesis using f(2) ab(2) by blast
qed

subsection \<open>Answers from the caches alone\<close>

lemma get_image_cached_only:
  assumes "get_image env True k p = (r, p')"
  shows "p' = p \<and> (r = Fail errNotCached \<or> get_image env False k p = (r, p))"
  using assms by (auto simp: get_image_def get_cached_def split: option.splits)

lemma filter_image_cached_only:
  assumes "filter_image env True ty sel p = (r, p')"
  shows "p' = p \<and> (r = Fail errNotCached \<or> filter_image env False ty sel p = (r, p))"
  using assms by (cases "ie_hash env sel") (auto simp: filter_image_def get_cached_def split: option.splits)

lemma list_shapes_cached_only:
  assumes "list_shapes_for_image env True k p = (r, p')"
  shows "p' = p \<and> (r = Fail errNotCached \<or> list_shapes_for_image env False k p = (r, p))"
  using assms by (auto simp: list_shapes_for_image_def get_cached_def split: option.splits)

lemma extract_kubelet_cached_only:
  assumes "extract_kubelet_version env co i p = Some q"
  shows "co \<longrightarrow> snd q = p \<and> (fst q = Fail errNotCached \<or> extract_kubelet_version env False i p = Some q)"
proof (rule extract_kubelet_version.raw_induct [OF _ assms])
  fix rec env co p q and i :: oci_image
  assume IH: "\<And>env co i p q. rec env co i p = Some q \<Longrightarrow>
      co \<longrightarrow> snd q = p \<and> (fst q = Fail errNotCached \<or> extract_kubelet_version env False i p = Some q)"
    and eq: "(case map_of (img_freeform i) ''k8s_version'' of
        Some v \<Rightarrow> Some (ie_semver env (trim_char (CHR ''v'') (to_lower v)), p)
      | None \<Rightarrow>
          (case img_base i of
             None \<Rightarrow> Some (Fail (ErrText ''missing k8s_version tag''), p)
           | Some b \<Rightarrow>
               (case fst (get_image env co b p) of
                  Ok base \<Rightarrow> rec env co base (snd (get_image env co b p))
                | Fail e \<Rightarrow> Some (Fail e, snd (get_image env co b p))
                | Panic \<Rightarrow> Some (Panic, snd (get_image env co b p))
                | Hang \<Rightarrow> Some (Hang, snd (get_image env co b p))))) = Some q"
  show "co \<longrightarrow> snd q = p \<and> (fst q = Fail errNotCached \<or> extract_kubelet_version env False i p = Some q)"
  proof
    assume co
    show "snd q = p \<and> (fst q = Fail errNotCached \<or> extract_kubelet_version env False i p = Some q)"
    proof (cases "map_of (img_freeform i) ''k8s_version'' = None \<and> img_base i \<noteq> None")
      case True
      then obtain b where b: "img_base i = Some b" by auto
      obtain r p1 where g: "get_image env True b p = (r, p1)" by fastforce
      note c = get_image_cached_only [OF g]
      show ?thesis
      proof (cases "r = Fail errNotCached")
        case False
        with c have f: "get_image env False b p = (r, p)" "p1 = p" by auto
        have e: "extract_kubelet_version env False i p =
            (case r of Ok base \<Rightarrow> extract_kubelet_version env False base p | Fail e \<Rightarrow> Some (Fail e, p)
               | Panic \<Rightarrow> Some (Panic, p) | Hang \<Rightarrow> Some (Hang, p))"
          using True b f by (subst extract_kubelet_version.simps) (cases r; simp)
        from eq IH \<open>co\<close> True b g f show ?thesis unfolding e by (auto split: go.splits)
      qed (use eq \<open>co\<close> True b g c in auto)
    next
      case False
      then have e: "extract_kubelet_version env False i p = Some q" "snd q = p"
        using eq by (subst extract_kubelet_version.simps, auto split: option.splits)+
      then show ?thesis by simp
    qed
  qed
qed

lemma score_images_cached_only:
  assumes "score_images env True cv is out scores p = (Ok x, p')"
  shows "p' = p \<and> score_images env False cv is out scores p = (Ok x, p)"
  using assms
proof (induction "is" arbitrary: out scores)
  case (Cons i "is")
  obtain r p1 where e: "extract_kubelet_version env True i p = Some (r, p1)"
    using Cons.prems by (cases "extract_kubelet_version env True i p") auto
  from extract_kubelet_cached_only [OF e] have c: "p1 = p"
    "r = Fail errNotCached \<or> extract_kubelet_version env False i p = Some (r, p)" by auto
  from Cons.prems e have "r \<noteq> Fail errNotCached" by auto
  with c(2) have e': "extract_kubelet_version env False i p = Some (r, p)" by simp
  from Cons.prems e e' c(1) Cons.IH show ?case by (cases r) (auto simp: Let_def split: if_splits)
qed simp

lemma filter_and_sort_cached_only:
  assumes "filter_and_sort_images env True images cfg p = (Ok out, p')"
  shows "p' = p \<and> filter_and_sort_images env False images cfg p = (Ok out, p)"
  using assms
  by (auto simp: filter_and_sort_images_def st_bind_Ok_iff Let_def split: if_splits option.splits
      dest!: score_images_cached_only)

lemma candidate_images_cached_only:
  assumes "candidate_images env True cfg p = (Ok images, p')"
  shows "p' = p \<and> candidate_images env False cfg p = (Ok images, p)"
  using assms
  by (auto simp: candidate_images_def st_bind_Ok_iff split: option.splits
      dest!: get_image_cached_only filter_image_cached_only)

lemma resolve_images_cached_only:
  assumes "resolve_images env True cfg p = (Ok r, p')"
  shows "p' = p \<and> resolve_images env False cfg p = (Ok r, p)"
  using assms
  by (auto simp: resolve_images_def st_bind_Ok_iff split: option.splits if_splits
      dest!: candidate_images_cached_only filter_and_sort_cached_only)

lemma first_for_shape_cached_only:
  "first_for_shape env True shape is p = (Ok x, p') \<Longrightarrow> p' = p \<and> first_for_shape env False shape is p = (Ok x, p)"
  by (induction "is") (auto simp: st_bind_Ok_iff split: if_splits dest!: list_shapes_cached_only)

lemma cached_resolution_same:
  assumes "resolve_image_for_shape_cached env cfg shape p = (Ok (Some r), p')"
  shows "p' = p \<and> resolve_image_for_shape env False cfg shape p = (Ok r, p)
    \<and> resolve_image_for_shape env True cfg shape p = (Ok r, p)"
proof -
  from assms have full: "resolve_image_for_shape env True cfg shape p = (Ok r, p')"
    by (auto simp: resolve_image_for_shape_cached_def split: prod.splits go.splits)
  then obtain images p1 i p2 where
    s: "resolve_images env True cfg p = (Ok images, p1)"
    "first_for_shape env True shape (ir_images images) p1 = (Ok (Some i), p2)"
    "go_bind (deref cfg) (\<lambda>cfg. deref (to_image_resolve_result [i] cfg)) = (Ok r :: (err, image_result) go)"
    "p' = p2"
    by (auto simp: resolve_image_for_shape_def st_bind_Ok_iff split: option.splits)
  from resolve_images_cached_only [OF s(1)] have 1: "p1 = p" "resolve_images env False cfg p = (Ok images, p)" by auto
  from first_for_shape_cached_only [OF s(2) [unfolded 1]] have
    2: "p2 = p" "first_for_shape env False shape (ir_images images) p = (Ok (Some i), p)" by auto
  show ?thesis using 1 2 s(3,4) full by (simp add: resolve_image_for_shape_def)
qed

text \<open>
  C40. When the resolution that is restricted to the caches names an image, it is the image a launch
  would use at that moment, and asking has changed no cache.
\<close>

theorem cached_resolution_is_launch_resolution:
  assumes "resolve_image_for_shape_cached env cfg shape p = (Ok (Some r), p')"
  shows "p' = p \<and> resolve_image_for_shape env False cfg shape p = (Ok r, p)"
  using cached_resolution_same [OF assms] by blast

text \<open>
  The cached list of a selector does not depend on the type of the image: once a list has been
  fetched for one type, a configuration of another type with the same selector gets the same list,
  although another compartment is listed for it.
\<close>

theorem filter_cache_ignores_type:
  assumes "filter_image env False ty sel p = (Ok is, p')" "ttl_ok (ip_filter_cache p)"
  shows "filter_image env co ty' sel p' = (Ok is, p')"
proof -
  from assms(1) obtain k where k: "ie_hash env sel = Ok k" by (auto simp: filter_image_def st_bind_Ok_iff)
  have "get_from_cache (ie_now env) (ip_filter_cache p') k = Some is"
    using assms k by (auto simp: filter_image_def get_or_load_pure get_set_now split: option.splits go.splits)
  with k show ?thesis by (auto simp: filter_image_def get_cached_def)
qed

subsection \<open>A worked example\<close>

definition example_image :: "string \<Rightarrow> int \<Rightarrow> string \<Rightarrow> oci_image" where
  "example_image ocid t v = \<lparr>img_id = ocid, img_name = Some ocid, img_compartment = None, img_os = ''OL'',
     img_os_version = ''8'', img_created = t, img_base = None, img_freeform = [(''k8s_version'', v)], img_defined = []\<rparr>"

definition example_image_env :: image_env where
  "example_image_env = \<lparr>ie_get = (\<lambda>_. Panic),
     ie_list = (\<lambda>_ _ _ _. Ok ([example_image ''a'' 9 ''1'', example_image ''b'' 5 ''2''], None)),
     ie_shapes = (\<lambda>_ _. Ok ([''S''], None)), ie_hash = (\<lambda>_. Ok ''h''),
     ie_semver = (\<lambda>v. Ok \<lparr>sv_major = 1, sv_minor = (if v = ''2'' then 31 else 30)\<rparr>), ie_now = 0\<rparr>"

definition example_image_config :: image_config where
  "example_image_config = \<lparr>ic_type = OKEImage, ic_filter = Some \<lparr>isel_os = ''OL'', isel_os_version = ''8'',
     isel_compartment = None, isel_freeform = [], isel_defined = []\<rparr>, ic_id = None\<rparr>"

definition example_images :: image_provider where
  "example_images = (new_image_provider ''p'' ''h'')\<lparr>ip_version := Some \<lparr>sv_major = 1, sv_minor = 31\<rparr>\<rparr>"

lemma example_candidates:
  "\<exists>c. candidate_images example_image_env False example_image_config example_images =
     (Ok [example_image ''a'' 9 ''1'', example_image ''b'' 5 ''2''], example_images\<lparr>ip_filter_cache := c\<rparr>)"
proof -
  have "serves (\<lambda>_. Ok ([example_image ''a'' 9 ''1'', example_image ''b'' 5 ''2''], None) :: (err, _) go) None
      [example_image ''a'' 9 ''1'', example_image ''b'' 5 ''2'']"
    by (rule serves.last_page) simp
  from fetch_filtered_serves [OF this, of "\<lambda>i. Ok True" "\<lambda>_. True"] show ?thesis
    by (simp add: candidate_images_def example_image_config_def filter_image_def example_image_env_def
        get_or_load_pure example_images_def new_image_provider_def new_default_cache_def cache_simps
        list_and_filter_images_def tag_filter_def)
qed

lemma example_trim: "trim_char (CHR ''v'') (to_lower ''1'') = ''1''" "trim_char (CHR ''v'') (to_lower ''2'') = ''2''"
  by code_simp+

lemma example_sorted:
  "filter_and_sort_images example_image_env False [example_image ''a'' 9 ''1'', example_image ''b'' 5 ''2'']
      example_image_config (example_images\<lparr>ip_filter_cache := c0\<rparr>) =
     (Ok [example_image ''b'' 5 ''2'', example_image ''a'' 9 ''1''], example_images\<lparr>ip_filter_cache := c0\<rparr>)"
  by (simp add: filter_and_sort_images_def slice_stable_def is_prebaked_def example_image_config_def example_images_def
      example_image_def example_image_env_def extract_kubelet_version.simps kubelet_score_def example_trim)

lemma example_resolved:
  "\<exists>r p'. resolve_image_for_shape example_image_env False (Some example_image_config) ''S'' example_images = (Ok r, p')"
proof -
  obtain c where c: "candidate_images example_image_env False example_image_config example_images =
     (Ok [example_image ''a'' 9 ''1'', example_image ''b'' 5 ''2''], example_images\<lparr>ip_filter_cache := c\<rparr>)"
    using example_candidates ..
  let ?b = "example_image ''b'' 5 ''2''" and ?a = "example_image ''a'' 9 ''1''"
  let ?p = "example_images\<lparr>ip_filter_cache := c\<rparr>"
  have "serves (\<lambda>_. Ok ([''S''], None) :: (err, _) go) None [''S'']" by (rule serves.last_page) simp
  from fetch_all_serves [OF this] have
    "\<exists>p'. list_shapes_for_image example_image_env False (img_id ?b) ?p = (Ok {''S''}, p')"
    by (simp add: list_shapes_for_image_def get_or_load_pure example_images_def new_image_provider_def
        new_default_cache_def cache_simps example_image_env_def)
  then obtain p' where l: "list_shapes_for_image example_image_env False (img_id ?b) ?p = (Ok {''S''}, p')" ..
  have i: "ic_id example_image_config = None" "img_name ?a = Some ''a''" "img_name ?b = Some ''b''"
    by (simp_all add: example_image_config_def example_image_def)
  have f: "filter_and_sort_images example_image_env False [?a, ?b] example_image_config ?p = (Ok [?b, ?a], ?p)"
    by (rule example_sorted)
  show ?thesis
    by (simp add: resolve_image_for_shape_def resolve_images_def i c f to_image_resolve_result_def l)
qed

theorem image_for_shape_best_witness:
  "\<exists>r p' i. resolve_image_for_shape example_image_env False (Some example_image_config) ''S'' example_images = (Ok r, p')
     \<and> ir_images r = [i] \<and> supports example_image_env i ''S''"
proof -
  from example_candidates obtain c where c: "candidate_images example_image_env False example_image_config example_images =
     (Ok [example_image ''a'' 9 ''1'', example_image ''b'' 5 ''2''], example_images\<lparr>ip_filter_cache := c\<rparr>)" ..
  from example_resolved obtain r p' where
    r: "resolve_image_for_shape example_image_env False (Some example_image_config) ''S'' example_images = (Ok r, p')"
    by blast
  have "images_honest example_image_env example_images"
    by (simp add: images_honest_def example_images_def new_image_provider_def new_default_cache_def)
  from image_for_shape_best [OF c r _ _ this] r show ?thesis
    by (auto simp: example_image_config_def example_image_def)
qed

text \<open>The same question again, from the caches: all that is needed is in them.\<close>

theorem cached_resolution_is_launch_resolution_witness:
  "\<exists>p r. resolve_image_for_shape_cached example_image_env (Some example_image_config) ''S'' p = (Ok (Some r), p)
     \<and> resolve_image_for_shape example_image_env False (Some example_image_config) ''S'' p = (Ok r, p)"
proof -
  let ?a = "example_image ''a'' 9 ''1''" and ?b = "example_image ''b'' 5 ''2''"
  let ?p = "example_images\<lparr>ip_filter_cache := cache_set 0 ''h'' [?a, ?b] new_default_cache,
     ip_shape_cache := cache_set 0 ''b'' {''S''} new_default_cache\<rparr>"
  have c: "candidate_images example_image_env True example_image_config ?p = (Ok [?a, ?b], ?p)"
    by (simp add: candidate_images_def example_image_config_def filter_image_def example_image_env_def get_cached_def
        get_set_now)
  have f: "filter_and_sort_images example_image_env True [?a, ?b] example_image_config ?p = (Ok [?b, ?a], ?p)"
    by (simp add: filter_and_sort_images_def slice_stable_def is_prebaked_def example_image_config_def example_images_def
        example_image_def example_image_env_def extract_kubelet_version.simps kubelet_score_def example_trim)
  have l: "list_shapes_for_image example_image_env True (img_id ?b) ?p = (Ok {''S''}, ?p)"
    by (simp add: list_shapes_for_image_def get_cached_def example_image_def get_set_now example_image_env_def)
  have i: "ic_id example_image_config = None" "img_name ?a = Some ''a''" "img_name ?b = Some ''b''"
    by (simp_all add: example_image_config_def example_image_def)
  have "\<exists>r. resolve_image_for_shape_cached example_image_env (Some example_image_config) ''S'' ?p = (Ok (Some r), ?p)"
    by (simp add: resolve_image_for_shape_cached_def resolve_image_for_shape_def resolve_images_def i c f
        to_image_resolve_result_def l)
  then obtain r where r: "resolve_image_for_shape_cached example_image_env (Some example_image_config) ''S'' ?p = (Ok (Some r), ?p)" ..
  from cached_resolution_is_launch_resolution [OF r] r show ?thesis by blast
qed

theorem filter_cache_ignores_type_witness:
  "\<exists>p'. filter_image example_image_env False CustomImage (the (ic_filter example_image_config)) p' =
     (Ok [example_image ''a'' 9 ''1'', example_image ''b'' 5 ''2''], p')
   \<and> image_compartment CustomImage (the (ic_filter example_image_config)) p'
       \<noteq> image_compartment OKEImage (the (ic_filter example_image_config)) p'"
proof -
  from example_candidates obtain c where "candidate_images example_image_env False example_image_config example_images =
     (Ok [example_image ''a'' 9 ''1'', example_image ''b'' 5 ''2''], example_images\<lparr>ip_filter_cache := c\<rparr>)" ..
  then have "filter_image example_image_env False OKEImage (the (ic_filter example_image_config)) example_images =
     (Ok [example_image ''a'' 9 ''1'', example_image ''b'' 5 ''2''], example_images\<lparr>ip_filter_cache := c\<rparr>)"
    by (simp add: candidate_images_def example_image_config_def)
  from filter_cache_ignores_type [OF this] show ?thesis
    by (auto simp: image_compartment_def example_image_config_def example_images_def new_image_provider_def)
qed

end
