(* ===== verification/Encodings.thy ===== *)
theory Encodings
  imports Prelude
begin

section \<open>Encodings of the standard library\<close>

text \<open>
  What \<open>pkg/providers/instancemeta\<close> uses of Go's standard library: \<open>base64.StdEncoding\<close>, the text
  of a \<open>time.Duration\<close>, the conversion to \<open>int32\<close>; and the reading of a double-quoted word by a
  shell, against which the escaping of the start-up script is proved.  A string is a list of bytes.
\<close>

subsection \<open>Base64\<close>

definition b64_char :: "nat \<Rightarrow> char" where
  "b64_char n =
     (if n < 26 then char_of (n + 65) else if n < 52 then char_of (n + 71)
      else if n < 62 then char_of (n - 4) else if n = 62 then CHR ''+'' else CHR ''/'')"

definition b64_val :: "char \<Rightarrow> nat option" where
  "b64_val c =
     (let n = (of_char c :: nat) in
      if 65 \<le> n \<and> n \<le> 90 then Some (n - 65) else if 97 \<le> n \<and> n \<le> 122 then Some (n - 71)
      else if 48 \<le> n \<and> n \<le> 57 then Some (n + 4) else if n = 43 then Some 62
      else if n = 47 then Some 63 else None)"

fun b64_encode :: "string \<Rightarrow> string" where
  "b64_encode [] = []"
| "b64_encode [x] =
     (let a = of_char x :: nat in [b64_char (a div 4), b64_char (a mod 4 * 16), CHR ''='', CHR ''=''])"
| "b64_encode [x, y] =
     (let a = of_char x :: nat; b = of_char y
      in [b64_char (a div 4), b64_char (a mod 4 * 16 + b div 16), b64_char (b mod 16 * 4), CHR ''=''])"
| "b64_encode (x # y # z # s) =
     (let a = of_char x :: nat; b = of_char y; c = of_char z
      in [b64_char (a div 4), b64_char (a mod 4 * 16 + b div 16), b64_char (b mod 16 * 4 + c div 64),
          b64_char (c mod 64)] @ b64_encode s)"

text \<open>
  The decoder skips line breaks, wants the padding, and does not look at the bits the padding
  leaves over.  \<open>None\<close> is the error \<open>CorruptInputError\<close>.
\<close>

fun b64_groups :: "string \<Rightarrow> string option" where
  "b64_groups [] = Some []"
| "b64_groups (p # q # r # t # s) =
     (case (b64_val p, b64_val q) of
        (Some a, Some b) \<Rightarrow>
          (if r = CHR ''='' \<and> t = CHR ''='' \<and> s = [] then Some [char_of (a * 4 + b div 16)]
           else (case b64_val r of
                   None \<Rightarrow> None
                 | Some c \<Rightarrow>
                     if t = CHR ''='' \<and> s = []
                     then Some [char_of (a * 4 + b div 16), char_of (b mod 16 * 16 + c div 4)]
                     else (case (b64_val t, b64_groups s) of
                             (Some d, Some w) \<Rightarrow>
                               Some (char_of (a * 4 + b div 16) # char_of (b mod 16 * 16 + c div 4)
                                     # char_of (c mod 4 * 64 + d) # w)
                           | _ \<Rightarrow> None)))
      | _ \<Rightarrow> None)"
| "b64_groups _ = None"

definition b64_decode :: "string \<Rightarrow> string option" where
  "b64_decode s = b64_groups (filter (\<lambda>c. c \<noteq> CHR 0x0A \<and> c \<noteq> CHR 0x0D) s)"

lemma of_char_b64:
  "n < 64 \<Longrightarrow> (of_char (b64_char n) :: nat) =
     (if n < 26 then n + 65 else if n < 52 then n + 71 else if n < 62 then n - 4 else if n = 62 then 43 else 47)"
  by (auto simp: b64_char_def)

lemma b64_char_props:
  assumes "n < 64"
  shows "b64_val (b64_char n) = Some n" "b64_char n \<noteq> CHR ''=''" "b64_char n \<noteq> CHR 0x0A" "b64_char n \<noteq> CHR 0x0D"
proof -
  show "b64_val (b64_char n) = Some n" using assms by (auto simp: b64_val_def of_char_b64 Let_def)
  have "of_char (b64_char n) \<notin> {61, 10, 13 :: nat}" using assms by (auto simp: of_char_b64)
  then show "b64_char n \<noteq> CHR ''=''" "b64_char n \<noteq> CHR 0x0A" "b64_char n \<noteq> CHR 0x0D" by auto
qed

lemma of_char_less [simp]: "(of_char c :: nat) < 256"
  using of_char_mod_256 [of c, where 'a = nat] by (metis mod_less_divisor zero_less_numeral)

lemma byte_divs [simp]:
  fixes b c :: nat
  shows "b < 256 \<Longrightarrow> b div 16 div 16 = 0" "c < 256 \<Longrightarrow> c div 64 div 4 = 0"
    "b < 256 \<Longrightarrow> b div 16 mod 16 = b div 16" "c < 256 \<Longrightarrow> c div 64 mod 4 = c div 64"
    "a < (256 :: nat) \<Longrightarrow> a div 4 < 64"
  by (simp_all add: less_mult_imp_div_less)

lemma byte_parts [simp]:
  fixes a b c :: nat
  shows "c mod 64 < 64" "a mod 4 * 16 < 64" "b mod 16 * 4 < 64"
    "b < 256 \<Longrightarrow> a mod 4 * 16 + b div 16 < 64" "c < 256 \<Longrightarrow> b mod 16 * 4 + c div 64 < 64"
proof -
  have m: "a mod 4 < 4" "b mod 16 < 16" by simp_all
  from m show "a mod 4 * 16 < 64" "b mod 16 * 4 < 64" by linarith+
  show "c mod 64 < 64" by simp
  show "b < 256 \<Longrightarrow> a mod 4 * 16 + b div 16 < 64" using m less_mult_imp_div_less [of b 16 16] by simp
  show "c < 256 \<Longrightarrow> b mod 16 * 4 + c div 64 < 64" using m less_mult_imp_div_less [of c 4 64] by simp
qed

lemma b64_encode_chars: "c \<in> set (b64_encode s) \<Longrightarrow> c \<noteq> CHR 0x0A \<and> c \<noteq> CHR 0x0D"
  by (induction s rule: b64_encode.induct) (auto simp: Let_def b64_char_props)

lemma b64_groups_encode: "b64_groups (b64_encode s) = Some s"
proof (induction s rule: b64_encode.induct)
  case (4 x y z s)
  then show ?case by (simp add: Let_def b64_char_props)
qed (simp_all add: Let_def b64_char_props)

lemma b64_decode_encode: "b64_decode (b64_encode s) = Some s"
proof -
  have "filter (\<lambda>c. c \<noteq> CHR 0x0A \<and> c \<noteq> CHR 0x0D) (b64_encode s) = b64_encode s"
    using b64_encode_chars by (simp add: filter_id_conv)
  then show ?thesis by (simp add: b64_decode_def b64_groups_encode)
qed

declare b64_encode.simps [simp del] b64_groups.simps [simp del]

subsection \<open>Durations\<close>

text \<open>\<open>Duration.String\<close> of a duration in nanoseconds; the micro sign is the two bytes of UTF-8.\<close>

fun digits_fixed :: "nat \<Rightarrow> nat \<Rightarrow> string" where
  "digits_fixed 0 n = []"
| "digits_fixed (Suc k) n = digits_fixed k (n div 10) @ [digit_char (n mod 10)]"

definition fmt_frac :: "nat \<Rightarrow> nat \<Rightarrow> string" where
  "fmt_frac v prec =
     (let ds = rev (dropWhile (\<lambda>c. c = CHR ''0'') (rev (digits_fixed prec (v mod 10 ^ prec))))
      in if ds = [] then [] else CHR ''.'' # ds)"

definition show_duration :: "int \<Rightarrow> string" where
  "show_duration d =
     (let u = nat \<bar>d\<bar>;
          sign = (if d < 0 then ''-'' else []);
          secs = u div 10 ^ 9
      in if u = 0 then ''0s''
         else if u < 10 ^ 3 then sign @ show_nat u @ ''ns''
         else if u < 10 ^ 6 then sign @ show_nat (u div 10 ^ 3) @ fmt_frac u 3 @ [CHR 0xC2, CHR 0xB5, CHR ''s'']
         else if u < 10 ^ 9 then sign @ show_nat (u div 10 ^ 6) @ fmt_frac u 6 @ ''ms''
         else
           sign
           @ (if 0 < secs div 60
              then (if 0 < secs div 60 div 60 then show_nat (secs div 60 div 60) @ ''h'' else [])
                   @ show_nat (secs div 60 mod 60) @ ''m''
              else [])
           @ show_nat (secs mod 60) @ fmt_frac u 9 @ ''s'')"

definition to_int32 :: "int \<Rightarrow> int" where
  "to_int32 n = (n + 2 ^ 31) mod 2 ^ 32 - 2 ^ 31"

subsection \<open>A word in double quotes\<close>

text \<open>
  How a shell reads what follows an opening double quote: a backslash takes the special meaning off
  a backslash, a quote, a dollar sign or a backquote and joins lines, and is itself otherwise.
  \<open>None\<close>: the word does not end, or an expansion starts in it.
\<close>

fun shell_word :: "string \<Rightarrow> (string \<times> string) option" where
  "shell_word [] = None"
| "shell_word (c # s) =
     (if c = CHR 0x22 then Some ([], s)
      else if c = CHR ''$'' \<or> c = CHR 0x60 then None
      else if c = CHR 0x5C then
        (case s of
           [] \<Rightarrow> None
         | d # s' \<Rightarrow>
             if d \<in> {CHR 0x5C, CHR 0x22, CHR ''$'', CHR 0x60}
             then map_option (\<lambda>(w, r). (d # w, r)) (shell_word s')
             else if d = CHR 0x0A then shell_word s'
             else map_option (\<lambda>(w, r). (c # d # w, r)) (shell_word s'))
      else map_option (\<lambda>(w, r). (c # w, r)) (shell_word s))"

end
