(* ===== verification/Instance_Metadata.thy ===== *)
theory Instance_Metadata
  imports Encodings Karpenter_Types Network_Families Image_Provider
begin

section \<open>The metadata of an instance\<close>

text \<open>
  \<open>pkg/providers/instancemeta/provider.go\<close>: the metadata handed to an instance when it is launched,
  with the start-up script of images that come with the tools of OKE.  The metadata is a map; the
  maps of the kubelet configuration are printed in the order in which Go ranges over them, the
  order of their association lists.  \<open>appendInitScript\<close> and its like write to a string builder:
  here they return what they append.  The position named in a base64 error is left out.
\<close>

record meta_provider =
  mp_ca :: string
  mp_endpoint :: string
  mp_families :: "ip_family list"

text \<open>The certificate is the argument, or else the content of a file of the pod.\<close>

definition new_meta_provider ::
  "string \<Rightarrow> string \<Rightarrow> (err, string) go \<Rightarrow> ip_family list \<Rightarrow> (err, meta_provider) go" where
  "new_meta_provider endpoint caCert file fs =
     map_ok (\<lambda>ca. \<lparr>mp_ca = b64_encode ca, mp_endpoint = endpoint, mp_families = fs\<rparr>)
       (if 0 < length caCert then Ok caCert else file)"

definition reserved_metadata_keys :: "string list" where
  "reserved_metadata_keys =
     [''ssh_authorized_keys'', ''apiserver_host'', ''cluster_ca_cert'', ''kubedns_svc_ip'', ''kubelet-extra-args'']"

definition is_reserved_metadata_key :: "string \<Rightarrow> bool" where
  "is_reserved_metadata_key k \<longleftrightarrow> k \<in> set reserved_metadata_keys"

fun image_type_name :: "image_type \<Rightarrow> string" where
  "image_type_name PlatformImage = ''Platform''"
| "image_type_name OKEImage = ''OKEImage''"
| "image_type_name CustomImage = ''Custom''"

definition is_image_supported :: "image_result \<Rightarrow> bool" where
  "is_image_supported r = (ir_type r = OKEImage)"

subsection \<open>The arguments of the kubelet\<close>

definition unregistered_taint :: taint where
  "unregistered_taint = \<lparr>tnt_key = ''karpenter.sh/unregistered'', tnt_value = [], tnt_effect = ''NoExecute''\<rparr>"

definition print_taint :: "taint \<Rightarrow> string" where
  "print_taint t =
     tnt_key t @ ''='' @ (if tnt_value t = [] then ''present'' else tnt_value t) @ '':'' @ tnt_effect t"

definition register_taints :: "node_claim \<Rightarrow> string" where
  "register_taints claim =
     (let ts = nc_taints claim @ nc_startup_taints claim;
          ts' = (if \<exists>t \<in> set ts. tnt_key t = tnt_key unregistered_taint \<and> tnt_effect t = tnt_effect unregistered_taint
                 then ts else ts @ [unregistered_taint])
      in '' --register-with-taints='' @ print_slice_and_quote (\<lambda>t i. print_taint t) ts')"

definition optional_arg :: "string \<Rightarrow> ('a \<Rightarrow> string) \<Rightarrow> 'a option \<Rightarrow> string" where
  "optional_arg flag pr v = (case v of None \<Rightarrow> [] | Some x \<Rightarrow> '' '' @ flag @ pr x)"

text \<open>A pod limit per core that is above the pod limit, compared as \<open>int32\<close>, is refused.\<close>

definition get_kubelet_extra_args ::
  "node_class_spec \<Rightarrow> node_claim \<Rightarrow> ip_family list \<Rightarrow> (err, string) go" where
  "get_kubelet_extra_args spec claim fs =
     map_ok (\<lambda>args. args @ register_taints claim)
       (case ncs_kubelet spec of
          None \<Rightarrow> Ok []
        | Some c \<Rightarrow>
            (let maxPods = (case kc_max_pods c of
                    None \<Rightarrow> None
                  | Some n \<Rightarrow> Some (kubelet_max_pods (Some c) (nc_secondary (ncs_network spec))
                                (default_secondary_vnic_ip_count fs)))
             in if (case (maxPods, kc_pods_per_core c) of (Some m, Some n) \<Rightarrow> to_int32 m < n | _ \<Rightarrow> False)
                then Fail (ErrText (''PodsPerCore '' @ show_int (from_ptr 0 (kc_pods_per_core c))
                       @ '' bigger than MaxPods '' @ show_int (from_ptr 0 maxPods)))
                else Ok (optional_arg ''--max-pods='' show_int maxPods
                       @ optional_arg ''--pods-per-core='' show_int (kc_pods_per_core c)
                       @ optional_arg ''--eviction-hard='' print_map_for_eviction (kc_eviction_hard c)
                       @ optional_arg ''--eviction-soft='' print_map_for_eviction (kc_eviction_soft c)
                       @ optional_arg ''--system-reserved='' print_map_and_quote (kc_system_reserved c)
                       @ optional_arg ''--kube-reserved='' print_map_and_quote (kc_kube_reserved c)
                       @ optional_arg ''--eviction-soft-grace-period=''
                           (print_map_and_single_quote (\<lambda>k d. k @ ''='' @ show_duration d)) (kc_eviction_grace c)
                       @ optional_arg ''--eviction-max-pod-grace-period='' show_int (kc_eviction_max_grace c)
                       @ optional_arg ''--image-gc-high-threshold='' show_int (kc_gc_high c)
                       @ optional_arg ''--image-gc-low-threshold='' show_int (kc_gc_low c)
                       @ optional_arg ''--node-labels='' print_map_and_quote (kc_node_labels c)
                       @ optional_arg [] id (kc_extra_args c))))"

subsection \<open>The start-up script\<close>

fun escape_char :: "char \<Rightarrow> string" where
  "escape_char c = (if c \<in> {CHR 0x5C, CHR 0x22, CHR ''$'', CHR 0x60} then [CHR 0x5C, c] else [c])"

definition escape_double_quoted :: "string \<Rightarrow> string" where
  "escape_double_quoted s = concat (map escape_char s)"

definition append_init_script :: "string option \<Rightarrow> (err, string) go" where
  "append_init_script script =
     (case script of
        None \<Rightarrow> Ok []
      | Some s \<Rightarrow>
          (case b64_decode s of
             None \<Rightarrow> Fail (ErrText ''illegal base64 data'')
           | Some d \<Rightarrow> Ok ([CHR 0x0A] @ d @ [CHR 0x0A])))"

definition append_cluster_dns :: "node_class_spec \<Rightarrow> string" where
  "append_cluster_dns spec =
     (case ncs_kubelet spec of
        None \<Rightarrow> []
      | Some c \<Rightarrow>
          (case kc_cluster_dns c of
             None \<Rightarrow> []
           | Some dns \<Rightarrow> [CHR '' '', CHR 0x5C, CHR 0x0A] @ ''--cluster-dns '' @ join_with '','' dns))"

definition append_kubelet_extra_args ::
  "node_claim \<Rightarrow> node_class_spec \<Rightarrow> ip_family list \<Rightarrow> (err, string) go" where
  "append_kubelet_extra_args claim spec fs =
     map_ok (\<lambda>v. if 0 < length v
         then [CHR '' '', CHR 0x5C, CHR 0x0A] @ '' --kubelet-extra-args '' @ [CHR 0x22]
              @ escape_double_quoted v @ [CHR 0x22]
         else [])
       (get_kubelet_extra_args spec claim fs)"

definition install_command :: "meta_provider \<Rightarrow> string" where
  "install_command p =
     ''bash /etc/oke/oke-install.sh '' @ [CHR 0x5C, CHR 0x0A]
     @ ''--apiserver-endpoint '' @ [CHR 0x22] @ mp_endpoint p @ [CHR 0x22, CHR '' '', CHR 0x5C, CHR 0x0A]
     @ ''--kubelet-ca-cert '' @ [CHR 0x22] @ mp_ca p @ [CHR 0x22]"

definition build_user_data :: "meta_provider \<Rightarrow> node_claim \<Rightarrow> node_class_spec \<Rightarrow> (err, string) go" where
  "build_user_data p claim spec =
     go_bind (append_init_script (ncs_pre_script spec)) (\<lambda>pre.
     go_bind (append_kubelet_extra_args claim spec (mp_families p)) (\<lambda>args.
     map_ok (\<lambda>post. b64_encode (''#!/usr/bin/env bash'' @ [CHR 0x0A] @ pre @ install_command p
                       @ append_cluster_dns spec @ args @ post))
       (append_init_script (ncs_post_script spec))))"

subsection \<open>The metadata\<close>

definition inject_node_labels :: "node_class_spec \<Rightarrow> (string \<rightharpoonup> string) \<Rightarrow> (string \<rightharpoonup> string)" where
  "inject_node_labels spec m =
     (case ncs_kubelet spec of
        None \<Rightarrow> m
      | Some c \<Rightarrow>
          (case kc_node_labels c of
             None \<Rightarrow> m
           | Some ls \<Rightarrow> m(''oke-initial-node-labels'' \<mapsto> print_map_and_quote ls)))"

definition inject_npn_config ::
  "node_class_spec \<Rightarrow> network_resolve_result \<Rightarrow> ip_family list \<Rightarrow> (string \<rightharpoonup> string) \<Rightarrow> (string \<rightharpoonup> string)" where
  "inject_npn_config spec net fs m =
     (if 0 < length (nc_secondary (ncs_network spec)) \<and> 0 < length (nrr_others net)
      then m(''oke-preconfigured-vnics'' \<mapsto> ''true'',
             ''oke-max-pods'' \<mapsto> show_int (kubelet_max_pods (ncs_kubelet spec) (nc_secondary (ncs_network spec))
                 (default_secondary_vnic_ip_count fs)),
             ''oke-native-pod-networking'' \<mapsto> ''true'')
      else m(''oke-preconfigured-vnics'' \<mapsto> ''false''))"

text \<open>The metadata with which the provider starts: what the node class gives, less the reserved keys.\<close>

definition customer_metadata :: "node_class_spec \<Rightarrow> (string \<rightharpoonup> string)" where
  "customer_metadata spec = map_of (filter (\<lambda>(k, v). \<not> is_reserved_metadata_key k) (ncs_metadata spec))"

definition bootstrap_metadata ::
  "meta_provider \<Rightarrow> node_claim \<Rightarrow> node_class_spec \<Rightarrow> (string \<rightharpoonup> string) \<Rightarrow> (err, string \<rightharpoonup> string) go" where
  "bootstrap_metadata p claim spec m =
     (if m ''user_data'' = None \<or> m ''user_data'' = Some []
      then map_ok (\<lambda>d. m(''user_data'' \<mapsto> d)) (build_user_data p claim spec)
      else
        (let m1 = (case ncs_kubelet spec of
                None \<Rightarrow> m
              | Some c \<Rightarrow>
                  (case kc_cluster_dns c of
                     None \<Rightarrow> m
                   | Some dns \<Rightarrow> m(''kubedns_svc_ip'' \<mapsto> join_with '','' dns)))
         in map_ok (\<lambda>args.
              (if 0 < length args then m1(''kubelet-extra-args'' \<mapsto> args) else m1)
                (''apiserver_host'' \<mapsto> mp_endpoint p, ''cluster_ca_cert'' \<mapsto> mp_ca p))
              (get_kubelet_extra_args spec claim (mp_families p))))"

definition build_instance_metadata ::
  "meta_provider \<Rightarrow> node_claim \<Rightarrow> node_class_spec \<Rightarrow> image_result \<Rightarrow> network_resolve_result \<Rightarrow> bool
    \<Rightarrow> (err, string \<rightharpoonup> string) go" where
  "build_instance_metadata p claim spec img net preemptible =
     (if \<not> is_image_supported img
      then Fail (ErrText (''cannot construct instance metadata: image type '' @ [CHR 0x22]
                  @ image_type_name (ir_type img) @ [CHR 0x22]))
      else
        map_ok (\<lambda>m.
          (let m1 = (inject_npn_config spec net (mp_families p) (inject_node_labels spec m))
                      (''oke-is-preemptible'' \<mapsto> (if preemptible then ''true'' else ''false''))
           in if 0 < length (ncs_ssh_keys spec)
              then m1(''ssh_authorized_keys'' \<mapsto> join_with [CHR 0x0A] (ncs_ssh_keys spec)) else m1))
          (bootstrap_metadata p claim spec (customer_metadata spec)))"

subsection \<open>Properties\<close>

lemma shell_word_escape:
  "shell_word (escape_double_quoted v @ CHR 0x22 # rest) = Some (v, rest)"
  by (induction v) (auto simp: escape_double_quoted_def)

lemma register_taints_nonempty: "register_taints claim \<noteq> []"
  by (simp add: register_taints_def Let_def)

lemma extra_args_nonempty: "get_kubelet_extra_args spec claim fs = Ok args \<Longrightarrow> args \<noteq> []"
  by (auto simp: get_kubelet_extra_args_def map_ok_eq_Ok_iff register_taints_nonempty)

lemma append_args_Ok:
  assumes "append_kubelet_extra_args claim spec fs = Ok t"
  shows "\<exists>args. get_kubelet_extra_args spec claim fs = Ok args \<and>
    t = [CHR '' '', CHR 0x5C, CHR 0x0A] @ '' --kubelet-extra-args '' @ CHR 0x22 # (escape_double_quoted args @ [CHR 0x22])"
proof -
  from assms obtain args where a: "get_kubelet_extra_args spec claim fs = Ok args"
    "t = (if 0 < length args then [CHR '' '', CHR 0x5C, CHR 0x0A] @ '' --kubelet-extra-args '' @ [CHR 0x22]
              @ escape_double_quoted args @ [CHR 0x22] else [])"
    unfolding append_kubelet_extra_args_def map_ok_eq_Ok_iff by blast
  with extra_args_nonempty [OF a(1)] show ?thesis by simp
qed

text \<open>
  C39. The start-up script that is put into the metadata carries the arguments of the kubelet intact:
  decoded, it holds a word in double quotes that a shell reads as exactly those arguments, with
  nothing expanded in them, followed by what the script of the node class for after the bootstrap
  adds.
\<close>

theorem user_data_carries_args:
  assumes "build_user_data p claim spec = Ok u"
  shows "\<exists>head word args post. b64_decode u = Some (head @ '' --kubelet-extra-args '' @ CHR 0x22 # word)
    \<and> get_kubelet_extra_args spec claim (mp_families p) = Ok args
    \<and> append_init_script (ncs_post_script spec) = Ok post
    \<and> shell_word word = Some (args, post)"
proof -
  from assms obtain pre t post where o: "append_kubelet_extra_args claim spec (mp_families p) = Ok t"
    "append_init_script (ncs_post_script spec) = Ok post"
    "u = b64_encode (''#!/usr/bin/env bash'' @ [CHR 0x0A] @ pre @ install_command p @ append_cluster_dns spec @ t @ post)"
    unfolding build_user_data_def go_bind_eq_Ok_iff map_ok_eq_Ok_iff by blast
  from append_args_Ok [OF o(1)] obtain args where a: "get_kubelet_extra_args spec claim (mp_families p) = Ok args"
    "t = [CHR '' '', CHR 0x5C, CHR 0x0A] @ '' --kubelet-extra-args '' @ CHR 0x22 # (escape_double_quoted args @ [CHR 0x22])"
    by blast
  have "b64_decode u = Some ((''#!/usr/bin/env bash'' @ [CHR 0x0A] @ pre @ install_command p @ append_cluster_dns spec
       @ [CHR '' '', CHR 0x5C, CHR 0x0A]) @ '' --kubelet-extra-args '' @ CHR 0x22 # (escape_double_quoted args @ CHR 0x22 # post))"
    by (simp add: o(3) a(2) b64_decode_encode)
  with a(1) o(2) shell_word_escape [of args post] show ?thesis by blast
qed

definition example_meta :: meta_provider where
  "example_meta = \<lparr>mp_ca = ''Q0E='', mp_endpoint = ''10.0.0.1'', mp_families = [IPv4]\<rparr>"

theorem user_data_carries_args_witness:
  "\<exists>u head word args post. build_user_data example_meta plain_claim empty_spec = Ok u
     \<and> b64_decode u = Some (head @ '' --kubelet-extra-args '' @ CHR 0x22 # word) \<and> shell_word word = Some (args, post)"
proof -
  have "\<exists>u. build_user_data example_meta plain_claim empty_spec = Ok u"
    by (simp add: build_user_data_def append_init_script_def append_kubelet_extra_args_def get_kubelet_extra_args_def
        empty_spec_def)
  then obtain u where u: "build_user_data example_meta plain_claim empty_spec = Ok u" ..
  from user_data_carries_args [OF u] u show ?thesis by blast
qed

lemma customer_metadata_reserved: "is_reserved_metadata_key k \<Longrightarrow> customer_metadata spec k = None"
  by (auto simp: customer_metadata_def map_of_eq_None_iff)

lemma bootstrap_metadata_cases:
  assumes "bootstrap_metadata p claim spec m = Ok m'"
  obtains (script) d where "build_user_data p claim spec = Ok d" "m' = m(''user_data'' \<mapsto> d)"
    | (own) args where "get_kubelet_extra_args spec claim (mp_families p) = Ok args" "m ''user_data'' \<noteq> None"
      "m' ''apiserver_host'' = Some (mp_endpoint p)" "m' ''cluster_ca_cert'' = Some (mp_ca p)"
      "m' ''kubelet-extra-args'' = Some args"
      "m' ''kubedns_svc_ip'' \<in> {m ''kubedns_svc_ip''}
         \<union> {Some (join_with '','' dns) | c dns. ncs_kubelet spec = Some c \<and> kc_cluster_dns c = Some dns}"
      "\<And>k. k \<notin> {''apiserver_host'', ''cluster_ca_cert'', ''kubelet-extra-args'', ''kubedns_svc_ip''} \<Longrightarrow> m' k = m k"
proof (cases "m ''user_data'' = None \<or> m ''user_data'' = Some []")
  case True
  with assms script show ?thesis by (auto simp: bootstrap_metadata_def go_simps)
next
  case False
  with assms obtain args where args: "get_kubelet_extra_args spec claim (mp_families p) = Ok args"
    by (auto simp: bootstrap_metadata_def Let_def go_simps)
  have "args \<noteq> []" using extra_args_nonempty [OF args] .
  with False assms args show ?thesis
    by (intro own [OF args]) (auto simp: bootstrap_metadata_def Let_def split: option.splits)
qed

text \<open>
  What a node class writes into the metadata cannot replace what the provider decides: the keys
  that are reserved hold the values of the provider or nothing, the preemptible flag is the one of
  the launch, and every other key that the provider does not use comes through as it was given.
\<close>

theorem metadata_reserved_keys:
  assumes "build_instance_metadata p claim spec img net preemptible = Ok m"
  shows "m ''apiserver_host'' \<in> {None, Some (mp_endpoint p)} \<and> m ''cluster_ca_cert'' \<in> {None, Some (mp_ca p)}
    \<and> m ''ssh_authorized_keys'' = (if ncs_ssh_keys spec = [] then None else Some (join_with [CHR 0x0A] (ncs_ssh_keys spec)))
    \<and> m ''kubelet-extra-args'' \<in> {None} \<union> {Some args | args. get_kubelet_extra_args spec claim (mp_families p) = Ok args}
    \<and> m ''oke-is-preemptible'' = Some (if preemptible then ''true'' else ''false'')
    \<and> (\<forall>k. k \<notin> set reserved_metadata_keys \<union> {''user_data'', ''oke-initial-node-labels'', ''oke-preconfigured-vnics'',
          ''oke-max-pods'', ''oke-native-pod-networking'', ''oke-is-preemptible''}
        \<longrightarrow> m k = map_of (ncs_metadata spec) k)"
proof -
  define other where "other = {''user_data'', ''oke-initial-node-labels'', ''oke-preconfigured-vnics'', ''oke-max-pods'',
     ''oke-native-pod-networking'', ''oke-is-preemptible''}"
  from assms obtain m0 where m0: "bootstrap_metadata p claim spec (customer_metadata spec) = Ok m0"
    and m: "m = (let m1 = (inject_npn_config spec net (mp_families p) (inject_node_labels spec m0))
                      (''oke-is-preemptible'' \<mapsto> (if preemptible then ''true'' else ''false''))
           in if 0 < length (ncs_ssh_keys spec)
              then m1(''ssh_authorized_keys'' \<mapsto> join_with [CHR 0x0A] (ncs_ssh_keys spec)) else m1)"
    by (auto simp: build_instance_metadata_def map_ok_eq_Ok_iff split: if_splits)
  have inj: "m k = m0 k" if "k \<notin> insert ''ssh_authorized_keys'' other" for k
    using that by (auto simp: m other_def inject_npn_config_def inject_node_labels_def Let_def split: option.splits)
  have ssh: "m ''ssh_authorized_keys'' = (if ncs_ssh_keys spec = [] then m0 ''ssh_authorized_keys''
      else Some (join_with [CHR 0x0A] (ncs_ssh_keys spec)))"
    by (auto simp: m inject_npn_config_def inject_node_labels_def Let_def split: option.splits)
  have pre: "m ''oke-is-preemptible'' = Some (if preemptible then ''true'' else ''false'')"
    by (simp add: m Let_def)
  have none: "customer_metadata spec k = None" if "k \<in> set reserved_metadata_keys" for k
    using that by (simp add: customer_metadata_reserved is_reserved_metadata_key_def)
  have user: "customer_metadata spec k = map_of (ncs_metadata spec) k" if "k \<notin> set reserved_metadata_keys" for k
  proof -
    have "map_of (filter (\<lambda>(k, v). \<not> is_reserved_metadata_key k) al) k = map_of al k" for al :: tags
      using that by (induction al) (auto simp: is_reserved_metadata_key_def)
    then show ?thesis by (simp add: customer_metadata_def)
  qed
  have keys: "''apiserver_host'' \<notin> insert ''ssh_authorized_keys'' other" "''cluster_ca_cert'' \<notin> insert ''ssh_authorized_keys'' other"
    "''kubelet-extra-args'' \<notin> insert ''ssh_authorized_keys'' other"
    "''apiserver_host'' \<in> set reserved_metadata_keys" "''cluster_ca_cert'' \<in> set reserved_metadata_keys"
    "''kubelet-extra-args'' \<in> set reserved_metadata_keys" "''ssh_authorized_keys'' \<in> set reserved_metadata_keys"
    by (auto simp: other_def reserved_metadata_keys_def)
  have outside: "k \<notin> insert ''ssh_authorized_keys'' other" if "k \<notin> set reserved_metadata_keys \<union> other" for k
    using that keys(7) by blast
  have ud: "''user_data'' \<in> other" by (simp add: other_def)
  have concl: ?thesis
    if h: "m0 ''apiserver_host'' \<in> {None, Some (mp_endpoint p)}" "m0 ''cluster_ca_cert'' \<in> {None, Some (mp_ca p)}"
      "m0 ''kubelet-extra-args'' \<in> {None} \<union> {Some args | args. get_kubelet_extra_args spec claim (mp_families p) = Ok args}"
      "m0 ''ssh_authorized_keys'' = None"
      "\<And>k. k \<notin> set reserved_metadata_keys \<union> other \<Longrightarrow> m0 k = customer_metadata spec k"
  proof -
    have "m k = map_of (ncs_metadata spec) k" if "k \<notin> set reserved_metadata_keys \<union> other" for k
      using inj [OF outside [OF that]] h(5) [OF that] user [of k] that by simp
    with inj [OF keys(1)] inj [OF keys(2)] inj [OF keys(3)] ssh pre h(1-4) show ?thesis
      unfolding other_def [symmetric] by (intro conjI allI impI) (simp_all only: if_True if_False simp_thms)
  qed
  from m0 show ?thesis
  proof (cases rule: bootstrap_metadata_cases)
    case (script d)
    have "m0 k = customer_metadata spec k" if "k \<noteq> ''user_data''" for k using that script by simp
    moreover have "k \<noteq> ''user_data''" if "k \<in> set reserved_metadata_keys" for k
      using that by (auto simp: reserved_metadata_keys_def)
    ultimately have "m0 k = None" if "k \<in> set reserved_metadata_keys" for k using that none by metis
    moreover have "m0 k = customer_metadata spec k" if "k \<notin> set reserved_metadata_keys \<union> other" for k
      using that ud script by auto
    ultimately show ?thesis using keys by (intro concl) auto
  next
    case (own args)
    have k: "k \<notin> {''apiserver_host'', ''cluster_ca_cert'', ''kubelet-extra-args'', ''kubedns_svc_ip''}"
      if "k \<notin> set reserved_metadata_keys" for k
      using that by (auto simp: reserved_metadata_keys_def)
    have "m0 ''ssh_authorized_keys'' = customer_metadata spec ''ssh_authorized_keys''" by (rule own(7)) simp
    with own(1,3-5) none [OF keys(7)] own(7) [OF k] show ?thesis by (intro concl) auto
  qed
qed

theorem metadata_reserved_keys_witness:
  "\<exists>m. build_instance_metadata example_meta plain_claim
       (empty_spec\<lparr>ncs_metadata := [(''apiserver_host'', ''elsewhere''), (''colour'', ''blue'')]\<rparr>)
       \<lparr>ir_images = [], ir_type = OKEImage, ir_os = [], ir_os_version = []\<rparr> \<lparr>nrr_primary = None, nrr_others = []\<rparr> False = Ok m
     \<and> m ''apiserver_host'' \<noteq> Some ''elsewhere'' \<and> m ''colour'' = Some ''blue''"
proof -
  let ?spec = "empty_spec\<lparr>ncs_metadata := [(''apiserver_host'', ''elsewhere''), (''colour'', ''blue'')]\<rparr>"
  let ?img = "\<lparr>ir_images = [], ir_type = OKEImage, ir_os = [], ir_os_version = []\<rparr>"
  let ?net = "\<lparr>nrr_primary = None, nrr_others = []\<rparr>"
  have c: "customer_metadata ?spec = [''colour'' \<mapsto> ''blue'']"
    by (simp add: customer_metadata_def is_reserved_metadata_key_def reserved_metadata_keys_def)
  have "\<exists>u. build_user_data example_meta plain_claim ?spec = Ok u"
    by (simp add: build_user_data_def append_init_script_def append_kubelet_extra_args_def get_kubelet_extra_args_def
        empty_spec_def)
  then obtain u where u: "build_user_data example_meta plain_claim ?spec = Ok u" ..
  have "bootstrap_metadata example_meta plain_claim ?spec (customer_metadata ?spec) = Ok ([''colour'' \<mapsto> ''blue'', ''user_data'' \<mapsto> u])"
    unfolding c bootstrap_metadata_def u by simp
  then have "\<exists>m. build_instance_metadata example_meta plain_claim ?spec ?img ?net False = Ok m"
    unfolding build_instance_metadata_def is_image_supported_def by simp
  then obtain m where m: "build_instance_metadata example_meta plain_claim ?spec ?img ?net False = Ok m" ..
  note props = metadata_reserved_keys [OF m]
  have "m ''apiserver_host'' \<in> {None, Some (mp_endpoint example_meta)}" using props by (elim conjE)
  moreover have "m ''colour'' = map_of (ncs_metadata ?spec) ''colour''"
    using props by (elim conjE) (simp add: reserved_metadata_keys_def)
  ultimately show ?thesis using m by (intro exI [of _ m]) (simp add: example_meta_def, auto)
qed

end
