(* ===== verification/Drift_Caches.thy ===== *)
theory Drift_Caches
  imports Api_Types Load_Cache
begin

section \<open>The caches of drift detection\<close>

text \<open>
  \<open>DriftCaches\<close> of \<open>pkg/providers/instance/drift_cache.go\<close>: the instances, their attachments, and
  the VNICs and boot volumes that are attached, in caches whose entries do not expire.  The
  eviction of an instance evicts its attachments, and the eviction of attachments evicts what they
  attach: the callbacks \<open>OnEvicted\<close>, which the store runs when an entry that is there is deleted.
  \<open>EvictMatching\<close> walks over the entries in the order of a Go map; \<open>keys\<close> stands for that order.
\<close>

record instance_info =
  ii_instance :: oci_instance
  ii_etag :: string

record drift_caches =
  dc_instances :: "instance_info load_cache"
  dc_vnic_atts :: "vnic_attachment list load_cache"
  dc_boot_atts :: "boot_attachment list load_cache"
  dc_vnics :: "oci_vnic load_cache"
  dc_volumes :: "boot_volume load_cache"

definition new_drift_caches :: drift_caches where
  "new_drift_caches =
     \<lparr>dc_instances = new_non_expiring_cache, dc_vnic_atts = new_non_expiring_cache,
      dc_boot_atts = new_non_expiring_cache, dc_vnics = new_non_expiring_cache,
      dc_volumes = new_non_expiring_cache\<rparr>"

definition evict_vnic_atts :: "string \<Rightarrow> drift_caches \<Rightarrow> drift_caches" where
  "evict_vnic_atts k dc =
     (case lc_items (dc_vnic_atts dc) k of
        None \<Rightarrow> dc
      | Some (atts, e) \<Rightarrow>
          dc\<lparr>dc_vnic_atts := cache_evict k (dc_vnic_atts dc),
             dc_vnics := fold (\<lambda>a c. case vat_vnic a of None \<Rightarrow> c | Some v \<Rightarrow> cache_evict v c) atts (dc_vnics dc)\<rparr>)"

definition evict_boot_atts :: "string \<Rightarrow> drift_caches \<Rightarrow> drift_caches" where
  "evict_boot_atts k dc =
     (case lc_items (dc_boot_atts dc) k of
        None \<Rightarrow> dc
      | Some (atts, e) \<Rightarrow>
          dc\<lparr>dc_boot_atts := cache_evict k (dc_boot_atts dc),
             dc_volumes := fold (\<lambda>a c. case bva_volume a of None \<Rightarrow> c | Some v \<Rightarrow> cache_evict v c) atts (dc_volumes dc)\<rparr>)"

definition evict_instance :: "string \<Rightarrow> drift_caches \<Rightarrow> drift_caches" where
  "evict_instance k dc =
     (case lc_items (dc_instances dc) k of
        None \<Rightarrow> dc
      | Some i \<Rightarrow> evict_boot_atts k (evict_vnic_atts k (dc\<lparr>dc_instances := cache_evict k (dc_instances dc)\<rparr>)))"

definition evict_instance_caches :: "string \<Rightarrow> drift_caches \<Rightarrow> drift_caches" where
  "evict_instance_caches k dc = evict_boot_atts k (evict_vnic_atts k (evict_instance k dc))"

text \<open>\<open>evictUnseenInstanceCaches\<close>, after a complete listing; each walk has the keys of its cache.\<close>

type_synonym key_order = "string set \<Rightarrow> string list"

definition order_ok :: "key_order \<Rightarrow> bool" where
  "order_ok order \<longleftrightarrow> (\<forall>K. finite K \<longrightarrow> set (order K) = K)"

definition evict_matching_in ::
  "key_order \<Rightarrow> (string \<Rightarrow> bool) \<Rightarrow> (drift_caches \<Rightarrow> string set) \<Rightarrow> (string \<Rightarrow> drift_caches \<Rightarrow> drift_caches)
    \<Rightarrow> drift_caches \<Rightarrow> drift_caches" where
  "evict_matching_in order match keys evict dc = fold evict (filter match (order (keys dc))) dc"

definition evict_unseen :: "key_order \<Rightarrow> (string \<Rightarrow> bool) \<Rightarrow> drift_caches \<Rightarrow> drift_caches" where
  "evict_unseen order seen dc =
     evict_matching_in order (\<lambda>k. \<not> seen k) (\<lambda>d. dom (lc_items (dc_boot_atts d))) evict_boot_atts
       (evict_matching_in order (\<lambda>k. \<not> seen k) (\<lambda>d. dom (lc_items (dc_vnic_atts d))) evict_vnic_atts
         (evict_matching_in order (\<lambda>k. \<not> seen k) (\<lambda>d. dom (lc_items (dc_instances d))) evict_instance dc))"

subsection \<open>What an eviction removes\<close>

lemma items_evict_fold:
  "lc_items (fold (\<lambda>a c. case f a of None \<Rightarrow> c | Some v \<Rightarrow> cache_evict v c) atts c) k =
     (if \<exists>a \<in> set atts. f a = Some k then None else lc_items c k)"
  by (induction atts arbitrary: c) (auto simp: cache_evict_def split: option.splits)

definition attached_vnics :: "drift_caches \<Rightarrow> string \<Rightarrow> string set" where
  "attached_vnics dc k = (case lc_items (dc_vnic_atts dc) k of
     None \<Rightarrow> {} | Some (atts, e) \<Rightarrow> {v. \<exists>a \<in> set atts. vat_vnic a = Some v})"

definition attached_volumes :: "drift_caches \<Rightarrow> string \<Rightarrow> string set" where
  "attached_volumes dc k = (case lc_items (dc_boot_atts dc) k of
     None \<Rightarrow> {} | Some (atts, e) \<Rightarrow> {v. \<exists>a \<in> set atts. bva_volume a = Some v})"

lemma evict_vnic_atts_items:
  "dc_instances (evict_vnic_atts k dc) = dc_instances dc"
  "dc_boot_atts (evict_vnic_atts k dc) = dc_boot_atts dc"
  "dc_volumes (evict_vnic_atts k dc) = dc_volumes dc"
  "lc_items (dc_vnic_atts (evict_vnic_atts k dc)) = (lc_items (dc_vnic_atts dc))(k := None)"
  "lc_items (dc_vnics (evict_vnic_atts k dc)) v = (if v \<in> attached_vnics dc k then None else lc_items (dc_vnics dc) v)"
  by (auto simp: evict_vnic_atts_def attached_vnics_def items_evict_fold cache_evict_def split: option.splits)

lemma evict_boot_atts_items:
  "dc_instances (evict_boot_atts k dc) = dc_instances dc"
  "dc_vnic_atts (evict_boot_atts k dc) = dc_vnic_atts dc"
  "dc_vnics (evict_boot_atts k dc) = dc_vnics dc"
  "lc_items (dc_boot_atts (evict_boot_atts k dc)) = (lc_items (dc_boot_atts dc))(k := None)"
  "lc_items (dc_volumes (evict_boot_atts k dc)) v =
     (if v \<in> attached_volumes dc k then None else lc_items (dc_volumes dc) v)"
  by (auto simp: evict_boot_atts_def attached_volumes_def items_evict_fold cache_evict_def split: option.splits)

lemma evict_instance_items:
  "lc_items (dc_instances (evict_instance k dc)) = (lc_items (dc_instances dc))(k := None)"
  "lc_items (dc_vnic_atts (evict_instance k dc)) j =
     (if j = k \<and> lc_items (dc_instances dc) k \<noteq> None then None else lc_items (dc_vnic_atts dc) j)"
  "lc_items (dc_boot_atts (evict_instance k dc)) j =
     (if j = k \<and> lc_items (dc_instances dc) k \<noteq> None then None else lc_items (dc_boot_atts dc) j)"
  by (auto simp: evict_instance_def evict_vnic_atts_items evict_boot_atts_items cache_evict_def split: option.splits)

lemma evict_instance_children:
  "lc_items (dc_vnics (evict_instance k dc)) v =
     (if lc_items (dc_instances dc) k \<noteq> None \<and> v \<in> attached_vnics dc k then None else lc_items (dc_vnics dc) v)"
  "lc_items (dc_volumes (evict_instance k dc)) v =
     (if lc_items (dc_instances dc) k \<noteq> None \<and> v \<in> attached_volumes dc k then None else lc_items (dc_volumes dc) v)"
  by (auto simp: evict_instance_def evict_vnic_atts_items evict_boot_atts_items attached_vnics_def attached_volumes_def
      split: option.splits)

lemma evict_instance_caches_items:
  "lc_items (dc_instances (evict_instance_caches k dc)) = (lc_items (dc_instances dc))(k := None)"
  "lc_items (dc_vnic_atts (evict_instance_caches k dc)) = (lc_items (dc_vnic_atts dc))(k := None)"
  "lc_items (dc_boot_atts (evict_instance_caches k dc)) = (lc_items (dc_boot_atts dc))(k := None)"
  by (auto simp: fun_eq_iff evict_instance_caches_def evict_boot_atts_items evict_vnic_atts_items evict_instance_items)

text \<open>
  What \<open>evictInstanceCaches\<close> leaves: nothing of the instance in the three caches that are keyed
  by instances, nor the VNICs and boot volumes its cached attachments named, whether or not the
  instance itself was cached; everything else as it was.
\<close>

theorem evict_instance_caches_cascades:
  "lc_items (dc_instances (evict_instance_caches k dc)) = (lc_items (dc_instances dc))(k := None)
   \<and> lc_items (dc_vnic_atts (evict_instance_caches k dc)) = (lc_items (dc_vnic_atts dc))(k := None)
   \<and> lc_items (dc_boot_atts (evict_instance_caches k dc)) = (lc_items (dc_boot_atts dc))(k := None)
   \<and> lc_items (dc_vnics (evict_instance_caches k dc)) = lc_items (dc_vnics dc) |` (- attached_vnics dc k)
   \<and> lc_items (dc_volumes (evict_instance_caches k dc)) = lc_items (dc_volumes dc) |` (- attached_volumes dc k)"
proof -
  have 1: "attached_vnics (evict_instance k dc) k = (if lc_items (dc_instances dc) k = None then attached_vnics dc k else {})"
    "attached_volumes (evict_vnic_atts k (evict_instance k dc)) k =
       (if lc_items (dc_instances dc) k = None then attached_volumes dc k else {})"
    by (simp_all add: attached_vnics_def attached_volumes_def evict_instance_items evict_vnic_atts_items)
  show ?thesis
    by (auto simp: fun_eq_iff evict_instance_caches_def evict_boot_atts_items evict_vnic_atts_items 1
        evict_instance_items evict_instance_children restrict_map_def)
qed

subsection \<open>What a complete listing leaves\<close>

lemma fold_evict_instance:
  "lc_items (dc_instances (fold evict_instance ks dc)) k = (if k \<in> set ks then None else lc_items (dc_instances dc) k)"
  "k \<notin> set ks \<Longrightarrow> lc_items (dc_vnic_atts (fold evict_instance ks dc)) k = lc_items (dc_vnic_atts dc) k"
  "k \<notin> set ks \<Longrightarrow> lc_items (dc_boot_atts (fold evict_instance ks dc)) k = lc_items (dc_boot_atts dc) k"
  by (induction ks arbitrary: dc) (auto simp: evict_instance_items)

lemma fold_evict_instance_dom:
  "dom (lc_items (dc_vnic_atts (fold evict_instance ks dc))) \<subseteq> dom (lc_items (dc_vnic_atts dc))
   \<and> dom (lc_items (dc_boot_atts (fold evict_instance ks dc))) \<subseteq> dom (lc_items (dc_boot_atts dc))"
proof (induction ks arbitrary: dc)
  case (Cons a ks)
  have "dom (lc_items (dc_vnic_atts (evict_instance a dc))) \<subseteq> dom (lc_items (dc_vnic_atts dc))"
    "dom (lc_items (dc_boot_atts (evict_instance a dc))) \<subseteq> dom (lc_items (dc_boot_atts dc))"
    by (auto simp: evict_instance_items split: if_splits)
  with Cons [of "evict_instance a dc"] show ?case by (simp, meson order_trans)
qed simp

lemma fold_evict_vnic_atts:
  "dc_instances (fold evict_vnic_atts ks dc) = dc_instances dc"
  "dc_boot_atts (fold evict_vnic_atts ks dc) = dc_boot_atts dc"
  "lc_items (dc_vnic_atts (fold evict_vnic_atts ks dc)) k = (if k \<in> set ks then None else lc_items (dc_vnic_atts dc) k)"
  by (induction ks arbitrary: dc) (auto simp: evict_vnic_atts_items)

lemma fold_evict_boot_atts:
  "dc_instances (fold evict_boot_atts ks dc) = dc_instances dc"
  "dc_vnic_atts (fold evict_boot_atts ks dc) = dc_vnic_atts dc"
  "lc_items (dc_boot_atts (fold evict_boot_atts ks dc)) k = (if k \<in> set ks then None else lc_items (dc_boot_atts dc) k)"
  by (induction ks arbitrary: dc) (auto simp: evict_boot_atts_items)

definition caches_finite :: "drift_caches \<Rightarrow> bool" where
  "caches_finite dc \<longleftrightarrow> finite (dom (lc_items (dc_instances dc))) \<and> finite (dom (lc_items (dc_vnic_atts dc)))
     \<and> finite (dom (lc_items (dc_boot_atts dc)))"

lemma evict_rest:
  assumes "set ks = {k \<in> dom m'. \<not> seen k}" "\<And>j. seen j \<Longrightarrow> m' j = m j"
  shows "(\<lambda>x. if x \<in> set ks then None else m' x) = m |` Collect seen"
proof
  fix x
  show "(if x \<in> set ks then None else m' x) = (m |` Collect seen) x"
    using assms by (cases "m' x") (auto simp: restrict_map_def)
qed

lemma evict_unseen_spec:
  assumes "order_ok order" "caches_finite dc"
  shows "lc_items (dc_instances (evict_unseen order seen dc)) = lc_items (dc_instances dc) |` Collect seen"
    "lc_items (dc_vnic_atts (evict_unseen order seen dc)) = lc_items (dc_vnic_atts dc) |` Collect seen"
    "lc_items (dc_boot_atts (evict_unseen order seen dc)) = lc_items (dc_boot_atts dc) |` Collect seen"
proof -
  let ?k1 = "filter (\<lambda>k. \<not> seen k) (order (dom (lc_items (dc_instances dc))))"
  define d1 where "d1 = fold evict_instance ?k1 dc"
  let ?k2 = "filter (\<lambda>k. \<not> seen k) (order (dom (lc_items (dc_vnic_atts d1))))"
  define d2 where "d2 = fold evict_vnic_atts ?k2 d1"
  let ?k3 = "filter (\<lambda>k. \<not> seen k) (order (dom (lc_items (dc_boot_atts d2))))"
  have e: "evict_unseen order seen dc = fold evict_boot_atts ?k3 d2"
    by (simp add: evict_unseen_def evict_matching_in_def d1_def d2_def)
  have sub: "dom (lc_items (dc_vnic_atts d1)) \<subseteq> dom (lc_items (dc_vnic_atts dc))"
    "dom (lc_items (dc_boot_atts d1)) \<subseteq> dom (lc_items (dc_boot_atts dc))"
    using fold_evict_instance_dom [of ?k1 dc] by (simp_all add: d1_def)
  have k: "set ?k1 = {k \<in> dom (lc_items (dc_instances dc)). \<not> seen k}"
    "set ?k2 = {k \<in> dom (lc_items (dc_vnic_atts d1)). \<not> seen k}"
    "set ?k3 = {k \<in> dom (lc_items (dc_boot_atts d2)). \<not> seen k}"
    using assms finite_subset [OF sub(1)] finite_subset [OF sub(2)]
    by (auto simp: order_ok_def caches_finite_def d2_def fold_evict_vnic_atts)
  have gone: "(m |` Collect seen) x = (if x \<in> {x \<in> dom m. \<not> seen x} then None else m x)" for m :: "string \<rightharpoonup> 'x" and x
    by (cases "m x") (auto simp: restrict_map_def)
  have "dc_instances (evict_unseen order seen dc) = dc_instances d1"
    by (simp add: e d2_def fold_evict_vnic_atts fold_evict_boot_atts)
  then show "lc_items (dc_instances (evict_unseen order seen dc)) = lc_items (dc_instances dc) |` Collect seen"
    unfolding gone fun_eq_iff by (simp only: d1_def fold_evict_instance(1) k(1)) simp
  have "lc_items (dc_vnic_atts d1) j = lc_items (dc_vnic_atts dc) j" if "seen j" for j
    using that k(1) fold_evict_instance(2) [of j ?k1 dc] by (auto simp: d1_def)
  then show "lc_items (dc_vnic_atts (evict_unseen order seen dc)) = lc_items (dc_vnic_atts dc) |` Collect seen"
    using evict_rest [OF k(2)] by (simp add: fun_eq_iff e d2_def fold_evict_boot_atts fold_evict_vnic_atts del: set_filter)
  have "lc_items (dc_boot_atts d2) j = lc_items (dc_boot_atts dc) j" if "seen j" for j
    using that k(1) fold_evict_instance(3) [of j ?k1 dc] by (auto simp: d1_def d2_def fold_evict_vnic_atts)
  then show "lc_items (dc_boot_atts (evict_unseen order seen dc)) = lc_items (dc_boot_atts dc) |` Collect seen"
    using evict_rest [OF k(3)] by (simp add: fun_eq_iff e fold_evict_boot_atts del: set_filter)
qed

end
