(* ===== verification/Instance_Provider.thy ===== *)
theory Instance_Provider
  imports Drift_Caches Instance_Metadata Placement Shape_Model Unavailable_Offerings
begin

section \<open>Instances\<close>

text \<open>
  \<open>pkg/providers/instance/provider.go\<close> and \<open>platformconfig.go\<close>: launching an instance and waiting
  for it, deleting it, looking it and its attachments up through the caches, and what is recorded
  when a launch fails.

  The compute API is an argument.  Waiting is a loop over the turns of a \<open>select\<close>: a turn is the
  cancellation of the context, the timer, or a poll with what the service answers to it.  The
  turns are a list; after its end the code is still waiting, which is \<open>Hang\<close>.  Whether
  requirements of a claim admit a value or fit an offering is Karpenter's code, an argument; so is
  the clock \<open>now\<close>, which only the cache of unavailable offerings uses.  Metrics are left out.
\<close>

subsection \<open>The request\<close>

record create_vnic =
  cv_subnet :: "string option"
  cv_ipv6 :: "bool option"
  cv_nsgs :: "string list"
  cv_name :: "string option"
  cv_public :: "bool option"
  cv_skip_check :: "bool option"
  cv_security :: defined_tags
  cv_ipv6_cidrs :: "string list"

record launch_shape_config =
  lsc_ocpus :: "rat option"
  lsc_memory :: "rat option"
  lsc_baseline :: string

record launch_request =
  lq_ad :: string
  lq_compartment :: string
  lq_fd :: "string option"
  lq_cluster :: "string option"
  lq_capres :: "string option"
  lq_cpg :: "string option"
  lq_vnic :: create_vnic
  lq_defined :: defined_tags
  lq_name :: string
  lq_freeform :: "string \<rightharpoonup> string"
  lq_metadata :: "string \<rightharpoonup> string"
  lq_platform :: "(string \<times> platform_config) option"
  lq_preemptible :: bool
  lq_shape :: string
  lq_shape_config :: "launch_shape_config option"
  lq_image :: string
  lq_kms :: "string option"
  lq_boot_size :: "int option"
  lq_boot_vpus :: "int option"
  lq_legacy_imds_disabled :: bool
  lq_pv_encryption :: bool
  lq_launch_options :: "launch_options option"
  lq_agent :: "string list option"

definition build_create_vnic :: "network_resolve_result \<Rightarrow> simple_vnic_config option \<Rightarrow> (err, create_vnic) go" where
  "build_create_vnic net details =
     go_bind (deref (nrr_primary net)) (\<lambda>prim.
     map_ok (\<lambda>sn.
       (let c = \<lparr>cv_subnet = sub_id sn, cv_ipv6 = sans_ipv6 prim, cv_nsgs = nsg_ids prim, cv_name = None,
                  cv_public = None, cv_skip_check = None, cv_security = [], cv_ipv6_cidrs = []\<rparr>
        in case details of
             None \<Rightarrow> c
           | Some d \<Rightarrow>
               c\<lparr>cv_name := svc_display_name d,
                 cv_ipv6 := (case svc_assign_ipv6 d of None \<Rightarrow> cv_ipv6 c | Some b \<Rightarrow> Some b),
                 cv_public := svc_assign_public d,
                 cv_skip_check := (case svc_skip_check d of None \<Rightarrow> Some True | Some b \<Rightarrow> Some b),
                 cv_security := svc_security d, cv_ipv6_cidrs := svc_ipv6_cidrs d\<rparr>))
       (deref (sans_subnet prim)))"

definition build_shape_config :: "oci_instance_type \<Rightarrow> launch_shape_config option" where
  "build_shape_config it =
     (if \<not> it_shape_config it then None
      else Some \<lparr>lsc_ocpus = it_ocpu it, lsc_memory = it_memory it,
                 lsc_baseline = (case it_baseline it of None \<Rightarrow> [] | Some b \<Rightarrow> to_launch_instance_cpu_baseline b)\<rparr>)"

definition build_agent_config :: "string list \<Rightarrow> string list option" where
  "build_agent_config plugins = (if length plugins = 0 then None else Some plugins)"

text \<open>An enumeration that is not set is the empty string of the SDK.\<close>

definition build_launch_options :: "launch_options option \<Rightarrow> launch_options option" where
  "build_launch_options slo =
     map_option (\<lambda>o'. \<lparr>lo_boot_volume = lo_boot_volume o', lo_remote_volume = lo_remote_volume o',
        lo_firmware = lo_firmware o', lo_network = lo_network o', lo_consistent_naming = lo_consistent_naming o'\<rparr>) slo"

definition build_platform_config :: "platform_config option \<Rightarrow> string \<Rightarrow> (string \<times> platform_config) option" where
  "build_platform_config request platformType =
     (case request of
        None \<Rightarrow> None
      | Some c \<Rightarrow> if platform_is_empty request then None else Some (platformType, c))"

definition build_defined_tags :: "defined_tags \<Rightarrow> defined_tags" where
  "build_defined_tags tags = map (\<lambda>(k, v). (k, map (\<lambda>(ik, iv). (ik, iv)) v)) tags"

definition node_pool_uid :: "node_claim \<Rightarrow> string option" where
  "node_pool_uid claim =
     map_option own_uid (List.find (\<lambda>o'. own_api o' = ''karpenter.sh/v1'' \<and> own_kind o' = ''NodePool'' \<and> own_uid o' \<noteq> [])
       (nc_owners claim))"

definition set_tag :: "string \<Rightarrow> string option \<Rightarrow> (string \<rightharpoonup> string) \<Rightarrow> (string \<rightharpoonup> string)" where
  "set_tag k v m = (case v of None \<Rightarrow> m | Some x \<Rightarrow> m(k \<mapsto> x))"

definition NodePoolTagKey :: string where "NodePoolTagKey = ''KarpenterNodePool''"
definition NodePoolUIDTagKey :: string where "NodePoolUIDTagKey = ''KarpenterNodePoolUID''"
definition NodeClassTagKey :: string where "NodeClassTagKey = ''KarpenterNodeClass''"
definition NodeClassHashTagKey :: string where "NodeClassHashTagKey = ''Karpenter_NodeClass_Hash''"

definition build_free_form_tags :: "node_class \<Rightarrow> node_claim \<Rightarrow> (err, string \<rightharpoonup> string) go" where
  "build_free_form_tags cls claim =
     (let m = set_tag NodeClassHashTagKey (map_of (ncl_labels cls) NodeClassHash)
                (set_tag NodeClassTagKey (map_of (nc_labels claim) NodeClassLabel)
                  (set_tag NodePoolTagKey (map_of (nc_labels claim) NodePoolLabelKey)
                    (map_of (ncs_freeform (ncl_spec cls)))))
      in (case node_pool_uid claim of
            None \<Rightarrow> Fail (ErrText (''nodeclaim '' @ nc_name claim @ '' is missing NodePool owner reference UID''))
          | Some uid \<Rightarrow> Ok (if uid \<noteq> [] then m(NodePoolUIDTagKey \<mapsto> uid) else m)))"

definition NodePool_of_instance :: "oci_instance \<Rightarrow> string option" where
  "NodePool_of_instance i = map_of (ins_freeform i) NodePoolTagKey"

definition NodePoolUID_of_instance :: "oci_instance \<Rightarrow> string option" where
  "NodePoolUID_of_instance i = map_of (ins_freeform i) NodePoolUIDTagKey"

definition NodeClassHash_of_instance :: "oci_instance \<Rightarrow> string option" where
  "NodeClassHash_of_instance i = map_of (ins_freeform i) NodeClassHashTagKey"

subsection \<open>The provider\<close>

record launch_response =
  lrs_work_request :: string
  lrs_instance :: oci_instance
  lrs_etag :: "string option"

record compute_api =
  co_launch :: "launch_request \<Rightarrow> (err, launch_response) go"
  co_get :: "string \<Rightarrow> (err, oci_instance \<times> string option) go"
  co_list :: "string \<Rightarrow> (err, oci_instance) pager"
  co_vnic_atts :: "string \<Rightarrow> string \<Rightarrow> (err, vnic_attachment) pager"
  co_boot_atts :: "string \<Rightarrow> string \<Rightarrow> string \<Rightarrow> (err, boot_attachment) pager"
  co_terminate :: "string \<Rightarrow> (err, unit) go"

record launch_env =
  le_api :: compute_api
  le_has :: "node_requirement list \<Rightarrow> string \<Rightarrow> string \<Rightarrow> bool"
  le_compat :: "node_requirement list \<Rightarrow> offering \<Rightarrow> bool"
  le_fmt :: "rat \<Rightarrow> string"
  le_order :: key_order
  le_now :: int

record instance_provider =
  inp_compartment :: string
  inp_meta :: meta_provider
  inp_caches :: drift_caches
  inp_timeout_vm :: int
  inp_timeout_bm :: int
  inp_failover :: bool
  inp_unavailable :: "unavailable_offerings option"
  inp_limit_fallback :: bool

definition new_instance_provider ::
  "string \<Rightarrow> meta_provider \<Rightarrow> drift_caches option \<Rightarrow> int \<Rightarrow> int \<Rightarrow> bool \<Rightarrow> unavailable_offerings option \<Rightarrow> bool
    \<Rightarrow> (err, instance_provider) go" where
  "new_instance_provider compartment meta caches vm bm failover u fallback =
     (case caches of
        None \<Rightarrow> Fail (ErrText ''drift caches are required'')
      | Some dc \<Rightarrow> Ok \<lparr>inp_compartment = compartment, inp_meta = meta, inp_caches = dc, inp_timeout_vm = vm,
          inp_timeout_bm = bm, inp_failover = failover, inp_unavailable = u, inp_limit_fallback = fallback\<rparr>)"

definition instance_compartment :: "instance_provider \<Rightarrow> node_class_spec \<Rightarrow> string" where
  "instance_compartment p spec = (case ncs_compartment spec of None \<Rightarrow> inp_compartment p | Some c \<Rightarrow> c)"

definition is_instance_terminated :: "oci_instance \<Rightarrow> bool" where
  "is_instance_terminated i = (ins_state i = Terminated)"

subsection \<open>Lookups\<close>

definition cache_instance :: "int \<Rightarrow> instance_info \<Rightarrow> drift_caches \<Rightarrow> drift_caches" where
  "cache_instance now info dc =
     (case ins_id (ii_instance info) of
        None \<Rightarrow> dc
      | Some k \<Rightarrow> if is_instance_terminated (ii_instance info) then dc
                  else dc\<lparr>dc_instances := cache_set now k info (dc_instances dc)\<rparr>)"

definition evict_instance_if_gone :: "string \<Rightarrow> (err, instance_info) go \<Rightarrow> drift_caches \<Rightarrow> drift_caches" where
  "evict_instance_if_gone k r dc =
     (case r of
        Ok i \<Rightarrow> if is_instance_terminated (ii_instance i) then evict_instance_caches k dc else dc
      | Fail e \<Rightarrow> if is_not_found (Some e) then evict_instance_caches k dc else dc
      | _ \<Rightarrow> dc)"

definition get_instance_impl :: "(err, oci_instance \<times> string option) go \<Rightarrow> (err, instance_info) go" where
  "get_instance_impl resp = go_bind resp (\<lambda>(i, etag). map_ok (\<lambda>t. \<lparr>ii_instance = i, ii_etag = t\<rparr>) (deref etag))"

text \<open>\<open>resp\<close> is what the service answers when it is asked for the instance.\<close>

definition get_instance ::
  "int \<Rightarrow> (err, oci_instance \<times> string option) go \<Rightarrow> string \<Rightarrow> drift_caches \<Rightarrow> (err, instance_info) go \<times> drift_caches" where
  "get_instance now resp k dc =
     (let (r, c, u) = cache_refresh now (dc_instances dc) k (\<lambda>_ s. (get_instance_impl resp, s)) ()
      in (r, evict_instance_if_gone k r (dc\<lparr>dc_instances := c\<rparr>)))"

definition get_instance_cached ::
  "int \<Rightarrow> (err, oci_instance \<times> string option) go \<Rightarrow> string \<Rightarrow> drift_caches \<Rightarrow> (err, instance_info) go \<times> drift_caches" where
  "get_instance_cached now resp k dc =
     (let (r, c, u) = get_or_load now (dc_instances dc) k (\<lambda>_ s. (get_instance_impl resp, s)) ()
      in (r, evict_instance_if_gone k r (dc\<lparr>dc_instances := c\<rparr>)))"

definition list_vnic_atts ::
  "int \<Rightarrow> (err, vnic_attachment) pager \<Rightarrow> string \<Rightarrow> drift_caches \<Rightarrow> (err, vnic_attachment list) go \<times> drift_caches" where
  "list_vnic_atts now fetch k dc =
     st_bind (fetch_all fetch, dc) (\<lambda>atts dc.
       (let dc1 = evict_vnic_atts k dc
        in (Ok atts, dc1\<lparr>dc_vnic_atts := cache_set now k atts (dc_vnic_atts dc1)\<rparr>)))"

definition list_vnic_atts_cached ::
  "int \<Rightarrow> (err, vnic_attachment) pager \<Rightarrow> string \<Rightarrow> drift_caches \<Rightarrow> (err, vnic_attachment list) go \<times> drift_caches" where
  "list_vnic_atts_cached now fetch k dc =
     (let (r, c, u) = get_or_load now (dc_vnic_atts dc) k (\<lambda>_ s. (fetch_all fetch, s)) ()
      in (r, dc\<lparr>dc_vnic_atts := c\<rparr>))"

definition list_boot_atts ::
  "int \<Rightarrow> (err, boot_attachment) pager \<Rightarrow> string \<Rightarrow> drift_caches \<Rightarrow> (err, boot_attachment list) go \<times> drift_caches" where
  "list_boot_atts now fetch k dc =
     st_bind (fetch_all fetch, dc) (\<lambda>atts dc.
       (let dc1 = evict_boot_atts k dc
        in (Ok atts, dc1\<lparr>dc_boot_atts := cache_set now k atts (dc_boot_atts dc1)\<rparr>)))"

definition list_boot_atts_cached ::
  "int \<Rightarrow> (err, boot_attachment) pager \<Rightarrow> string \<Rightarrow> drift_caches \<Rightarrow> (err, boot_attachment list) go \<times> drift_caches" where
  "list_boot_atts_cached now fetch k dc =
     (let (r, c, u) = get_or_load now (dc_boot_atts dc) k (\<lambda>_ s. (fetch_all fetch, s)) ()
      in (r, dc\<lparr>dc_boot_atts := c\<rparr>))"

text \<open>\<open>listInstances\<close> of one compartment: what has no pool tag, no OCID or is terminated is left out.\<close>

definition keep_listed :: "oci_instance \<Rightarrow> bool" where
  "keep_listed i \<longleftrightarrow> NodePool_of_instance i \<noteq> None \<and> ins_id i \<noteq> None \<and> ins_state i \<noteq> Terminated"

text \<open>The pages that were read before an error have been cached.\<close>

partial_function (option) list_compartment ::
  "int \<Rightarrow> (err, oci_instance) pager \<Rightarrow> oci_instance list \<Rightarrow> string option \<Rightarrow> drift_caches
    \<Rightarrow> ((err, oci_instance list) go \<times> drift_caches) option" where
  "list_compartment now fetch acc page dc =
     (case fetch page of
        Fail e \<Rightarrow> Some (Fail e, dc)
      | Panic \<Rightarrow> Some (Panic, dc)
      | Hang \<Rightarrow> Some (Hang, dc)
      | Ok r \<Rightarrow>
          (case snd r of
             None \<Rightarrow> Some (Ok (acc @ filter keep_listed (fst r)),
                 fold (\<lambda>i. cache_instance now \<lparr>ii_instance = i, ii_etag = []\<rparr>) (filter keep_listed (fst r)) dc)
           | Some p \<Rightarrow> list_compartment now fetch (acc @ filter keep_listed (fst r)) (Some p)
                 (fold (\<lambda>i. cache_instance now \<lparr>ii_instance = i, ii_etag = []\<rparr>) (filter keep_listed (fst r)) dc)))"

fun list_compartments ::
  "int \<Rightarrow> (string \<Rightarrow> (err, oci_instance) pager) \<Rightarrow> string \<Rightarrow> string list \<Rightarrow> string list \<Rightarrow> drift_caches
    \<Rightarrow> (err, oci_instance list) go \<times> drift_caches" where
  "list_compartments now api own [] listed dc = (Ok [], dc)"
| "list_compartments now api own (c # cs) listed dc =
     (let c' = (if c = [] then own else c)
      in if c' \<in> set listed then list_compartments now api own cs listed dc
         else st_bind (case list_compartment now (api c') [] None dc of None \<Rightarrow> (Hang, dc) | Some r \<Rightarrow> r) (\<lambda>is dc.
              st_bind (list_compartments now api own cs (c' # listed) dc) (\<lambda>js dc. (Ok (is @ js), dc))))"

definition list_instances ::
  "launch_env \<Rightarrow> string list \<Rightarrow> instance_provider \<Rightarrow> (err, oci_instance list) go \<times> instance_provider" where
  "list_instances env compartments p =
     (let (r, dc) = list_compartments (le_now env) (co_list (le_api env)) (inp_compartment p) compartments [] (inp_caches p)
      in case r of
           Ok is \<Rightarrow> (Ok is, p\<lparr>inp_caches := evict_unseen (le_order env) (\<lambda>k. Some k \<in> ins_id ` set is) dc\<rparr>)
         | Fail e \<Rightarrow> (Fail e, p\<lparr>inp_caches := dc\<rparr>)
         | Panic \<Rightarrow> (Panic, p\<lparr>inp_caches := dc\<rparr>)
         | Hang \<Rightarrow> (Hang, p\<lparr>inp_caches := dc\<rparr>))"

subsection \<open>Deleting an instance\<close>

datatype delete_event = DelCancelled | DelTimeout | DelPoll "(err, oci_instance \<times> string option) go"

fun wait_deleted ::
  "int \<Rightarrow> string \<Rightarrow> delete_event list \<Rightarrow> drift_caches \<Rightarrow> (err, unit) go \<times> drift_caches" where
  "wait_deleted now k [] dc = (Hang, dc)"
| "wait_deleted now k (DelCancelled # es) dc = (Fail (ErrText ''context cancelled''), dc)"
| "wait_deleted now k (DelTimeout # es) dc = (Fail (ErrText ''delete timeout''), dc)"
| "wait_deleted now k (DelPoll resp # es) dc =
     st_bind (get_instance now resp k dc) (\<lambda>i dc.
       if ins_state (ii_instance i) = Terminated then (Ok (), dc) else wait_deleted now k es dc)"

definition delete_instance ::
  "int \<Rightarrow> (err, unit) go \<Rightarrow> string \<Rightarrow> delete_event list \<Rightarrow> drift_caches \<Rightarrow> (err, unit) go \<times> drift_caches" where
  "delete_instance now resp k es dc =
     (case resp of
        Fail e \<Rightarrow> (Fail e, if is_not_found (Some e) then evict_instance_caches k dc else dc)
      | Panic \<Rightarrow> (Panic, dc)
      | Hang \<Rightarrow> (Hang, dc)
      | Ok u \<Rightarrow> wait_deleted now k es dc)"

subsection \<open>Launching an instance\<close>

text \<open>
  \<open>decideCapacityType\<close>: spot when the claim admits it, the type is not burstable, and an available
  offering fits the requirements of the claim with the capacity type narrowed to spot.
\<close>

definition spot_requirements :: "node_requirement list \<Rightarrow> node_requirement list" where
  "spot_requirements rs =
     filter (\<lambda>r. nreq_key r \<noteq> CapacityTypeLabelKey) rs
     @ [\<lparr>nreq_key = CapacityTypeLabelKey, nreq_op = ''In'', nreq_values = [CapacityTypeSpot]\<rparr>]"

definition decide_capacity_type :: "launch_env \<Rightarrow> node_claim \<Rightarrow> oci_instance_type \<Rightarrow> string" where
  "decide_capacity_type env claim it =
     (if le_has env (nc_reqs claim) CapacityTypeLabelKey CapacityTypeSpot \<and> \<not> is_burstable it
         \<and> (\<exists>ofr \<in> set (available_offerings (it_offerings it)). le_compat env (spot_requirements (nc_reqs claim)) ofr)
      then CapacityTypeSpot else CapacityTypeOnDemand)"

definition capacity_type_of_instance :: "oci_instance \<Rightarrow> string" where
  "capacity_type_of_instance i =
     (if ins_preemptible i then CapacityTypeSpot
      else if ins_capres i \<noteq> None then CapacityTypeReserved else CapacityTypeOnDemand)"

text \<open>What a failed launch records; it runs when \<open>LaunchInstance\<close> returns.\<close>

definition mark_unavailable_offering ::
  "launch_env \<Rightarrow> node_class_spec \<Rightarrow> oci_instance_type \<Rightarrow> proposal \<Rightarrow> string \<Rightarrow> err option \<Rightarrow> instance_provider
    \<Rightarrow> (err, unit) go \<times> instance_provider" where
  "mark_unavailable_offering env spec it pr capType err p =
     (if \<not> is_skippable_launch_error err (inp_limit_fallback p) then (Ok (), p)
      else if prop_capres pr \<noteq> None \<or> prop_cluster pr \<noteq> None \<or> prop_cpg pr \<noteq> None \<or> prop_fd pr \<noteq> None then (Ok (), p)
      else
        st_bind (ad_to_zone (prop_ad pr), p) (\<lambda>zone p.
          (Ok (), p\<lparr>inp_unavailable := map_option (mark_unavailable (le_fmt env) (le_now env)
             \<lparr>oi_shape = it_shape it, oi_ocpu = it_ocpu it, oi_memory = it_memory it, oi_zone = zone,
              oi_capacity_type = capType,
              oi_compartment = (if is_quota_exceeded err then instance_compartment p spec else [])\<rparr>) (inp_unavailable p)\<rparr>)))"

datatype work_status = WrSucceeded | WrFailed "(err, string option list) go" | WrOther

datatype launch_event = LaunchCancelled | LaunchTimeout "delete_event list" | LaunchPoll "(err, work_status) go"

text \<open>
  \<open>instanceInProvisioningOrPlacementTimeOut\<close>: a virtual machine that got no boot volume in time
  is deleted, so that another offering can be tried; in every doubtful case the instance is kept.
\<close>

definition placement_timeout ::
  "launch_env \<Rightarrow> delete_event list \<Rightarrow> instance_info \<Rightarrow> instance_provider
    \<Rightarrow> (err, instance_info) go \<times> instance_provider" where
  "placement_timeout env es info p =
     (let i = ii_instance info
      in if \<not> inp_failover p then (Ok info, p)
         else if is_bm_shape (ins_shape i) then (Ok info, p)
         else
           (case ins_id i of
              None \<Rightarrow> (Panic, p)
            | Some k \<Rightarrow>
                (case list_boot_atts (le_now env) (co_boot_atts (le_api env) (ins_compartment i) k (ins_ad i)) k (inp_caches p) of
                   (Fail e, dc) \<Rightarrow> (Ok info, p\<lparr>inp_caches := dc\<rparr>)
                 | (Panic, dc) \<Rightarrow> (Panic, p\<lparr>inp_caches := dc\<rparr>)
                 | (Hang, dc) \<Rightarrow> (Hang, p\<lparr>inp_caches := dc\<rparr>)
                 | (Ok vols, dc) \<Rightarrow>
                     (if 0 < length vols then (Ok info, p\<lparr>inp_caches := dc\<rparr>)
                      else
                        (case delete_instance (le_now env) (co_terminate (le_api env) k) k es dc of
                           (Ok u, dc1) \<Rightarrow> (Fail NoCapacityError, p\<lparr>inp_caches := dc1\<rparr>)
                         | (Fail e, dc1) \<Rightarrow> (Ok info, p\<lparr>inp_caches := dc1\<rparr>)
                         | (Panic, dc1) \<Rightarrow> (Panic, p\<lparr>inp_caches := dc1\<rparr>)
                         | (Hang, dc1) \<Rightarrow> (Hang, p\<lparr>inp_caches := dc1\<rparr>))))))"

definition cache_result :: "launch_env \<Rightarrow> instance_info \<Rightarrow> instance_provider \<Rightarrow> instance_provider" where
  "cache_result env info p = p\<lparr>inp_caches := cache_instance (le_now env) info (inp_caches p)\<rparr>"

text \<open>The error a failed work request stands for.\<close>

definition work_request_error :: "string \<Rightarrow> (err, string option list) go \<Rightarrow> (err, err) go" where
  "work_request_error wr errs =
     (case errs of
        Fail e \<Rightarrow> Ok (ErrText ''work-request failed'')
      | Panic \<Rightarrow> Panic
      | Hang \<Rightarrow> Hang
      | Ok (Some msg # rest) \<Rightarrow>
          Ok (if is_out_of_host_capacity (Some (ErrText msg)) then NoCapacityError else ErrText msg)
      | Ok _ \<Rightarrow> Ok (ErrText (''work-request failed '' @ wr)))"

fun wait_launched ::
  "launch_env \<Rightarrow> string \<Rightarrow> instance_info \<Rightarrow> launch_event list \<Rightarrow> instance_provider
    \<Rightarrow> (err, instance_info) go \<times> instance_provider" where
  "wait_launched env wr info [] p = (Hang, p)"
| "wait_launched env wr info (LaunchCancelled # es) p = (Fail (ErrText ''context cancelled''), p)"
| "wait_launched env wr info (LaunchTimeout ds # es) p =
     (case placement_timeout env ds info p of
        (Ok r, p1) \<Rightarrow> (Ok r, cache_result env r p1)
      | (r, p1) \<Rightarrow> (r, p1))"
| "wait_launched env wr info (LaunchPoll r # es) p =
     (case r of
        Fail e \<Rightarrow> wait_launched env wr info es p
      | Panic \<Rightarrow> (Panic, p)
      | Hang \<Rightarrow> (Hang, p)
      | Ok WrSucceeded \<Rightarrow> (Ok info, cache_result env info p)
      | Ok (WrFailed errs) \<Rightarrow> (go_bind (work_request_error wr errs) Fail, p)
      | Ok WrOther \<Rightarrow> wait_launched env wr info es p)"

definition build_launch_request ::
  "instance_provider \<Rightarrow> node_claim \<Rightarrow> node_class \<Rightarrow> oci_instance_type \<Rightarrow> network_resolve_result \<Rightarrow> string \<Rightarrow> string option
    \<Rightarrow> proposal \<Rightarrow> bool \<Rightarrow> (string \<rightharpoonup> string) \<Rightarrow> (string \<rightharpoonup> string) \<Rightarrow> (err, launch_request) go" where
  "build_launch_request p claim cls it net imageId kms pr preemptible metadata tags =
     (let spec = ncl_spec cls; boot = vc_boot (ncs_volume spec)
      in map_ok (\<lambda>vnic.
           \<lparr>lq_ad = prop_ad pr, lq_compartment = instance_compartment p spec, lq_fd = prop_fd pr,
            lq_cluster = prop_cluster pr, lq_capres = prop_capres pr, lq_cpg = prop_cpg pr, lq_vnic = vnic,
            lq_defined = build_defined_tags (ncs_defined spec), lq_name = nc_name claim, lq_freeform = tags,
            lq_metadata = metadata, lq_platform = build_platform_config (ncs_platform spec) (it_platform_type it),
            lq_preemptible = preemptible, lq_shape = it_shape it, lq_shape_config = build_shape_config it,
            lq_image = imageId, lq_kms = kms, lq_boot_size = va_size boot, lq_boot_vpus = va_vpus boot,
            lq_legacy_imds_disabled = True, lq_pv_encryption = from_ptr False (bv_pv_encryption boot),
            lq_launch_options = build_launch_options (ncs_launch_options spec),
            lq_agent = build_agent_config (ncs_agent_plugins spec)\<rparr>)
         (build_create_vnic net (nc_primary (ncs_network spec))))"

text \<open>The time-out depends on the kind of shape; \<open>turns\<close> says what happens while waiting with it.\<close>

definition launch_and_wait ::
  "launch_env \<Rightarrow> (int \<Rightarrow> launch_event list) \<Rightarrow> node_claim \<Rightarrow> node_class \<Rightarrow> oci_instance_type \<Rightarrow> image_result
    \<Rightarrow> network_resolve_result \<Rightarrow> string \<Rightarrow> string option \<Rightarrow> proposal \<Rightarrow> string \<Rightarrow> instance_provider
    \<Rightarrow> (err, instance_info) go \<times> instance_provider" where
  "launch_and_wait env turns claim cls it img net imageId kms pr capType p =
     (let preemptible = (capType = CapacityTypeSpot)
      in st_bind (build_instance_metadata (inp_meta p) claim (ncl_spec cls) img net preemptible, p) (\<lambda>metadata p.
         st_bind (build_free_form_tags cls claim, p) (\<lambda>tags p.
         st_bind (build_launch_request p claim cls it net imageId kms pr preemptible metadata tags, p) (\<lambda>req p.
           (case co_launch (le_api env) req of
              Fail e \<Rightarrow> (Fail (if is_out_of_host_capacity (Some e) then NoCapacityError else e), p)
            | Panic \<Rightarrow> (Panic, p)
            | Hang \<Rightarrow> (Hang, p)
            | Ok resp \<Rightarrow>
                (if lrs_work_request resp = []
                 then (Fail (ErrText ''work request ID not found in LaunchInstance response headers''), p)
                 else
                   (case lrs_etag resp of
                      None \<Rightarrow> (Panic, p)
                    | Some etag \<Rightarrow>
                        wait_launched env (lrs_work_request resp) \<lparr>ii_instance = lrs_instance resp, ii_etag = etag\<rparr>
                          (turns (if is_bm_shape (it_shape it) then inp_timeout_bm p else inp_timeout_vm p)) p)))))))"

definition launch_instance ::
  "launch_env \<Rightarrow> (int \<Rightarrow> launch_event list) \<Rightarrow> node_claim \<Rightarrow> node_class \<Rightarrow> oci_instance_type \<Rightarrow> image_result
    \<Rightarrow> network_resolve_result \<Rightarrow> string option \<Rightarrow> proposal \<Rightarrow> instance_provider
    \<Rightarrow> (err, instance_info) go \<times> instance_provider" where
  "launch_instance env turns claim cls it img net kms pr p =
     st_bind (index_go (ir_images img) 0, p) (\<lambda>img0 p.
       (let capType = decide_capacity_type env claim it;
            (r, p1) = launch_and_wait env turns claim cls it img net (img_id img0) kms pr capType p
        in (case r of
              Fail e \<Rightarrow>
                (if inp_unavailable p1 = None then (Fail e, p1)
                 else st_bind (mark_unavailable_offering env (ncl_spec cls) it pr capType (Some e) p1) (\<lambda>u p2. (Fail e, p2)))
            | _ \<Rightarrow> (r, p1))))"

text \<open>\<open>DecorateNodeClaimByInstance\<close>; \<open>now\<close> is the time of the deletion mark.\<close>

definition decorate_claim_by_instance :: "int \<Rightarrow> oci_instance \<Rightarrow> node_claim \<Rightarrow> (err, node_claim) go" where
  "decorate_claim_by_instance now i claim =
     go_bind (deref (ins_display_name i)) (\<lambda>name.
     go_bind (ad_to_zone (ins_ad i)) (\<lambda>zone.
     go_bind (deref (ins_fd i)) (\<lambda>fd.
     go_bind (deref (ins_id i)) (\<lambda>ocid.
       (let ls = AList.update OciFaultDomain fd
                   (AList.update CapacityTypeLabelKey (capacity_type_of_instance i)
                     (AList.update LabelTopologyZone zone (nc_labels claim)));
            ls1 = (case NodePool_of_instance i of None \<Rightarrow> ls | Some x \<Rightarrow> AList.update NodePoolLabelKey x ls);
            ls2 = (case NodeClassHash_of_instance i of None \<Rightarrow> ls1 | Some x \<Rightarrow> AList.update NodeClassHash x ls1)
        in (case ins_source i of
              ViaImage img \<Rightarrow>
                Ok (claim\<lparr>nc_name := name, nc_created := ins_created i, nc_labels := ls2,
                      nc_deleted := (if ins_state i = Terminating \<or> ins_state i = Terminated then Some now else nc_deleted claim),
                      nc_provider_id := ocid, nc_image_id := img\<rparr>)
            | ViaBootVolume b \<Rightarrow> Panic))))))"

end
