(* ===== verification/Instance_Laws.thy ===== *)
theory Instance_Laws
  imports Instance_Provider
begin

section \<open>What the instance provider keeps\<close>

text \<open>
  Properties of theory \<open>Instance_Provider\<close>: when waiting for a launch ends, when a launch is given
  up for another offering, what a failed launch records, and whether it leaves a machine behind.
\<close>

subsection \<open>Waiting for a launch\<close>

text \<open>A turn that ends the wait; the others are a poll that failed or found the request still open.\<close>

fun decisive :: "launch_event \<Rightarrow> bool" where
  "decisive (LaunchPoll (Fail e)) = False"
| "decisive (LaunchPoll (Ok WrOther)) = False"
| "decisive e = True"

text \<open>
  Waiting for a launch ends at the first turn that decides it, a cancellation, the time-out or an
  answer that the work request has ended, with the outcome of that turn alone; polls that fail or
  find the request open change nothing.  It goes on for ever only if there is no such turn.
\<close>

theorem launch_wait_decided_by_first:
  "wait_launched env wr info es p =
     (case List.find decisive es of None \<Rightarrow> (Hang, p) | Some e \<Rightarrow> wait_launched env wr info [e] p)"
proof (induction es)
  case (Cons e es)
  then show ?case by (cases e rule: decisive.cases) auto
qed simp

lemma wait_deleted_seen:
  assumes "wait_deleted now k es dc = (Ok u, dc')"
  shows "\<exists>resp i. DelPoll resp \<in> set es \<and> get_instance_impl resp = Ok i \<and> ins_state (ii_instance i) = Terminated
      \<and> lc_items (dc_instances dc') k = None \<and> lc_items (dc_vnic_atts dc') k = None \<and> lc_items (dc_boot_atts dc') k = None"
  using assms
proof (induction es arbitrary: dc)
  case (Cons e es)
  show ?case
  proof (cases e)
    case (DelPoll resp)
    with Cons.prems obtain i dc1 where g: "get_instance now resp k dc = (Ok i, dc1)"
      "(if ins_state (ii_instance i) = Terminated then (Ok (), dc1) else wait_deleted now k es dc1) = (Ok u, dc')"
      by (auto simp: st_bind_Ok_iff)
    have l: "get_instance_impl resp = Ok i"
      "ins_state (ii_instance i) = Terminated \<Longrightarrow> \<exists>d. dc1 = evict_instance_caches k d"
      using g(1) by (auto simp: get_instance_def cache_refresh_def cache_load_def evict_instance_if_gone_def
          is_instance_terminated_def split: go.splits prod.splits)
    show ?thesis
    proof (cases "ins_state (ii_instance i) = Terminated")
      case True
      with g(2) l obtain d where "dc' = evict_instance_caches k d" by auto
      then show ?thesis using l(1) True DelPoll evict_instance_caches_items by fastforce
    next
      case False
      with g(2) Cons.IH [of dc1] DelPoll show ?thesis by auto
    qed
  qed (use Cons.prems in auto)
qed simp

text \<open>
  C38. A launch that timed out is given up for another offering only after its instance is gone: the
  fail-over option is set, the instance is a virtual machine, the service has listed its boot volumes
  and there was none, its termination was accepted, and a later poll has seen it terminated; nothing
  of it is left in the caches.
\<close>

theorem given_up_launch_is_deleted:
  assumes "placement_timeout env es info p = (Fail e, p')"
  shows "e = NoCapacityError \<and> inp_failover p \<and> \<not> is_bm_shape (ins_shape (ii_instance info))
    \<and> (\<exists>k resp i. ins_id (ii_instance info) = Some k \<and> fetch_all (co_boot_atts (le_api env) (ins_compartment (ii_instance info)) k (ins_ad (ii_instance info))) = Ok []
        \<and> co_terminate (le_api env) k = Ok () \<and> DelPoll resp \<in> set es \<and> get_instance_impl resp = Ok i \<and> ins_state (ii_instance i) = Terminated
        \<and> lc_items (dc_instances (inp_caches p')) k = None
        \<and> lc_items (dc_vnic_atts (inp_caches p')) k = None
        \<and> lc_items (dc_boot_atts (inp_caches p')) k = None)"
proof -
  from assms obtain k where k: "inp_failover p" "\<not> is_bm_shape (ins_shape (ii_instance info))"
    "ins_id (ii_instance info) = Some k"
    by (auto simp: placement_timeout_def Let_def split: if_splits option.splits)
  with assms obtain dc u dc1 where d:
    "list_boot_atts (le_now env) (co_boot_atts (le_api env) (ins_compartment (ii_instance info)) k
       (ins_ad (ii_instance info))) k (inp_caches p) = (Ok [], dc)"
    "delete_instance (le_now env) (co_terminate (le_api env) k) k es dc = (Ok u, dc1)"
    "e = NoCapacityError" "p' = p\<lparr>inp_caches := dc1\<rparr>"
    by (auto simp: placement_timeout_def Let_def split: go.splits prod.splits if_splits)
  from d(1) have vols: "fetch_all (co_boot_atts (le_api env) (ins_compartment (ii_instance info)) k (ins_ad (ii_instance info))) = Ok []"
    by (auto simp: list_boot_atts_def st_bind_Ok_iff Let_def)
  from d(2) have t: "co_terminate (le_api env) k = Ok ()" "wait_deleted (le_now env) k es dc = (Ok u, dc1)"
    by (auto simp: delete_instance_def split: go.splits)
  from wait_deleted_seen [OF t(2)] t(1) k d(3,4) vols show ?thesis by auto
qed

text \<open>A provider and the environment of an example: a compute service that accepts everything.\<close>

definition sample_env :: launch_env where
  "sample_env =
     \<lparr>le_api = \<lparr>co_launch = (\<lambda>q. Fail NoCapacityError), co_get = (\<lambda>k. Fail NoCapacityError), co_list = (\<lambda>c p. Ok ([], None)),
        co_vnic_atts = (\<lambda>c k p. Ok ([], None)), co_boot_atts = (\<lambda>c k ad p. Ok ([], None)), co_terminate = (\<lambda>k. Ok ())\<rparr>,
      le_has = (\<lambda>rs k v. False), le_compat = (\<lambda>rs ofr. False), le_fmt = unary_fmt, le_order = (\<lambda>K. []), le_now = 0\<rparr>"

definition sample_provider :: instance_provider where
  "sample_provider =
     \<lparr>inp_compartment = ''c1'', inp_meta = \<lparr>mp_ca = [], mp_endpoint = ''10.0.0.1'', mp_families = []\<rparr>,
      inp_caches = new_drift_caches, inp_timeout_vm = 600, inp_timeout_bm = 1800, inp_failover = True,
      inp_unavailable = Some (new_unavailable_offerings 180), inp_limit_fallback = True\<rparr>"

theorem given_up_launch_is_deleted_witness:
  "\<exists>p'. placement_timeout sample_env [DelPoll (Ok (plain_instance\<lparr>ins_state := Terminated\<rparr>, Some ''t''))]
      \<lparr>ii_instance = plain_instance, ii_etag = ''e''\<rparr> sample_provider = (Fail NoCapacityError, p')
    \<and> \<not> is_bm_shape (ins_shape plain_instance) \<and> lc_items (dc_instances (inp_caches p')) ''i1'' = None"
proof -
  let ?es = "[DelPoll (Ok (plain_instance\<lparr>ins_state := Terminated\<rparr>, Some ''t''))]"
  let ?i = "\<lparr>ii_instance = plain_instance, ii_etag = ''e''\<rparr>"
  have bm: "\<not> is_bm_shape ''VM.Standard2.1''" by code_simp
  have vols: "list_boot_atts 0 (\<lambda>p. Ok ([], None)) ''i1'' new_drift_caches =
      (Ok [], new_drift_caches\<lparr>dc_boot_atts := cache_set 0 ''i1'' [] (dc_boot_atts new_drift_caches)\<rparr>)"
    by (simp add: list_boot_atts_def fetch_all_single evict_boot_atts_def new_drift_caches_def new_non_expiring_cache_def
        new_load_cache_def)
  have del: "\<exists>dc'. delete_instance 0 (Ok ()) ''i1'' ?es dc = (Ok (), dc')" for dc
    by (simp add: delete_instance_def get_instance_def get_instance_impl_def cache_refresh_def cache_load_def Let_def)
  obtain p' where p': "placement_timeout sample_env ?es ?i sample_provider = (Fail NoCapacityError, p')"
    using del [of "new_drift_caches\<lparr>dc_boot_atts := cache_set 0 ''i1'' [] (dc_boot_atts new_drift_caches)\<rparr>"]
    by (auto simp: placement_timeout_def sample_env_def sample_provider_def plain_instance_def bm vols)
  from given_up_launch_is_deleted [OF p'] p' show ?thesis by (auto simp: plain_instance_def)
qed

subsection \<open>What a failed launch records\<close>

lemma placement_timeout_keeps:
  "inp_unavailable (snd (placement_timeout env es info p)) = inp_unavailable p"
  "inp_limit_fallback (snd (placement_timeout env es info p)) = inp_limit_fallback p"
  "inp_compartment (snd (placement_timeout env es info p)) = inp_compartment p"
  by (auto simp: placement_timeout_def Let_def split: option.splits go.splits prod.splits)

lemma wait_launched_keeps:
  "inp_unavailable (snd (wait_launched env wr info es p)) = inp_unavailable p
   \<and> inp_limit_fallback (snd (wait_launched env wr info es p)) = inp_limit_fallback p
   \<and> inp_compartment (snd (wait_launched env wr info es p)) = inp_compartment p"
proof (induction env wr info es p rule: wait_launched.induct)
  case (3 env wr info ds es p)
  show ?case using placement_timeout_keeps [of env ds info p]
    by (auto simp: cache_result_def split: prod.splits go.splits)
qed (auto simp: cache_result_def split: go.splits work_status.splits)

lemma launch_and_wait_keeps:
  "inp_unavailable (snd (launch_and_wait env turns claim cls it img net i kms pr ct p)) = inp_unavailable p"
  "inp_limit_fallback (snd (launch_and_wait env turns claim cls it img net i kms pr ct p)) = inp_limit_fallback p"
  "inp_compartment (snd (launch_and_wait env turns claim cls it img net i kms pr ct p)) = inp_compartment p"
  using wait_launched_keeps
  by (auto simp: launch_and_wait_def st_bind_def Let_def split: go.splits option.splits)

text \<open>The offering a launch was for, as the register of unavailable offerings names it.\<close>

definition failed_offering ::
  "launch_env \<Rightarrow> instance_provider \<Rightarrow> node_claim \<Rightarrow> node_class_spec \<Rightarrow> oci_instance_type \<Rightarrow> string \<Rightarrow> err \<Rightarrow> offering_id" where
  "failed_offering env p claim spec it zone e =
     \<lparr>oi_shape = it_shape it, oi_ocpu = it_ocpu it, oi_memory = it_memory it, oi_zone = zone,
      oi_capacity_type = decide_capacity_type env claim it,
      oi_compartment = (if is_quota_exceeded (Some e) then instance_compartment p spec else [])\<rparr>"

definition zone_of_ad :: "string \<Rightarrow> string" where
  "zone_of_ad ad = (case ad_to_zone ad of Ok z \<Rightarrow> z | _ \<Rightarrow> [])"

definition unscoped :: "proposal \<Rightarrow> bool" where
  "unscoped pr \<longleftrightarrow> prop_capres pr = None \<and> prop_cluster pr = None \<and> prop_cpg pr = None \<and> prop_fd pr = None"

lemma ad_to_zone_cases: "ad_to_zone ad \<noteq> Fail e" "ad_to_zone ad \<noteq> Hang"
  by (auto simp: ad_to_zone_def index_go_def)

lemma index_go_cases: "index_go xs i \<noteq> Fail e" "index_go xs i \<noteq> Hang"
  by (auto simp: index_go_def)

lemma launch_instance_register:
  "inp_unavailable (snd (launch_instance env turns claim cls it img net kms pr p)) =
     (case fst (launch_instance env turns claim cls it img net kms pr p) of
        Fail e \<Rightarrow>
          (if is_skippable_launch_error (Some e) (inp_limit_fallback p) \<and> unscoped pr
           then map_option (mark_unavailable (le_fmt env) (le_now env)
                  (failed_offering env p claim (ncl_spec cls) it (zone_of_ad (prop_ad pr)) e)) (inp_unavailable p)
           else inp_unavailable p)
      | _ \<Rightarrow> inp_unavailable p)"
proof (cases "index_go (ir_images img) 0 :: (err, oci_image) go")
  case (Ok img0)
  define ct where "ct = decide_capacity_type env claim it"
  obtain r p1 where rp: "launch_and_wait env turns claim cls it img net (img_id img0) kms pr ct p = (r, p1)" by fastforce
  note k = launch_and_wait_keeps [of env turns claim cls it img net "img_id img0" kms pr ct p, unfolded rp snd_conv]
  have compartment: "instance_compartment p1 spec = instance_compartment p spec" for spec
    using k(3) by (simp add: instance_compartment_def split: option.splits)
  have e: "launch_instance env turns claim cls it img net kms pr p =
     (case r of
        Fail e \<Rightarrow>
          (if inp_unavailable p1 = None then (Fail e, p1)
           else st_bind (mark_unavailable_offering env (ncl_spec cls) it pr ct (Some e) p1) (\<lambda>u p2. (Fail e, p2)))
      | _ \<Rightarrow> (r, p1))"
    by (simp add: launch_instance_def Ok Let_def ct_def [symmetric] rp)
  show ?thesis
  proof (cases r)
    case (Fail e)
    then show ?thesis unfolding e using k(1,2) compartment
      by (cases "ad_to_zone (prop_ad pr)")
         (auto simp: mark_unavailable_offering_def unscoped_def failed_offering_def ct_def zone_of_ad_def
           ad_to_zone_cases)
  qed (use k e in simp_all)
qed (simp_all add: launch_instance_def index_go_cases)

text \<open>
  C37. A failed launch makes exactly one offering unavailable, the one it was for, and only if the
  error is one another offering may not have (no capacity, or a limit or quota when that fallback
  is on) and the proposal was not narrowed to a reservation, cluster, placement group or fault
  domain; what was unavailable before stays so, for its time.
\<close>

theorem failed_launch_marks:
  assumes launch: "launch_instance env turns claim cls it img net kms pr p = (Fail e, p')"
    and u: "inp_unavailable p = Some u" "\<not> uo_disabled u" "lc_ttl (uo_cache u) = Some d"
    and ids: "fmt_ok (le_fmt env)" "id_ok i"
      "id_ok (failed_offering env p claim (ncl_spec cls) it (zone_of_ad (prop_ad pr)) e)"
  shows "\<exists>u'. inp_unavailable p' = Some u' \<and>
    (is_unavailable (le_fmt env) now i u' \<longleftrightarrow>
       (if is_skippable_launch_error (Some e) (inp_limit_fallback p) \<and> unscoped pr
            \<and> i = failed_offering env p claim (ncl_spec cls) it (zone_of_ad (prop_ad pr)) e
        then now \<le> le_now env + d else is_unavailable (le_fmt env) now i u))"
  using launch_instance_register [of env turns claim cls it img net kms pr p, unfolded launch, simplified] u(1)
    is_unavailable_mark [OF ids u(2,3)]
  by (auto split: if_splits)

text \<open>A launch the service refuses; the offering of the example has no capacity.\<close>

lemma launch_refused:
  assumes "index_go (ir_images img) 0 = (Ok i :: (err, _) go)"
    "build_instance_metadata (inp_meta p) claim (ncl_spec cls) img net (decide_capacity_type env claim it = CapacityTypeSpot) = Ok m"
    "build_free_form_tags cls claim = Ok t"
    "build_launch_request p claim cls it net (img_id i) kms pr (decide_capacity_type env claim it = CapacityTypeSpot) m t = Ok q"
    "co_launch (le_api env) q = Fail NoCapacityError" "prop_ad pr = a @ '':'' @ z" "CHR '':'' \<notin> set a" "CHR '':'' \<notin> set z"
  shows "\<exists>p'. launch_instance env turns claim cls it img net kms pr p = (Fail NoCapacityError, p')"
proof -
  have z: "ad_to_zone (a @ CHR '':'' # z) = Ok z"
    using assms(7,8) by (simp add: ad_to_zone_def split_on_append split_on_no_sep index_go_def)
  have l: "launch_and_wait env turns claim cls it img net (img_id i) kms pr (decide_capacity_type env claim it) p
      = (Fail NoCapacityError, p)"
    using assms(2-5) by (simp add: launch_and_wait_def Let_def)
  have m: "\<exists>p'. st_bind (mark_unavailable_offering env (ncl_spec cls) it pr ct e p) (\<lambda>u p2. (Fail NoCapacityError, p2))
      = (Fail NoCapacityError, p')" for ct e
    by (simp add: mark_unavailable_offering_def assms(6) z)
  show ?thesis using m by (auto simp: launch_instance_def assms(1) l Let_def)
qed

definition sample_class :: node_class where
  "sample_class =
     \<lparr>ncl_name = ''default'', ncl_labels = [], ncl_annotations = [], ncl_finalizers = [], ncl_deleting = False,
      ncl_spec = empty_spec,
      ncl_status = \<lparr>ncst_conditions = [], ncst_volume = None, ncst_network = None, ncst_capres = [], ncst_cpgs = [],
        ncst_cluster = None\<rparr>\<rparr>"

definition sample_claim :: node_claim where
  "sample_claim = plain_claim\<lparr>nc_owners :=
     [\<lparr>own_api = ''karpenter.sh/v1'', own_kind = ''NodePool'', own_uid = ''u1''\<rparr>]\<rparr>"

definition sample_images :: image_result where
  "sample_images = \<lparr>ir_images = [\<lparr>img_id = ''img'', img_name = None, img_compartment = None, img_os = [], img_os_version = [],
     img_created = 0, img_base = None, img_freeform = [], img_defined = []\<rparr>], ir_type = OKEImage, ir_os = [], ir_os_version = []\<rparr>"

definition sample_network :: network_resolve_result where
  "sample_network = \<lparr>nrr_primary = Some \<lparr>sans_subnet = Some \<lparr>sub_id = Some ''s'', sub_ad = None, sub_vcn = Some ''v'',
       sub_cidr = Some ''10.0.0.0/16'', sub_ipv4_blocks = [], sub_ipv6_cidr = None, sub_ipv6_blocks = [], sub_name = [],
       sub_freeform = [], sub_defined = []\<rparr>, sans_nsgs = [], sans_ipv6 = None, sans_ipv4 = None\<rparr>, nrr_others = []\<rparr>"

definition sample_proposal :: proposal where
  "sample_proposal = \<lparr>prop_temp = [], prop_ad = ''p:AD-1'', prop_fd = None, prop_capres = None, prop_cluster = None,
     prop_cpg = None\<rparr>"

lemma sample_metadata:
  "\<exists>m. build_instance_metadata (inp_meta sample_provider) sample_claim empty_spec sample_images sample_network b = Ok m"
proof -
  have "customer_metadata empty_spec = Map.empty" by (simp add: customer_metadata_def empty_spec_def)
  moreover have "\<exists>u. build_user_data (inp_meta sample_provider) sample_claim empty_spec = Ok u"
    by (simp add: build_user_data_def append_init_script_def append_kubelet_extra_args_def get_kubelet_extra_args_def
        empty_spec_def)
  ultimately show ?thesis
    by (auto simp: build_instance_metadata_def is_image_supported_def sample_images_def bootstrap_metadata_def)
qed

lemma sample_tags: "\<exists>t. build_free_form_tags sample_class sample_claim = Ok t"
  by (simp add: build_free_form_tags_def node_pool_uid_def sample_claim_def)

lemma sample_request:
  "\<exists>q. build_launch_request sample_provider sample_claim sample_class plain_type sample_network i None sample_proposal b m t = Ok q"
  by (simp add: build_launch_request_def build_create_vnic_def sample_network_def Let_def)

theorem failed_launch_marks_witness:
  "\<exists>p' u' i. launch_instance sample_env (\<lambda>t. []) sample_claim sample_class plain_type sample_images sample_network None
       sample_proposal sample_provider = (Fail NoCapacityError, p')
     \<and> inp_unavailable p' = Some u' \<and> oi_zone i = ''AD-1'' \<and> is_unavailable unary_fmt 100 i u'
     \<and> \<not> is_unavailable unary_fmt 200 i u'"
proof -
  let ?launch = "launch_instance sample_env (\<lambda>t. []) sample_claim sample_class plain_type sample_images sample_network None
       sample_proposal sample_provider"
  let ?i = "failed_offering sample_env sample_provider sample_claim (ncl_spec sample_class) plain_type
     (zone_of_ad (prop_ad sample_proposal)) NoCapacityError"
  let ?b = "decide_capacity_type sample_env sample_claim plain_type = CapacityTypeSpot"
  have spec: "ncl_spec sample_class = empty_spec" by (simp add: sample_class_def)
  obtain m t q where mtq: "build_instance_metadata (inp_meta sample_provider) sample_claim (ncl_spec sample_class)
       sample_images sample_network ?b = Ok m" "build_free_form_tags sample_class sample_claim = Ok t"
    "build_launch_request sample_provider sample_claim sample_class plain_type sample_network ''img'' None sample_proposal ?b m t = Ok q"
    using sample_metadata [of ?b] sample_tags sample_request [of "''img''" ?b] unfolding spec by blast
  have img: "index_go (ir_images sample_images) 0 = (Ok \<lparr>img_id = ''img'', img_name = None, img_compartment = None, img_os = [],
     img_os_version = [], img_created = 0, img_base = None, img_freeform = [], img_defined = []\<rparr> :: (err, _) go)"
    by (simp add: sample_images_def index_go_def)
  have q: "build_launch_request sample_provider sample_claim sample_class plain_type sample_network
      (img_id \<lparr>img_id = ''img'', img_name = None, img_compartment = None, img_os = [], img_os_version = [], img_created = 0,
        img_base = None, img_freeform = [], img_defined = []\<rparr>) None sample_proposal ?b m t = Ok q"
    using mtq(3) by simp
  have "\<exists>p'. ?launch = (Fail NoCapacityError, p')"
    by (rule launch_refused [OF img mtq(1,2) q, where a = "''p''" and z = "''AD-1''"])
       (simp_all add: sample_env_def sample_proposal_def)
  then obtain p' where p': "?launch = (Fail NoCapacityError, p')" by blast
  have zone: "zone_of_ad ''p:AD-1'' = ''AD-1''" by code_simp
  have id: "id_ok ?i"
    by (simp add: id_ok_def failed_offering_def plain_type_def decide_capacity_type_def sample_env_def CapacityTypeOnDemand_def
        instance_compartment_def sample_class_def empty_spec_def sample_provider_def)
  have u: "inp_unavailable sample_provider = Some (new_unavailable_offerings 180)" by (simp add: sample_provider_def)
  have n: "\<not> uo_disabled (new_unavailable_offerings 180)" "lc_ttl (uo_cache (new_unavailable_offerings 180)) = Some 180"
    by (simp_all add: new_unavailable_offerings_def new_load_cache_def)
  have f: "fmt_ok (le_fmt sample_env)" by (simp add: sample_env_def fmt_ok_unary)
  have sk: "is_skippable_launch_error (Some NoCapacityError) (inp_limit_fallback sample_provider) \<and> unscoped sample_proposal"
    by (simp add: is_skippable_launch_error_def is_no_capacity_error_def unscoped_def sample_proposal_def)
  note marks = failed_launch_marks [OF p' u n f id id]
  have z: "oi_zone ?i = ''AD-1''" by (simp add: failed_offering_def sample_proposal_def zone)
  show ?thesis
    using marks [of 100] marks [of 200] p' z sk by (intro exI [of _ p'] exI [of _ "the (inp_unavailable p')"] exI [of _ ?i]) (auto simp: sample_env_def)
qed

subsection \<open>What a failed launch leaves behind\<close>

text \<open>
  The request that a launch makes; there is none if it cannot be built.  A launch is undone if the
  service did not accept the request, or if it named a work request and the turn that ended the wait
  for it either found it failed, or was the time-out and the machine, which had no boot volume, was
  terminated and seen terminated.
\<close>

definition launch_requested ::
  "launch_env \<Rightarrow> node_claim \<Rightarrow> node_class \<Rightarrow> oci_instance_type \<Rightarrow> image_result \<Rightarrow> network_resolve_result \<Rightarrow> string option
    \<Rightarrow> proposal \<Rightarrow> instance_provider \<Rightarrow> launch_request \<Rightarrow> bool" where
  "launch_requested env claim cls it img net kms pr p q \<longleftrightarrow>
     (\<exists>i is m t. ir_images img = i # is
        \<and> build_instance_metadata (inp_meta p) claim (ncl_spec cls) img net (decide_capacity_type env claim it = CapacityTypeSpot) = Ok m
        \<and> build_free_form_tags cls claim = Ok t
        \<and> build_launch_request p claim cls it net (img_id i) kms pr (decide_capacity_type env claim it = CapacityTypeSpot) m t = Ok q)"

definition terminated_seen :: "compute_api \<Rightarrow> delete_event list \<Rightarrow> oci_instance \<Rightarrow> bool" where
  "terminated_seen api es i \<longleftrightarrow>
     (\<exists>k resp j. ins_id i = Some k \<and> fetch_all (co_boot_atts api (ins_compartment i) k (ins_ad i)) = Ok []
        \<and> co_terminate api k = Ok () \<and> DelPoll resp \<in> set es \<and> get_instance_impl resp = Ok j
        \<and> ins_state (ii_instance j) = Terminated)"

fun undoes :: "compute_api \<Rightarrow> oci_instance \<Rightarrow> launch_event \<Rightarrow> bool" where
  "undoes api i (LaunchPoll (Ok (WrFailed errs))) = True"
| "undoes api i (LaunchTimeout es) = terminated_seen api es i"
| "undoes api i _ = False"

definition launch_undone ::
  "launch_env \<Rightarrow> (int \<Rightarrow> launch_event list) \<Rightarrow> node_claim \<Rightarrow> node_class \<Rightarrow> oci_instance_type \<Rightarrow> image_result
    \<Rightarrow> network_resolve_result \<Rightarrow> string option \<Rightarrow> proposal \<Rightarrow> instance_provider \<Rightarrow> bool" where
  "launch_undone env turns claim cls it img net kms pr p \<longleftrightarrow>
     (\<forall>q resp. launch_requested env claim cls it img net kms pr p q \<and> co_launch (le_api env) q = Ok resp \<longrightarrow>
        lrs_work_request resp \<noteq> []
        \<and> (\<exists>ev. List.find decisive (turns (if is_bm_shape (it_shape it) then inp_timeout_bm p else inp_timeout_vm p)) = Some ev
             \<and> undoes (le_api env) (lrs_instance resp) ev))"

lemma timed_out_seen:
  assumes "placement_timeout env es info p = (Fail e, p')"
  shows "terminated_seen (le_api env) es (ii_instance info)"
  using assms
  by (auto simp: placement_timeout_def delete_instance_def list_boot_atts_def st_bind_Ok_iff terminated_seen_def Let_def
      split: if_splits option.splits go.splits prod.splits dest!: wait_deleted_seen)

lemma wait_Fail:
  assumes "wait_launched env wr info es p = (Fail e, p')"
  shows "e = ErrText ''context cancelled''
    \<or> (\<exists>ev. List.find decisive es = Some ev \<and> undoes (le_api env) (ii_instance info) ev)"
  using assms
proof (induction env wr info es p rule: wait_launched.induct)
  case (3 env wr info ds es p)
  then show ?case by (auto split: go.splits prod.splits dest: timed_out_seen)
next
  case (4 env wr info r es p)
  then show ?case by (cases r) (auto split: work_status.splits)
qed simp_all

lemma launch_instance_Fail:
  assumes "launch_instance env turns claim cls it img net kms pr p = (Fail e, p')"
  shows "\<exists>i is p1. ir_images img = i # is
    \<and> launch_and_wait env turns claim cls it img net (img_id i) kms pr (decide_capacity_type env claim it) p = (Fail e, p1)"
proof (cases "ir_images img")
  case (Cons i "is")
  have m: "fst (mark_unavailable_offering env spec it pr ct eo p1) \<noteq> Fail e'" for spec ct eo p1 e'
    by (auto simp: mark_unavailable_offering_def st_bind_def ad_to_zone_cases split: option.splits go.splits prod.splits)
  show ?thesis using assms Cons m
    by (auto simp: launch_instance_def index_go_def Let_def st_bind_def split: if_splits go.splits prod.splits)
      (metis fst_conv)+
qed (use assms in \<open>auto simp: launch_instance_def index_go_def\<close>)

definition no_work_request :: err where
  "no_work_request = ErrText ''work request ID not found in LaunchInstance response headers''"

text \<open>
  A failed launch is undone, except for two errors: the operation was cancelled while waiting, or
  the answer of the service named no work request.  With an error on which other offerings are
  tried it always is.
\<close>

lemma launch_failed:
  assumes "launch_instance env turns claim cls it img net kms pr p = (Fail e, p')"
  shows "launch_undone env turns claim cls it img net kms pr p \<or> e = ErrText ''context cancelled'' \<or> e = no_work_request"
proof -
  from launch_instance_Fail [OF assms] obtain i "is" p1 where i: "ir_images img = i # is"
    and l: "launch_and_wait env turns claim cls it img net (img_id i) kms pr (decide_capacity_type env claim it) p = (Fail e, p1)"
    by blast
  show ?thesis
  proof (cases "\<exists>q resp. launch_requested env claim cls it img net kms pr p q \<and> co_launch (le_api env) q = Ok resp")
    case True
    then obtain q resp where q: "launch_requested env claim cls it img net kms pr p q" "co_launch (le_api env) q = Ok resp" by blast
    have u: "q' = q" if "launch_requested env claim cls it img net kms pr p q'" for q'
      using that q(1) by (auto simp: launch_requested_def)
    from l q i have "e = no_work_request \<or> (lrs_work_request resp \<noteq> [] \<and> (\<exists>etag. wait_launched env (lrs_work_request resp)
        \<lparr>ii_instance = lrs_instance resp, ii_etag = etag\<rparr>
        (turns (if is_bm_shape (it_shape it) then inp_timeout_bm p else inp_timeout_vm p)) p = (Fail e, p1)))"
      by (auto simp: launch_and_wait_def launch_requested_def no_work_request_def Let_def split: if_splits option.splits)
    then show ?thesis
      by (elim disjE conjE exE, simp) (drule wait_Fail, use u q(2) in \<open>auto simp: launch_undone_def\<close>)
  qed (auto simp: launch_undone_def)
qed

lemma launch_skipped:
  assumes "launch_instance env turns claim cls it img net kms pr p = (Fail e, p')" "is_skippable_launch_error (Some e) b"
  shows "launch_undone env turns claim cls it img net kms pr p"
proof -
  have "\<not> contains_str ''context cancelled'' OutOfHostCapacity"
    "\<not> contains_str ''work request ID not found in LaunchInstance response headers'' OutOfHostCapacity" by code_simp+
  then have "\<not> is_skippable_launch_error (Some (ErrText ''context cancelled'')) b" "\<not> is_skippable_launch_error (Some no_work_request) b"
    by (auto simp: is_skippable_launch_error_def is_no_capacity_error_def is_out_of_host_capacity_def
        is_service_limit_exceeded_def no_work_request_def)
  with launch_failed [OF assms(1)] assms(2) show ?thesis by auto
qed

end
