(* ===== verification/Instance_Caches.thy ===== *)
theory Instance_Caches
  imports Instance_Laws
begin

section \<open>Which instances the caches hold\<close>

text \<open>
  The caches of drift detection through every operation of the instance provider: as a state machine
  whose steps are the operations, with arguments, answers of the service and times that are
  arbitrary.  The network and block storage providers only write the caches of VNICs and volumes.
\<close>

inductive caches_reach :: "drift_caches \<Rightarrow> bool" where
  start: "caches_reach new_drift_caches"
| get: "caches_reach dc \<Longrightarrow> caches_reach (snd (get_instance now resp k dc))"
| get_cached: "caches_reach dc \<Longrightarrow> caches_reach (snd (get_instance_cached now resp k dc))"
| vnic_atts: "caches_reach dc \<Longrightarrow> caches_reach (snd (list_vnic_atts now fetch k dc))"
| vnic_atts_cached: "caches_reach dc \<Longrightarrow> caches_reach (snd (list_vnic_atts_cached now fetch k dc))"
| boot_atts: "caches_reach dc \<Longrightarrow> caches_reach (snd (list_boot_atts now fetch k dc))"
| boot_atts_cached: "caches_reach dc \<Longrightarrow> caches_reach (snd (list_boot_atts_cached now fetch k dc))"
| children: "caches_reach dc \<Longrightarrow> caches_reach (dc\<lparr>dc_vnics := vnics, dc_volumes := volumes\<rparr>)"
| delete: "caches_reach dc \<Longrightarrow> caches_reach (snd (delete_instance now resp k events dc))"
| listing: "caches_reach (inp_caches p) \<Longrightarrow> caches_reach (inp_caches (snd (list_instances env compartments p)))"
| launch: "caches_reach (inp_caches p) \<Longrightarrow>
    caches_reach (inp_caches (snd (launch_instance env turns claim cls it img net kms pr p)))"

subsection \<open>The invariant\<close>

definition caches_ok :: "drift_caches \<Rightarrow> bool" where
  "caches_ok dc \<longleftrightarrow> caches_finite dc
     \<and> lc_ttl (dc_instances dc) = None
     \<and> (\<forall>k i e. lc_items (dc_instances dc) k = Some (i, e) \<longrightarrow> ins_state (ii_instance i) \<noteq> Terminated \<and> e = None)"

lemma caches_ok_new: "caches_ok new_drift_caches"
  by (simp add: caches_ok_def caches_finite_def new_drift_caches_def new_non_expiring_cache_def new_load_cache_def)

text \<open>What an operation may do that keeps it: drop entries, and write attachments.\<close>

lemma caches_ok_sub:
  assumes "caches_ok dc" "lc_items (dc_instances dc') \<subseteq>\<^sub>m lc_items (dc_instances dc)"
    "lc_ttl (dc_instances dc') = lc_ttl (dc_instances dc)"
    "finite (dom (lc_items (dc_vnic_atts dc')))" "finite (dom (lc_items (dc_boot_atts dc')))"
  shows "caches_ok dc'"
proof -
  have "finite (dom (lc_items (dc_instances dc')))"
    using assms(1) map_le_implies_dom_le [OF assms(2)] by (auto simp: caches_ok_def caches_finite_def dest: finite_subset)
  moreover have "lc_items (dc_instances dc) k = Some x" if "lc_items (dc_instances dc') k = Some x" for k x
    using that assms(2) by (metis domI map_le_def)
  ultimately show ?thesis using assms(1,3-5) unfolding caches_ok_def caches_finite_def by metis
qed

lemma finite_dom_upd: "finite (dom m) \<Longrightarrow> finite (dom (m(k := v)))"
  by (cases v) auto

lemma evictions_ok:
  assumes "caches_ok dc"
  shows "caches_ok (evict_vnic_atts k dc)" "caches_ok (evict_boot_atts k dc)" "caches_ok (evict_instance k dc)"
proof -
  have fin: "finite (dom (lc_items (dc_vnic_atts dc)))" "finite (dom (lc_items (dc_boot_atts dc)))"
    using assms by (auto simp: caches_ok_def caches_finite_def)
  show "caches_ok (evict_vnic_atts k dc)" "caches_ok (evict_boot_atts k dc)"
    using fin by (auto intro!: caches_ok_sub [OF assms] simp: evict_vnic_atts_items evict_boot_atts_items)
  have "dom (lc_items (dc_vnic_atts (evict_instance k dc))) \<subseteq> dom (lc_items (dc_vnic_atts dc))"
    "dom (lc_items (dc_boot_atts (evict_instance k dc))) \<subseteq> dom (lc_items (dc_boot_atts dc))"
    by (auto simp: evict_instance_items split: if_splits)
  moreover have "lc_ttl (dc_instances (evict_instance k dc)) = lc_ttl (dc_instances dc)"
    by (auto simp: evict_instance_def evict_vnic_atts_items evict_boot_atts_items split: option.splits)
  ultimately show "caches_ok (evict_instance k dc)"
    using fin by (intro caches_ok_sub [OF assms]) (auto simp: evict_instance_items map_le_def dest: finite_subset)
qed

lemma evict_instance_caches_ok: "caches_ok dc \<Longrightarrow> caches_ok (evict_instance_caches k dc)"
  by (simp add: evict_instance_caches_def evictions_ok)

lemma cache_instance_ok: "caches_ok dc \<Longrightarrow> caches_ok (cache_instance now info dc)"
  by (auto simp: cache_instance_def is_instance_terminated_def caches_ok_def caches_finite_def cache_set_def
      split: option.splits)

text \<open>A loaded instance is stored before it is looked at, and evicted if it is terminated.\<close>

lemma store_then_evict_ok:
  assumes "caches_ok dc"
  shows "caches_ok (evict_instance_if_gone k (Ok i) (dc\<lparr>dc_instances := cache_set now k i (dc_instances dc)\<rparr>))"
proof (cases "ins_state (ii_instance i) = Terminated")
  case True
  let ?d = "dc\<lparr>dc_instances := cache_set now k i (dc_instances dc)\<rparr>"
  have "lc_items (dc_instances (evict_instance_caches k ?d)) \<subseteq>\<^sub>m lc_items (dc_instances dc)"
    by (auto simp: evict_instance_caches_items map_le_def cache_set_def)
  moreover have "finite (dom (lc_items (dc_vnic_atts (evict_instance_caches k ?d))))"
    "finite (dom (lc_items (dc_boot_atts (evict_instance_caches k ?d))))"
    using assms by (auto simp: evict_instance_caches_items caches_ok_def caches_finite_def)
  moreover have "lc_ttl (dc_instances (evict_instance_caches k ?d)) = lc_ttl (dc_instances dc)"
    by (auto simp: evict_instance_caches_def evict_instance_def evict_vnic_atts_items evict_boot_atts_items split: option.splits)
  ultimately show ?thesis using True caches_ok_sub [OF assms]
    by (simp add: evict_instance_if_gone_def is_instance_terminated_def)
qed (use assms in \<open>auto simp: evict_instance_if_gone_def is_instance_terminated_def caches_ok_def caches_finite_def cache_set_def\<close>)

lemma evict_if_gone_ok: "caches_ok dc \<Longrightarrow> caches_ok (evict_instance_if_gone k r dc)"
  by (auto simp: evict_instance_if_gone_def evict_instance_caches_ok split: go.splits)

lemma lookups_ok:
  assumes "caches_ok dc"
  shows "caches_ok (snd (get_instance now resp k dc))" "caches_ok (snd (get_instance_cached now resp k dc))"
  using assms
  by (auto simp: get_instance_def get_instance_cached_def cache_refresh_def cache_load_def get_or_load_def
      store_then_evict_ok evict_if_gone_ok split: go.splits option.splits)

lemma write_atts_ok:
  assumes "caches_ok dc"
  shows "caches_ok (dc\<lparr>dc_vnic_atts := cache_set now k a (dc_vnic_atts dc)\<rparr>)"
    "caches_ok (dc\<lparr>dc_boot_atts := cache_set now k b (dc_boot_atts dc)\<rparr>)"
  using assms by (auto simp: caches_ok_def caches_finite_def cache_set_def)

lemma attachments_ok:
  assumes "caches_ok dc"
  shows "caches_ok (snd (list_vnic_atts now fv k dc))" "caches_ok (snd (list_vnic_atts_cached now fv k dc))"
    "caches_ok (snd (list_boot_atts now fb k dc))" "caches_ok (snd (list_boot_atts_cached now fb k dc))"
  using assms
  by (auto simp: list_vnic_atts_def list_vnic_atts_cached_def list_boot_atts_def list_boot_atts_cached_def st_bind_def Let_def
      get_or_load_def cache_load_def write_atts_ok evictions_ok split: go.splits option.splits)

lemma wait_deleted_ok: "caches_ok dc \<Longrightarrow> caches_ok (snd (wait_deleted now k es dc))"
proof (induction now k es dc rule: wait_deleted.induct)
  case (4 now k resp es dc)
  have ok: "caches_ok (snd (get_instance now resp k dc))" using 4 by (simp add: lookups_ok)
  obtain r d where rd: "get_instance now resp k dc = (r, d)" by fastforce
  show ?case
  proof (cases r)
    case (Ok i)
    then show ?thesis using ok rd 4(1) [of i d] by auto
  qed (use ok rd in simp_all)
qed simp_all

lemma delete_ok: "caches_ok dc \<Longrightarrow> caches_ok (snd (delete_instance now resp k es dc))"
  by (auto simp: delete_instance_def evict_instance_caches_ok wait_deleted_ok split: go.splits)

lemma fold_ok: "(\<And>x d. caches_ok d \<Longrightarrow> caches_ok (f x d)) \<Longrightarrow> caches_ok dc \<Longrightarrow> caches_ok (fold f xs dc)"
  by (induction xs arbitrary: dc) auto

lemma list_compartment_ok:
  assumes "list_compartment now fetch acc page dc = Some r" "caches_ok dc"
  shows "caches_ok (snd r)"
proof -
  have "caches_ok dc \<longrightarrow> caches_ok (snd r)"
  proof (rule list_compartment.raw_induct [OF _ assms(1)])
    fix rec now fetch acc page dc and r :: "(err, oci_instance list) go \<times> drift_caches"
    assume IH: "\<And>now fetch acc page dc r. rec now fetch acc page dc = Some r \<Longrightarrow> caches_ok dc \<longrightarrow> caches_ok (snd r)"
      and eq: "(case fetch page of
          Ok r \<Rightarrow>
            (case snd r of
               None \<Rightarrow> Some (Ok (acc @ filter keep_listed (fst r)),
                   fold (\<lambda>i. cache_instance now \<lparr>ii_instance = i, ii_etag = []\<rparr>) (filter keep_listed (fst r)) dc)
             | Some p \<Rightarrow> rec now fetch (acc @ filter keep_listed (fst r)) (Some p)
                   (fold (\<lambda>i. cache_instance now \<lparr>ii_instance = i, ii_etag = []\<rparr>) (filter keep_listed (fst r)) dc))
        | Fail e \<Rightarrow> Some (Fail e, dc) | Panic \<Rightarrow> Some (Panic, dc) | Hang \<Rightarrow> Some (Hang, dc)) = Some r"
    show "caches_ok dc \<longrightarrow> caches_ok (snd r)"
    proof
      assume ok: "caches_ok dc"
      have f: "caches_ok (fold (\<lambda>i. cache_instance now \<lparr>ii_instance = i, ii_etag = []\<rparr>) is dc)" for "is"
        by (rule fold_ok [OF _ ok]) (rule cache_instance_ok)
      show "caches_ok (snd r)"
        using eq ok f IH by (auto split: go.splits option.splits)
    qed
  qed
  with assms(2) show ?thesis by blast
qed

lemma list_compartments_ok:
  "caches_ok dc \<Longrightarrow> caches_ok (snd (list_compartments now api own cs listed dc))"
proof (induction cs arbitrary: listed dc)
  case (Cons c cs)
  define c' where "c' = (if c = [] then own else c)"
  define r where "r = (case list_compartment now (api c') [] None dc of None \<Rightarrow> (Hang, dc) | Some r \<Rightarrow> r)"
  have r: "caches_ok (snd r)"
    using Cons.prems list_compartment_ok by (auto simp: r_def split: option.splits)
  have tail: "caches_ok (snd (st_bind (list_compartments now api own cs l d) (\<lambda>js dc. (Ok (is @ js), dc))))"
    if "caches_ok d" for "is" l d
    using Cons.IH [OF that, of l] by (auto simp: st_bind_def split: go.splits prod.splits)
  show ?case
    using Cons.IH [OF Cons.prems] r tail
    by (cases r; cases "fst r") (auto simp: Let_def c'_def [symmetric] r_def [symmetric] simp del: list_compartment.simps)
qed simp

lemma evict_unseen_ok: "caches_ok dc \<Longrightarrow> caches_ok (evict_unseen order seen dc)"
  by (auto simp: evict_unseen_def evict_matching_in_def intro!: fold_ok evictions_ok)

lemma list_instances_ok:
  assumes "caches_ok (inp_caches p)"
  shows "caches_ok (inp_caches (snd (list_instances env cs p)))"
  using list_compartments_ok [OF assms, of "le_now env" "co_list (le_api env)" "inp_compartment p" cs "[]"]
  by (auto simp: list_instances_def evict_unseen_ok split: prod.splits go.splits)

lemma placement_timeout_ok:
  assumes "caches_ok (inp_caches p)"
  shows "caches_ok (inp_caches (snd (placement_timeout env es info p)))"
proof (cases "ins_id (ii_instance info)")
  case (Some k)
  obtain r d where l: "list_boot_atts (le_now env) (co_boot_atts (le_api env) (ins_compartment (ii_instance info)) k
      (ins_ad (ii_instance info))) k (inp_caches p) = (r, d)" by fastforce
  then have d: "caches_ok d" using attachments_ok(3) [OF assms] by (metis snd_conv)
  obtain r' d' where del: "delete_instance (le_now env) (co_terminate (le_api env) k) k es d = (r', d')" by fastforce
  then have "caches_ok d'" using delete_ok [OF d] by (metis snd_conv)
  with assms d show ?thesis
    by (auto simp: placement_timeout_def Let_def Some l del split: go.splits)
qed (use assms in \<open>simp add: placement_timeout_def Let_def\<close>)

lemma wait_launched_ok: "caches_ok (inp_caches p) \<Longrightarrow> caches_ok (inp_caches (snd (wait_launched env wr info es p)))"
proof (induction env wr info es p rule: wait_launched.induct)
  case (3 env wr info ds es p)
  then show ?case using placement_timeout_ok [OF 3, of env ds info]
    by (auto simp: cache_result_def cache_instance_ok split: prod.splits go.splits)
qed (auto simp: cache_result_def cache_instance_ok split: go.splits work_status.splits)

lemma launch_ok:
  assumes "caches_ok (inp_caches p)"
  shows "caches_ok (inp_caches (snd (launch_instance env turns claim cls it img net kms pr p)))"
proof -
  have w: "caches_ok (inp_caches (snd (launch_and_wait env turns claim cls it img net i kms pr ct p)))" for i ct
    using assms wait_launched_ok [OF assms]
    by (auto simp: launch_and_wait_def st_bind_def Let_def split: go.splits option.splits)
  have m: "inp_caches (snd (mark_unavailable_offering env spec it pr ct e q)) = inp_caches q" for spec ct e q
    by (auto simp: mark_unavailable_offering_def st_bind_def split: go.splits)
  show ?thesis
  proof (cases "index_go (ir_images img) 0 :: (err, oci_image) go")
    case (Ok img0)
    define ct where "ct = decide_capacity_type env claim it"
    obtain r q where rq: "launch_and_wait env turns claim cls it img net (img_id img0) kms pr ct p = (r, q)" by fastforce
    have q: "caches_ok (inp_caches q)" using w [of "img_id img0" ct] rq by simp
    have mq: "caches_ok (inp_caches (snd (st_bind (mark_unavailable_offering env (ncl_spec cls) it pr ct e q)
        (\<lambda>u p2. (Fail e', p2)))))" for e e'
      using q m [of "ncl_spec cls" ct e q] by (auto simp: st_bind_def split: go.splits prod.splits)
    show ?thesis using q mq
      by (auto simp: launch_instance_def Ok Let_def ct_def [symmetric] rq split: go.splits)
  qed (use assms in \<open>simp_all add: launch_instance_def\<close>)
qed

text \<open>
  C35. The cache of instances never holds an instance that is terminated, and its entries never
  expire, whatever the providers have done before and whatever the service answered: lookups,
  listings, deletions and launches, in any order and with any outcome.
\<close>

theorem cached_instances_live:
  assumes "caches_reach dc" "lc_items (dc_instances dc) k = Some (i, e)"
  shows "ins_state (ii_instance i) \<noteq> Terminated \<and> e = None"
proof -
  from assms(1) have "caches_ok dc"
  proof (induction rule: caches_reach.induct)
    case (children dc vnics volumes)
    then show ?case by (simp add: caches_ok_def caches_finite_def)
  qed (simp_all add: caches_ok_new lookups_ok attachments_ok delete_ok list_instances_ok launch_ok)
  with assms(2) show ?thesis by (simp add: caches_ok_def)
qed

theorem cached_instances_live_witness:
  "\<exists>dc i e. caches_reach dc \<and> lc_items (dc_instances dc) ''i1'' = Some (i, e) \<and> ii_instance i = plain_instance
     \<and> ins_state (ii_instance i) \<noteq> Terminated \<and> e = None"
proof -
  let ?dc = "snd (get_instance 0 (Ok (plain_instance, Some ''t'')) ''i1'' new_drift_caches)"
  have r: "caches_reach ?dc" by (intro caches_reach.intros)
  have l: "lc_items (dc_instances ?dc) ''i1'' = Some (\<lparr>ii_instance = plain_instance, ii_etag = ''t''\<rparr>, None)"
    by (simp add: get_instance_def get_instance_impl_def cache_refresh_def cache_load_def evict_instance_if_gone_def
        is_instance_terminated_def plain_instance_def cache_set_def new_drift_caches_def new_non_expiring_cache_def
        new_load_cache_def)
  from cached_instances_live [OF r l] r l show ?thesis by (intro exI [of _ ?dc]) auto
qed

subsection \<open>What a listing leaves\<close>

abbreviation cache_listed :: "int \<Rightarrow> oci_instance \<Rightarrow> drift_caches \<Rightarrow> drift_caches" where
  "cache_listed now i \<equiv> cache_instance now \<lparr>ii_instance = i, ii_etag = []\<rparr>"

lemma list_compartment_Ok:
  assumes "list_compartment now fetch acc page dc = Some (Ok ys, dc')"
  shows "\<exists>js. ys = acc @ js \<and> dc' = fold (cache_listed now) js dc \<and> (\<forall>i \<in> set js. keep_listed i)"
proof -
  have "\<forall>ys dc'. r = (Ok ys, dc') \<longrightarrow>
      (\<exists>js. ys = acc @ js \<and> dc' = fold (cache_listed now) js dc \<and> (\<forall>i \<in> set js. keep_listed i))"
    if "list_compartment now fetch acc page dc = Some r" for r
  proof (rule list_compartment.raw_induct [OF _ that])
    fix rec now fetch acc page dc and r :: "(err, oci_instance list) go \<times> drift_caches"
    assume IH: "\<And>now fetch acc page dc r. rec now fetch acc page dc = Some r \<Longrightarrow>
        \<forall>ys dc'. r = (Ok ys, dc') \<longrightarrow>
          (\<exists>js. ys = acc @ js \<and> dc' = fold (cache_listed now) js dc \<and> (\<forall>i \<in> set js. keep_listed i))"
      and eq: "(case fetch page of
          Ok r \<Rightarrow>
            (case snd r of
               None \<Rightarrow> Some (Ok (acc @ filter keep_listed (fst r)),
                   fold (cache_listed now) (filter keep_listed (fst r)) dc)
             | Some p \<Rightarrow> rec now fetch (acc @ filter keep_listed (fst r)) (Some p)
                   (fold (cache_listed now) (filter keep_listed (fst r)) dc))
        | Fail e \<Rightarrow> Some (Fail e, dc) | Panic \<Rightarrow> Some (Panic, dc) | Hang \<Rightarrow> Some (Hang, dc)) = Some r"
    show "\<forall>ys dc'. r = (Ok ys, dc') \<longrightarrow>
        (\<exists>js. ys = acc @ js \<and> dc' = fold (cache_listed now) js dc \<and> (\<forall>i \<in> set js. keep_listed i))"
    proof (cases "fetch page")
      case (Ok q)
      show ?thesis
      proof (cases "snd q")
        case None
        with Ok eq show ?thesis by (auto intro!: exI [of _ "filter keep_listed (fst q)"])
      next
        case (Some p)
        show ?thesis
        proof (intro allI impI)
          fix ys dc'
          assume "r = (Ok ys, dc')"
          with Ok Some eq have "rec now fetch (acc @ filter keep_listed (fst q)) (Some p)
              (fold (cache_listed now) (filter keep_listed (fst q)) dc) = Some (Ok ys, dc')" by simp
          from IH [OF this] obtain js where "ys = (acc @ filter keep_listed (fst q)) @ js"
            "dc' = fold (cache_listed now) js (fold (cache_listed now) (filter keep_listed (fst q)) dc)"
            "\<forall>i \<in> set js. keep_listed i" by blast
          then show "\<exists>js. ys = acc @ js \<and> dc' = fold (cache_listed now) js dc \<and> (\<forall>i \<in> set js. keep_listed i)"
            by (intro exI [of _ "filter keep_listed (fst q) @ js"]) auto
        qed
      qed
    qed (use eq in auto)
  qed
  with assms show ?thesis by blast
qed

lemma list_compartments_Ok:
  "list_compartments now api own cs listed dc = (Ok is, dc') \<Longrightarrow>
     dc' = fold (cache_listed now) is dc \<and> (\<forall>i \<in> set is. keep_listed i)"
proof (induction cs arbitrary: listed dc "is" dc')
  case (Cons c cs)
  define c' where "c' = (if c = [] then own else c)"
  show ?case
  proof (cases "c' \<in> set listed")
    case True
    with Cons.prems have "list_compartments now api own cs listed dc = (Ok is, dc')"
      by (simp add: Let_def c'_def)
    then show ?thesis by (rule Cons.IH)
  next
    case False
    with Cons.prems obtain js d ks where
      "list_compartment now (api c') [] None dc = Some (Ok js, d)"
      "list_compartments now api own cs (c' # listed) d = (Ok ks, dc')" "is = js @ ks"
      by (auto simp: Let_def c'_def st_bind_Ok_iff split: option.splits)
    with list_compartment_Ok Cons.IH show ?thesis by fastforce
  qed
qed simp

lemma cache_listed_items:
  assumes "keep_listed i"
  shows "\<exists>e. lc_items (dc_instances (cache_listed now i dc)) =
      (lc_items (dc_instances dc))(the (ins_id i) \<mapsto> (\<lparr>ii_instance = i, ii_etag = []\<rparr>, e))"
    "dc_vnic_atts (cache_listed now i dc) = dc_vnic_atts dc" "dc_boot_atts (cache_listed now i dc) = dc_boot_atts dc"
  using assms
  by (auto simp: cache_instance_def keep_listed_def is_instance_terminated_def cache_set_def split: option.splits)

lemma fold_cache_listed:
  assumes "\<forall>i \<in> set is. keep_listed i"
  shows "dc_vnic_atts (fold (cache_listed now) is dc) = dc_vnic_atts dc
    \<and> dc_boot_atts (fold (cache_listed now) is dc) = dc_boot_atts dc
    \<and> (\<forall>k. Some k \<in> ins_id ` set is \<longrightarrow>
         (\<exists>i \<in> set is. \<exists>e. ins_id i = Some k
            \<and> lc_items (dc_instances (fold (cache_listed now) is dc)) k = Some (\<lparr>ii_instance = i, ii_etag = []\<rparr>, e)))
    \<and> (\<forall>k. Some k \<notin> ins_id ` set is \<longrightarrow>
         lc_items (dc_instances (fold (cache_listed now) is dc)) k = lc_items (dc_instances dc) k)"
  using assms
proof (induction "is" rule: rev_induct)
  case (snoc i js)
  let ?d = "fold (cache_listed now) js dc"
  have i: "keep_listed i" using snoc.prems by simp
  then obtain k0 where k0: "ins_id i = Some k0" by (auto simp: keep_listed_def)
  obtain e where e: "lc_items (dc_instances (cache_listed now i ?d)) =
      (lc_items (dc_instances ?d))(k0 \<mapsto> (\<lparr>ii_instance = i, ii_etag = []\<rparr>, e))"
    using cache_listed_items(1) [OF i, of now ?d] k0 by auto
  have IH: "dc_vnic_atts ?d = dc_vnic_atts dc" "dc_boot_atts ?d = dc_boot_atts dc"
    "\<And>k. Some k \<in> ins_id ` set js \<Longrightarrow> \<exists>i \<in> set js. \<exists>e. ins_id i = Some k
        \<and> lc_items (dc_instances ?d) k = Some (\<lparr>ii_instance = i, ii_etag = []\<rparr>, e)"
    "\<And>k. Some k \<notin> ins_id ` set js \<Longrightarrow> lc_items (dc_instances ?d) k = lc_items (dc_instances dc) k"
    using snoc.IH snoc.prems by (simp_all add: image_iff)
  have in_js: "\<exists>i' \<in> set (js @ [i]). \<exists>e'. ins_id i' = Some k
        \<and> lc_items (dc_instances (cache_listed now i ?d)) k = Some (\<lparr>ii_instance = i', ii_etag = []\<rparr>, e')"
    if "Some k \<in> ins_id ` set (js @ [i])" for k
  proof (cases "k = k0")
    case True
    then show ?thesis using e k0 by auto
  next
    case False
    with that k0 have "Some k \<in> ins_id ` set js" by auto
    from IH(3) [OF this] False e show ?thesis by auto
  qed
  have out: "lc_items (dc_instances (cache_listed now i ?d)) k = lc_items (dc_instances dc) k"
    if "Some k \<notin> ins_id ` set (js @ [i])" for k
    using that IH(4) [of k] e k0 by (auto simp: image_iff)
  have step: "fold (cache_listed now) (js @ [i]) dc = cache_listed now i ?d" by simp
  have same: "dc_vnic_atts (cache_listed now i ?d) = dc_vnic_atts dc \<and> dc_boot_atts (cache_listed now i ?d) = dc_boot_atts dc"
    using IH(1,2) cache_listed_items(2,3) [OF i, of now ?d] by simp
  show ?case unfolding step using same in_js out by blast
qed simp

text \<open>
  C36. A listing that succeeds makes the cache of instances equal to what was listed: every cached
  instance is one of those returned, under its own OCID and without an entity tag, every returned
  instance is cached and belongs to a node pool, and no attachments of other instances stay behind,
  while those of the listed ones do.
\<close>

theorem listing_synchronises_caches:
  assumes "list_instances env cs p = (Ok is, p')" "caches_finite (inp_caches p)" "order_ok (le_order env)"
  shows "dom (lc_items (dc_instances (inp_caches p'))) = {k. Some k \<in> ins_id ` set is}
    \<and> (\<forall>k \<in> dom (lc_items (dc_instances (inp_caches p'))). \<exists>i \<in> set is. \<exists>e. ins_id i = Some k
        \<and> lc_items (dc_instances (inp_caches p')) k = Some (\<lparr>ii_instance = i, ii_etag = []\<rparr>, e))
    \<and> (\<forall>i \<in> set is. NodePool_of_instance i \<noteq> None \<and> ins_id i \<noteq> None \<and> ins_state i \<noteq> Terminated)
    \<and> lc_items (dc_vnic_atts (inp_caches p')) = lc_items (dc_vnic_atts (inp_caches p)) |` {k. Some k \<in> ins_id ` set is}
    \<and> lc_items (dc_boot_atts (inp_caches p')) = lc_items (dc_boot_atts (inp_caches p)) |` {k. Some k \<in> ins_id ` set is}"
proof -
  define seen where "seen = (\<lambda>k. Some k \<in> ins_id ` set is)"
  from assms(1) obtain d where d:
    "list_compartments (le_now env) (co_list (le_api env)) (inp_compartment p) cs [] (inp_caches p) = (Ok is, d)"
    "inp_caches p' = evict_unseen (le_order env) seen d"
    by (auto simp: list_instances_def seen_def split: prod.splits go.splits)
  note l = list_compartments_Ok [OF d(1)]
  note f = fold_cache_listed [OF conjunct2 [OF l], of "le_now env" "inp_caches p", folded conjunct1 [OF l]]
  have "dom (lc_items (dc_instances d)) \<subseteq> dom (lc_items (dc_instances (inp_caches p))) \<union> the ` ins_id ` set is"
  proof
    fix k assume k: "k \<in> dom (lc_items (dc_instances d))"
    show "k \<in> dom (lc_items (dc_instances (inp_caches p))) \<union> the ` ins_id ` set is"
    proof (cases "Some k \<in> ins_id ` set is")
      case True
      then show ?thesis by (metis UnI2 image_eqI option.sel)
    next
      case False
      with f have "lc_items (dc_instances d) k = lc_items (dc_instances (inp_caches p)) k" by blast
      with k show ?thesis by (metis UnI1 domD domI)
    qed
  qed
  then have fin: "caches_finite d"
    using assms(2) f by (auto simp: caches_finite_def dest: finite_subset)
  note u = evict_unseen_spec [OF assms(3) fin, of seen, folded d(2)]
  have i: "lc_items (dc_instances (inp_caches p')) k =
      (if Some k \<in> ins_id ` set is then lc_items (dc_instances d) k else None)" for k
    using u(1) by (simp add: restrict_map_def seen_def)
  have dom: "dom (lc_items (dc_instances (inp_caches p'))) = {k. Some k \<in> ins_id ` set is}"
    using f by (auto simp: i dom_def)
  moreover have "\<exists>i \<in> set is. \<exists>e. ins_id i = Some k
        \<and> lc_items (dc_instances (inp_caches p')) k = Some (\<lparr>ii_instance = i, ii_etag = []\<rparr>, e)"
    if "k \<in> dom (lc_items (dc_instances (inp_caches p')))" for k
    using that f unfolding dom by (simp add: i)
  moreover have "NodePool_of_instance i \<noteq> None \<and> ins_id i \<noteq> None \<and> ins_state i \<noteq> Terminated" if "i \<in> set is" for i
    using l that by (auto simp: keep_listed_def)
  ultimately show ?thesis using u(2,3) f by (simp add: seen_def)
qed

lemma order_exists: "\<exists>order. order_ok order"
proof -
  have "\<exists>order. \<forall>K :: string set. finite K \<longrightarrow> set (order K) = K"
    by (rule choice) (metis finite_list)
  then show ?thesis by (auto simp: order_ok_def)
qed

theorem listing_synchronises_caches_witness:
  "\<exists>env is p'. list_instances env [''c1''] sample_provider = (Ok is, p') \<and> length is = 1
     \<and> dom (lc_items (dc_instances (inp_caches p'))) = {''i1''}"
proof -
  obtain order where order: "order_ok order" using order_exists by blast
  let ?i = "plain_instance\<lparr>ins_freeform := [(NodePoolTagKey, ''pool'')]\<rparr>"
  let ?env = "sample_env\<lparr>le_order := order, le_api := (le_api sample_env)\<lparr>co_list := (\<lambda>c q. Ok ([plain_instance, ?i], None))\<rparr>\<rparr>"
  have kept: "filter keep_listed [plain_instance, ?i] = [?i]"
    by (simp add: keep_listed_def NodePool_of_instance_def plain_instance_def)
  have "list_compartment 0 (\<lambda>q. Ok ([plain_instance, ?i], None)) [] None dc = Some (Ok [?i], cache_listed 0 ?i dc)" for dc
    by (simp add: list_compartment.simps kept del: filter.simps)
  then have "\<exists>p'. list_instances ?env [''c1''] sample_provider = (Ok [?i], p')"
    by (simp add: list_instances_def sample_env_def sample_provider_def)
  then obtain p' where p': "list_instances ?env [''c1''] sample_provider = (Ok [?i], p')" ..
  have fin: "caches_finite (inp_caches sample_provider)"
    using caches_ok_new by (simp add: sample_provider_def caches_ok_def)
  have ord: "order_ok (le_order ?env)" using order by simp
  have "dom (lc_items (dc_instances (inp_caches p'))) = {k. Some k \<in> ins_id ` set [?i]}"
    using listing_synchronises_caches [OF p' fin ord] by (rule conjunct1)
  also have "\<dots> = {''i1''}" by (simp add: plain_instance_def)
  finally show ?thesis using p' by (intro exI conjI) (assumption, simp, assumption)
qed

end
