(* ===== verification/Native_Pod_Network.thy ===== *)
theory Native_Pod_Network
  imports Network_Families Utils
begin

section \<open>The native pod network of an instance\<close>

text \<open>
  \<open>pkg/providers/npn/provider.go\<close> and \<open>vnic_config.go\<close>: the custom resource that tells the cluster
  which secondary VNICs an instance is to get.  The lists of the resolved network hold no nil
  elements (\<open>pkg/providers/network\<close> puts none in).  Logging is left out.
\<close>

record npn_vnic_details =
  nvd_subnet :: "string option"
  nvd_assign_ipv6 :: "bool option"
  nvd_assign_public :: "bool option"
  nvd_name :: string
  nvd_ip_count :: int
  nvd_applications :: "string list"
  nvd_security :: defined_tags
  nvd_ipv6_cidrs :: "string list"
  nvd_nsgs :: "string list"
  nvd_skip_check :: bool

record npn_vnic =
  nv_name :: string
  nv_nic_index :: "int option"
  nv_details :: npn_vnic_details

record npn_spec =
  nps_id :: string
  nps_max_pods :: int
  nps_families :: "ip_family list"
  nps_vnics :: "npn_vnic list"

record npn_object =
  npn_name :: string
  npn_spec :: npn_spec

record npn_provider =
  np_cluster :: bool
  np_families :: "ip_family list"

definition new_npn_provider :: "bool \<Rightarrow> ip_family list \<Rightarrow> npn_provider" where
  "new_npn_provider cluster fs = \<lparr>np_cluster = cluster, np_families = fs\<rparr>"

definition map_value_string_to_interface :: "defined_tags \<Rightarrow> defined_tags" where
  "map_value_string_to_interface m = map (\<lambda>(k, v). (k, map (\<lambda>(ki, vi). (ki, vi)) v)) m"

definition to_npn_cidr_pairs :: "string list \<Rightarrow> string list" where
  "to_npn_cidr_pairs cs = (if 0 < length cs then map (\<lambda>c. c) cs else [])"

definition npn_vnic_of ::
  "int \<Rightarrow> nat \<Rightarrow> secondary_vnic_config \<Rightarrow> subnet_and_nsgs \<Rightarrow> (err, npn_vnic) go" where
  "npn_vnic_of dflt index c net =
     (let name = (case svc_display_name c of None \<Rightarrow> ''SVnic '' @ show_nat index | Some n \<Rightarrow> n)
      in map_ok (\<lambda>sn.
           \<lparr>nv_name = name, nv_nic_index = svn_nic_index c,
            nv_details = \<lparr>nvd_subnet = sub_id sn, nvd_assign_ipv6 = svc_assign_ipv6 c, nvd_assign_public = svc_assign_public c,
              nvd_name = name, nvd_ip_count = (case svn_ip_count c of None \<Rightarrow> dflt | Some n \<Rightarrow> n),
              nvd_applications = (case svn_application c of None \<Rightarrow> [] | Some a \<Rightarrow> [a]),
              nvd_security = map_value_string_to_interface (svc_security c),
              nvd_ipv6_cidrs = to_npn_cidr_pairs (svc_ipv6_cidrs c),
              nvd_nsgs = nsg_ids net,
              nvd_skip_check = (case svc_skip_check c of None \<Rightarrow> True | Some b \<Rightarrow> b)\<rparr>\<rparr>)
         (deref (sans_subnet net)))"

text \<open>The loop over the configurations reads the resolved networks by index.\<close>

fun npn_vnics ::
  "int \<Rightarrow> nat \<Rightarrow> secondary_vnic_config list \<Rightarrow> subnet_and_nsgs list \<Rightarrow> (err, npn_vnic list) go" where
  "npn_vnics dflt index [] nets = Ok []"
| "npn_vnics dflt index (c # cs) nets =
     go_bind (index_go nets index) (\<lambda>net.
     go_bind (npn_vnic_of dflt index c net) (\<lambda>v.
     map_ok (\<lambda>vs. v # vs) (npn_vnics dflt (Suc index) cs nets)))"

definition construct_npn_spec ::
  "npn_provider \<Rightarrow> string \<Rightarrow> secondary_vnic_config list \<Rightarrow> network_resolve_result option \<Rightarrow> kubelet_config option
    \<Rightarrow> (err, npn_spec) go" where
  "construct_npn_spec p instanceId configs neto kubelet =
     (if length configs = 0 then Fail (ErrText ''secondary vnics configs are nil or empty'')
      else
        (case neto of
           None \<Rightarrow> Fail (ErrText ''secondary vnics networks are not resolved'')
         | Some net \<Rightarrow>
             if length (nrr_others net) = 0 then Fail (ErrText ''secondary vnics networks are not resolved'')
             else
               (let dflt = default_secondary_vnic_ip_count (np_families p)
                in map_ok (\<lambda>vs. \<lparr>nps_id = instanceId, nps_max_pods = kubelet_max_pods kubelet configs dflt,
                       nps_families = np_families p, nps_vnics = vs\<rparr>)
                     (npn_vnics dflt 0 configs (nrr_others net)))))"

definition create_npn_object ::
  "npn_provider \<Rightarrow> string \<Rightarrow> string \<Rightarrow> network_config \<Rightarrow> network_resolve_result option \<Rightarrow> kubelet_config option
    \<Rightarrow> (err, npn_object) go" where
  "create_npn_object p name instanceId cfg neto kubelet =
     (if length (nc_secondary cfg) = 0
      then Fail (ErrText ''need to specify list of SecondaryVnicConfigs for NativePodNetworking'')
      else map_ok (\<lambda>s. \<lparr>npn_name = name, npn_spec = s\<rparr>)
             (construct_npn_spec p instanceId (nc_secondary cfg) neto kubelet))"

definition name_for_instance :: "string \<Rightarrow> string" where
  "name_for_instance ocid = last (split_on (CHR ''.'') ocid)"

text \<open>The instance and the node class are pointers, and so is the OCID; the network configuration of a
  node class of this model is always there.\<close>

definition create_npn_custom_object ::
  "npn_provider \<Rightarrow> oci_instance option \<Rightarrow> node_class_spec option \<Rightarrow> network_resolve_result option
    \<Rightarrow> (err, npn_object) go" where
  "create_npn_custom_object p io so neto =
     (case io of
        None \<Rightarrow> Fail (ErrText ''empty instance OCID'')
      | Some i \<Rightarrow>
          (case ins_id i of
             None \<Rightarrow> Fail (ErrText ''empty instance OCID'')
           | Some ocid \<Rightarrow>
               (case so of
                  None \<Rightarrow> Fail (ErrText ''network config is nil'')
                | Some spec \<Rightarrow>
                    create_npn_object p (name_for_instance ocid) ocid (ncs_network spec) neto (ncs_kubelet spec))))"

subsection \<open>What the object says\<close>

lemma npn_vnic_of_Ok:
  "npn_vnic_of dflt index c net = Ok v \<Longrightarrow>
     (\<exists>sn. sans_subnet net = Some sn \<and> nvd_subnet (nv_details v) = sub_id sn) \<and> nvd_nsgs (nv_details v) = nsg_ids net
     \<and> nvd_ip_count (nv_details v) = from_ptr dflt (svn_ip_count c) \<and> nv_nic_index v = svn_nic_index c
     \<and> nvd_assign_public (nv_details v) = svc_assign_public c \<and> nvd_assign_ipv6 (nv_details v) = svc_assign_ipv6 c
     \<and> nv_name v = nvd_name (nv_details v)
     \<and> nv_name v = from_ptr (''SVnic '' @ show_nat index) (svc_display_name c)"
  by (auto simp: npn_vnic_of_def Let_def map_ok_eq_Ok_iff deref_eq_Ok_iff split: option.splits)

lemma npn_vnics_Ok:
  "npn_vnics dflt index cs nets = Ok vs \<Longrightarrow>
     length vs = length cs \<and> index + length cs \<le> max index (length nets)
     \<and> (\<forall>j < length cs. npn_vnic_of dflt (index + j) (cs ! j) (nets ! (index + j)) = Ok (vs ! j))"
proof (induction dflt index cs nets arbitrary: vs rule: npn_vnics.induct)
  case (2 dflt index c cs nets)
  from 2(2) obtain net v ws where w: "index_go nets index = (Ok net :: (err, _) go)" "npn_vnic_of dflt index c net = Ok v"
    "npn_vnics dflt (Suc index) cs nets = Ok ws" "vs = v # ws"
    by (auto simp: go_bind_eq_Ok_iff map_ok_eq_Ok_iff)
  then have i: "index < length nets" "net = nets ! index" by (auto simp: index_go_def split: if_splits)
  note IH = 2(1) [OF w(3)]
  show ?case
  proof (intro conjI allI impI)
    show "length vs = length (c # cs)" "index + length (c # cs) \<le> max index (length nets)" using IH w i by auto
    fix j assume "j < length (c # cs)"
    then show "npn_vnic_of dflt (index + j) ((c # cs) ! j) (nets ! (index + j)) = Ok (vs ! j)"
      using IH w i by (cases j) auto
  qed
qed simp

lemma single_ipv6: "is_ipv6_single_stack fs \<longleftrightarrow> fs = [IPv6]"
  by (cases fs) (auto simp: is_ipv6_single_stack_def)


definition example_secondary :: secondary_vnic_config where
  "example_secondary = \<lparr>svc_subnet_and_nsg = None, svc_assign_ipv6 = None, svc_assign_public = None, svc_display_name = None,
     svc_ipv6_cidrs = [], svc_skip_check = None, svc_security = [], svn_application = None, svn_ip_count = Some 16,
     svn_nic_index = None\<rparr>"

definition resolved_subnet :: "string \<Rightarrow> subnet_and_nsgs" where
  "resolved_subnet k = \<lparr>sans_subnet = Some \<lparr>sub_id = Some k, sub_ad = None, sub_vcn = None,
     sub_cidr = None, sub_ipv4_blocks = [], sub_ipv6_cidr = None, sub_ipv6_blocks = [], sub_name = [],
     sub_freeform = [], sub_defined = []\<rparr>, sans_nsgs = [], sans_ipv6 = None, sans_ipv4 = None\<rparr>"


end
