(* ===== verification/Drift.thy ===== *)
theory Drift
  imports Instance_Provider
begin

section \<open>Drift\<close>

text \<open>
  \<open>pkg/cloudprovider/drift.go\<close>: what makes a running instance differ from what its node class asks
  for.  A reason is a string, the empty one is no drift.  VNICs and boot volumes are fetched through
  a function the caller gives, which has a state of its own.  \<open>order\<close> is the order in which a Go
  map is walked.
\<close>

record desired_state =
  ds_type :: oci_instance_type
  ds_compartment :: string
  ds_image :: oci_image
  ds_class :: node_class
  ds_capres :: "string list"

definition CapacityReservationMismatch :: string where "CapacityReservationMismatch = ''CapacityReservationMismatch''"
definition ClusterPlacementGroupMismatch :: string where "ClusterPlacementGroupMismatch = ''ClusterPlacementGroupMismatch''"
definition LaunchOptionMisMatch :: string where "LaunchOptionMisMatch = ''LaunchOptionMismatch''"

subsection \<open>The instance\<close>

text \<open>A field that is not set is not compared, and only a comparison reads through the actual options.\<close>

definition option_differs ::
  "(launch_options \<Rightarrow> 'a option) \<Rightarrow> launch_options \<Rightarrow> launch_options option \<Rightarrow> (err, bool) go" where
  "option_differs sel desired actual =
     (if sel desired = None then Ok False else map_ok (\<lambda>a. sel desired \<noteq> sel a) (deref actual))"

definition is_launch_option_mismatch :: "launch_options option \<Rightarrow> launch_options option \<Rightarrow> (err, bool) go" where
  "is_launch_option_mismatch desired actual =
     (case desired of
        None \<Rightarrow> Ok False
      | Some d \<Rightarrow>
          go_bind (option_differs lo_boot_volume d actual) (\<lambda>b. if b then Ok True else
          go_bind (option_differs lo_firmware d actual) (\<lambda>b. if b then Ok True else
          go_bind (option_differs lo_network d actual) (\<lambda>b. if b then Ok True else
          go_bind (option_differs lo_remote_volume d actual) (\<lambda>b. if b then Ok True else
          option_differs lo_consistent_naming d actual)))))"

definition capres_mismatch :: "desired_state \<Rightarrow> oci_instance \<Rightarrow> bool" where
  "capres_mismatch d i =
     (if length (ds_capres d) = 0 then ins_capres i \<noteq> None
      else (case ins_capres i of None \<Rightarrow> True | Some r \<Rightarrow> r \<notin> set (ds_capres d)))"

definition cpg_mismatch :: "desired_state \<Rightarrow> oci_instance \<Rightarrow> bool" where
  "cpg_mismatch d i =
     (let resolved = ncst_cpgs (ncl_status (ds_class d))
      in if 0 < length resolved \<and> ins_cpg i = None then True
         else if length (ncs_cpgs (ncl_spec (ds_class d))) = 0 \<and> ins_cpg i \<noteq> None then True
         else (case ins_cpg i of None \<Rightarrow> False | Some g \<Rightarrow> \<not> (\<exists>item \<in> set resolved. nr_id item = g)))"

definition is_instance_drifted :: "desired_state \<Rightarrow> oci_instance \<Rightarrow> (err, string) go" where
  "is_instance_drifted d i =
     (if ins_compartment i \<noteq> ds_compartment d then Ok ''instanceCompartmentMismatch''
      else
        go_bind (if it_shape_config (ds_type d) then instance_drifted_from_type i (ds_type d) else Ok []) (\<lambda>reason.
          if reason \<noteq> [] then Ok reason
          else
            (case ins_source i of
               ViaBootVolume b \<Rightarrow> Fail (ErrText ''i should have image source detail'')
             | ViaImage img \<Rightarrow>
                 if img \<noteq> img_id (ds_image d) then Ok ''imageMismatch''
                 else if capres_mismatch d i then Ok CapacityReservationMismatch
                 else if cpg_mismatch d i then Ok ClusterPlacementGroupMismatch
                 else map_ok (\<lambda>b. if b then LaunchOptionMisMatch else [])
                        (is_launch_option_mismatch (build_launch_options (ncs_launch_options (ncl_spec (ds_class d))))
                           (ins_launch_options i)))))"

subsection \<open>The network\<close>

type_synonym 's get_vnic_func = "string \<Rightarrow> 's \<Rightarrow> (err, oci_vnic) go \<times> 's"

text \<open>Every group that is asked for must be there; others may be there too.\<close>

definition is_vnic_nsg_ids_match :: "vnic_status \<Rightarrow> oci_vnic \<Rightarrow> bool" where
  "is_vnic_nsg_ids_match want vnic =
     (if 0 < length (vs_nsgs want) then (\<forall>g \<in> set (vs_nsgs want). nr_id g \<in> set (vnic_nsgs vnic)) else True)"

fun find_primary_vnic ::
  "'s get_vnic_func \<Rightarrow> string \<Rightarrow> vnic_attachment list \<Rightarrow> 's \<Rightarrow> (err, oci_vnic option) go \<times> 's" where
  "find_primary_vnic getVnic subnet [] s = (Ok None, s)"
| "find_primary_vnic getVnic subnet (va # vas) s =
     (if vat_subnet va = subnet
      then
        st_bind (deref (vat_vnic va), s) (\<lambda>v s.
        st_bind (getVnic v s) (\<lambda>vnic s.
        st_bind (deref (vnic_primary vnic), s) (\<lambda>primary s.
          if primary then (Ok (Some vnic), s) else find_primary_vnic getVnic subnet vas s)))
      else find_primary_vnic getVnic subnet vas s)"

fun secondary_vnics ::
  "'s get_vnic_func \<Rightarrow> vnic_attachment list \<Rightarrow> (string \<times> oci_vnic) list \<Rightarrow> 's
    \<Rightarrow> (err, (string \<times> oci_vnic) list) go \<times> 's" where
  "secondary_vnics getVnic [] m s = (Ok m, s)"
| "secondary_vnics getVnic (va # vas) m s =
     st_bind (deref (vat_vnic va), s) (\<lambda>v s.
     st_bind (getVnic v s) (\<lambda>vnic s.
       secondary_vnics getVnic vas
         (if vnic_primary vnic \<noteq> Some True then AList.update v vnic m else m) s))"

definition secondary_matches :: "vnic_status \<Rightarrow> oci_vnic \<Rightarrow> bool" where
  "secondary_matches want vnic \<longleftrightarrow> nr_id (vs_subnet want) = vnic_subnet vnic \<and> is_vnic_nsg_ids_match want vnic"

type_synonym vnic_order = "(string \<times> oci_vnic) list \<Rightarrow> (string \<times> oci_vnic) list"

text \<open>The first VNIC of the walk that fits is taken, and out of the map by its own OCID.\<close>

fun match_secondary :: "vnic_order \<Rightarrow> vnic_status list \<Rightarrow> (string \<times> oci_vnic) list \<Rightarrow> string" where
  "match_secondary order [] m = []"
| "match_secondary order (want # wants) m =
     (case List.find (\<lambda>(k, vnic). secondary_matches want vnic) (order m) of
        None \<Rightarrow> ''SecondaryVnicNsgIdsMismatch''
      | Some (k, vnic) \<Rightarrow> match_secondary order wants (AList.delete (vnic_id vnic) m))"

definition is_secondary_drifted ::
  "vnic_order \<Rightarrow> 's get_vnic_func \<Rightarrow> vnic_attachment list \<Rightarrow> vnic_status list \<Rightarrow> 's \<Rightarrow> (err, string) go \<times> 's" where
  "is_secondary_drifted order getVnic atts wants s =
     st_bind (secondary_vnics getVnic atts [] s) (\<lambda>m s.
       if length m \<noteq> length wants then (Ok ''SecondaryVnicsNumberMismatch'', s)
       else (Ok (match_secondary order wants m), s))"

definition attached_to_check :: "vnic_attachment list \<Rightarrow> vnic_attachment list" where
  "attached_to_check atts = filter (\<lambda>a. vat_attached a \<and> vat_vnic a \<noteq> None) atts"

definition is_network_drifted ::
  "vnic_order \<Rightarrow> desired_state \<Rightarrow> vnic_attachment list \<Rightarrow> 's get_vnic_func \<Rightarrow> bool \<Rightarrow> 's \<Rightarrow> (err, string) go \<times> 's" where
  "is_network_drifted order d atts getVnic skipSecondary s =
     st_bind (deref (ncst_network (ncl_status (ds_class d))), s) (\<lambda>net s.
     (case ns_primary net of
        None \<Rightarrow> if attached_to_check atts = [] then (Ok ''PrimaryVnicMismatch'', s) else (Panic, s)
      | Some want \<Rightarrow>
          st_bind (find_primary_vnic getVnic (nr_id (vs_subnet want)) (attached_to_check atts) s) (\<lambda>primary s.
            (case primary of
               None \<Rightarrow> (Ok ''PrimaryVnicMismatch'', s)
             | Some vnic \<Rightarrow>
                 if \<not> is_vnic_nsg_ids_match want vnic then (Ok ''PrimaryVnicNsgIdsMismatch'', s)
                 else if \<not> skipSecondary \<and> 0 < length (ns_secondary net)
                 then is_secondary_drifted order getVnic (attached_to_check atts) (ns_secondary net) s
                 else (Ok [], s)))))"

subsection \<open>The boot volume\<close>

text \<open>\<open>lo.MinBy\<close>: the first of the oldest.\<close>

fun oldest_attachment :: "boot_attachment \<Rightarrow> boot_attachment list \<Rightarrow> boot_attachment" where
  "oldest_attachment a [] = a"
| "oldest_attachment a (b # bs) = oldest_attachment (if bva_created b < bva_created a then b else a) bs"

definition is_boot_volume_drifted ::
  "desired_state \<Rightarrow> boot_attachment list \<Rightarrow> (string \<Rightarrow> 's \<Rightarrow> (err, boot_volume) go \<times> 's) \<Rightarrow> 's
    \<Rightarrow> (err, string) go \<times> 's" where
  "is_boot_volume_drifted d atts getVolume s =
     (case atts of
        [] \<Rightarrow> (Ok ''BootVolumeMismatch'', s)
      | a # as \<Rightarrow>
          (let first = oldest_attachment a as; cfg = vc_boot (ncs_volume (ncl_spec (ds_class d)))
           in if bv_pv_encryption cfg \<noteq> None \<and> bv_pv_encryption cfg \<noteq> bva_pv_encryption first
              then (Ok ''PvEncryptionInTransitionMismatch'', s)
              else
                st_bind (deref (bva_volume first), s) (\<lambda>v s.
                st_bind (getVolume v s) (\<lambda>vol s.
                  if (case va_size cfg of None \<Rightarrow> False | Some n \<Rightarrow> bvol_size vol < n)
                  then (Ok ''BootVolumeSizeMismatch'', s)
                  else if (case va_kms cfg of None \<Rightarrow> False | Some k \<Rightarrow> kms_id k \<noteq> None \<and> bvol_kms vol \<noteq> kms_id k)
                  then (Ok ''kmsKeyMismatch'', s)
                  else if va_vpus cfg \<noteq> None \<and> bvol_vpus vol \<noteq> va_vpus cfg
                  then (Ok ''VpusPerGbMismatch'', s)
                  else (Ok [], s)))))"

subsection \<open>The static fields\<close>

definition are_static_fields_drifted :: "node_claim \<Rightarrow> node_class \<Rightarrow> string" where
  "are_static_fields_drifted claim cls =
     (case (map_of (ncl_annotations cls) NodeClassHash, map_of (ncl_annotations cls) NodeClassHashVersion,
            map_of (nc_annotations claim) NodeClassHash, map_of (nc_annotations claim) NodeClassHashVersion) of
        (Some h, Some v, Some h', Some v') \<Rightarrow>
          (if v \<noteq> v' then ''NodeClassVersionDrift'' else if h \<noteq> h' then ''NodeClassStaticFieldDrift'' else [])
      | _ \<Rightarrow> [])"

end
