(* ===== verification/Drift_Laws.thy ===== *)
theory Drift_Laws
  imports Drift
begin

section \<open>When drift is reported\<close>

text \<open>
  The checks of theory \<open>Drift\<close> on one instance: when they report nothing, and what the
  matching of secondary VNICs guarantees and what it does not.
\<close>

subsection \<open>The instance\<close>

definition shape_known :: "oci_instance \<Rightarrow> bool" where
  "shape_known i \<longleftrightarrow> pred_option (\<lambda>c. isc_ocpus c \<noteq> None \<and> isc_memory c \<noteq> None) (ins_shape_config i)"

definition shape_as_type :: "oci_instance \<Rightarrow> oci_instance_type \<Rightarrow> bool" where
  "shape_as_type i it \<longleftrightarrow> ins_shape i = it_shape it \<and>
     (\<exists>c. ins_shape_config i = Some c \<and> (it_ocpu it = None \<or> it_ocpu it = isc_ocpus c)
        \<and> (it_memory it = None \<or> it_memory it = isc_memory c)
        \<and> (it_baseline it = None \<or> it_baseline it = Some (from_ptr BASELINE_1_1 (isc_baseline c))))"

definition options_as_asked :: "launch_options \<Rightarrow> launch_options \<Rightarrow> bool" where
  "options_as_asked d a \<longleftrightarrow> lo_boot_volume d \<in> {None, lo_boot_volume a} \<and> lo_firmware d \<in> {None, lo_firmware a}
     \<and> lo_network d \<in> {None, lo_network a} \<and> lo_remote_volume d \<in> {None, lo_remote_volume a}
     \<and> lo_consistent_naming d \<in> {None, lo_consistent_naming a}"

lemma type_drift_none:
  assumes "shape_known i" "it_shape_config it"
  shows "\<exists>r. instance_drifted_from_type i it = Ok r \<and> (r = [] \<longleftrightarrow> shape_as_type i it)"
proof -
  from type_drift_spec [OF assms(1) [unfolded shape_known_def], of it] obtain r where
    r: "instance_drifted_from_type i it = Ok r" and iff: "r = [] \<longleftrightarrow> ins_shape i = it_shape it \<and>
      (it_shape_config it \<longrightarrow>
        (\<exists>c. ins_shape_config i = Some c \<and>
           (it_ocpu it = None \<or> it_ocpu it = isc_ocpus c) \<and>
           (it_memory it = None \<or> it_memory it = isc_memory c) \<and>
           (it_baseline it = None \<or> it_baseline it = Some (from_ptr BASELINE_1_1 (isc_baseline c)))))"
    by (elim exE conjE) (rule that)
  from iff have "r = [] \<longleftrightarrow> shape_as_type i it"
    by (simp only: assms(2) shape_as_type_def simp_thms)
  with r show ?thesis by (intro exI [of _ r] conjI)
qed

lemma build_launch_options_copy: "build_launch_options slo = slo"
  by (cases slo) (simp_all add: build_launch_options_def)

lemma option_differs_Some: "option_differs sel d (Some a) = Ok (sel d \<notin> {None, sel a})"
  by (simp add: option_differs_def)

lemma launch_options_mismatch:
  "is_launch_option_mismatch (build_launch_options (Some d)) (Some a) = Ok (\<not> options_as_asked d a)"
  unfolding is_launch_option_mismatch_def build_launch_options_copy option_differs_Some options_as_asked_def
    option.case go_bind.simps
  by (simp del: insert_iff split: if_split)

text \<open>
  C20. No drift is reported for an instance exactly when it is in the compartment asked for, has the
  CPUs, memory and baseline its type states (for a type with a shape configuration), was made from
  the image that is current, sits in one of the reservations asked for, or in none where none is,
  in a placement group the node class resolves to where there are any, and has every launch option
  that is set.
\<close>

theorem no_instance_drift_iff:
  assumes "shape_known i" "ins_source i = ViaImage image_id" "ins_launch_options i = Some a"
  shows "is_instance_drifted d i = Ok [] \<longleftrightarrow>
    ins_compartment i = ds_compartment d
    \<and> (it_shape_config (ds_type d) \<longrightarrow> shape_as_type i (ds_type d))
    \<and> image_id = img_id (ds_image d)
    \<and> (case ins_capres i of None \<Rightarrow> ds_capres d = [] | Some r \<Rightarrow> r \<in> set (ds_capres d))
    \<and> (case ins_cpg i of
         None \<Rightarrow> ncst_cpgs (ncl_status (ds_class d)) = []
       | Some g \<Rightarrow> ncs_cpgs (ncl_spec (ds_class d)) \<noteq> [] \<and> g \<in> nr_id ` set (ncst_cpgs (ncl_status (ds_class d))))
    \<and> pred_option (\<lambda>o'. options_as_asked o' a) (ncs_launch_options (ncl_spec (ds_class d)))"
proof -
  have type: "\<exists>r. (if it_shape_config (ds_type d) then instance_drifted_from_type i (ds_type d) else Ok []) = Ok r
      \<and> (r = [] \<longleftrightarrow> (it_shape_config (ds_type d) \<longrightarrow> shape_as_type i (ds_type d)))"
    using type_drift_none [OF assms(1)] by auto
  then obtain r where r: "(if it_shape_config (ds_type d) then instance_drifted_from_type i (ds_type d) else Ok []) = Ok r"
    "r = [] \<longleftrightarrow> (it_shape_config (ds_type d) \<longrightarrow> shape_as_type i (ds_type d))" by blast
  have capres: "\<not> capres_mismatch d i \<longleftrightarrow> (case ins_capres i of None \<Rightarrow> ds_capres d = [] | Some r \<Rightarrow> r \<in> set (ds_capres d))"
    by (auto simp: capres_mismatch_def split: option.splits)
  have cpg: "\<not> cpg_mismatch d i \<longleftrightarrow> (case ins_cpg i of
         None \<Rightarrow> ncst_cpgs (ncl_status (ds_class d)) = []
       | Some g \<Rightarrow> ncs_cpgs (ncl_spec (ds_class d)) \<noteq> [] \<and> g \<in> nr_id ` set (ncst_cpgs (ncl_status (ds_class d))))"
    by (auto simp: cpg_mismatch_def Let_def image_iff split: option.splits)
  have options: "\<exists>b. is_launch_option_mismatch (build_launch_options (ncs_launch_options (ncl_spec (ds_class d))))
        (ins_launch_options i) = Ok b
      \<and> (\<not> b \<longleftrightarrow> pred_option (\<lambda>o'. options_as_asked o' a) (ncs_launch_options (ncl_spec (ds_class d))))"
    using assms(3) launch_options_mismatch
    by (cases "ncs_launch_options (ncl_spec (ds_class d))")
       (auto simp: is_launch_option_mismatch_def build_launch_options_def)
  have reasons: "CapacityReservationMismatch \<noteq> []" "ClusterPlacementGroupMismatch \<noteq> []" "LaunchOptionMisMatch \<noteq> []"
    by (simp_all add: CapacityReservationMismatch_def ClusterPlacementGroupMismatch_def LaunchOptionMisMatch_def)
  from options obtain b where b: "is_launch_option_mismatch (build_launch_options (ncs_launch_options (ncl_spec (ds_class d))))
        (ins_launch_options i) = Ok b"
      "\<not> b \<longleftrightarrow> pred_option (\<lambda>o'. options_as_asked o' a) (ncs_launch_options (ncl_spec (ds_class d)))" by blast
  show ?thesis
    unfolding is_instance_drifted_def r(1) b(1) assms(2) capres [symmetric] cpg [symmetric] b(2) [symmetric]
    using r(2) reasons by auto
qed

definition steady_state :: desired_state where
  "steady_state =
     \<lparr>ds_type = plain_type, ds_compartment = ''c1'',
      ds_image = \<lparr>img_id = ''img'', img_name = None, img_compartment = None, img_os = [], img_os_version = [], img_created = 0,
        img_base = None, img_freeform = [], img_defined = []\<rparr>,
      ds_class = \<lparr>ncl_name = ''default'', ncl_labels = [], ncl_annotations = [], ncl_finalizers = [], ncl_deleting = False,
        ncl_spec = empty_spec, ncl_status = \<lparr>ncst_conditions = [], ncst_volume = None, ncst_network = None,
          ncst_capres = [], ncst_cpgs = [], ncst_cluster = None\<rparr>\<rparr>,
      ds_capres = []\<rparr>"

definition no_options :: launch_options where
  "no_options = \<lparr>lo_boot_volume = None, lo_remote_volume = None, lo_firmware = None, lo_network = None,
     lo_consistent_naming = None\<rparr>"

theorem no_instance_drift_iff_witness:
  "is_instance_drifted steady_state (plain_instance\<lparr>ins_launch_options := Some no_options\<rparr>) = Ok []
   \<and> is_instance_drifted steady_state (plain_instance\<lparr>ins_launch_options := Some no_options, ins_capres := Some ''r''\<rparr>) \<noteq> Ok []"
  by (auto simp: no_instance_drift_iff [where image_id = "''img''" and a = no_options]
      shape_known_def plain_instance_def steady_state_def plain_type_def empty_spec_def)

subsection \<open>The secondary VNICs\<close>

lemma delete_mset:
  assumes "distinct (map fst m)" "(k, v) \<in> set m"
  shows "mset m = add_mset (k, v) (mset (AList.delete k m))"
  using assms
proof (induction m)
  case (Cons p m)
  show ?case
  proof (cases "fst p = k")
    case True
    then have "k \<notin> fst ` set m" using Cons.prems(1) by auto
    moreover from this have "AList.delete k m = m" by (simp add: AList.delete_notin_dom)
    moreover have "p = (k, v)" using Cons.prems(2) \<open>k \<notin> fst ` set m\<close> by (force simp: image_iff)
    ultimately show ?thesis by simp
  next
    case False
    then show ?thesis using Cons by (cases p) auto
  qed
qed simp

lemma match_secondary_pairs:
  assumes "match_secondary order wants m = []" "\<forall>l. set (order l) \<subseteq> set l" "distinct (map fst m)"
    "\<forall>(k, v) \<in> set m. vnic_id v = k"
  shows "\<exists>vs rest. mset vs + mset rest = mset m \<and> list_all2 secondary_matches wants (map snd vs)"
  using assms(1,3,4)
proof (induction wants arbitrary: m)
  case Nil
  show ?case by (intro exI [of _ "[]"] exI [of _ m]) simp
next
  case (Cons want wants)
  then obtain k v where f: "List.find (\<lambda>(k, vnic). secondary_matches want vnic) (order m) = Some (k, v)"
    and rest: "match_secondary order wants (AList.delete (vnic_id v) m) = []"
    by (auto split: option.splits)
  from f assms(2) have kv: "(k, v) \<in> set m" "secondary_matches want v"
    by (auto simp: find_Some_iff dest: nth_mem) (metis nth_mem subsetD)
  with Cons.prems(3) have id: "vnic_id v = k" by auto
  have "distinct (map fst (AList.delete k m))" "\<forall>(k, v) \<in> set (AList.delete k m). vnic_id v = k"
    using Cons.prems(2,3) by (auto simp: AList.delete_eq distinct_map_filter)
  with Cons.IH rest id obtain vs rest where
    "mset vs + mset rest = mset (AList.delete k m)" "list_all2 secondary_matches wants (map snd vs)" by blast
  with kv delete_mset [OF Cons.prems(2) kv(1)]
  show ?case by (intro exI [of _ "(k, v) # vs"] exI [of _ rest]) simp
qed

text \<open>
  C21. When no drift of the secondary VNICs is found, those that are attached can be paired off with
  those the node class resolves to, each in the subnet and with all the security groups asked for,
  none left over: in whatever order the map is walked.  The VNICs of an instance are distinct, and
  the service returns each under the OCID it was asked for.
\<close>

theorem secondary_match_sound:
  assumes "is_secondary_drifted order getVnic atts wants s = (Ok [], s')"
    "secondary_vnics getVnic atts [] s = (Ok m, s')"
    "\<forall>l. set (order l) \<subseteq> set l" "\<forall>(k, v) \<in> set m. vnic_id v = k" "distinct (map fst m)"
  shows "\<exists>vs. mset vs = mset m \<and> list_all2 secondary_matches wants (map snd vs)"
proof -
  from assms(1,2) have m: "length m = length wants" "match_secondary order wants m = []"
    by (auto simp: is_secondary_drifted_def split: if_splits)
  from match_secondary_pairs [OF m(2) assms(3,5,4)] obtain vs rest where
    v: "mset vs + mset rest = mset m" "list_all2 secondary_matches wants (map snd vs)" by blast
  then have "length vs + length rest = length m" "length vs = length wants"
    by (metis size_mset size_union) (use v(2) in \<open>auto dest: list_all2_lengthD\<close>)
  with m(1) v show ?thesis by auto
qed

definition wanted_vnic :: "string list \<Rightarrow> vnic_status" where
  "wanted_vnic gs = \<lparr>vs_subnet = \<lparr>nr_id = ''s'', nr_name = ''s''\<rparr>, vs_nsgs = map (\<lambda>g. \<lparr>nr_id = g, nr_name = g\<rparr>) gs\<rparr>"

definition example_vnic :: "string \<Rightarrow> oci_vnic" where
  "example_vnic k = \<lparr>vnic_id = k, vnic_subnet = ''s'', vnic_nsgs = (if k = ''v1'' then [''g''] else []), vnic_primary = Some False\<rparr>"

definition example_attachment :: "string \<Rightarrow> vnic_attachment" where
  "example_attachment k = \<lparr>vat_id = k, vat_vnic = Some k, vat_subnet = ''s'', vat_attached = True\<rparr>"

theorem secondary_match_sound_witness:
  "\<exists>vs. mset vs = mset [(''v1'', example_vnic ''v1''), (''v2'', example_vnic ''v2'')]
     \<and> list_all2 secondary_matches [wanted_vnic [''g''], wanted_vnic []] (map snd vs)"
  by (rule secondary_match_sound [where order = id and getVnic = "\<lambda>k u. (Ok (example_vnic k), u)" and s = "()" and s' = "()"
        and atts = "[example_attachment ''v1'', example_attachment ''v2'']"])
     (simp_all add: is_secondary_drifted_def example_attachment_def example_vnic_def secondary_matches_def
        is_vnic_nsg_ids_match_def wanted_vnic_def)

text \<open>
  The converse fails: with the same VNICs and the same node class, drift is reported or not with
  the order in which the map is walked.  The VNIC that is taken first for what is asked first may
  be the only one that fits what is asked second.
\<close>

theorem secondary_match_depends_on_order:
  "let wants = [wanted_vnic [], wanted_vnic [''g'']]; atts = [example_attachment ''v1'', example_attachment ''v2''];
       getVnic = (\<lambda>k u. (Ok (example_vnic k), u))
   in is_secondary_drifted id getVnic atts wants () = (Ok ''SecondaryVnicNsgIdsMismatch'', ())
    \<and> is_secondary_drifted rev getVnic atts wants () = (Ok [], ())"
  by (simp add: is_secondary_drifted_def example_attachment_def example_vnic_def secondary_matches_def
      is_vnic_nsg_ids_match_def wanted_vnic_def)

end
