(* ===== verification/Reconciling.thy ===== *)
theory Reconciling
  imports Oci_Errors
begin

section \<open>Results of a reconciliation\<close>

text \<open>
  What a controller returns to the controller runtime: nothing more to do (\<open>None\<close>), or that the
  object is to be looked at again after a number of seconds.  An error is retried by the runtime.
  \<open>result.Min\<close> of Karpenter, which joins the results of several reconcilers, is an argument;
  \<open>joins_results\<close> states what its documentation promises, the soonest of the results that ask for
  another look, if any does.
\<close>

type_synonym requeue = "int option"

definition joins_results :: "(requeue list \<Rightarrow> requeue) \<Rightarrow> bool" where
  "joins_results f \<longleftrightarrow>
     (\<forall>rs. case f rs of None \<Rightarrow> set rs \<subseteq> {None} | Some d \<Rightarrow> Some d \<in> set rs \<and> (\<forall>d'. Some d' \<in> set rs \<longrightarrow> d \<le> d'))"

fun soonest :: "requeue list \<Rightarrow> requeue" where
  "soonest [] = None"
| "soonest (None # rs) = soonest rs"
| "soonest (Some d # rs) = Some (case soonest rs of None \<Rightarrow> d | Some e \<Rightarrow> min d e)"

lemma joins_soonest: "joins_results soonest"
proof -
  have "case soonest rs of None \<Rightarrow> set rs \<subseteq> {None}
    | Some d \<Rightarrow> Some d \<in> set rs \<and> (\<forall>d'. Some d' \<in> set rs \<longrightarrow> d \<le> d')" for rs
    by (induction rs rule: soonest.induct) (auto simp: min_def split: option.splits)
  then show ?thesis by (simp add: joins_results_def)
qed

lemma deref_no_fail: "deref x = Fail e \<longleftrightarrow> False"
  by (cases x) auto

subsection \<open>Errors of the Kubernetes API\<close>

text \<open>\<open>apierrors.IsNotFound\<close> and \<open>IsConflict\<close>, which look through wrapped errors.\<close>

fun kube_is_not_found :: "err \<Rightarrow> bool" where
  "kube_is_not_found (KubeErr r s) = (r = KubeNotFound)"
| "kube_is_not_found (WrapW m e) = kube_is_not_found e"
| "kube_is_not_found e = False"

fun kube_is_conflict :: "err \<Rightarrow> bool" where
  "kube_is_conflict (KubeErr r s) = (r = KubeConflict)"
| "kube_is_conflict (WrapW m e) = kube_is_conflict e"
| "kube_is_conflict e = False"

fun kube_already_exists :: "err \<Rightarrow> bool" where
  "kube_already_exists (KubeErr r s) = (r = KubeAlreadyExists)"
| "kube_already_exists (WrapW m e) = kube_already_exists e"
| "kube_already_exists e = False"

text \<open>\<open>client.IgnoreNotFound\<close> and \<open>IgnoreAlreadyExists\<close>.\<close>

definition ignoring :: "(err \<Rightarrow> bool) \<Rightarrow> (err, unit) go \<Rightarrow> (err, unit) go" where
  "ignoring known r = (case r of Fail e \<Rightarrow> if known e then Ok () else Fail e | x \<Rightarrow> x)"

lemma ignoring_Ok [simp]: "ignoring known r = Ok u \<longleftrightarrow> r = Ok () \<or> (\<exists>e. r = Fail e \<and> known e)"
  by (cases r) (auto simp: ignoring_def)

text \<open>\<open>fmt.Errorf\<close> with \<open>%w\<close>.\<close>

definition wrap_as :: "string \<Rightarrow> (err, 'a) go \<Rightarrow> (err, 'a) go" where
  "wrap_as m r = (case r of Fail e \<Rightarrow> Fail (WrapW m e) | x \<Rightarrow> x)"

lemma wrap_as_Ok [simp]: "wrap_as m r = Ok x \<longleftrightarrow> r = Ok x"
  by (cases r) (auto simp: wrap_as_def)

end
