(* ===== verification/Cloud_Provider.thy ===== *)
theory Cloud_Provider
  imports Reconciling Drift Image_Provider Network_Provider Native_Pod_Network Offerings "HOL-Library.Product_Lexorder"
    "HOL-Library.List_Lexorder" "HOL-Library.Char_ord"
begin

section \<open>The cloud provider\<close>

text \<open>
  \<open>pkg/cloudprovider/cloud_provider.go\<close>: what Karpenter calls to create, get, list and delete the
  machines of node claims and to ask whether they have drifted.

  The state is that of the providers.  Two caches are shared by pointer: the register of
  unavailable offerings by the instance type and the instance provider, the caches of VNICs and of
  boot volumes by the instance, network and block storage providers.  The instance provider's
  copies are the ones kept here, and the others are given them before each call
  (\<open>cp_with_network\<close>, \<open>cp_with_volumes\<close>, \<open>cp_list_types\<close>).

  Arguments (\<open>cloud_env\<close>) are the services, the Kubernetes API, and what Karpenter's code decides:
  whether requirements fit a type or an offering, whether a claim's requests fit, the walk over
  offerings grouped by price, the cheapest offering, the overlays of node overlay, the state of the
  readiness condition.  \<open>cp_npns\<close> holds the objects that the Kubernetes API has accepted.
\<close>

datatype cloud_err =
    Plain err
  | CreateErr err string
  | InsufficientCapacity err
  | NodeClaimNotFound string
  | NodeClassNotReady string

fun plain :: "(err, 'a) go \<Rightarrow> (cloud_err, 'a) go" where
  "plain (Ok a) = Ok a"
| "plain (Fail e) = Fail (Plain e)"
| "plain Panic = Panic"
| "plain Hang = Hang"

lemma plain_Ok [simp]: "plain r = Ok x \<longleftrightarrow> r = Ok x"
  by (cases r) auto

lemma plain_Fail [simp]: "plain r = Fail x \<longleftrightarrow> (\<exists>e. x = Plain e \<and> r = Fail e)"
  by (cases r) auto

record node_pool =
  npl_name :: string
  npl_uid :: string
  npl_class :: string
  npl_taints :: "taint list"

datatype readiness = ReadyTrue | ReadyFalse string | ReadyUnknown string

record cloud_env =
  ce_types :: type_env
  ce_place :: placement_env
  ce_image :: image_env
  ce_vcn :: vcn_api
  ce_region :: "string \<Rightarrow> string"
  ce_connect :: "string \<Rightarrow> (err, unit) go"
  ce_kms :: "string \<Rightarrow> string \<Rightarrow> (err, kms_result) go"
  ce_launch :: launch_env
  ce_turns :: "proposal \<Rightarrow> oci_instance_type \<Rightarrow> int \<Rightarrow> launch_event list"
  ce_deletes :: "delete_event list"
  ce_volume :: "string \<Rightarrow> (err, boot_volume) go"
  ce_class :: "string \<Rightarrow> (err, node_class) go"
  ce_classes :: "(err, node_class list) go"
  ce_pool :: "string \<Rightarrow> (err, node_pool) go"
  ce_pools :: "(err, node_pool list) go"
  ce_create_npn :: "npn_object \<Rightarrow> (err, unit) go"
  ce_ready :: "node_class \<Rightarrow> readiness"
  ce_observed :: "node_class \<Rightarrow> bool"
  ce_overlay :: "(string \<Rightarrow> oci_instance_type list \<Rightarrow> (err, (offering list \<times> resource_list) list) go) option"
  ce_reqs_compat :: "node_requirement list \<Rightarrow> requirements \<Rightarrow> bool"
  ce_compat :: "node_requirement list \<Rightarrow> offering \<Rightarrow> bool"
  ce_fits :: "node_claim \<Rightarrow> oci_instance_type \<Rightarrow> bool"
  ce_group :: "offering list \<Rightarrow> offering list list"
  ce_cheapest :: "offering list \<Rightarrow> offering"
  ce_allocatable :: "oci_instance_type \<Rightarrow> resource_list"
  ce_reservations :: "node_requirement list \<Rightarrow> string list option"
  ce_initialized :: "node_claim \<Rightarrow> bool"
  ce_hash :: "node_class_spec \<Rightarrow> string"
  ce_vnic_order :: vnic_order
  ce_now :: int

record cloud_provider =
  cp_types :: type_provider
  cp_place :: placement_state
  cp_images :: image_provider
  cp_network :: vcn_provider
  cp_kms :: kms_provider
  cp_instances :: instance_provider
  cp_npn :: npn_provider
  cp_npns :: "npn_object list"
  cp_fallback :: bool
  cp_initialized :: bool

type_synonym 'a cloud = "cloud_provider \<Rightarrow> (cloud_err, 'a) go \<times> cloud_provider"

subsection \<open>Calls of the providers\<close>

definition cp_list_types :: "cloud_env \<Rightarrow> node_class \<Rightarrow> taint list \<Rightarrow> cloud_provider
    \<Rightarrow> (err, oci_instance_type list) go \<times> cloud_provider" where
  "cp_list_types env cls taints p =
     (let pl = cp_place p;
          (r, s) = list_instance_types (ce_types env)
                     ((cp_types p)\<lparr>tp_unavailable := inp_unavailable (cp_instances p)\<rparr>) (ncl_name cls) (ncl_spec cls) taints
                     \<lparr>rs_capres = pst_capres pl, rs_cpg = pst_cpg pl, rs_cluster = pst_cluster pl\<rparr>
      in (r, p\<lparr>cp_place := pl\<lparr>pst_capres := rs_capres s, pst_cpg := rs_cpg s, pst_cluster := rs_cluster s\<rparr>\<rparr>))"

definition cp_with_caches ::
  "(drift_caches \<Rightarrow> (err, 'a) go \<times> drift_caches) \<Rightarrow> cloud_provider \<Rightarrow> (err, 'a) go \<times> cloud_provider" where
  "cp_with_caches f p =
     (let (r, dc) = f (inp_caches (cp_instances p)) in (r, p\<lparr>cp_instances := (cp_instances p)\<lparr>inp_caches := dc\<rparr>\<rparr>))"

definition cp_with_network ::
  "(vcn_provider \<Rightarrow> (err, 'a) go \<times> vcn_provider) \<Rightarrow> cloud_provider \<Rightarrow> (err, 'a) go \<times> cloud_provider" where
  "cp_with_network f p =
     (let dc = inp_caches (cp_instances p); (r, v) = f ((cp_network p)\<lparr>vp_vnics := dc_vnics dc\<rparr>)
      in (r, p\<lparr>cp_network := v, cp_instances := (cp_instances p)\<lparr>inp_caches := dc\<lparr>dc_vnics := vp_vnics v\<rparr>\<rparr>\<rparr>))"

definition cp_with_volumes ::
  "(boot_volume load_cache \<Rightarrow> (err, 'a) go \<times> boot_volume load_cache) \<Rightarrow> cloud_provider
    \<Rightarrow> (err, 'a) go \<times> cloud_provider" where
  "cp_with_volumes f =
     cp_with_caches (\<lambda>dc. let (r, c) = f (dc_volumes dc) in (r, dc\<lparr>dc_volumes := c\<rparr>))"

definition cp_resolve_network :: "cloud_env \<Rightarrow> network_config \<Rightarrow> cloud_provider
    \<Rightarrow> (err, network_resolve_result) go \<times> cloud_provider" where
  "cp_resolve_network env cfg p =
     st_bind (cp_with_network (resolve_network_config (ce_vcn env) (ce_now env) (Some cfg)) p) (\<lambda>(net, errs) p.
       (if errs = [] then (Ok net, p) else (Fail (ErrText (join_with ''; '' (map err_text errs))), p)))"

definition cp_resolve_image :: "cloud_env \<Rightarrow> node_class_spec \<Rightarrow> string \<Rightarrow> cloud_provider
    \<Rightarrow> (err, image_result) go \<times> cloud_provider" where
  "cp_resolve_image env spec shape p =
     (let (r, im) = resolve_image_for_shape (ce_image env) False (bv_image (vc_boot (ncs_volume spec))) shape (cp_images p)
      in (r, p\<lparr>cp_images := im\<rparr>))"

definition cp_resolve_kms :: "cloud_env \<Rightarrow> node_class_spec \<Rightarrow> cloud_provider
    \<Rightarrow> (err, kms_result option) go \<times> cloud_provider" where
  "cp_resolve_kms env spec p =
     (let (r, k) = resolve_kms_key_config (ce_region env) (ce_connect env) (ce_kms env) (ce_now env)
                     (va_kms (vc_boot (ncs_volume spec))) (cp_kms p)
      in (r, p\<lparr>cp_kms := k\<rparr>))"

subsection \<open>Node classes\<close>

definition terminating_node_class_error :: "string \<Rightarrow> err" where
  "terminating_node_class_error name =
     KubeErr KubeNotFound (''ocinodeclasses.oci.oraclecloud.com '' @ [CHR 0x22] @ name @ [CHR 0x22]
       @ '' is terminating, treating as not found'')"

definition ensure_node_class_ready :: "cloud_env \<Rightarrow> node_class \<Rightarrow> (cloud_err, unit) go" where
  "ensure_node_class_ready env cls =
     (case ce_ready env cls of
        ReadyFalse m \<Rightarrow> Fail (NodeClassNotReady m)
      | ReadyUnknown m \<Rightarrow> Fail (NodeClassNotReady m)
      | ReadyTrue \<Rightarrow>
          if \<not> ce_observed env cls
          then Fail (NodeClassNotReady ''nodeclass status has not been reconciled against the latest spec'')
          else Ok ())"

definition resolve_node_class :: "cloud_env \<Rightarrow> string \<Rightarrow> (err, node_class) go" where
  "resolve_node_class env name =
     go_bind (ce_class env name) (\<lambda>cls.
       if ncl_deleting cls then Fail (terminating_node_class_error (ncl_name cls)) else Ok cls)"

definition ensure_node_class_from_claim :: "cloud_env \<Rightarrow> node_claim \<Rightarrow> (cloud_err, node_class) go" where
  "ensure_node_class_from_claim env claim =
     go_bind (deref (nc_class claim)) (\<lambda>name.
     go_bind (plain (resolve_node_class env name)) (\<lambda>cls.
     map_ok (\<lambda>u. cls) (ensure_node_class_ready env cls)))"

subsection \<open>Instance types of a claim\<close>

text \<open>An overlay has a result for every type it is given, read by index.\<close>

definition apply_overlay :: "(offering list \<times> resource_list) list \<Rightarrow> oci_instance_type list
    \<Rightarrow> (err, oci_instance_type list) go" where
  "apply_overlay os its =
     map_go (\<lambda>(n, it). map_ok (\<lambda>(ofs, cap). (copy_and_update_offerings ofs it)\<lparr>it_capacity := cap\<rparr>) (index_go os n))
       (zip [0..<length its] its)"

definition suits_claim :: "cloud_env \<Rightarrow> node_claim \<Rightarrow> oci_instance_type \<Rightarrow> bool" where
  "suits_claim env claim it \<longleftrightarrow> ce_reqs_compat env (nc_reqs claim) (it_reqs it)
     \<and> 0 < length (available_offerings (filter (ce_compat env (nc_reqs claim)) (it_offerings it))) \<and> ce_fits env claim it"

definition resolve_instance_types :: "cloud_env \<Rightarrow> node_claim \<Rightarrow> node_class \<Rightarrow> cloud_provider
    \<Rightarrow> (err, oci_instance_type list) go \<times> cloud_provider" where
  "resolve_instance_types env claim cls p =
     st_bind (cp_list_types env cls (nc_taints claim) p) (\<lambda>its p.
     st_bind
       (case ce_overlay env of
          None \<Rightarrow> Ok its
        | Some ov \<Rightarrow>
            (case ov (from_ptr [] (map_of (nc_labels claim) NodePoolLabelKey)) its of
               Ok os \<Rightarrow> apply_overlay os its
             | Fail e \<Rightarrow> Fail (WrapW ''applying nodeoverlays, '' e)
             | Panic \<Rightarrow> Panic
             | Hang \<Rightarrow> Hang), p) (\<lambda>its p.
       (Ok (filter (suits_claim env claim) its), p)))"

definition max_float64 :: rat where
  "max_float64 = 2 ^ 1024 - 2 ^ 971"

definition launch_price :: "cloud_env \<Rightarrow> node_requirement list \<Rightarrow> oci_instance_type \<Rightarrow> rat" where
  "launch_price env reqs it =
     (let ofs = filter (ce_compat env reqs) (available_offerings (it_offerings it))
      in if 0 < length ofs then off_price (ce_cheapest env ofs) else max_float64)"

definition order_by_price :: "cloud_env \<Rightarrow> node_requirement list \<Rightarrow> oci_instance_type list \<Rightarrow> oci_instance_type list" where
  "order_by_price env reqs its =
     slice_stable (\<lambda>it. (launch_price env reqs it, it_name it))
       (concat (map (\<lambda>it. map (\<lambda>ofs. copy_and_update_offerings ofs it)
          (ce_group env (filter (ce_compat env reqs) (available_offerings (it_offerings it))))) its))"

subsection \<open>Creating a machine\<close>

text \<open>The function the placement provider calls; what it captures is its state.\<close>

definition launch_func ::
  "cloud_env \<Rightarrow> node_claim \<Rightarrow> node_class \<Rightarrow> oci_instance_type \<Rightarrow> image_result \<Rightarrow> network_resolve_result
    \<Rightarrow> kms_result option \<Rightarrow> proposal \<Rightarrow> instance_info option \<times> instance_provider
    \<Rightarrow> (err, unit) go \<times> instance_info option \<times> instance_provider" where
  "launch_func env claim cls it img net kms pr w =
     (case launch_instance (ce_launch env) (ce_turns env pr it) claim cls it img net (map_option kr_ocid kms) pr (snd w) of
        (Ok i, ip) \<Rightarrow> (Ok (), Some i, ip)
      | (Fail e, ip) \<Rightarrow> (Fail e, fst w, ip)
      | (Panic, ip) \<Rightarrow> (Panic, fst w, ip)
      | (Hang, ip) \<Rightarrow> (Hang, fst w, ip))"

record launched =
  ln_instance :: "instance_info option"
  ln_type :: "oci_instance_type option"
  ln_skipped :: "err option"

fun try_types ::
  "cloud_env \<Rightarrow> node_claim \<Rightarrow> node_class \<Rightarrow> network_resolve_result \<Rightarrow> kms_result option \<Rightarrow> oci_instance_type list
    \<Rightarrow> launched \<Rightarrow> launched cloud" where
  "try_types env claim cls net kms [] l p = (Ok l, p)"
| "try_types env claim cls net kms (it # its) l p =
     (case cp_resolve_image env (ncl_spec cls) (it_shape it) p of
        (Fail e, p1) \<Rightarrow> try_types env claim cls net kms its l p1
      | (Panic, p1) \<Rightarrow> (Panic, p1)
      | (Hang, p1) \<Rightarrow> (Hang, p1)
      | (Ok img, p1) \<Rightarrow>
          (case place_instance (ce_place env) claim (ncl_spec cls) it (launch_func env claim cls it img net kms)
                  (cp_place p1) (ln_instance l, cp_instances p1) of
             (r, pl, inst, ip) \<Rightarrow>
               (let p2 = p1\<lparr>cp_place := pl, cp_instances := ip\<rparr>; l1 = l\<lparr>ln_instance := inst\<rparr>
                in case r of
                     Fail e \<Rightarrow>
                       (if is_skippable_launch_error (Some e) (cp_fallback p2)
                        then try_types env claim cls net kms its (l1\<lparr>ln_skipped := Some e\<rparr>) p2
                        else (Fail (CreateErr (WrapW ''launch instance failure, '' e) ''LaunchInstanceFailed''), p2))
                   | Panic \<Rightarrow> (Panic, p2)
                   | Hang \<Rightarrow> (Hang, p2)
                   | Ok u \<Rightarrow> (map_ok (\<lambda>i. l1\<lparr>ln_type := Some it\<rparr>) (deref inst), p2))))"

text \<open>What goes wrong with the object of the pod network is only logged.\<close>

definition apply_npn_object ::
  "cloud_env \<Rightarrow> instance_info \<Rightarrow> node_class \<Rightarrow> network_resolve_result \<Rightarrow> cloud_provider \<Rightarrow> (err, unit) go \<times> cloud_provider" where
  "apply_npn_object env info cls net p =
     st_bind (create_npn_custom_object (cp_npn p) (Some (ii_instance info)) (Some (ncl_spec cls)) (Some net), p) (\<lambda>ob p.
     st_bind (ce_create_npn env ob, p) (\<lambda>u p. (Ok (), p\<lparr>cp_npns := ob # cp_npns p\<rparr>)))"

definition apply_npn_and_log ::
  "cloud_env \<Rightarrow> instance_info \<Rightarrow> node_class \<Rightarrow> network_resolve_result \<Rightarrow> unit cloud" where
  "apply_npn_and_log env info cls net p =
     (if np_cluster (cp_npn p)
      then (case apply_npn_object env info cls net p of
              (Fail e, p1) \<Rightarrow> (Ok (), p1)
            | (r, p1) \<Rightarrow> (plain r, p1))
      else (Ok (), p))"

definition blank_claim :: node_claim where
  "blank_claim = \<lparr>nc_name = [], nc_labels = [], nc_annotations = [], nc_owners = [], nc_reqs = [], nc_taints = [],
     nc_startup_taints = [], nc_class = None, nc_provider_id = [], nc_image_id = [], nc_capacity = [], nc_allocatable = [],
     nc_created = 0, nc_deleted = None\<rparr>"

definition claim_from_instance_and_type ::
  "cloud_env \<Rightarrow> oci_instance \<Rightarrow> oci_instance_type option \<Rightarrow> (err, node_claim) go" where
  "claim_from_instance_and_type env i ito =
     decorate_claim_by_instance (ce_now env) i (decorate_claim_by_type (ce_allocatable env) ito blank_claim)"

definition cp_found :: "string \<Rightarrow> oci_instance \<Rightarrow> unit cloud" where
  "cp_found pool i p =
     (case instance_found pool (Some i) (cp_place p) of
        Ok pl \<Rightarrow> (Ok (), p\<lparr>cp_place := pl\<rparr>)
      | Fail e \<Rightarrow> (Fail (Plain e), p)
      | Panic \<Rightarrow> (Panic, p)
      | Hang \<Rightarrow> (Hang, p))"

text \<open>Both ledgers are only asked for an instance that sits in a reservation.\<close>

definition cp_mark_capres ::
  "(oci_instance \<Rightarrow> capres_provider \<Rightarrow> (err, capres_provider) go) \<Rightarrow> oci_instance \<Rightarrow> unit cloud" where
  "cp_mark_capres mark i p =
     (if ins_capres i = None then (Ok (), p)
      else
        (case mark i (pst_capres (cp_place p)) of
           Ok c \<Rightarrow> (Ok (), p\<lparr>cp_place := (cp_place p)\<lparr>pst_capres := c\<rparr>\<rparr>)
         | Fail e \<Rightarrow> (Fail (Plain e), p)
         | Panic \<Rightarrow> (Panic, p)
         | Hang \<Rightarrow> (Hang, p)))"

definition lift_cloud :: "(cloud_provider \<Rightarrow> (err, 'a) go \<times> cloud_provider) \<Rightarrow> 'a cloud" where
  "lift_cloud f p = (let (r, p') = f p in (plain r, p'))"

lemma lift_cloud_Ok [simp]: "lift_cloud f p = (Ok x, p') \<longleftrightarrow> f p = (Ok x, p')"
  by (auto simp: lift_cloud_def split: prod.splits)

definition pool_label :: "node_claim \<Rightarrow> string" where
  "pool_label claim = from_ptr [] (map_of (nc_labels claim) NodePoolLabelKey)"

definition finish_create ::
  "cloud_env \<Rightarrow> node_claim \<Rightarrow> node_class \<Rightarrow> network_resolve_result \<Rightarrow> instance_info \<Rightarrow> oci_instance_type option
    \<Rightarrow> node_claim cloud" where
  "finish_create env claim cls net info ito p =
     st_bind (cp_found (pool_label claim) (ii_instance info) p) (\<lambda>u p.
     st_bind (cp_mark_capres (mark_capres_used (ce_now env)) (ii_instance info) p) (\<lambda>u p.
     st_bind (apply_npn_and_log env info cls net p) (\<lambda>u p.
     st_bind (plain (claim_from_instance_and_type env (ii_instance info) ito), p) (\<lambda>nc p.
     st_bind (plain (hash_node_class_spec (ce_hash env) cls), p) (\<lambda>h p.
       (Ok (nc\<lparr>nc_annotations := AList.update NodeClassHashVersion OCINodeClassHashVersion
                 (AList.update NodeClassHash h (nc_annotations nc))\<rparr>), p))))))"

definition claim_class_error :: "(cloud_err, 'a) go \<Rightarrow> (cloud_err, 'a) go" where
  "claim_class_error r =
     (case r of
        Fail (Plain e) \<Rightarrow> if kube_is_not_found e then Fail (CreateErr e ''OciNodeClassNotFound'') else Fail (Plain e)
      | x \<Rightarrow> x)"

definition end_create ::
  "cloud_env \<Rightarrow> node_claim \<Rightarrow> node_class \<Rightarrow> network_resolve_result \<Rightarrow> launched \<Rightarrow> node_claim cloud" where
  "end_create env claim cls net l p =
     (case ln_instance l of
        None \<Rightarrow>
          (case ln_skipped l of
             Some e \<Rightarrow> (Fail (InsufficientCapacity (WrapW ''all instance types exhausted due to insufficient capacity, '' e)), p)
           | None \<Rightarrow> (Fail (CreateErr (ErrText ''cannot create node after trying all instance types'') ''LaunchInstanceFailed''), p))
      | Some info \<Rightarrow> finish_create env claim cls net info (ln_type l) p)"

definition cp_create :: "cloud_env \<Rightarrow> node_claim \<Rightarrow> node_claim cloud" where
  "cp_create env claim p =
     (if \<not> cp_initialized p then (Fail (Plain (ErrText ''cloud-provider is not ready for use'')), p)
      else
        st_bind (claim_class_error (ensure_node_class_from_claim env claim), p) (\<lambda>cls p.
        st_bind (case resolve_instance_types env claim cls p of
                   (Fail e, p1) \<Rightarrow> (Fail (CreateErr (WrapW ''resolving instance types, '' e) ''InstanceTypeResolutionFailed''), p1)
                 | (r, p1) \<Rightarrow> (plain r, p1)) (\<lambda>its p.
          (let ordered = order_by_price env (nc_reqs claim) its
           in if length ordered = 0
              then (Fail (InsufficientCapacity (ErrText ''no instance type available'')), p)
              else
                st_bind (lift_cloud (cp_resolve_network env (ncs_network (ncl_spec cls))) p) (\<lambda>net p.
                st_bind (lift_cloud (cp_resolve_kms env (ncl_spec cls)) p) (\<lambda>kms p.
                st_bind (try_types env claim cls net kms ordered \<lparr>ln_instance = None, ln_type = None, ln_skipped = None\<rparr> p)
                  (end_create env claim cls net)))))))"

subsection \<open>Looking machines up\<close>

definition pool_of_instance :: "cloud_env \<Rightarrow> oci_instance \<Rightarrow> (err, node_pool) go" where
  "pool_of_instance env i =
     (case NodePool_of_instance i of
        Some name \<Rightarrow> ce_pool env name
      | None \<Rightarrow> Fail (KubeErr KubeNotFound ''nodepools.karpenter.sh not found''))"

text \<open>\<open>client.IgnoreNotFound\<close> on an error that wraps another with a text; nothing found is no type.\<close>

definition ignore_not_found :: "string \<Rightarrow> (cloud_err, 'a option) go \<Rightarrow> (cloud_err, 'a option) go" where
  "ignore_not_found m r =
     (case r of Fail (Plain e) \<Rightarrow> if kube_is_not_found e then Ok None else Fail (Plain (WrapW m e)) | x \<Rightarrow> x)"

definition cp_oci_types :: "cloud_env \<Rightarrow> node_pool \<Rightarrow> oci_instance_type list cloud" where
  "cp_oci_types env np p =
     st_bind (plain (resolve_node_class env (npl_class np)), p) (\<lambda>cls p.
     st_bind (ensure_node_class_ready env cls, p) (\<lambda>u p.
       lift_cloud (cp_list_types env cls (npl_taints np)) p))"

definition type_from_instance :: "cloud_env \<Rightarrow> oci_instance \<Rightarrow> oci_instance_type option cloud" where
  "type_from_instance env i p =
     (case ignore_not_found ''resolving nodepool, '' (plain (map_ok Some (pool_of_instance env i))) of
        Ok (Some np) \<Rightarrow>
          (case cp_oci_types env np p of
             (Ok its, p1) \<Rightarrow> (Ok (List.find (\<lambda>it. it_name it = ins_shape i) its), p1)
           | (Fail e, p1) \<Rightarrow> (ignore_not_found ''resolving nodeclass, '' (Fail e), p1)
           | (Panic, p1) \<Rightarrow> (Panic, p1)
           | (Hang, p1) \<Rightarrow> (Hang, p1))
      | r \<Rightarrow> (map_ok (\<lambda>x. None) r, p))"

definition claim_from_instance :: "cloud_env \<Rightarrow> oci_instance \<Rightarrow> node_claim cloud" where
  "claim_from_instance env i p =
     (case type_from_instance env i p of
        (Ok ito, p1) \<Rightarrow> (plain (claim_from_instance_and_type env i ito), p1)
      | (Fail (Plain e), p1) \<Rightarrow> (Fail (Plain (WrapW ''resolving instance type, '' e)), p1)
      | (Fail e, p1) \<Rightarrow> (Fail e, p1)
      | (Panic, p1) \<Rightarrow> (Panic, p1)
      | (Hang, p1) \<Rightarrow> (Hang, p1))"

definition cp_get_instance :: "cloud_env \<Rightarrow> string \<Rightarrow> cloud_provider \<Rightarrow> (err, instance_info) go \<times> cloud_provider" where
  "cp_get_instance env k =
     cp_with_caches (get_instance (ce_now env) (co_get (le_api (ce_launch env)) k) k)"

definition cp_get :: "cloud_env \<Rightarrow> string \<Rightarrow> node_claim cloud" where
  "cp_get env k p =
     (case cp_get_instance env k p of
        (Fail e, p1) \<Rightarrow>
          (Fail (if is_not_found (Some e) then NodeClaimNotFound (''no nodeclaim exists with id '' @ k) else Plain e), p1)
      | (Panic, p1) \<Rightarrow> (Panic, p1)
      | (Hang, p1) \<Rightarrow> (Hang, p1)
      | (Ok info, p1) \<Rightarrow>
          (if is_instance_terminated (ii_instance info) then (Fail (NodeClaimNotFound (''instance '' @ k @ '' terminated'')), p1)
           else claim_from_instance env (ii_instance info) p1))"

definition is_owned_by_node_pool :: "oci_instance \<Rightarrow> string \<Rightarrow> bool" where
  "is_owned_by_node_pool i expected =
     (case NodePoolUID_of_instance i of None \<Rightarrow> True | Some uid \<Rightarrow> uid \<noteq> [] \<and> expected = uid)"

text \<open>The loop over the instances; a later pool of the same name would win in the map of UIDs.\<close>

definition pool_uid :: "node_pool list \<Rightarrow> string \<Rightarrow> string" where
  "pool_uid pools name = from_ptr [] (map_of (rev (map (\<lambda>np. (npl_name np, npl_uid np)) pools)) name)"

fun list_claims :: "cloud_env \<Rightarrow> node_pool list \<Rightarrow> oci_instance list \<Rightarrow> node_claim list cloud" where
  "list_claims env pools [] p = (Ok [], p)"
| "list_claims env pools (i # is) p =
     (if case NodePool_of_instance i of None \<Rightarrow> True | Some name \<Rightarrow> \<not> is_owned_by_node_pool i (pool_uid pools name)
      then list_claims env pools is p
      else
        st_bind (claim_from_instance env i p) (\<lambda>nc p.
          if pool_label nc \<in> npl_name ` set pools
          then st_bind (cp_found (pool_label nc) i p) (\<lambda>u p.
               st_bind (list_claims env pools is p) (\<lambda>ncs p. (Ok (nc # ncs), p)))
          else list_claims env pools is p))"

definition node_compartments :: "node_pool list \<Rightarrow> node_class list \<Rightarrow> string list" where
  "node_compartments pools classes =
     uniq (map (\<lambda>cls. from_ptr [] (ncs_compartment (ncl_spec cls)))
       (filter (\<lambda>cls. ncl_name cls \<in> npl_class ` set pools) classes))"

definition cp_list_instances :: "cloud_env \<Rightarrow> string list \<Rightarrow> cloud_provider \<Rightarrow> (err, oci_instance list) go \<times> cloud_provider" where
  "cp_list_instances env cs p =
     (let (r, ip) = list_instances (ce_launch env) cs (cp_instances p) in (r, p\<lparr>cp_instances := ip\<rparr>))"

definition cp_list :: "cloud_env \<Rightarrow> node_claim list cloud" where
  "cp_list env p =
     st_bind (plain (ce_pools env), p) (\<lambda>pools p.
     st_bind (plain (ce_classes env), p) (\<lambda>classes p.
     st_bind (lift_cloud (cp_list_instances env (node_compartments pools classes)) p) (\<lambda>is p.
       list_claims env pools is p)))"

definition cp_get_instance_types :: "cloud_env \<Rightarrow> node_pool \<Rightarrow> oci_instance_type list cloud" where
  "cp_get_instance_types env np p =
     st_bind (plain (resolve_node_class env (npl_class np)), p) (\<lambda>cls p.
     st_bind (ensure_node_class_ready env cls, p) (\<lambda>u p.
       lift_cloud (cp_list_types env cls (npl_taints np)) p))"

subsection \<open>Start-up\<close>

text \<open>
  The goroutine of \<open>New\<close> lists until it succeeds once; each attempt sees the world (an environment)
  of its time, and between two attempts the context may be cancelled.
\<close>

datatype warm_event = WarmCancelled | WarmTry cloud_env

fun warm_up :: "warm_event list \<Rightarrow> unit cloud" where
  "warm_up [] p = (Hang, p)"
| "warm_up (WarmCancelled # es) p = (Ok (), p)"
| "warm_up (WarmTry env # es) p =
     (case cp_list env p of
        (Ok ncs, p1) \<Rightarrow> (Ok (), p1\<lparr>cp_initialized := True\<rparr>)
      | (Fail e, p1) \<Rightarrow> warm_up es p1
      | (Panic, p1) \<Rightarrow> (Panic, p1)
      | (Hang, p1) \<Rightarrow> (Hang, p1))"

record repair_policy =
  rp_condition :: string
  rp_status :: string
  rp_action :: string

text \<open>\<open>replaceNode\<close> is the name Karpenter gives to that action.\<close>

definition repair_policies_of :: "string \<Rightarrow> bool \<Rightarrow> repair_policy list \<Rightarrow> repair_policy list" where
  "repair_policies_of replaceNode legacy ps =
     (if 0 < length ps
      then (if legacy then map (\<lambda>r. if rp_action r = [] then r\<lparr>rp_action := replaceNode\<rparr> else r) ps else ps)
      else [])"

subsection \<open>Deleting a machine\<close>

definition cp_forget :: "node_claim \<Rightarrow> cloud_provider \<Rightarrow> cloud_provider" where
  "cp_forget nc p = p\<lparr>cp_place := instance_forget (pool_label nc) (nc_provider_id nc) (cp_place p)\<rparr>"

definition already_deleted :: "node_claim \<Rightarrow> cloud_err" where
  "already_deleted nc = NodeClaimNotFound (''no nodeclaim exists with provider id '' @ nc_provider_id nc)"

definition cp_delete :: "cloud_env \<Rightarrow> node_claim \<Rightarrow> unit cloud" where
  "cp_delete env nc p =
     (case cp_get_instance env (nc_provider_id nc) p of
        (Fail e, p1) \<Rightarrow>
          (if is_not_found (Some e) then (Fail (already_deleted nc), cp_forget nc p1) else (Fail (Plain e), p1))
      | (Panic, p1) \<Rightarrow> (Panic, p1)
      | (Hang, p1) \<Rightarrow> (Hang, p1)
      | (Ok info, p1) \<Rightarrow>
          (if is_instance_terminated (ii_instance info) then (Fail (already_deleted nc), cp_forget nc p1)
           else
             (case cp_with_caches (delete_instance (ce_now env) (co_terminate (le_api (ce_launch env)) (nc_provider_id nc))
                     (nc_provider_id nc) (ce_deletes env)) p1 of
                (Fail e, p2) \<Rightarrow> (Fail (if is_not_found (Some e) then already_deleted nc else Plain e), p2)
              | (Panic, p2) \<Rightarrow> (Panic, p2)
              | (Hang, p2) \<Rightarrow> (Hang, p2)
              | (Ok u, p2) \<Rightarrow> cp_mark_capres (mark_capres_released (ce_now env)) (ii_instance info) p2)))"

subsection \<open>Drift\<close>

definition LabelInstanceTypeStable :: string where "LabelInstanceTypeStable = ''node.kubernetes.io/instance-type''"

fun cloud_text :: "cloud_err \<Rightarrow> string" where
  "cloud_text (Plain e) = err_text e"
| "cloud_text (CreateErr e r) = err_text e"
| "cloud_text (InsufficientCapacity e) = ''insufficient capacity, '' @ err_text e"
| "cloud_text (NodeClaimNotFound s) = ''nodeclaim not found, '' @ s"
| "cloud_text (NodeClassNotReady s) = ''NodeClassRef not ready, '' @ s"

definition fail_as :: "string \<Rightarrow> (err, 'a) go \<Rightarrow> (err, 'a) go" where
  "fail_as m r = (case r of Fail e \<Rightarrow> Fail (ErrText (m @ err_text e)) | x \<Rightarrow> x)"

definition unknown_drift :: "(err, 'a) go \<Rightarrow> (err, 'a) go" where
  "unknown_drift = fail_as ''drifted status unknown: ''"

text \<open>A check against the cache, and if it finds a reason the same check against the service.\<close>

definition confirmed ::
  "('s \<Rightarrow> (err, string) go \<times> 's) \<Rightarrow> ('s \<Rightarrow> (err, string) go \<times> 's) \<Rightarrow> 's \<Rightarrow> (err, string) go \<times> 's" where
  "confirmed cached actual s =
     st_bind (cached s) (\<lambda>reason s. if reason = [] then (Ok [], s) else actual s)"

definition drift_of_instance :: "cloud_env \<Rightarrow> string \<Rightarrow> desired_state \<Rightarrow> instance_info \<Rightarrow> cloud_provider
    \<Rightarrow> (err, string) go \<times> cloud_provider" where
  "drift_of_instance env k d cached =
     confirmed (\<lambda>p. (is_instance_drifted d (ii_instance cached), p))
       (\<lambda>p. case cp_get_instance env k p of (r, p1) \<Rightarrow>
              (unknown_drift (go_bind r (\<lambda>info. is_instance_drifted d (ii_instance info))), p1))"

definition network_drift_with ::
  "cloud_env \<Rightarrow> desired_state \<Rightarrow> bool \<Rightarrow> (drift_caches \<Rightarrow> (err, vnic_attachment list) go \<times> drift_caches)
    \<Rightarrow> (vcn_api \<Rightarrow> int \<Rightarrow> string \<Rightarrow> vcn_provider \<Rightarrow> (err, oci_vnic) go \<times> vcn_provider) \<Rightarrow> cloud_provider
    \<Rightarrow> (err, string) go \<times> cloud_provider" where
  "network_drift_with env d skipSecondary atts getVnic p =
     st_bind (cp_with_caches atts p) (\<lambda>as p.
       is_network_drifted (ce_vnic_order env) d as
         (\<lambda>v. cp_with_network (getVnic (ce_vcn env) (ce_now env) v)) skipSecondary p)"

definition drift_of_network :: "cloud_env \<Rightarrow> node_claim \<Rightarrow> desired_state \<Rightarrow> oci_instance \<Rightarrow> cloud_provider
    \<Rightarrow> (err, string) go \<times> cloud_provider" where
  "drift_of_network env claim d i p =
     st_bind (deref (ins_id i), p) (\<lambda>k p.
       (let fetch = co_vnic_atts (le_api (ce_launch env)) (ins_compartment i) k; skip = \<not> ce_initialized env claim
        in confirmed
             (network_drift_with env d skip (list_vnic_atts_cached (ce_now env) fetch k) get_vnic_cached)
             (network_drift_with env d skip (list_vnic_atts (ce_now env) fetch k) get_vnic) p))"

definition volume_drift_with ::
  "cloud_env \<Rightarrow> desired_state \<Rightarrow> (drift_caches \<Rightarrow> (err, boot_attachment list) go \<times> drift_caches)
    \<Rightarrow> ((string \<Rightarrow> (err, boot_volume) go) \<Rightarrow> int \<Rightarrow> string \<Rightarrow> boot_volume load_cache
          \<Rightarrow> (err, boot_volume) go \<times> boot_volume load_cache) \<Rightarrow> cloud_provider
    \<Rightarrow> (err, string) go \<times> cloud_provider" where
  "volume_drift_with env d atts getVolume p =
     st_bind (cp_with_caches atts p) (\<lambda>as p.
       is_boot_volume_drifted d as (\<lambda>v. cp_with_volumes (getVolume (ce_volume env) (ce_now env) v)) p)"

definition drift_of_volume :: "cloud_env \<Rightarrow> desired_state \<Rightarrow> oci_instance \<Rightarrow> cloud_provider
    \<Rightarrow> (err, string) go \<times> cloud_provider" where
  "drift_of_volume env d i p =
     st_bind (deref (ins_id i), p) (\<lambda>k p.
       (let fetch = co_boot_atts (le_api (ce_launch env)) (ins_compartment i) k (ins_ad i)
        in confirmed
             (volume_drift_with env d (list_boot_atts_cached (ce_now env) fetch k) get_boot_volume_cached)
             (volume_drift_with env d (list_boot_atts (ce_now env) fetch k) get_boot_volume) p))"

text \<open>The reservations of the claim that the node class resolves to; \<open>None\<close> is a mismatch.\<close>

definition wanted_reservations :: "cloud_env \<Rightarrow> node_claim \<Rightarrow> node_class_spec \<Rightarrow> cloud_provider
    \<Rightarrow> (err, string list option) go \<times> cloud_provider" where
  "wanted_reservations env claim spec p =
     (case ce_reservations env (nc_reqs claim) of
        None \<Rightarrow> (Ok (Some []), p)
      | Some labels \<Rightarrow>
          if length (ncs_capres spec) = 0 then (Ok None, p)
          else
            (let (r, c) = resolve_capacity_reservations (penv_capres (ce_place env)) (ce_now env) (ncs_capres spec)
                            (pst_capres (cp_place p))
             in (go_bind r (\<lambda>(rrs, eo).
                   case eo of
                     Some e \<Rightarrow> Fail e
                   | None \<Rightarrow>
                       (let ids = map rr_ocid (filter (\<lambda>rr. ocid_to_label_value (rr_ocid rr) \<in> set labels) rrs)
                        in Ok (if length ids = 0 then None else Some ids))),
                 p\<lparr>cp_place := (cp_place p)\<lparr>pst_capres := c\<rparr>\<rparr>)))"

definition first_reason ::
  "('s \<Rightarrow> (err, string) go \<times> 's) \<Rightarrow> ('s \<Rightarrow> (err, string) go \<times> 's) \<Rightarrow> 's \<Rightarrow> (err, string) go \<times> 's" where
  "first_reason check rest s = st_bind (check s) (\<lambda>reason s. if reason \<noteq> [] then (Ok reason, s) else rest s)"

definition drift_of_claim :: "cloud_env \<Rightarrow> node_claim \<Rightarrow> desired_state \<Rightarrow> cloud_provider
    \<Rightarrow> (err, string) go \<times> cloud_provider" where
  "drift_of_claim env claim d p =
     (let k = nc_provider_id claim; static = are_static_fields_drifted claim (ds_class d)
      in if static \<noteq> [] then (Ok static, p)
         else
           st_bind (case cp_with_caches (get_instance_cached (ce_now env) (co_get (le_api (ce_launch env)) k) k) p of
                      (r, p1) \<Rightarrow> (unknown_drift r, p1)) (\<lambda>cached p.
             first_reason (drift_of_instance env k d cached)
               (first_reason (drift_of_network env claim d (ii_instance cached))
                 (drift_of_volume env d (ii_instance cached))) p))"

definition cp_is_drifted :: "cloud_env \<Rightarrow> node_claim \<Rightarrow> cloud_provider \<Rightarrow> (err, string) go \<times> cloud_provider" where
  "cp_is_drifted env claim p =
     (case ensure_node_class_from_claim env claim of
        Fail e \<Rightarrow> (Fail (ErrText (''drifted status unknown: '' @ cloud_text e)), p)
      | Panic \<Rightarrow> (Panic, p)
      | Hang \<Rightarrow> (Hang, p)
      | Ok cls \<Rightarrow>
          st_bind (case cp_list_types env cls (nc_taints claim) p of (r, p1) \<Rightarrow> (fail_as ''drift status unknown: '' r, p1)) (\<lambda>its p.
            (case List.find (\<lambda>it. it_name it = from_ptr [] (map_of (nc_labels claim) LabelInstanceTypeStable)) its of
               None \<Rightarrow> (Ok ''ShapeNotFound'', p)
             | Some it \<Rightarrow>
                 st_bind (case cp_resolve_image env (ncl_spec cls) (it_shape it) p of (r, p1) \<Rightarrow> (unknown_drift r, p1)) (\<lambda>img p.
                 st_bind (index_go (ir_images img) 0, p) (\<lambda>img0 p.
                 st_bind (wanted_reservations env claim (ncl_spec cls) p) (\<lambda>wanted p.
                   (case wanted of
                      None \<Rightarrow> (Ok CapacityReservationMismatch, p)
                    | Some ids \<Rightarrow>
                        drift_of_claim env claim
                          \<lparr>ds_type = it, ds_compartment = instance_compartment (cp_instances p) (ncl_spec cls),
                           ds_image = img0, ds_class = cls, ds_capres = ids\<rparr> p)))))))"

end
