(* ===== verification/Cloud_Examples.thy ===== *)
theory Cloud_Examples
  imports Cloud_Provider Instance_Laws Drift_Laws
begin

section \<open>A cloud provider for the examples\<close>

text \<open>Services that know one machine under every OCID, and nothing in the caches.\<close>

definition example_machine :: "string \<Rightarrow> oci_instance" where
  "example_machine k = plain_instance\<lparr>ins_id := Some k, ins_launch_options := Some no_options\<rparr>"

definition example_compute :: compute_api where
  "example_compute = (le_api sample_env)\<lparr>co_get := (\<lambda>k. Ok (example_machine k, Some ''t''))\<rparr>"

definition example_cloud_env :: cloud_env where
  "example_cloud_env =
     \<lparr>ce_types = example_type_env, ce_place = example_env, ce_image = example_image_env, ce_vcn = example_vcn_api,
      ce_region = (\<lambda>r. r), ce_connect = (\<lambda>e. Ok ()), ce_kms = (\<lambda>e k. Panic), ce_launch = sample_env\<lparr>le_api := example_compute\<rparr>,
      ce_turns = (\<lambda>pr it t. []), ce_deletes = [DelPoll (Ok (plain_instance\<lparr>ins_state := Terminated\<rparr>, Some ''t''))],
      ce_volume = (\<lambda>v. Panic), ce_class = (\<lambda>n. Ok sample_class),
      ce_classes = Ok [sample_class],
      ce_pool = (\<lambda>n. Ok \<lparr>npl_name = n, npl_uid = ''u1'', npl_class = ''default'', npl_taints = []\<rparr>),
      ce_pools = Ok [\<lparr>npl_name = ''pool'', npl_uid = ''u1'', npl_class = ''default'', npl_taints = []\<rparr>],
      ce_create_npn = (\<lambda>ob. Ok ()), ce_ready = (\<lambda>c. ReadyTrue), ce_observed = (\<lambda>c. True), ce_overlay = None,
      ce_reqs_compat = (\<lambda>rs qs. True), ce_compat = (\<lambda>rs ofr. True), ce_fits = (\<lambda>c it. True),
      ce_group = (\<lambda>ofs. map (\<lambda>ofr. [ofr]) ofs), ce_cheapest = hd, ce_allocatable = it_capacity,
      ce_reservations = (\<lambda>rs. None), ce_initialized = (\<lambda>c. True), ce_hash = (\<lambda>s. ''h''), ce_vnic_order = id, ce_now = 0\<rparr>"

definition example_cloud :: cloud_provider where
  "example_cloud =
     \<lparr>cp_types = example_types, cp_place = example_places, cp_images = example_images, cp_network = example_vcn,
      cp_kms = \<lparr>mp_cache = new_default_cache, mp_clients = []\<rparr>, cp_instances = sample_provider,
      cp_npn = new_npn_provider False [IPv4], cp_npns = [], cp_fallback = True, cp_initialized = True\<rparr>"

lemmas example_cloud_defs = example_cloud_env_def example_cloud_def example_compute_def example_machine_def

end
