(* ===== verification/Cloud_Laws.thy ===== *)
theory Cloud_Laws
  imports Cloud_Examples
begin

section \<open>What the cloud provider guarantees\<close>

text \<open>
  Creating a machine (\<open>cp_create\<close>): which instance type is launched, what became of the launches that
  failed before it, and when the answer is that there is no capacity.
\<close>

subsection \<open>Trying the instance types\<close>

text \<open>
  Launches of one instance type that failed one after the other: each with its proposal, the state
  it found and its error.
\<close>

type_synonym attempt = "proposal \<times> instance_provider \<times> err"

inductive failing ::
  "cloud_env \<Rightarrow> node_claim \<Rightarrow> node_class \<Rightarrow> oci_instance_type \<Rightarrow> image_result \<Rightarrow> network_resolve_result \<Rightarrow> kms_result option
    \<Rightarrow> instance_provider \<Rightarrow> attempt list \<Rightarrow> instance_provider \<Rightarrow> bool"
  for env claim cls it img net kms where
  none_tried: "failing env claim cls it img net kms ip [] ip"
| one_failed: "launch_instance (ce_launch env) (ce_turns env pr it) claim cls it img net (map_option kr_ocid kms) pr ip = (Fail e, ip1) \<Longrightarrow>
    failing env claim cls it img net kms ip1 atts ip2 \<Longrightarrow> failing env claim cls it img net kms ip ((pr, ip, e) # atts) ip2"

text \<open>
  What an attempt leaves behind: nothing, when it is undone; a machine, possibly, when it was
  cancelled or the service named no work request for it.
\<close>

definition undone :: "cloud_env \<Rightarrow> node_claim \<Rightarrow> node_class \<Rightarrow> oci_instance_type \<Rightarrow> image_result \<Rightarrow> network_resolve_result
    \<Rightarrow> kms_result option \<Rightarrow> attempt \<Rightarrow> bool" where
  "undone env claim cls it img net kms a =
     (case a of (pr, ip, e) \<Rightarrow>
        launch_undone (ce_launch env) (ce_turns env pr it) claim cls it img net (map_option kr_ocid kms) pr ip)"

definition interrupted :: "attempt \<Rightarrow> bool" where
  "interrupted a = (case a of (pr, ip, e) \<Rightarrow> e = ErrText ''context cancelled'' \<or> e = no_work_request)"

lemma failing_undone:
  "failing env claim cls it img net kms ip atts ip' \<Longrightarrow> a \<in> set atts \<Longrightarrow> undone env claim cls it img net kms a \<or> interrupted a"
  by (induction rule: failing.induct) (auto simp: undone_def interrupted_def dest: launch_failed)

lemma failing_last:
  assumes "failing env claim cls it img net kms ip atts ip'" "atts \<noteq> []"
    "is_skippable_launch_error (Some (snd (snd (last atts)))) b"
  shows "undone env claim cls it img net kms (last atts)"
  using assms
proof (induction rule: failing.induct)
  case (one_failed pr ip e ip1 atts ip2)
  then show ?case by (cases "atts = []") (auto simp: undone_def intro: launch_skipped)
qed simp

lemma launch_func_cases:
  assumes "launch_func env claim cls it img net kms pr w = (r, w')"
  shows "case r of
      Ok u \<Rightarrow> \<exists>i. fst w' = Some i \<and> launch_instance (ce_launch env) (ce_turns env pr it) claim cls it img net (map_option kr_ocid kms)
                  pr (snd w) = (Ok i, snd w')
    | Fail e \<Rightarrow> fst w' = fst w \<and> launch_instance (ce_launch env) (ce_turns env pr it) claim cls it img net (map_option kr_ocid kms)
                  pr (snd w) = (Fail e, snd w')
    | _ \<Rightarrow> fst w' = fst w"
  using assms by (auto simp: launch_func_def split: prod.splits go.splits)

text \<open>The outcome of trying proposals from a state \<open>w\<close>: what was captured, and the attempts.\<close>

definition tried ::
  "cloud_env \<Rightarrow> node_claim \<Rightarrow> node_class \<Rightarrow> oci_instance_type \<Rightarrow> image_result \<Rightarrow> network_resolve_result \<Rightarrow> kms_result option
    \<Rightarrow> instance_info option \<times> instance_provider \<Rightarrow> (err, unit) go \<Rightarrow> instance_info option \<times> instance_provider \<Rightarrow> bool" where
  "tried env claim cls it img net kms w r w' \<longleftrightarrow>
     (case r of
        Ok u \<Rightarrow> \<exists>i atts ip pr. fst w' = Some i \<and> failing env claim cls it img net kms (snd w) atts ip
          \<and> launch_instance (ce_launch env) (ce_turns env pr it) claim cls it img net (map_option kr_ocid kms) pr ip = (Ok i, snd w')
      | Fail e \<Rightarrow> fst w' = fst w \<and> (\<exists>atts. failing env claim cls it img net kms (snd w) atts (snd w')
          \<and> atts \<noteq> [] \<and> snd (snd (last atts)) = e)
      | _ \<Rightarrow> fst w' = fst w)"

lemma tried_once:
  assumes "launch_func env claim cls it img net kms pr w = (r, w')"
  shows "tried env claim cls it img net kms w r w'"
proof (cases r)
  case (Ok u)
  with launch_func_cases [OF assms] show ?thesis by (auto simp: tried_def intro: failing.none_tried)
next
  case (Fail e)
  with launch_func_cases [OF assms] have f: "fst w' = fst w"
    "launch_instance (ce_launch env) (ce_turns env pr it) claim cls it img net (map_option kr_ocid kms) pr (snd w) = (Fail e, snd w')" by auto
  from failing.one_failed [OF f(2) failing.none_tried] f(1) Fail show ?thesis
    by (auto simp: tried_def intro!: exI [of _ "[(pr, snd w, e)]"])
qed (use launch_func_cases [OF assms] in \<open>auto simp: tried_def\<close>)

lemma tried_again:
  assumes "launch_func env claim cls it img net kms pr w = (Fail e, w1)" "tried env claim cls it img net kms w1 r w'"
  shows "tried env claim cls it img net kms w r w'"
proof -
  from launch_func_cases [OF assms(1)] have f: "fst w1 = fst w"
    "launch_instance (ce_launch env) (ce_turns env pr it) claim cls it img net (map_option kr_ocid kms) pr (snd w) = (Fail e, snd w1)" by auto
  note step = failing.one_failed [OF f(2)]
  show ?thesis
  proof (cases r)
    case (Ok u)
    with assms(2) obtain i atts ip pr' where i: "fst w' = Some i" "failing env claim cls it img net kms (snd w1) atts ip"
      "launch_instance (ce_launch env) (ce_turns env pr' it) claim cls it img net (map_option kr_ocid kms) pr' ip = (Ok i, snd w')"
      by (auto simp: tried_def)
    from i(1,3) step [OF i(2)] Ok show ?thesis unfolding tried_def by auto
  next
    case (Fail e')
    with assms(2) obtain atts where a: "failing env claim cls it img net kms (snd w1) atts (snd w')" "fst w' = fst w1"
      "atts \<noteq> []" "snd (snd (last atts)) = e'" by (auto simp: tried_def)
    with step [OF a(1)] f(1) Fail show ?thesis
      by (auto simp: tried_def intro!: exI [of _ "(pr, snd w, e) # atts"])
  qed (use assms(2) f in \<open>auto simp: tried_def\<close>)
qed

lemma place_loop_tried:
  "place_loop n sorter (launch_func env claim cls it img net kms) it ps a w = (r, a', w') \<Longrightarrow>
     tried env claim cls it img net kms w r w'"
proof (induction n arbitrary: ps a w)
  case (Suc n)
  obtain po qs a1 where p: "propose sorter ps (it_shape it) (it_ocpu it) (it_memory it) a = (po, qs, a1)" by (rule prod_cases3)
  show ?case
  proof (cases po)
    case (Some pr)
    obtain q w1 where l: "launch_func env claim cls it img net kms pr w = (q, w1)" by (rule prod.exhaust)
    note once = tried_once [OF l]
    show ?thesis
    proof (cases q)
      case (Fail e)
      show ?thesis
      proof (cases "1 < length qs")
        case True
        with Suc.prems p Some l Fail
        have "place_loop n sorter (launch_func env claim cls it img net kms) it (tl qs) (summary_forget (prop_temp pr) a1) w1 = (r, a', w')"
          by simp
        from tried_again [OF l [unfolded Fail] Suc.IH [OF this]] show ?thesis .
      qed (use Suc.prems p Some l Fail once in auto)
    qed (use Suc.prems p Some l once in auto)
  qed (use Suc.prems p in \<open>auto simp: tried_def\<close>)
qed (auto simp: tried_def)

lemma place_instance_tried:
  assumes "place_instance penv claim spec it (launch_func env claim cls it img net kms) s w = (r, s', w')"
  shows "tried env claim cls it img net kms w r w' \<or> (w' = w \<and> (\<forall>u. r \<noteq> Ok u))"
  using assms
  by (auto simp: place_instance_def Let_def split: if_splits prod.splits go.splits dest!: place_loop_tried)

text \<open>
  Types that are passed over, one after the other: there was no image for it; or every launch of it
  that was tried failed, the last with an error that another offering may not have, and that last
  one was undone.
\<close>

inductive passes ::
  "cloud_env \<Rightarrow> node_claim \<Rightarrow> node_class \<Rightarrow> network_resolve_result \<Rightarrow> kms_result option \<Rightarrow> oci_instance_type list
    \<Rightarrow> cloud_provider \<Rightarrow> err option \<Rightarrow> cloud_provider \<Rightarrow> err option \<Rightarrow> bool"
  for env claim cls net kms where
  none_left: "passes env claim cls net kms [] p s p s"
| no_image: "cp_resolve_image env (ncl_spec cls) (it_shape it) p = (Fail e, p1) \<Longrightarrow>
    passes env claim cls net kms its p1 s p' s' \<Longrightarrow> passes env claim cls net kms (it # its) p s p' s'"
| no_capacity: "cp_resolve_image env (ncl_spec cls) (it_shape it) p = (Ok img, p1) \<Longrightarrow>
    place_instance (ce_place env) claim (ncl_spec cls) it (launch_func env claim cls it img net kms)
      (cp_place p1) (None, cp_instances p1) = (Fail e, pl, None, ip) \<Longrightarrow>
    is_skippable_launch_error (Some e) (cp_fallback p1) \<Longrightarrow>
    failing env claim cls it img net kms (cp_instances p1) atts ip \<Longrightarrow>
    (\<forall>a \<in> set atts. undone env claim cls it img net kms a \<or> interrupted a) \<Longrightarrow>
    (atts \<noteq> [] \<longrightarrow> undone env claim cls it img net kms (last atts)) \<Longrightarrow>
    passes env claim cls net kms its (p1\<lparr>cp_place := pl, cp_instances := ip\<rparr>) (Some e) p' s' \<Longrightarrow>
    passes env claim cls net kms (it # its) p s p' s'"

definition launches ::
  "cloud_env \<Rightarrow> node_claim \<Rightarrow> node_class \<Rightarrow> network_resolve_result \<Rightarrow> kms_result option \<Rightarrow> oci_instance_type
    \<Rightarrow> cloud_provider \<Rightarrow> instance_info \<Rightarrow> cloud_provider \<Rightarrow> bool" where
  "launches env claim cls net kms it p i p' \<longleftrightarrow>
     (\<exists>img p1 pl atts ip0 pr ip. cp_resolve_image env (ncl_spec cls) (it_shape it) p = (Ok img, p1)
        \<and> place_instance (ce_place env) claim (ncl_spec cls) it (launch_func env claim cls it img net kms)
            (cp_place p1) (None, cp_instances p1) = (Ok (), pl, Some i, ip)
        \<and> failing env claim cls it img net kms (cp_instances p1) atts ip0
        \<and> (\<forall>a \<in> set atts. undone env claim cls it img net kms a \<or> interrupted a)
        \<and> launch_instance (ce_launch env) (ce_turns env pr it) claim cls it img net (map_option kr_ocid kms) pr ip0 = (Ok i, ip)
        \<and> p' = p1\<lparr>cp_place := pl, cp_instances := ip\<rparr>)"

lemma no_capacity_passes:
  assumes "cp_resolve_image env (ncl_spec cls) (it_shape it) p = (Ok img, p1)"
    "place_instance (ce_place env) claim (ncl_spec cls) it (launch_func env claim cls it img net kms)
      (cp_place p1) (None, cp_instances p1) = (Fail e, pl, inst, ip)"
    "is_skippable_launch_error (Some e) (cp_fallback p1)"
  shows "inst = None" "passes env claim cls net kms its (p1\<lparr>cp_place := pl, cp_instances := ip\<rparr>) (Some e) p' s' \<Longrightarrow>
    passes env claim cls net kms (it # its) p s p' s'"
proof -
  from place_instance_tried [OF assms(2)] obtain atts where a: "inst = None"
    "failing env claim cls it img net kms (cp_instances p1) atts ip" "atts \<noteq> [] \<longrightarrow> snd (snd (last atts)) = e"
    by (auto simp: tried_def intro: failing.none_tried)
  then show "inst = None" by simp
  have "\<forall>x \<in> set atts. undone env claim cls it img net kms x \<or> interrupted x" using failing_undone [OF a(2)] by blast
  moreover have "atts \<noteq> [] \<longrightarrow> undone env claim cls it img net kms (last atts)"
    using failing_last [OF a(2)] a(3) assms(3) by blast
  ultimately show "passes env claim cls net kms its (p1\<lparr>cp_place := pl, cp_instances := ip\<rparr>) (Some e) p' s' \<Longrightarrow>
    passes env claim cls net kms (it # its) p s p' s'"
    using passes.no_capacity [OF assms(1) assms(2) [unfolded a(1)] assms(3) a(2)] by blast
qed

lemma ok_launches:
  assumes "cp_resolve_image env (ncl_spec cls) (it_shape it) p = (Ok img, p1)"
    "place_instance (ce_place env) claim (ncl_spec cls) it (launch_func env claim cls it img net kms)
      (cp_place p1) (None, cp_instances p1) = (Ok u, pl, inst, ip)"
  shows "\<exists>i. inst = Some i \<and> launches env claim cls net kms it p i (p1\<lparr>cp_place := pl, cp_instances := ip\<rparr>)"
proof -
  from place_instance_tried [OF assms(2)] obtain i atts ip0 pr where a: "inst = Some i"
    "failing env claim cls it img net kms (cp_instances p1) atts ip0"
    "launch_instance (ce_launch env) (ce_turns env pr it) claim cls it img net (map_option kr_ocid kms) pr ip0 = (Ok i, ip)"
    by (auto simp: tried_def)
  have "\<forall>x \<in> set atts. undone env claim cls it img net kms x \<or> interrupted x" using failing_undone [OF a(2)] by blast
  with a assms show ?thesis unfolding launches_def by simp blast
qed

lemma try_types_Ok:
  "try_types env claim cls net kms its \<lparr>ln_instance = None, ln_type = None, ln_skipped = s\<rparr> p = (Ok l, p') \<Longrightarrow>
     (ln_instance l = None \<and> passes env claim cls net kms its p s p' (ln_skipped l))
     \<or> (\<exists>pre it post i q. its = pre @ it # post \<and> ln_instance l = Some i \<and> ln_type l = Some it
          \<and> passes env claim cls net kms pre p s q (ln_skipped l) \<and> launches env claim cls net kms it q i p')"
proof (induction its arbitrary: s p)
  case Nil
  then show ?case by (auto intro: passes.none_left)
next
  case (Cons it its)
  obtain r p1 where im: "cp_resolve_image env (ncl_spec cls) (it_shape it) p = (r, p1)" by fastforce
  show ?case
  proof (cases r)
    case (Fail e)
    with Cons.prems im have "try_types env claim cls net kms its \<lparr>ln_instance = None, ln_type = None, ln_skipped = s\<rparr> p1 = (Ok l, p')"
      by simp
    from Cons.IH [OF this] show ?thesis
    proof (elim disjE exE conjE)
      fix pre it' post i q
      assume "its = pre @ it' # post" "ln_instance l = Some i" "ln_type l = Some it'"
        "passes env claim cls net kms pre p1 s q (ln_skipped l)" "launches env claim cls net kms it' q i p'"
      then show ?thesis using passes.no_image [OF im [unfolded Fail]]
        by (intro disjI2 exI [of _ "it # pre"] exI [of _ it'] exI [of _ post] exI [of _ i] exI [of _ q]) simp
    qed (use passes.no_image [OF im [unfolded Fail]] in blast)
  next
    case (Ok img)
    obtain r2 pl inst ip where pi: "place_instance (ce_place env) claim (ncl_spec cls) it (launch_func env claim cls it img net kms)
        (cp_place p1) (None, cp_instances p1) = (r2, pl, inst, ip)" by (metis surj_pair)
    let ?p2 = "p1\<lparr>cp_place := pl, cp_instances := ip\<rparr>"
    show ?thesis
    proof (cases r2)
      case (Ok u)
      from ok_launches [OF im [unfolded \<open>r = Ok img\<close>] pi [unfolded Ok]] obtain i where
        i: "inst = Some i" "launches env claim cls net kms it p i ?p2" by blast
      note i(2)
      moreover have "l = \<lparr>ln_instance = Some i, ln_type = Some it, ln_skipped = s\<rparr>" "p' = ?p2"
        using Cons.prems im pi \<open>r = Ok img\<close> Ok i(1) by auto
      ultimately show ?thesis
        by (intro disjI2 exI [of _ "[]"] exI [of _ it] exI [of _ its] exI [of _ i] exI [of _ p]) (simp add: passes.none_left)
    next
      case (Fail e)
      with Cons.prems im pi \<open>r = Ok img\<close> have sk: "is_skippable_launch_error (Some e) (cp_fallback p1)"
        by (auto simp: Let_def split: if_splits)
      note step = no_capacity_passes [OF im [unfolded \<open>r = Ok img\<close>] pi [unfolded Fail] sk]
      from Cons.prems im pi \<open>r = Ok img\<close> Fail sk step(1) have
        rest: "try_types env claim cls net kms its \<lparr>ln_instance = None, ln_type = None, ln_skipped = Some e\<rparr> ?p2 = (Ok l, p')"
        by (auto simp: Let_def split: if_splits)
      from Cons.IH [OF rest] show ?thesis
      proof (elim disjE exE conjE)
        fix pre it' post i q
        assume "its = pre @ it' # post" "ln_instance l = Some i" "ln_type l = Some it'"
          "passes env claim cls net kms pre ?p2 (Some e) q (ln_skipped l)" "launches env claim cls net kms it' q i p'"
        then show ?thesis using step(2)
          by (intro disjI2 exI [of _ "it # pre"] exI [of _ it'] exI [of _ post] exI [of _ i] exI [of _ q]) simp
      qed (use step(2) in blast)
    qed (use Cons.prems im pi \<open>r = Ok img\<close> in auto)
  qed (use Cons.prems im in auto)
qed

text \<open>The network of the node class is resolved before anything is launched, then its key.\<close>

definition resolves_first ::
  "cloud_env \<Rightarrow> node_class \<Rightarrow> cloud_provider \<Rightarrow> network_resolve_result \<Rightarrow> kms_result option \<Rightarrow> cloud_provider \<Rightarrow> bool" where
  "resolves_first env cls p net kms p' \<longleftrightarrow>
     (\<exists>q. cp_resolve_network env (ncs_network (ncl_spec cls)) p = (Ok net, q) \<and> cp_resolve_kms env (ncl_spec cls) q = (Ok kms, p'))"

definition no_launch :: launched where
  "no_launch = \<lparr>ln_instance = None, ln_type = None, ln_skipped = None\<rparr>"

lemma claim_class_error_Ok [simp]: "claim_class_error r = Ok x \<longleftrightarrow> r = Ok x"
  by (auto simp: claim_class_error_def split: go.splits cloud_err.splits)

lemma create_Ok_cases:
  assumes "cp_create env claim p = (Ok nc, p')"
  shows "\<exists>cls its p1 net kms p2 l p3 i. ensure_node_class_from_claim env claim = Ok cls
    \<and> resolve_instance_types env claim cls p = (Ok its, p1) \<and> resolves_first env cls p1 net kms p2
    \<and> try_types env claim cls net kms (order_by_price env (nc_reqs claim) its) no_launch p2 = (Ok l, p3)
    \<and> ln_instance l = Some i \<and> finish_create env claim cls net i (ln_type l) p3 = (Ok nc, p')"
proof -
  from assms obtain cls its p1 where 1: "ensure_node_class_from_claim env claim = Ok cls"
    "resolve_instance_types env claim cls p = (Ok its, p1)"
    by (auto simp: cp_create_def st_bind_Ok_iff Let_def split: if_splits prod.splits go.splits)
  with assms obtain net q kms p2 l p3 where 2: "resolves_first env cls p1 net kms p2"
    "try_types env claim cls net kms (order_by_price env (nc_reqs claim) its) no_launch p2 = (Ok l, p3)"
    "end_create env claim cls net l p3 = (Ok nc, p')"
    by (auto simp: cp_create_def st_bind_Ok_iff Let_def no_launch_def resolves_first_def split: if_splits)
  from 2(3) obtain i where "ln_instance l = Some i" "finish_create env claim cls net i (ln_type l) p3 = (Ok nc, p')"
    by (auto simp: end_create_def split: option.splits)
  with 1 2(1,2) show ?thesis by blast
qed

lemma finish_create_Ok:
  assumes "finish_create env claim cls net i ito p = (Ok nc, p')"
  shows "\<exists>h. Some (nc_provider_id nc) = ins_id (ii_instance i) \<and> hash_node_class_spec (ce_hash env) cls = Ok h
    \<and> map_of (nc_annotations nc) NodeClassHash = Some h
    \<and> map_of (nc_annotations nc) NodeClassHashVersion = Some OCINodeClassHashVersion"
proof -
  from assms obtain nc0 h where 1: "claim_from_instance_and_type env (ii_instance i) ito = Ok nc0"
    "hash_node_class_spec (ce_hash env) cls = Ok h"
    "nc = nc0\<lparr>nc_annotations := AList.update NodeClassHashVersion OCINodeClassHashVersion
                 (AList.update NodeClassHash h (nc_annotations nc0))\<rparr>"
    by (auto simp: finish_create_def st_bind_Ok_iff)
  from 1(1) have "Some (nc_provider_id nc0) = ins_id (ii_instance i)"
    by (cases "ins_source (ii_instance i)")
      (auto simp: claim_from_instance_and_type_def decorate_claim_by_instance_def go_bind_eq_Ok_iff deref_eq_Ok_iff Let_def)
  moreover have "NodeClassHash \<noteq> NodeClassHashVersion" by (simp add: NodeClassHash_def NodeClassHashVersion_def)
  ultimately show ?thesis using 1(2,3) by (simp add: update_conv')
qed

lemma create_first_launched:
  assumes "cp_create env claim p = (Ok nc, p')"
  shows "\<exists>cls its p1 net kms p2 pre it post i q p3 h. ensure_node_class_from_claim env claim = Ok cls
    \<and> resolve_instance_types env claim cls p = (Ok its, p1) \<and> resolves_first env cls p1 net kms p2
    \<and> order_by_price env (nc_reqs claim) its = pre @ it # post
    \<and> (\<exists>s. passes env claim cls net kms pre p2 None q s) \<and> launches env claim cls net kms it q i p3
    \<and> Some (nc_provider_id nc) = ins_id (ii_instance i)
    \<and> hash_node_class_spec (ce_hash env) cls = Ok h
    \<and> map_of (nc_annotations nc) NodeClassHash = Some h
    \<and> map_of (nc_annotations nc) NodeClassHashVersion = Some OCINodeClassHashVersion"
proof -
  from create_Ok_cases [OF assms] obtain cls its p1 net kms p2 l p3 i where
    c: "ensure_node_class_from_claim env claim = Ok cls" "resolve_instance_types env claim cls p = (Ok its, p1)"
    "resolves_first env cls p1 net kms p2"
    "try_types env claim cls net kms (order_by_price env (nc_reqs claim) its) no_launch p2 = (Ok l, p3)"
    "ln_instance l = Some i" "finish_create env claim cls net i (ln_type l) p3 = (Ok nc, p')" by blast
  from finish_create_Ok [OF c(6)] obtain h where h: "Some (nc_provider_id nc) = ins_id (ii_instance i)"
    "hash_node_class_spec (ce_hash env) cls = Ok h" "map_of (nc_annotations nc) NodeClassHash = Some h"
    "map_of (nc_annotations nc) NodeClassHashVersion = Some OCINodeClassHashVersion" by blast
  from try_types_Ok [OF c(4) [unfolded no_launch_def]] c(5) obtain pre it post q where
    "order_by_price env (nc_reqs claim) its = pre @ it # post" "passes env claim cls net kms pre p2 None q (ln_skipped l)"
    "launches env claim cls net kms it q i p3" by auto
  with c(1,2,3) h show ?thesis by blast
qed

text \<open>Insufficient capacity comes from nowhere but the end of \<open>cp_create\<close> itself.\<close>

definition other_error :: "(cloud_err, 'a) go \<times> cloud_provider \<Rightarrow> bool" where
  "other_error m \<longleftrightarrow> (\<forall>e. fst m \<noteq> Fail (InsufficientCapacity e))"

lemma other_error_bind:
  "other_error m \<Longrightarrow> (\<And>x s. other_error (f x s)) \<Longrightarrow> other_error (st_bind m f)"
  by (auto simp: other_error_def st_bind_def split: go.splits prod.splits)

lemma other_error_plain [simp]: "other_error (plain r, p)" "other_error (lift_cloud g p)" "other_error (Ok x, p)"
  by (auto simp: other_error_def lift_cloud_def split: prod.splits)

lemma other_error_parts [simp]:
  "other_error (cp_found pool i p)" "other_error (cp_mark_capres mark i p)" "other_error (apply_npn_and_log env info cls net p)"
  by (auto simp: other_error_def cp_found_def cp_mark_capres_def apply_npn_and_log_def split: go.splits prod.splits)

lemma other_error_finish: "other_error (finish_create env claim cls net i ito p)"
  unfolding finish_create_def by (intro other_error_bind) simp_all

lemma other_error_class: "other_error (claim_class_error (ensure_node_class_from_claim env claim), p)"
proof -
  have "ensure_node_class_from_claim env claim \<noteq> Fail (InsufficientCapacity e)" for e
    by (cases "nc_class claim")
      (auto simp: ensure_node_class_from_claim_def ensure_node_class_ready_def go_bind_eq_Fail_iff
        split: readiness.splits if_splits)
  then show ?thesis by (auto simp: other_error_def claim_class_error_def split: go.splits cloud_err.splits if_splits)
qed

lemma other_error_try: "other_error (try_types env claim cls net kms its l p)"
proof (induction its arbitrary: l p)
  case (Cons it its)
  show ?case using Cons.IH
    by (auto simp: other_error_def Let_def deref_no_fail split: go.splits prod.splits)
qed simp

lemma st_bind_other:
  assumes "st_bind m f = (Fail (InsufficientCapacity e), s')" "other_error m"
  shows "\<exists>x s. m = (Ok x, s) \<and> f x s = (Fail (InsufficientCapacity e), s')"
  using assms by (auto simp: other_error_def st_bind_def split: go.splits prod.splits)

lemma insufficient_cases:
  assumes "cp_create env claim p = (Fail (InsufficientCapacity e), p')"
  shows "\<exists>cls its p1. ensure_node_class_from_claim env claim = Ok cls \<and> resolve_instance_types env claim cls p = (Ok its, p1)
    \<and> (order_by_price env (nc_reqs claim) its = [] \<and> e = ErrText ''no instance type available'' \<and> p' = p1
     \<or> order_by_price env (nc_reqs claim) its \<noteq> [] \<and> (\<exists>net kms p2 l e'. resolves_first env cls p1 net kms p2
          \<and> try_types env claim cls net kms (order_by_price env (nc_reqs claim) its) no_launch p2 = (Ok l, p')
          \<and> ln_instance l = None \<and> ln_skipped l = Some e'
          \<and> e = WrapW ''all instance types exhausted due to insufficient capacity, '' e'))"
proof -
  have "other_error (case m of (Fail e, p1) \<Rightarrow> (Fail (CreateErr (WrapW msg e) reason), p1) | (r, p1) \<Rightarrow> (plain r, p1))" for m msg reason
    by (auto simp: other_error_def split: go.splits prod.splits)
  note other = other_error_class this
  from assms have "cp_initialized p" by (auto simp: cp_create_def split: if_splits)
  note create = assms [unfolded cp_create_def, simplified this not_True_eq_False if_False]
  from st_bind_other [OF create other(1)] obtain cls where cls: "ensure_node_class_from_claim env claim = Ok cls" and
    rest: "st_bind (case resolve_instance_types env claim cls p of
                   (Fail e, p1) \<Rightarrow> (Fail (CreateErr (WrapW ''resolving instance types, '' e) ''InstanceTypeResolutionFailed''), p1)
                 | (r, p1) \<Rightarrow> (plain r, p1)) (\<lambda>its p.
          (let ordered = order_by_price env (nc_reqs claim) its
           in if length ordered = 0
              then (Fail (InsufficientCapacity (ErrText ''no instance type available'')), p)
              else
                st_bind (lift_cloud (cp_resolve_network env (ncs_network (ncl_spec cls))) p) (\<lambda>net p.
                st_bind (lift_cloud (cp_resolve_kms env (ncl_spec cls)) p) (\<lambda>kms p.
                st_bind (try_types env claim cls net kms ordered \<lparr>ln_instance = None, ln_type = None, ln_skipped = None\<rparr> p)
                  (end_create env claim cls net))))) = (Fail (InsufficientCapacity e), p')"
    by auto
  from st_bind_other [OF rest other(2)] obtain its p1 where its: "resolve_instance_types env claim cls p = (Ok its, p1)"
    and rest: "(let ordered = order_by_price env (nc_reqs claim) its
           in if length ordered = 0
              then (Fail (InsufficientCapacity (ErrText ''no instance type available'')), p1)
              else
                st_bind (lift_cloud (cp_resolve_network env (ncs_network (ncl_spec cls))) p1) (\<lambda>net p.
                st_bind (lift_cloud (cp_resolve_kms env (ncl_spec cls)) p) (\<lambda>kms p.
                st_bind (try_types env claim cls net kms ordered \<lparr>ln_instance = None, ln_type = None, ln_skipped = None\<rparr> p)
                  (end_create env claim cls net)))) = (Fail (InsufficientCapacity e), p')"
    by (auto split: prod.splits go.splits)
  show ?thesis
  proof (cases "order_by_price env (nc_reqs claim) its = []")
    case True
    with rest cls its show ?thesis by simp
  next
    case False
    with rest obtain net kms p2 l p3 where n: "resolves_first env cls p1 net kms p2"
      and t: "try_types env claim cls net kms (order_by_price env (nc_reqs claim) its) no_launch p2 = (Ok l, p3)"
      and d: "end_create env claim cls net l p3 = (Fail (InsufficientCapacity e), p')"
      by (auto simp: Let_def no_launch_def other_error_try resolves_first_def dest!: st_bind_other)
    have "finish_create env claim cls net i ito p3 \<noteq> (Fail (InsufficientCapacity e), p')" for i ito
      using other_error_finish [of env claim cls net i ito p3] by (auto simp: other_error_def)
    with d have "ln_instance l = None" "p3 = p'" "\<exists>e'. ln_skipped l = Some e'
        \<and> e = WrapW ''all instance types exhausted due to insufficient capacity, '' e'"
      by (auto simp: end_create_def split: option.splits)
    with n t cls its False show ?thesis by blast
  qed
qed

lemma insufficient_exhausted:
  assumes "cp_create env claim p = (Fail (InsufficientCapacity e), p')"
  shows "\<exists>cls its p1. ensure_node_class_from_claim env claim = Ok cls \<and> resolve_instance_types env claim cls p = (Ok its, p1)
    \<and> (if order_by_price env (nc_reqs claim) its = [] then e = ErrText ''no instance type available'' \<and> p' = p1
       else \<exists>net kms p2 e'. resolves_first env cls p1 net kms p2
            \<and> passes env claim cls net kms (order_by_price env (nc_reqs claim) its) p2 None p' (Some e')
            \<and> e = WrapW ''all instance types exhausted due to insufficient capacity, '' e')"
proof -
  from insufficient_cases [OF assms] obtain cls its p1 where c: "ensure_node_class_from_claim env claim = Ok cls"
    "resolve_instance_types env claim cls p = (Ok its, p1)" and
    d: "order_by_price env (nc_reqs claim) its = [] \<and> e = ErrText ''no instance type available'' \<and> p' = p1
     \<or> order_by_price env (nc_reqs claim) its \<noteq> [] \<and> (\<exists>net kms p2 l e'. resolves_first env cls p1 net kms p2
          \<and> try_types env claim cls net kms (order_by_price env (nc_reqs claim) its) no_launch p2 = (Ok l, p')
          \<and> ln_instance l = None \<and> ln_skipped l = Some e'
          \<and> e = WrapW ''all instance types exhausted due to insufficient capacity, '' e')" by blast
  from d show ?thesis
  proof (elim disjE conjE exE)
    fix net kms p2 l e'
    assume "order_by_price env (nc_reqs claim) its \<noteq> []" "resolves_first env cls p1 net kms p2" and l: "ln_instance l = None" "ln_skipped l = Some e'"
      and t: "try_types env claim cls net kms (order_by_price env (nc_reqs claim) its) no_launch p2 = (Ok l, p')"
      and e: "e = WrapW ''all instance types exhausted due to insufficient capacity, '' e'"
    moreover from try_types_Ok [OF t [unfolded no_launch_def]] l
    have "passes env claim cls net kms (order_by_price env (nc_reqs claim) its) p2 None p' (Some e')" by auto
    ultimately show ?thesis using c by (intro exI [of _ cls] exI [of _ its] exI [of _ p1]) auto
  qed (use c in auto)
qed


subsection \<open>An example: a machine at the second attempt\<close>

text \<open>
  One shape, offered in two zones at different prices.  The service accepts every launch; the machine
  of the first zone gets no boot volume in time, that of the second is placed.
\<close>

definition created_spec :: node_class_spec where
  "created_spec = empty_spec
     \<lparr>ncs_network := \<lparr>nc_primary = Some example_simple_vnic, nc_secondary = []\<rparr>,
      ncs_volume := \<lparr>vc_boot = \<lparr>va_kms = None, va_size = None, va_vpus = None,
        bv_image = Some \<lparr>ic_type = OKEImage, ic_filter = None, ic_id = Some ''i''\<rparr>, bv_pv_encryption = None\<rparr>\<rparr>\<rparr>"

definition created_class :: node_class where
  "created_class = sample_class\<lparr>ncl_spec := created_spec\<rparr>"

definition created_claim :: node_claim where
  "created_claim = sample_claim\<lparr>nc_class := Some ''default''\<rparr>"

definition zone_offering :: "string \<Rightarrow> rat \<Rightarrow> offering" where
  "zone_offering z price = \<lparr>off_reqs = [(LabelTopologyZone, ReqIn [z])], off_price = price, off_available = True, off_capacity = 0\<rparr>"

definition creating_api :: compute_api where
  "creating_api = example_compute
     \<lparr>co_launch := (\<lambda>q. Ok \<lparr>lrs_work_request = ''w'', lrs_instance = example_machine (lq_ad q), lrs_etag = Some ''t''\<rparr>)\<rparr>"

definition seen_gone :: "delete_event list" where
  "seen_gone = [DelPoll (Ok (plain_instance\<lparr>ins_state := Terminated\<rparr>, Some ''t''))]"

definition creating_env :: cloud_env where
  "creating_env = example_cloud_env
     \<lparr>ce_image := example_image_env\<lparr>ie_get := (\<lambda>k. Ok (example_image k 9 ''1'')), ie_shapes := (\<lambda>k p. Ok ([''VM.Standard.E4''], None))\<rparr>,
      ce_class := (\<lambda>n. Ok created_class),
      ce_overlay := Some (\<lambda>pool its. Ok (map (\<lambda>it. ([zone_offering ''AD-1'' 1, zone_offering ''AD-2'' 2], [])) its)),
      ce_launch := sample_env\<lparr>le_api := creating_api\<rparr>,
      ce_turns := (\<lambda>pr it t. if prop_ad pr = ''p:AD-1''
        then [LaunchTimeout seen_gone] else [LaunchPoll (Ok WrSucceeded)])\<rparr>"

definition creating_cloud :: cloud_provider where
  "creating_cloud = example_cloud
     \<lparr>cp_types := example_types\<lparr>tp_shapes := [(''VM.Standard.E4'', (example_shape ''VM.Standard.E4'', [''p:AD-1'', ''p:AD-2'']))]\<rparr>,
      cp_network := example_vcn\<lparr>vp_npn := False\<rparr>\<rparr>"

lemma created_metadata:
  assumes "ir_type img = OKEImage"
  shows "\<exists>m. build_instance_metadata (inp_meta sample_provider) created_claim created_spec img net b = Ok m"
proof -
  have "customer_metadata created_spec = Map.empty" by (simp add: customer_metadata_def created_spec_def empty_spec_def)
  moreover have "\<exists>u. build_user_data (inp_meta sample_provider) created_claim created_spec = Ok u"
    by (simp add: build_user_data_def append_init_script_def append_kubelet_extra_args_def get_kubelet_extra_args_def
        created_spec_def empty_spec_def)
  ultimately show ?thesis by (auto simp: build_instance_metadata_def is_image_supported_def assms bootstrap_metadata_def)
qed

lemma created_timeout:
  assumes "inp_failover ip"
  shows "\<exists>dc. placement_timeout (ce_launch creating_env) seen_gone
      \<lparr>ii_instance = example_machine k, ii_etag = ''t''\<rparr> ip = (Fail NoCapacityError, ip\<lparr>inp_caches := dc\<rparr>)"
proof -
  have bm: "\<not> is_bm_shape ''VM.Standard2.1''" by code_simp
  have del: "\<exists>dc'. delete_instance 0 (Ok ()) k seen_gone dc = (Ok (), dc')" for dc
    by (simp add: seen_gone_def delete_instance_def get_instance_def get_instance_impl_def cache_refresh_def cache_load_def Let_def)
  obtain F where F: "\<And>dc. delete_instance 0 (Ok ()) k seen_gone dc = (Ok (), F dc)"
    using del by metis
  show ?thesis using assms
    by (simp add: placement_timeout_def creating_env_def sample_env_def creating_api_def example_compute_def example_machine_def
        plain_instance_def bm list_boot_atts_def fetch_all_single F Let_def)
      (rule exI, rule refl)
qed

lemma created_launch:
  assumes "ir_images img \<noteq> []" "ir_type img = OKEImage" "nrr_primary net = Some san" "sans_subnet san \<noteq> None"
    and "inp_meta ip = inp_meta sample_provider" "inp_failover ip"
  shows "prop_ad pr = ''p:AD-1'' \<Longrightarrow> \<exists>ip'. launch_instance (ce_launch creating_env) (ce_turns creating_env pr it) created_claim created_class it
      img net None pr ip = (Fail NoCapacityError, ip') \<and> inp_meta ip' = inp_meta sample_provider \<and> inp_failover ip'" (is "_ \<Longrightarrow> ?refused")
    "prop_ad pr = ''p:AD-2'' \<Longrightarrow> \<exists>ip'. launch_instance (ce_launch creating_env) (ce_turns creating_env pr it) created_claim created_class it
      img net None pr ip = (Ok \<lparr>ii_instance = example_machine ''p:AD-2'', ii_etag = ''t''\<rparr>, ip')" (is "_ \<Longrightarrow> ?launched")
proof -
  let ?b = "decide_capacity_type (ce_launch creating_env) created_claim it = CapacityTypeSpot"
  obtain i "is" where i: "ir_images img = i # is" using assms(1) by (cases "ir_images img") auto
  obtain m where m: "build_instance_metadata (inp_meta ip) created_claim (ncl_spec created_class) img net ?b = Ok m"
    using created_metadata [OF assms(2)] assms(5) by (auto simp: created_class_def)
  obtain t where t: "build_free_form_tags created_class created_claim = Ok t"
    by (simp add: build_free_form_tags_def node_pool_uid_def created_claim_def sample_claim_def)
  obtain q where q: "build_launch_request ip created_claim created_class it net (img_id i) None pr ?b m t = Ok q"
    using assms(3,4) by (auto simp: build_launch_request_def build_create_vnic_def Let_def)
  then have ad: "lq_ad q = prop_ad pr" by (auto simp: build_launch_request_def map_ok_eq_Ok_iff Let_def)
  have w: "launch_and_wait (ce_launch creating_env) (ce_turns creating_env pr it) created_claim created_class it img net (img_id i) None pr
      (decide_capacity_type (ce_launch creating_env) created_claim it) ip
    = wait_launched (ce_launch creating_env) ''w'' \<lparr>ii_instance = example_machine (prop_ad pr), ii_etag = ''t''\<rparr>
        (ce_turns creating_env pr it 0) ip"
    by (simp add: launch_and_wait_def m t q ad Let_def) (simp add: creating_env_def creating_api_def ad)
  { assume pr: "prop_ad pr = ''p:AD-1''"
    then have e: "ce_turns creating_env pr it 0 = [LaunchTimeout seen_gone]" by (simp add: creating_env_def)
    obtain dc where "launch_and_wait (ce_launch creating_env) (ce_turns creating_env pr it) created_claim created_class it img net (img_id i) None pr
        (decide_capacity_type (ce_launch creating_env) created_claim it) ip = (Fail NoCapacityError, ip\<lparr>inp_caches := dc\<rparr>)"
      using created_timeout [OF assms(6), of "prop_ad pr"] by (auto simp: w e)
    with pr assms(5,6) show ?refused
      by (auto simp: launch_instance_def i index_go_def Let_def mark_unavailable_offering_def example_ads) }
  { assume pr: "prop_ad pr = ''p:AD-2''"
    then have "ce_turns creating_env pr it 0 = [LaunchPoll (Ok WrSucceeded)]" by (simp add: creating_env_def)
    with w pr show ?launched by (auto simp: launch_instance_def i index_go_def Let_def) }
qed

text \<open>Placing in the one zone of an offering; the images, which are asked for twice.\<close>

definition zone_proposal :: "string \<Rightarrow> proposal" where
  "zone_proposal z = \<lparr>prop_temp = nc_name created_claim, prop_ad = ''p:'' @ z, prop_fd = None, prop_capres = None,
     prop_cluster = None, prop_cpg = None\<rparr>"

lemma created_place:
  assumes "it_offerings it = [zone_offering z price]" "f (zone_proposal z) w = (r, w')" "r \<noteq> Hang"
  shows "\<exists>s'. place_instance (ce_place creating_env) created_claim created_spec it f s w = (r, s', w')"
proof -
  have e: "eligible_offerings example_env created_claim it = [zone_offering z price]"
    by (simp add: eligible_offerings_def available_offerings_def example_env_def assms(1) zone_offering_def)
  have p: "proposal_of example_env created_claim (zone_offering z price) = Ok (zone_proposal z)"
    by (simp add: proposal_of_def zone_proposal_def created_claim_def sample_claim_def plain_claim_def zone_offering_def example_env_def
        off_zone_def example_any_def req_get_def req_has_def zone_to_ad_def)
  have d: "decorate example_env created_spec it None None (zone_proposal z) cp = (Ok [zone_proposal z], cp)" for cp
    by (simp add: decorate_def zone_proposal_def)
  have "resolve_placement example_env created_spec s = (Ok (None, None), s)"
    by (simp add: resolve_placement_def created_spec_def empty_spec_def)
  moreover have "ce_place creating_env = example_env" by (simp add: creating_env_def example_cloud_env_def)
  moreover have "penv_sort example_env = (slice_stable :: proposal_sort)" by (simp add: example_env_def)
  ultimately show ?thesis using assms(2,3)
    by (cases r) (simp_all add: place_instance_def e p d propose_def slice_stable_def Let_def)
qed

definition pictured :: "image_provider \<Rightarrow> bool" where
  "pictured im \<longleftrightarrow> ip_prebaked im = ''p'' \<and> ttl_ok (ip_ocid_cache im) \<and> ttl_ok (ip_shape_cache im)
     \<and> get_from_cache 0 (ip_ocid_cache im) ''i'' \<in> {None, Some (example_image ''i'' 9 ''1'')}
     \<and> get_from_cache 0 (ip_shape_cache im) ''i'' \<in> {None, Some {''VM.Standard.E4''}}"

lemma created_image:
  assumes "pictured (cp_images p)"
  shows "\<exists>img im. cp_resolve_image creating_env created_spec ''VM.Standard.E4'' p = (Ok img, p\<lparr>cp_images := im\<rparr>)
    \<and> ir_images img \<noteq> [] \<and> ir_type img = OKEImage \<and> pictured im"
proof -
  let ?cfg = "\<lparr>ic_type = OKEImage, ic_filter = None, ic_id = Some ''i''\<rparr>" and ?i = "example_image ''i'' 9 ''1''"
  let ?env = "ce_image creating_env"
  have v: "bv_image (vc_boot (ncs_volume created_spec)) = Some ?cfg" by (simp add: created_spec_def)
  have e: "ie_get ?env = (\<lambda>k. Ok (example_image k 9 ''1''))" "ie_shapes ?env = (\<lambda>k p. Ok ([''VM.Standard.E4''], None))" "ie_now ?env = 0"
    by (simp_all add: creating_env_def example_image_env_def)
  have g: "\<exists>im. get_image ?env False ''i'' (cp_images p) = (Ok ?i, im) \<and> pictured im"
    using assms by (auto simp: get_image_def get_or_load_pure e pictured_def get_after_set Let_def)
  then obtain im where im: "get_image ?env False ''i'' (cp_images p) = (Ok ?i, im)" "pictured im" by blast
  have f: "filter_and_sort_images ?env False [?i] ?cfg im = (Ok [?i], im)"
    by (simp add: filter_and_sort_images_def slice_stable_def is_prebaked_def example_image_def)
  have n: "img_name ?i = Some ''i''" "img_id ?i = ''i''" by (simp_all add: example_image_def)
  have "\<exists>im'. list_shapes_for_image ?env False ''i'' im = (Ok {''VM.Standard.E4''}, im') \<and> pictured im'"
    using im(2) by (auto simp: list_shapes_for_image_def get_or_load_pure e pictured_def get_after_set fetch_all_single Let_def)
  then obtain im' where "list_shapes_for_image ?env False ''i'' im = (Ok {''VM.Standard.E4''}, im')" "pictured im'" by blast
  with im f n show ?thesis
    by (simp add: cp_resolve_image_def v resolve_image_for_shape_def resolve_images_def candidate_images_def to_image_resolve_result_def)
      (rule exI [of _ im'], simp)
qed

lemma created_network:
  assumes "cp_network p = example_vcn\<lparr>vp_npn := False\<rparr>"
  shows "\<exists>net v san. cp_resolve_network creating_env (ncs_network created_spec) p = (Ok net, p\<lparr>cp_network := v\<rparr>)
     \<and> nrr_primary net = Some san \<and> sans_subnet san \<noteq> None"
proof -
  have new: "get_from_cache 0 new_default_cache k = None" for k by (simp add: new_default_cache_def get_new)
  show ?thesis
    by (simp add: cp_resolve_network_def cp_with_network_def assms creating_env_def example_cloud_env_def created_spec_def
        resolve_network_config_def resolve_primary_def resolve_simple_vnic_def resolve_subnet_and_nsg_def resolve_subnet_def
        get_subnet_def get_or_load_pure example_network_defs new no_network_def get_after_set split_def Let_def split: option.splits)
      (rule exI, rule refl)
qed

text \<open>The types: the overlay gives the one shape an offering in either zone, the first at half the price.\<close>

lemma created_decorate:
  "\<exists>it'. decorate_type example_type_env p created_spec (example_shape n) [''p:AD-1'', ''p:AD-2''] []
     (blank_type m n) s = (Ok it', s)"
proof -
  have 1: "sh_ocpus (example_shape n) = Some 2" "sh_memory (example_shape n) = Some 16"
    "sh_max_vnics (example_shape n) = None" "ncs_platform created_spec = None"
    by (simp_all add: example_shape_def created_spec_def empty_spec_def)
  have "\<exists>it'. set_overhead lib vcpu gbs created_spec it = Ok it'" for lib vcpu gbs it
    by (simp add: set_overhead_def kube_reserved_def system_reserved_def eviction_threshold_def created_spec_def empty_spec_def
        parse_resources_def)
  then obtain F where "\<And>lib vcpu gbs it. set_overhead lib vcpu gbs created_spec it = Ok (F lib vcpu gbs it)"
    by metis
  moreover have "\<exists>it'. set_offerings example_type_env p created_spec sh [''p:AD-1'', ''p:AD-2''] available price [] ev it s = (Ok it', s)"
    for p sh available price ev it s
    by (simp add: set_offerings_def get_placement_restrict_def created_spec_def empty_spec_def make_on_demand_def make_offering_def
        make_requirement_def example_ads reserved_capacity_def more_offerings_def check_taint_exists_def)
  then obtain G where "\<And>p sh available price ev it s. set_offerings example_type_env p created_spec sh [''p:AD-1'', ''p:AD-2'']
      available price [] ev it s = (Ok (G p sh available price ev it s), s)"
    by metis
  ultimately show ?thesis using 1 by (simp add: decorate_type_def blank_type_def Let_def case_prod_unfold)
qed

lemma created_types:
  "\<exists>it. resolve_instance_types creating_env created_claim created_class creating_cloud = (Ok [it], creating_cloud)
     \<and> it_shape it = ''VM.Standard.E4'' \<and> it_offerings it = [zone_offering ''AD-1'' 1, zone_offering ''AD-2'' 2]"
proof -
  let ?sh = "example_shape ''VM.Standard.E4''" and ?ads = "[''p:AD-1'', ''p:AD-2'']"
  let ?p = "(cp_types creating_cloud)\<lparr>tp_unavailable := inp_unavailable (cp_instances creating_cloud)\<rparr>"
  let ?pl = "cp_place creating_cloud"
  define s where "s = \<lparr>rs_capres = pst_capres ?pl, rs_cpg = pst_cpg ?pl, rs_cluster = pst_cluster ?pl\<rparr>"
  have sh: "\<not> is_gpu_shape ?sh" "sh_flexible ?sh = Some False" "is_flex_shape ?sh = Ok False" "sh_name ?sh = ''VM.Standard.E4''"
    by (simp_all add: is_gpu_shape_def example_shape_def is_flex_shape_def)
  obtain it where "decorate_type example_type_env ?p created_spec ?sh ?ads [] (blank_type ''VM.Standard.E4'' ''VM.Standard.E4'') s = (Ok it, s)"
    using created_decorate by blast
  with sh have "\<exists>it2. make_instance_types example_type_env ?p created_spec [] ?sh ?ads s = (Ok [it2], s)"
    by (simp add: make_instance_types_def finalize_requirements_def example_ads Let_def)
  then obtain it2 where m: "make_instance_types example_type_env ?p created_spec [] ?sh ?ads s = (Ok [it2], s)" by blast
  have n: "it_shape it2 = ''VM.Standard.E4''" using make_instance_types_shape [OF m] sh(4) by simp
  have "tp_shapes ?p = [(''VM.Standard.E4'', (?sh, ?ads))]" by (simp add: creating_cloud_def)
  with m sh have "list_instance_types example_type_env ?p ''default'' created_spec [] s = (Ok [it2], s)"
    by (simp add: list_instance_types_def)
  then have l: "cp_list_types creating_env created_class [] creating_cloud = (Ok [it2], creating_cloud)"
    by (simp add: cp_list_types_def creating_env_def example_cloud_env_def created_class_def sample_class_def s_def)
  have "suits_claim creating_env created_claim ((copy_and_update_offerings [zone_offering ''AD-1'' 1, zone_offering ''AD-2'' 2] it2)\<lparr>it_capacity := []\<rparr>)"
    by (simp add: suits_claim_def creating_env_def example_cloud_env_def copy_and_update_offerings_def available_offerings_def zone_offering_def)
  moreover have "ce_overlay creating_env = Some (\<lambda>pool its. Ok (map (\<lambda>it. ([zone_offering ''AD-1'' 1, zone_offering ''AD-2'' 2], [])) its))"
    "nc_taints created_claim = []"
    by (simp_all add: creating_env_def created_claim_def sample_claim_def plain_claim_def)
  ultimately show ?thesis using n l
    by (simp add: resolve_instance_types_def apply_overlay_def index_go_def) (simp add: copy_and_update_offerings_def)
qed

lemma created_order:
  assumes "it_offerings it = [zone_offering ''AD-1'' 1, zone_offering ''AD-2'' 2]"
  shows "order_by_price creating_env rs [it] =
    [copy_and_update_offerings [zone_offering ''AD-1'' 1] it, copy_and_update_offerings [zone_offering ''AD-2'' 2] it]"
  using assms
  by (simp add: order_by_price_def creating_env_def example_cloud_env_def available_offerings_def zone_offering_def slice_stable_def
      launch_price_def copy_and_update_offerings_def Let_def)

text \<open>The instance type as it is tried, with the offering of one zone.\<close>

definition zone_type :: "oci_instance_type \<Rightarrow> string \<Rightarrow> rat \<Rightarrow> oci_instance_type" where
  "zone_type it z price = copy_and_update_offerings [zone_offering z price] it"

lemma zone_type_parts:
  "it_shape (zone_type it z price) = it_shape it" "it_offerings (zone_type it z price) = [zone_offering z price]"
  by (simp_all add: zone_type_def copy_and_update_offerings_def)

lemma created_try:
  assumes "nrr_primary net = Some san" "sans_subnet san \<noteq> None" "it_shape it = ''VM.Standard.E4''"
    and "pictured (cp_images p)" "inp_meta (cp_instances p) = inp_meta sample_provider" "inp_failover (cp_instances p)"
  shows "\<exists>img p1 pl ip. cp_resolve_image creating_env created_spec (it_shape (zone_type it ''AD-1'' 1)) p = (Ok img, p1)
      \<and> place_instance (ce_place creating_env) created_claim created_spec (zone_type it ''AD-1'' 1)
          (launch_func creating_env created_claim created_class (zone_type it ''AD-1'' 1) img net None) (cp_place p1) (None, cp_instances p1)
        = (Fail NoCapacityError, pl, None, ip)
      \<and> pictured (cp_images p1) \<and> cp_npn p1 = cp_npn p \<and> inp_meta ip = inp_meta sample_provider \<and> inp_failover ip" (is ?refused)
    "\<exists>img p1 pl ip. cp_resolve_image creating_env created_spec (it_shape (zone_type it ''AD-2'' 2)) p = (Ok img, p1)
      \<and> place_instance (ce_place creating_env) created_claim created_spec (zone_type it ''AD-2'' 2)
          (launch_func creating_env created_claim created_class (zone_type it ''AD-2'' 2) img net None) (cp_place p1) (None, cp_instances p1)
        = (Ok (), pl, Some \<lparr>ii_instance = example_machine ''p:AD-2'', ii_etag = ''t''\<rparr>, ip) \<and> cp_npn p1 = cp_npn p" (is ?launched)
proof -
  obtain img im where img: "cp_resolve_image creating_env created_spec ''VM.Standard.E4'' p = (Ok img, p\<lparr>cp_images := im\<rparr>)"
    "ir_images img \<noteq> []" "ir_type img = OKEImage" "pictured im" using created_image [OF assms(4)] by blast
  note launch = created_launch [OF img(2,3) assms(1,2,5,6)]
  let ?it1 = "zone_type it ''AD-1'' 1" and ?it2 = "zone_type it ''AD-2'' 2"
  obtain ip1 where l1: "launch_instance (ce_launch creating_env) (ce_turns creating_env (zone_proposal ''AD-1'') ?it1) created_claim created_class ?it1 img net None
      (zone_proposal ''AD-1'') (cp_instances p) = (Fail NoCapacityError, ip1)" "inp_meta ip1 = inp_meta sample_provider" "inp_failover ip1"
    using launch(1) [of "zone_proposal ''AD-1''" ?it1] by (auto simp: zone_proposal_def)
  have f1: "launch_func creating_env created_claim created_class ?it1 img net None (zone_proposal ''AD-1'') (None, cp_instances p) = (Fail NoCapacityError, None, ip1)"
    by (simp add: launch_func_def) (use l1(1) in simp)
  obtain pl1 where "place_instance (ce_place creating_env) created_claim created_spec ?it1
      (launch_func creating_env created_claim created_class ?it1 img net None) (cp_place p) (None, cp_instances p) = (Fail NoCapacityError, pl1, None, ip1)"
    using created_place [of ?it1 "''AD-1''" 1, OF zone_type_parts(2), of "launch_func creating_env created_claim created_class ?it1 img net None", OF f1] by auto
  with img l1 show ?refused
    by (intro exI [of _ img] exI [of _ "p\<lparr>cp_images := im\<rparr>"] exI [of _ pl1] exI [of _ ip1]) (simp add: zone_type_parts assms(3))
  obtain ip2 where l2: "launch_instance (ce_launch creating_env) (ce_turns creating_env (zone_proposal ''AD-2'') ?it2) created_claim created_class ?it2 img net None
      (zone_proposal ''AD-2'') (cp_instances p) = (Ok \<lparr>ii_instance = example_machine ''p:AD-2'', ii_etag = ''t''\<rparr>, ip2)"
    using launch(2) [of "zone_proposal ''AD-2''" ?it2] by (auto simp: zone_proposal_def)
  have f2: "launch_func creating_env created_claim created_class ?it2 img net None (zone_proposal ''AD-2'') (None, cp_instances p)
      = (Ok (), Some \<lparr>ii_instance = example_machine ''p:AD-2'', ii_etag = ''t''\<rparr>, ip2)"
    by (simp add: launch_func_def) (use l2 in simp)
  obtain pl2 where "place_instance (ce_place creating_env) created_claim created_spec ?it2
      (launch_func creating_env created_claim created_class ?it2 img net None) (cp_place p) (None, cp_instances p)
      = (Ok (), pl2, Some \<lparr>ii_instance = example_machine ''p:AD-2'', ii_etag = ''t''\<rparr>, ip2)"
    using created_place [of ?it2 "''AD-2''" 2, OF zone_type_parts(2), of "launch_func creating_env created_claim created_class ?it2 img net None", OF f2] by auto
  with img show ?launched
    by (intro exI [of _ img] exI [of _ "p\<lparr>cp_images := im\<rparr>"] exI [of _ pl2] exI [of _ ip2]) (simp add: zone_type_parts assms(3))
qed

lemma created_finish:
  assumes "\<not> np_cluster (cp_npn p)"
  shows "\<exists>nc p'. finish_create creating_env created_claim created_class net \<lparr>ii_instance = example_machine ''p:AD-2'', ii_etag = ''t''\<rparr> ito p
      = (Ok nc, p') \<and> nc_provider_id nc = ''p:AD-2''"
proof -
  have z: "ad_to_zone ''p:PHX-AD-1'' = Ok ''PHX-AD-1''" by (simp add: ad_to_zone_def index_go_def)
  have "\<exists>h. hash_node_class_spec (ce_hash creating_env) created_class = Ok h"
    by (simp add: hash_node_class_spec_def static_fields_clone_def created_class_def created_spec_def)
  then obtain h where h: "hash_node_class_spec (ce_hash creating_env) created_class = Ok h" by blast
  have "\<exists>nc. claim_from_instance_and_type creating_env (example_machine ''p:AD-2'') ito = Ok nc \<and> nc_provider_id nc = ''p:AD-2''"
    by (simp add: claim_from_instance_and_type_def decorate_claim_by_instance_def example_machine_def plain_instance_def z Let_def)
  then obtain nc where nc: "claim_from_instance_and_type creating_env (example_machine ''p:AD-2'') ito = Ok nc" "nc_provider_id nc = ''p:AD-2''" by blast
  have f: "\<exists>pl. cp_found (pool_label created_claim) (example_machine ''p:AD-2'') p = (Ok (), p\<lparr>cp_place := pl\<rparr>)"
    by (simp add: cp_found_def instance_found_def summary_update_def example_machine_def plain_instance_def Let_def) (rule exI, rule refl)
  then obtain pl where "cp_found (pool_label created_claim) (example_machine ''p:AD-2'') p = (Ok (), p\<lparr>cp_place := pl\<rparr>)" by blast
  moreover have "ins_capres (example_machine ''p:AD-2'') = None" by (simp add: example_machine_def plain_instance_def)
  ultimately show ?thesis using nc h assms
    by (simp add: finish_create_def cp_mark_capres_def apply_npn_and_log_def)
qed

lemma created_start:
  "\<exists>it net p2. ensure_node_class_from_claim creating_env created_claim = Ok created_class
     \<and> resolve_instance_types creating_env created_claim created_class creating_cloud = (Ok [it], creating_cloud)
     \<and> order_by_price creating_env (nc_reqs created_claim) [it] = [zone_type it ''AD-1'' 1, zone_type it ''AD-2'' 2]
     \<and> it_shape it = ''VM.Standard.E4'' \<and> (\<exists>q. cp_resolve_network creating_env (ncs_network created_spec) creating_cloud = (Ok net, q)
           \<and> cp_resolve_kms creating_env created_spec q = (Ok None, p2))
     \<and> (\<exists>san. nrr_primary net = Some san \<and> sans_subnet san \<noteq> None) \<and> pictured (cp_images p2)
     \<and> cp_instances p2 = sample_provider \<and> cp_fallback p2 \<and> \<not> np_cluster (cp_npn p2)"
proof -
  obtain it where it: "resolve_instance_types creating_env created_claim created_class creating_cloud = (Ok [it], creating_cloud)"
    "it_shape it = ''VM.Standard.E4''" "it_offerings it = [zone_offering ''AD-1'' 1, zone_offering ''AD-2'' 2]"
    using created_types by blast
  have "cp_network creating_cloud = example_vcn\<lparr>vp_npn := False\<rparr>" by (simp add: creating_cloud_def)
  then obtain net v san where net: "cp_resolve_network creating_env (ncs_network created_spec) creating_cloud = (Ok net, creating_cloud\<lparr>cp_network := v\<rparr>)"
    "nrr_primary net = Some san" "sans_subnet san \<noteq> None" using created_network by blast
  have c: "ensure_node_class_from_claim creating_env created_claim = Ok created_class"
    by (simp add: ensure_node_class_from_claim_def created_claim_def sample_claim_def resolve_node_class_def ensure_node_class_ready_def
        creating_env_def example_cloud_env_def created_class_def sample_class_def)
  have k: "cp_resolve_kms creating_env created_spec (creating_cloud\<lparr>cp_network := v\<rparr>) = (Ok None, creating_cloud\<lparr>cp_network := v\<rparr>)"
    by (simp add: cp_resolve_kms_def created_spec_def resolve_kms_key_config_def)
  have "pictured (cp_images (creating_cloud\<lparr>cp_network := v\<rparr>))"
    by (simp add: pictured_def creating_cloud_def example_cloud_def example_images_def new_image_provider_def new_default_cache_def get_new)
      (simp add: ttl_ok_def new_load_cache_def)
  moreover have "cp_instances (creating_cloud\<lparr>cp_network := v\<rparr>) = sample_provider" "cp_fallback (creating_cloud\<lparr>cp_network := v\<rparr>)"
    "\<not> np_cluster (cp_npn (creating_cloud\<lparr>cp_network := v\<rparr>))"
    by (simp_all add: creating_cloud_def example_cloud_def new_npn_provider_def)
  ultimately show ?thesis
    using c k it net created_order [OF it(3), folded zone_type_def]
    by (intro exI [of _ it] exI [of _ net] exI [of _ "creating_cloud\<lparr>cp_network := v\<rparr>"]) auto
qed


end
