(* ===== verification/Cloud_Drift_Laws.thy ===== *)
theory Cloud_Drift_Laws
  imports Cloud_Examples
begin

section \<open>Drift, and what the services say\<close>

text \<open>
  \<open>IsDrifted\<close> looks at caches first and asks the services only to confirm.  Here: what it reports
  is always what the services say, and with caches that hold what the services say it is exactly
  the check without any cache (\<open>drift_now\<close>).
\<close>

subsection \<open>Checks whose fetches are as good as pure\<close>

lemma find_primary_sim:
  assumes "\<And>v s. H s \<Longrightarrow> \<exists>s'. getVnic v s = (R v, s') \<and> H s'" "H s"
  shows "\<exists>s'. find_primary_vnic getVnic sn vas s = (fst (find_primary_vnic (\<lambda>v u. (R v, u)) sn vas ()), s') \<and> H s'"
  using assms(2)
proof (induction vas arbitrary: s)
  case (Cons va vas)
  show ?case
  proof (cases "vat_subnet va = sn")
    case True
    show ?thesis
    proof (cases "vat_vnic va")
      case (Some v)
      from assms(1) [OF Cons.prems, of v] obtain s1 where s1: "getVnic v s = (R v, s1)" "H s1" by blast
      show ?thesis
      proof (cases "R v")
        case (Ok vnic)
        then show ?thesis using True Some s1 Cons.IH [OF s1(2)]
          by (cases "vnic_primary vnic") auto
      qed (use True Some s1 in auto)
    qed (use True Cons.prems in auto)
  qed (use Cons in auto)
qed auto

lemma secondary_vnics_sim:
  assumes "\<And>v s. H s \<Longrightarrow> \<exists>s'. getVnic v s = (R v, s') \<and> H s'" "H s"
  shows "\<exists>s'. secondary_vnics getVnic vas m s = (fst (secondary_vnics (\<lambda>v u. (R v, u)) vas m ()), s') \<and> H s'"
  using assms(2)
proof (induction vas arbitrary: s m)
  case (Cons va vas)
  show ?case
  proof (cases "vat_vnic va")
    case (Some v)
    from assms(1) [OF Cons.prems, of v] obtain s1 where s1: "getVnic v s = (R v, s1)" "H s1" by blast
    show ?thesis
    proof (cases "R v")
      case (Ok vnic)
      then show ?thesis using Some s1 Cons.IH [OF s1(2)] by auto
    qed (use Some s1 in auto)
  qed (use Cons.prems in auto)
qed auto

lemma network_drift_sim:
  assumes "\<And>v s. H s \<Longrightarrow> \<exists>s'. getVnic v s = (R v, s') \<and> H s'" "H s"
  shows "\<exists>s'. is_network_drifted order d atts getVnic skip s
      = (fst (is_network_drifted order d atts (\<lambda>v u. (R v, u)) skip ()), s') \<and> H s'"
proof (cases "ncst_network (ncl_status (ds_class d))")
  case (Some net)
  show ?thesis
  proof (cases "ns_primary net")
    case want: (Some want)
    let ?sn = "nr_id (vs_subnet want)"
    obtain s1 where s1: "find_primary_vnic getVnic ?sn (attached_to_check atts) s
        = (fst (find_primary_vnic (\<lambda>v u. (R v, u)) ?sn (attached_to_check atts) ()), s1)" "H s1"
      using find_primary_sim [where H = H and getVnic = getVnic and R = R, OF assms] by blast
    obtain s2 where s2: "secondary_vnics getVnic (attached_to_check atts) [] s1
        = (fst (secondary_vnics (\<lambda>v u. (R v, u)) (attached_to_check atts) [] ()), s2)" "H s2"
      using secondary_vnics_sim [where H = H and getVnic = getVnic and R = R, OF assms(1) s1(2)] by blast
    obtain r where r: "find_primary_vnic (\<lambda>v u. (R v, u)) ?sn (attached_to_check atts) () = (r, ())" by (metis surj_pair unit.exhaust)
    obtain q where q: "secondary_vnics (\<lambda>v u. (R v, u)) (attached_to_check atts) [] () = (q, ())" by (metis surj_pair unit.exhaust)
    show ?thesis
      using s1 s2 unfolding r q fst_conv
      by (cases r; cases q) (auto simp: is_network_drifted_def is_secondary_drifted_def Some want r q split: option.splits)
  qed (use assms(2) Some in \<open>auto simp: is_network_drifted_def\<close>)
qed (use assms(2) in \<open>auto simp: is_network_drifted_def\<close>)

lemma volume_drift_sim:
  assumes "\<And>v s. H s \<Longrightarrow> \<exists>s'. getVolume v s = (R v, s') \<and> H s'" "H s"
  shows "\<exists>s'. is_boot_volume_drifted d atts getVolume s
      = (fst (is_boot_volume_drifted d atts (\<lambda>v u. (R v, u)) ()), s') \<and> H s'"
proof (cases atts)
  case (Cons a as)
  let ?first = "oldest_attachment a as"
  show ?thesis
  proof (cases "bva_volume ?first")
    case (Some v)
    from assms(1) [OF assms(2), of v] obtain s1 where "getVolume v s = (R v, s1)" "H s1" by blast
    then show ?thesis using Cons Some assms(2)
      by (cases "R v") (auto simp: is_boot_volume_drifted_def Let_def)
  qed (use Cons assms(2) in \<open>auto simp: is_boot_volume_drifted_def Let_def\<close>)
qed (use assms(2) in \<open>auto simp: is_boot_volume_drifted_def\<close>)

subsection \<open>The check without caches\<close>

definition network_drift_now :: "cloud_env \<Rightarrow> node_claim \<Rightarrow> desired_state \<Rightarrow> oci_instance \<Rightarrow> string \<Rightarrow> (err, string) go" where
  "network_drift_now env claim d i k =
     go_bind (fetch_all (co_vnic_atts (le_api (ce_launch env)) (ins_compartment i) k)) (\<lambda>as.
       fst (is_network_drifted (ce_vnic_order env) d as (\<lambda>v u. (vn_get_vnic (ce_vcn env) v, u))
              (\<not> ce_initialized env claim) ()))"

definition volume_drift_now :: "cloud_env \<Rightarrow> desired_state \<Rightarrow> oci_instance \<Rightarrow> string \<Rightarrow> (err, string) go" where
  "volume_drift_now env d i k =
     go_bind (fetch_all (co_boot_atts (le_api (ce_launch env)) (ins_compartment i) k (ins_ad i))) (\<lambda>as.
       fst (is_boot_volume_drifted d as (\<lambda>v u. (ce_volume env v, u)) ()))"

definition drift_now :: "cloud_env \<Rightarrow> node_claim \<Rightarrow> desired_state \<Rightarrow> (err, string) go" where
  "drift_now env claim d =
     (let static = are_static_fields_drifted claim (ds_class d); or = (\<lambda>r rest. if r \<noteq> [] then Ok r else rest)
      in or static
           (go_bind (unknown_drift (get_instance_impl (co_get (le_api (ce_launch env)) (nc_provider_id claim)))) (\<lambda>info.
            let i = ii_instance info
            in go_bind (is_instance_drifted d i) (\<lambda>r. or r
              (go_bind (deref (ins_id i)) (\<lambda>k.
               go_bind (network_drift_now env claim d i k) (\<lambda>r. or r (volume_drift_now env d i k))))))))"

subsection \<open>What is reported is true\<close>

lemma get_vnic_answer:
  "\<exists>p'. cp_with_network (get_vnic (ce_vcn env) now v) p = (vn_get_vnic (ce_vcn env) v, p')"
  by (cases "vn_get_vnic (ce_vcn env) v")
     (auto simp: cp_with_network_def get_vnic_def cache_refresh_def cache_load_def Let_def)

lemma get_volume_answer:
  "\<exists>p'. cp_with_volumes (get_boot_volume (ce_volume env) now v) p = (ce_volume env v, p')"
  by (cases "ce_volume env v")
     (auto simp: cp_with_volumes_def cp_with_caches_def get_boot_volume_def cache_refresh_def cache_load_def Let_def)

lemma network_real:
  assumes "network_drift_with env d (\<not> ce_initialized env claim)
      (list_vnic_atts now (co_vnic_atts (le_api (ce_launch env)) (ins_compartment i) k) k) get_vnic p = (Ok r, p')"
  shows "network_drift_now env claim d i k = Ok r"
proof -
  from assms obtain as p1 where a: "fetch_all (co_vnic_atts (le_api (ce_launch env)) (ins_compartment i) k) = Ok as"
    "is_network_drifted (ce_vnic_order env) d as (\<lambda>v. cp_with_network (get_vnic (ce_vcn env) (ce_now env) v))
       (\<not> ce_initialized env claim) p1 = (Ok r, p')"
    by (auto simp: network_drift_with_def st_bind_Ok_iff cp_with_caches_def list_vnic_atts_def Let_def split: prod.splits)
  have "\<exists>s'. is_network_drifted (ce_vnic_order env) d as (\<lambda>v. cp_with_network (get_vnic (ce_vcn env) (ce_now env) v))
       (\<not> ce_initialized env claim) p1
     = (fst (is_network_drifted (ce_vnic_order env) d as (\<lambda>v u. (vn_get_vnic (ce_vcn env) v, u))
          (\<not> ce_initialized env claim) ()), s') \<and> True"
    using get_vnic_answer by (intro network_drift_sim) auto
  with a show ?thesis by (auto simp: network_drift_now_def)
qed

lemma volume_real:
  assumes "volume_drift_with env d (list_boot_atts now
      (co_boot_atts (le_api (ce_launch env)) (ins_compartment i) k (ins_ad i)) k) get_boot_volume p = (Ok r, p')"
  shows "volume_drift_now env d i k = Ok r"
proof -
  from assms obtain as p1 where a: "fetch_all (co_boot_atts (le_api (ce_launch env)) (ins_compartment i) k (ins_ad i)) = Ok as"
    "is_boot_volume_drifted d as (\<lambda>v. cp_with_volumes (get_boot_volume (ce_volume env) (ce_now env) v)) p1 = (Ok r, p')"
    by (auto simp: volume_drift_with_def st_bind_Ok_iff cp_with_caches_def list_boot_atts_def Let_def split: prod.splits)
  have "\<exists>s'. is_boot_volume_drifted d as (\<lambda>v. cp_with_volumes (get_boot_volume (ce_volume env) (ce_now env) v)) p1
     = (fst (is_boot_volume_drifted d as (\<lambda>v u. (ce_volume env v, u)) ()), s') \<and> True"
    using get_volume_answer by (intro volume_drift_sim) auto
  with a show ?thesis by (auto simp: volume_drift_now_def)
qed

lemma first_reason_Ok:
  "first_reason check rest s = (Ok r, s') \<Longrightarrow>
     (check s = (Ok r, s') \<and> r \<noteq> []) \<or> (\<exists>s1. check s = (Ok [], s1) \<and> rest s1 = (Ok r, s'))"
  by (auto simp: first_reason_def st_bind_Ok_iff split: if_splits)

lemma confirmed_Ok:
  "confirmed cached actual s = (Ok r, s') \<Longrightarrow> r \<noteq> [] \<Longrightarrow> \<exists>s1. actual s1 = (Ok r, s')"
  by (auto simp: confirmed_def st_bind_Ok_iff split: if_splits)

lemma unknown_drift_Ok_iff [simp]: "unknown_drift r = Ok x \<longleftrightarrow> r = Ok x"
  by (cases r) (auto simp: unknown_drift_def fail_as_def)

lemma instance_real:
  assumes "cp_get_instance env k p = (Ok info, p')"
  shows "get_instance_impl (co_get (le_api (ce_launch env)) k) = Ok info"
  using assms
  by (auto simp: cp_get_instance_def cp_with_caches_def get_instance_def cache_refresh_def cache_load_def Let_def
      split: prod.splits go.splits)

text \<open>The machine of a claim, as the check knows it: from the cache, or else from the service.\<close>

definition known_machine :: "cloud_env \<Rightarrow> node_claim \<Rightarrow> cloud_provider \<Rightarrow> (err, instance_info) go" where
  "known_machine env claim p =
     (case get_from_cache (ce_now env) (dc_instances (inp_caches (cp_instances p))) (nc_provider_id claim) of
        Some info \<Rightarrow> Ok info
      | None \<Rightarrow> get_instance_impl (co_get (le_api (ce_launch env)) (nc_provider_id claim)))"

lemma cached_is_known:
  assumes "cp_with_caches (get_instance_cached (ce_now env) (co_get (le_api (ce_launch env)) (nc_provider_id claim))
      (nc_provider_id claim)) p = (Ok info, p')"
  shows "known_machine env claim p = Ok info"
  using assms
  by (auto simp: known_machine_def cp_with_caches_def get_instance_cached_def get_or_load_def cache_load_def Let_def
      split: option.splits prod.splits go.splits)

text \<open>
  C3. A reason for drift that is reported holds of what the services answer when they are asked now.
  If the static fields differ, that is the reason.  Otherwise the instance that the service returns
  for the OCID of the claim differs from what is wanted; or the attachments and the VNICs of the
  machine of the claim do, or its boot volume does: the machine that is cached under the OCID of the
  claim, or that the service returns when none is.
\<close>

theorem reported_drift_is_real:
  assumes "drift_of_claim env claim d p = (Ok r, p')" "r \<noteq> []"
  shows "if are_static_fields_drifted claim (ds_class d) \<noteq> [] then r = are_static_fields_drifted claim (ds_class d)
    else \<exists>i k. known_machine env claim p = Ok i
      \<and> ((\<exists>info. get_instance_impl (co_get (le_api (ce_launch env)) (nc_provider_id claim)) = Ok info
             \<and> is_instance_drifted d (ii_instance info) = Ok r)
        \<or> (ins_id (ii_instance i) = Some k
             \<and> (network_drift_now env claim d (ii_instance i) k = Ok r \<or> volume_drift_now env d (ii_instance i) k = Ok r)))"
proof (cases "are_static_fields_drifted claim (ds_class d) = []")
  case True
  with assms(1) obtain cached p1 where m: "known_machine env claim p = Ok cached" and c:
    "first_reason (drift_of_instance env (nc_provider_id claim) d cached)
       (first_reason (drift_of_network env claim d (ii_instance cached))
         (drift_of_volume env d (ii_instance cached))) p1 = (Ok r, p')"
    by (auto simp: drift_of_claim_def Let_def st_bind_Ok_iff dest: cached_is_known split: prod.splits)
  from c consider
      (inst) "drift_of_instance env (nc_provider_id claim) d cached p1 = (Ok r, p')"
    | (net) p2 where "drift_of_network env claim d (ii_instance cached) p2 = (Ok r, p')"
    | (vol) p2 where "drift_of_volume env d (ii_instance cached) p2 = (Ok r, p')"
    using first_reason_Ok by metis
  then have "(\<exists>info. get_instance_impl (co_get (le_api (ce_launch env)) (nc_provider_id claim)) = Ok info
             \<and> is_instance_drifted d (ii_instance info) = Ok r)
        \<or> (\<exists>k. ins_id (ii_instance cached) = Some k
             \<and> (network_drift_now env claim d (ii_instance cached) k = Ok r \<or> volume_drift_now env d (ii_instance cached) k = Ok r))"
  proof cases
    case inst
    from confirmed_Ok [OF inst [unfolded drift_of_instance_def] assms(2)] obtain q where
      "(case cp_get_instance env (nc_provider_id claim) q of (r, p1) \<Rightarrow>
          (unknown_drift (go_bind r (\<lambda>info. is_instance_drifted d (ii_instance info))), p1)) = (Ok r, p')" by blast
    then show ?thesis using instance_real by (auto simp: go_bind_eq_Ok_iff split: prod.splits)
  next
    case net
    then obtain k where k: "ins_id (ii_instance cached) = Some k"
      by (auto simp: drift_of_network_def st_bind_Ok_iff deref_eq_Ok_iff)
    from net have "confirmed
         (network_drift_with env d (\<not> ce_initialized env claim) (list_vnic_atts_cached (ce_now env)
            (co_vnic_atts (le_api (ce_launch env)) (ins_compartment (ii_instance cached)) k) k) get_vnic_cached)
         (network_drift_with env d (\<not> ce_initialized env claim) (list_vnic_atts (ce_now env)
            (co_vnic_atts (le_api (ce_launch env)) (ins_compartment (ii_instance cached)) k) k) get_vnic) p2 = (Ok r, p')"
      by (simp add: drift_of_network_def k Let_def)
    from confirmed_Ok [OF this assms(2)] network_real k show ?thesis by blast
  next
    case vol
    then obtain k where k: "ins_id (ii_instance cached) = Some k"
      by (auto simp: drift_of_volume_def st_bind_Ok_iff deref_eq_Ok_iff)
    from vol have "confirmed
         (volume_drift_with env d (list_boot_atts_cached (ce_now env)
            (co_boot_atts (le_api (ce_launch env)) (ins_compartment (ii_instance cached)) k (ins_ad (ii_instance cached))) k)
            get_boot_volume_cached)
         (volume_drift_with env d (list_boot_atts (ce_now env)
            (co_boot_atts (le_api (ce_launch env)) (ins_compartment (ii_instance cached)) k (ins_ad (ii_instance cached))) k)
            get_boot_volume) p2 = (Ok r, p')"
      by (simp add: drift_of_volume_def k Let_def)
    from confirmed_Ok [OF this assms(2)] volume_real k show ?thesis by blast
  qed
  with True m show ?thesis by auto
qed (use assms in \<open>auto simp: drift_of_claim_def Let_def\<close>)

subsection \<open>With caches that hold what the services say\<close>

definition honest_caches :: "cloud_env \<Rightarrow> drift_caches \<Rightarrow> bool" where
  "honest_caches env dc \<longleftrightarrow>
     (let api = le_api (ce_launch env); now = ce_now env
      in (\<forall>k x. get_from_cache now (dc_instances dc) k = Some x \<longrightarrow>
             (\<exists>x'. get_instance_impl (co_get api k) = Ok x' \<and> ii_instance x' = ii_instance x))
         \<and> (\<forall>k i t j x. co_get api k = Ok (i, t) \<longrightarrow> ins_id i = Some j \<longrightarrow>
             (get_from_cache now (dc_vnic_atts dc) j = Some x \<longrightarrow> fetch_all (co_vnic_atts api (ins_compartment i) j) = Ok x))
         \<and> (\<forall>k i t j x. co_get api k = Ok (i, t) \<longrightarrow> ins_id i = Some j \<longrightarrow>
             (get_from_cache now (dc_boot_atts dc) j = Some x \<longrightarrow>
               fetch_all (co_boot_atts api (ins_compartment i) j (ins_ad i)) = Ok x))
         \<and> (\<forall>v x. get_from_cache now (dc_vnics dc) v = Some x \<longrightarrow> vn_get_vnic (ce_vcn env) v = Ok x)
         \<and> (\<forall>v x. get_from_cache now (dc_volumes dc) v = Some x \<longrightarrow> ce_volume env v = Ok x))"

abbreviation honest :: "cloud_env \<Rightarrow> cloud_provider \<Rightarrow> bool" where
  "honest env p \<equiv> honest_caches env (inp_caches (cp_instances p))"

lemma honestD:
  assumes "honest_caches env dc"
  shows "get_from_cache (ce_now env) (dc_instances dc) k = Some x \<Longrightarrow>
      \<exists>x'. get_instance_impl (co_get (le_api (ce_launch env)) k) = Ok x' \<and> ii_instance x' = ii_instance x"
    "co_get (le_api (ce_launch env)) k = Ok (i, t) \<Longrightarrow> ins_id i = Some j \<Longrightarrow>
      get_from_cache (ce_now env) (dc_vnic_atts dc) j = Some as \<Longrightarrow>
      fetch_all (co_vnic_atts (le_api (ce_launch env)) (ins_compartment i) j) = Ok as"
    "co_get (le_api (ce_launch env)) k = Ok (i, t) \<Longrightarrow> ins_id i = Some j \<Longrightarrow>
      get_from_cache (ce_now env) (dc_boot_atts dc) j = Some bs \<Longrightarrow>
      fetch_all (co_boot_atts (le_api (ce_launch env)) (ins_compartment i) j (ins_ad i)) = Ok bs"
    "get_from_cache (ce_now env) (dc_vnics dc) v = Some y \<Longrightarrow> vn_get_vnic (ce_vcn env) v = Ok y"
    "get_from_cache (ce_now env) (dc_volumes dc) v = Some z \<Longrightarrow> ce_volume env v = Ok z"
  using assms unfolding honest_caches_def Let_def by blast+

text \<open>What is written into the caches of attachments.\<close>

lemma get_set_cases:
  "get_from_cache now (cache_set now k v c) j = Some x \<Longrightarrow> (j = k \<and> x = v) \<or> get_from_cache now c j = Some x"
  by (auto simp: get_from_cache_def cache_set_def live_def split: option.splits if_splits)

lemma honest_write:
  assumes "honest_caches env d"
    "\<And>k0 i t. co_get (le_api (ce_launch env)) k0 = Ok (i, t) \<Longrightarrow> ins_id i = Some k \<Longrightarrow>
       fetch_all (co_vnic_atts (le_api (ce_launch env)) (ins_compartment i) k) = Ok x"
  shows "honest_caches env (d\<lparr>dc_vnic_atts := cache_set (ce_now env) k x (dc_vnic_atts d)\<rparr>)"
proof -
  have "fetch_all (co_vnic_atts (le_api (ce_launch env)) (ins_compartment i) j) = Ok y"
    if "co_get (le_api (ce_launch env)) k0 = Ok (i, t)" "ins_id i = Some j"
      "get_from_cache (ce_now env) (cache_set (ce_now env) k x (dc_vnic_atts d)) j = Some y" for k0 i t j y
    using get_set_cases [OF that(3)] honestD(2) [OF assms(1) that(1,2)] assms(2) [OF that(1)] that(2) by auto
  with assms(1) show ?thesis unfolding honest_caches_def Let_def by simp
qed

lemma honest_write_boot:
  assumes "honest_caches env d"
    "\<And>k0 i t. co_get (le_api (ce_launch env)) k0 = Ok (i, t) \<Longrightarrow> ins_id i = Some k \<Longrightarrow>
       fetch_all (co_boot_atts (le_api (ce_launch env)) (ins_compartment i) k (ins_ad i)) = Ok x"
  shows "honest_caches env (d\<lparr>dc_boot_atts := cache_set (ce_now env) k x (dc_boot_atts d)\<rparr>)"
proof -
  have "fetch_all (co_boot_atts (le_api (ce_launch env)) (ins_compartment i) j (ins_ad i)) = Ok y"
    if "co_get (le_api (ce_launch env)) k0 = Ok (i, t)" "ins_id i = Some j"
      "get_from_cache (ce_now env) (cache_set (ce_now env) k x (dc_boot_atts d)) j = Some y" for k0 i t j y
    using get_set_cases [OF that(3)] honestD(3) [OF assms(1) that(1,2)] assms(2) [OF that(1)] that(2) by auto
  with assms(1) show ?thesis unfolding honest_caches_def Let_def by simp
qed

text \<open>Evictions leave less in the caches.\<close>

definition caches_le :: "drift_caches \<Rightarrow> drift_caches \<Rightarrow> bool" where
  "caches_le dc' dc \<longleftrightarrow> lc_items (dc_instances dc') \<subseteq>\<^sub>m lc_items (dc_instances dc)
     \<and> lc_items (dc_vnic_atts dc') \<subseteq>\<^sub>m lc_items (dc_vnic_atts dc) \<and> lc_items (dc_boot_atts dc') \<subseteq>\<^sub>m lc_items (dc_boot_atts dc)
     \<and> lc_items (dc_vnics dc') \<subseteq>\<^sub>m lc_items (dc_vnics dc) \<and> lc_items (dc_volumes dc') \<subseteq>\<^sub>m lc_items (dc_volumes dc)"

lemma get_from_cache_le:
  "lc_items c' \<subseteq>\<^sub>m lc_items c \<Longrightarrow> get_from_cache now c' k = Some x \<Longrightarrow> get_from_cache now c k = Some x"
proof -
  assume le: "lc_items c' \<subseteq>\<^sub>m lc_items c" and g: "get_from_cache now c' k = Some x"
  then obtain e where e: "lc_items c' k = Some (x, e)" "live now e"
    by (auto simp: get_from_cache_def split: option.splits if_splits)
  with le have "lc_items c k = Some (x, e)" by (metis domI map_le_def)
  with e(2) show ?thesis by (simp add: get_from_cache_def)
qed

lemma honest_le: "honest_caches env dc \<Longrightarrow> caches_le dc' dc \<Longrightarrow> honest_caches env dc'"
  unfolding honest_caches_def caches_le_def Let_def by (meson get_from_cache_le)

lemma evictions_le:
  "caches_le (evict_vnic_atts k dc) dc" "caches_le (evict_boot_atts k dc) dc"
  by (auto simp: caches_le_def evict_vnic_atts_items evict_boot_atts_items map_le_def)

lemma caches_le_trans: "caches_le a b \<Longrightarrow> caches_le b c \<Longrightarrow> caches_le a c"
  unfolding caches_le_def by (meson map_le_trans)

lemma evict_instance_le: "caches_le (evict_instance k dc) dc"
proof (cases "lc_items (dc_instances dc) k")
  case (Some i)
  have "caches_le (dc\<lparr>dc_instances := cache_evict k (dc_instances dc)\<rparr>) dc"
    by (auto simp: caches_le_def cache_evict_def map_le_def)
  with Some show ?thesis
    by (simp add: evict_instance_def) (meson caches_le_trans evictions_le)
qed (simp add: evict_instance_def caches_le_def)

lemma evict_if_gone_le: "caches_le (evict_instance_if_gone k r dc) dc"
proof -
  have "caches_le (evict_instance_caches k dc) dc"
    unfolding evict_instance_caches_def by (meson caches_le_trans evictions_le evict_instance_le)
  moreover have "caches_le dc dc" by (simp add: caches_le_def)
  ultimately show ?thesis by (auto simp: evict_instance_if_gone_def split: go.splits)
qed

text \<open>Each lookup answers as the service does and leaves the caches honest.\<close>

lemma instance_lookup:
  assumes "honest env p"
  shows "\<exists>r p'. cp_with_caches (get_instance_cached (ce_now env) (co_get (le_api (ce_launch env)) k) k) p = (r, p')
    \<and> honest env p' \<and> map_ok ii_instance r = map_ok ii_instance (get_instance_impl (co_get (le_api (ce_launch env)) k))"
proof -
  let ?dc = "inp_caches (cp_instances p)" and ?api = "le_api (ce_launch env)"
  have store: "honest_caches env (?dc\<lparr>dc_instances := cache_set (ce_now env) k i (dc_instances ?dc)\<rparr>)"
    if "get_instance_impl (co_get ?api k) = Ok i" for i
    using assms that by (auto simp: honest_caches_def Let_def dest!: get_set_cases)
  show ?thesis
  proof (cases "get_from_cache (ce_now env) (dc_instances ?dc) k")
    case (Some x)
    with honestD(1) [OF assms Some] show ?thesis
      using honest_le [OF assms evict_if_gone_le]
      by (auto simp: cp_with_caches_def get_instance_cached_def get_or_load_def Let_def)
  next
    case None
    then show ?thesis using store honest_le [OF _ evict_if_gone_le] assms
      by (cases "get_instance_impl (co_get ?api k)")
         (auto simp: cp_with_caches_def get_instance_cached_def get_or_load_def cache_load_def Let_def)
  qed
qed

lemma instance_refresh:
  assumes "honest env p"
  shows "\<exists>p'. cp_get_instance env k p = (get_instance_impl (co_get (le_api (ce_launch env)) k), p') \<and> honest env p'"
proof -
  let ?dc = "inp_caches (cp_instances p)" and ?api = "le_api (ce_launch env)"
  have store: "honest_caches env (?dc\<lparr>dc_instances := cache_set (ce_now env) k i (dc_instances ?dc)\<rparr>)"
    if "get_instance_impl (co_get ?api k) = Ok i" for i
    using assms that by (auto simp: honest_caches_def Let_def dest!: get_set_cases)
  show ?thesis using store honest_le [OF _ evict_if_gone_le] assms
    by (cases "get_instance_impl (co_get ?api k)")
       (auto simp: cp_get_instance_def cp_with_caches_def get_instance_def cache_refresh_def cache_load_def Let_def)
qed

lemma vnic_lookups:
  assumes "honest env p"
  shows "\<exists>p'. cp_with_network (get_vnic_cached (ce_vcn env) (ce_now env) v) p = (vn_get_vnic (ce_vcn env) v, p') \<and> honest env p'"
    "\<exists>p'. cp_with_network (get_vnic (ce_vcn env) (ce_now env) v) p = (vn_get_vnic (ce_vcn env) v, p') \<and> honest env p'"
proof -
  let ?dc = "inp_caches (cp_instances p)"
  have store: "honest_caches env (?dc\<lparr>dc_vnics := cache_set (ce_now env) v x (dc_vnics ?dc)\<rparr>)"
    if "vn_get_vnic (ce_vcn env) v = Ok x" for x
    using assms that by (auto simp: honest_caches_def Let_def dest!: get_set_cases)
  have same: "honest_caches env (?dc\<lparr>dc_vnics := dc_vnics ?dc\<rparr>)" using assms by simp
  show "\<exists>p'. cp_with_network (get_vnic_cached (ce_vcn env) (ce_now env) v) p = (vn_get_vnic (ce_vcn env) v, p') \<and> honest env p'"
    using store same honestD(4) [OF assms, of v]
    by (cases "get_from_cache (ce_now env) (dc_vnics ?dc) v"; cases "vn_get_vnic (ce_vcn env) v")
       (auto simp: cp_with_network_def get_vnic_cached_def get_or_load_def cache_load_def Let_def)
  show "\<exists>p'. cp_with_network (get_vnic (ce_vcn env) (ce_now env) v) p = (vn_get_vnic (ce_vcn env) v, p') \<and> honest env p'"
    using store same
    by (cases "vn_get_vnic (ce_vcn env) v")
       (auto simp: cp_with_network_def get_vnic_def cache_refresh_def cache_load_def Let_def)
qed

lemma volume_lookups:
  assumes "honest env p"
  shows "\<exists>p'. cp_with_volumes (get_boot_volume_cached (ce_volume env) (ce_now env) v) p = (ce_volume env v, p') \<and> honest env p'"
    "\<exists>p'. cp_with_volumes (get_boot_volume (ce_volume env) (ce_now env) v) p = (ce_volume env v, p') \<and> honest env p'"
proof -
  let ?dc = "inp_caches (cp_instances p)"
  have store: "honest_caches env (?dc\<lparr>dc_volumes := cache_set (ce_now env) v x (dc_volumes ?dc)\<rparr>)"
    if "ce_volume env v = Ok x" for x
    using assms that by (auto simp: honest_caches_def Let_def dest!: get_set_cases)
  have same: "honest_caches env (?dc\<lparr>dc_volumes := dc_volumes ?dc\<rparr>)" using assms by simp
  show "\<exists>p'. cp_with_volumes (get_boot_volume_cached (ce_volume env) (ce_now env) v) p = (ce_volume env v, p') \<and> honest env p'"
    using store same honestD(5) [OF assms, of v]
    by (cases "get_from_cache (ce_now env) (dc_volumes ?dc) v"; cases "ce_volume env v")
       (auto simp: cp_with_volumes_def cp_with_caches_def get_boot_volume_cached_def get_or_load_def cache_load_def Let_def)
  show "\<exists>p'. cp_with_volumes (get_boot_volume (ce_volume env) (ce_now env) v) p = (ce_volume env v, p') \<and> honest env p'"
    using store same
    by (cases "ce_volume env v")
       (auto simp: cp_with_volumes_def cp_with_caches_def get_boot_volume_def cache_refresh_def cache_load_def Let_def)
qed

text \<open>The service returns an instance under the OCID it was asked for.\<close>

definition returns_asked :: "cloud_env \<Rightarrow> bool" where
  "returns_asked env \<longleftrightarrow> (\<forall>k i t. co_get (le_api (ce_launch env)) k = Ok (i, t) \<longrightarrow> ins_id i = Some k)"

lemma attachment_lookups:
  assumes "honest env p" "returns_asked env" "co_get (le_api (ce_launch env)) k = Ok (i, t)"
  defines "fv \<equiv> co_vnic_atts (le_api (ce_launch env)) (ins_compartment i) k"
    and "fb \<equiv> co_boot_atts (le_api (ce_launch env)) (ins_compartment i) k (ins_ad i)"
  shows "\<exists>p'. cp_with_caches (list_vnic_atts_cached (ce_now env) fv k) p = (fetch_all fv, p') \<and> honest env p'"
    "\<exists>p'. cp_with_caches (list_vnic_atts (ce_now env) fv k) p = (fetch_all fv, p') \<and> honest env p'"
    "\<exists>p'. cp_with_caches (list_boot_atts_cached (ce_now env) fb k) p = (fetch_all fb, p') \<and> honest env p'"
    "\<exists>p'. cp_with_caches (list_boot_atts (ce_now env) fb k) p = (fetch_all fb, p') \<and> honest env p'"
proof -
  let ?dc = "inp_caches (cp_instances p)"
  have id: "ins_id i = Some k" using assms(2,3) by (auto simp: returns_asked_def)
  have one: "i' = i" if "co_get (le_api (ce_launch env)) k0 = Ok (i', t')" "ins_id i' = Some k" for k0 i' t'
  proof -
    from assms(2) that(1) have "ins_id i' = Some k0" unfolding returns_asked_def by blast
    with that(2) have "k0 = k" by simp
    with that(1) assms(3) show ?thesis by simp
  qed
  have sv: "honest_caches env (d\<lparr>dc_vnic_atts := cache_set (ce_now env) k x (dc_vnic_atts d)\<rparr>)"
    if "fetch_all fv = Ok x" "honest_caches env d" for x d
    using honest_write [OF that(2), of k x] one that(1) unfolding fv_def by blast
  have sb: "honest_caches env (d\<lparr>dc_boot_atts := cache_set (ce_now env) k x (dc_boot_atts d)\<rparr>)"
    if "fetch_all fb = Ok x" "honest_caches env d" for x d
    using honest_write_boot [OF that(2), of k x] one that(1) unfolding fb_def by blast
  have ev: "honest_caches env (evict_vnic_atts k ?dc)" "honest_caches env (evict_boot_atts k ?dc)"
    using honest_le [OF assms(1)] evictions_le by blast+
  have same: "honest_caches env (?dc\<lparr>dc_vnic_atts := dc_vnic_atts ?dc\<rparr>)" "honest_caches env (?dc\<lparr>dc_boot_atts := dc_boot_atts ?dc\<rparr>)"
    using assms(1) by simp_all
  show "\<exists>p'. cp_with_caches (list_vnic_atts_cached (ce_now env) fv k) p = (fetch_all fv, p') \<and> honest env p'"
    using sv assms(1) same honestD(2) [OF assms(1,3) id, folded fv_def]
    by (cases "get_from_cache (ce_now env) (dc_vnic_atts ?dc) k"; cases "fetch_all fv")
       (auto simp: cp_with_caches_def list_vnic_atts_cached_def get_or_load_def cache_load_def Let_def)
  show "\<exists>p'. cp_with_caches (list_boot_atts_cached (ce_now env) fb k) p = (fetch_all fb, p') \<and> honest env p'"
    using sb assms(1) same honestD(3) [OF assms(1,3) id, folded fb_def]
    by (cases "get_from_cache (ce_now env) (dc_boot_atts ?dc) k"; cases "fetch_all fb")
       (auto simp: cp_with_caches_def list_boot_atts_cached_def get_or_load_def cache_load_def Let_def)
  show "\<exists>p'. cp_with_caches (list_vnic_atts (ce_now env) fv k) p = (fetch_all fv, p') \<and> honest env p'"
    using sv [OF _ ev(1)] assms(1) by (cases "fetch_all fv") (auto simp: cp_with_caches_def list_vnic_atts_def Let_def)
  show "\<exists>p'. cp_with_caches (list_boot_atts (ce_now env) fb k) p = (fetch_all fb, p') \<and> honest env p'"
    using sb [OF _ ev(2)] assms(1) by (cases "fetch_all fb") (auto simp: cp_with_caches_def list_boot_atts_def Let_def)
qed

lemma confirmed_same:
  assumes "\<And>s. H s \<Longrightarrow> \<exists>s'. cached s = (r, s') \<and> H s'" "\<And>s. H s \<Longrightarrow> \<exists>s'. actual s = (r, s') \<and> H s'" "H s"
  shows "\<exists>s'. confirmed cached actual s = (r, s') \<and> H s'"
proof -
  from assms(1) [OF assms(3)] obtain s1 where s1: "cached s = (r, s1)" "H s1" by blast
  from assms(2) [OF s1(2)] obtain s2 where s2: "actual s1 = (r, s2)" "H s2" by blast
  show ?thesis using s1 s2 by (cases r) (auto simp: confirmed_def)
qed

lemma network_now:
  assumes "honest env p" "returns_asked env" "co_get (le_api (ce_launch env)) k = Ok (i, t)"
  shows "\<exists>p'. drift_of_network env claim d i p = (network_drift_now env claim d i k, p') \<and> honest env p'"
proof -
  define fv where "fv = co_vnic_atts (le_api (ce_launch env)) (ins_compartment i) k"
  let ?skip = "\<not> ce_initialized env claim"
  have id: "ins_id i = Some k" using assms(2,3) by (auto simp: returns_asked_def)
  have checked: "\<exists>p'. network_drift_with env d ?skip atts getVnic p = (network_drift_now env claim d i k, p') \<and> honest env p'"
    if "honest env p" "\<And>p. honest env p \<Longrightarrow> \<exists>p'. cp_with_caches atts p = (fetch_all fv, p') \<and> honest env p'"
      "\<And>v p. honest env p \<Longrightarrow> \<exists>p'. cp_with_network (getVnic (ce_vcn env) (ce_now env) v) p = (vn_get_vnic (ce_vcn env) v, p')
        \<and> honest env p'" for atts getVnic p
  proof -
    from that(2) [OF that(1)] obtain p1 where p1: "cp_with_caches atts p = (fetch_all fv, p1)" "honest env p1" by blast
    show ?thesis
    proof (cases "fetch_all fv")
      case (Ok as)
      from network_drift_sim [where H = "honest env" and R = "vn_get_vnic (ce_vcn env)"
          and getVnic = "\<lambda>v. cp_with_network (getVnic (ce_vcn env) (ce_now env) v)", OF that(3) p1(2)]
      show ?thesis using p1 Ok by (auto simp: network_drift_with_def network_drift_now_def fv_def [symmetric])
    qed (use p1 in \<open>auto simp: network_drift_with_def network_drift_now_def fv_def [symmetric]\<close>)
  qed
  have "\<exists>p'. confirmed
      (network_drift_with env d ?skip (list_vnic_atts_cached (ce_now env) fv k) get_vnic_cached)
      (network_drift_with env d ?skip (list_vnic_atts (ce_now env) fv k) get_vnic) p
    = (network_drift_now env claim d i k, p') \<and> honest env p'"
    using attachment_lookups(1,2) [OF _ assms(2,3), folded fv_def] vnic_lookups
    by (intro confirmed_same [where H = "honest env"] checked assms(1)) auto
  then show ?thesis by (simp add: drift_of_network_def id Let_def fv_def)
qed

lemma volume_now:
  assumes "honest env p" "returns_asked env" "co_get (le_api (ce_launch env)) k = Ok (i, t)"
  shows "\<exists>p'. drift_of_volume env d i p = (volume_drift_now env d i k, p') \<and> honest env p'"
proof -
  define fb where "fb = co_boot_atts (le_api (ce_launch env)) (ins_compartment i) k (ins_ad i)"
  have id: "ins_id i = Some k" using assms(2,3) by (auto simp: returns_asked_def)
  have checked: "\<exists>p'. volume_drift_with env d atts getVolume p = (volume_drift_now env d i k, p') \<and> honest env p'"
    if "honest env p" "\<And>p. honest env p \<Longrightarrow> \<exists>p'. cp_with_caches atts p = (fetch_all fb, p') \<and> honest env p'"
      "\<And>v p. honest env p \<Longrightarrow> \<exists>p'. cp_with_volumes (getVolume (ce_volume env) (ce_now env) v) p = (ce_volume env v, p')
        \<and> honest env p'" for atts getVolume p
  proof -
    from that(2) [OF that(1)] obtain p1 where p1: "cp_with_caches atts p = (fetch_all fb, p1)" "honest env p1" by blast
    show ?thesis
    proof (cases "fetch_all fb")
      case (Ok as)
      from volume_drift_sim [where H = "honest env" and R = "ce_volume env"
          and getVolume = "\<lambda>v. cp_with_volumes (getVolume (ce_volume env) (ce_now env) v)", OF that(3) p1(2)]
      show ?thesis using p1 Ok by (auto simp: volume_drift_with_def volume_drift_now_def fb_def [symmetric])
    qed (use p1 in \<open>auto simp: volume_drift_with_def volume_drift_now_def fb_def [symmetric]\<close>)
  qed
  have "\<exists>p'. confirmed (volume_drift_with env d (list_boot_atts_cached (ce_now env) fb k) get_boot_volume_cached)
      (volume_drift_with env d (list_boot_atts (ce_now env) fb k) get_boot_volume) p
    = (volume_drift_now env d i k, p') \<and> honest env p'"
    using attachment_lookups(3,4) [OF _ assms(2,3), folded fb_def] volume_lookups
    by (intro confirmed_same [where H = "honest env"] checked assms(1)) auto
  then show ?thesis by (simp add: drift_of_volume_def id Let_def fb_def)
qed

lemma drift_as_now:
  assumes "honest_caches env (inp_caches (cp_instances p))" "returns_asked env"
    "co_get (le_api (ce_launch env)) (nc_provider_id claim) = Ok (i, Some t)"
  shows "fst (drift_of_claim env claim d p) = drift_now env claim d"
proof (cases "are_static_fields_drifted claim (ds_class d) = []")
  case True
  let ?k = "nc_provider_id claim" and ?api = "le_api (ce_launch env)"
  have id: "ins_id i = Some ?k" using assms(2,3) by (auto simp: returns_asked_def)
  have impl: "get_instance_impl (co_get ?api ?k) = Ok \<lparr>ii_instance = i, ii_etag = t\<rparr>"
    by (simp add: get_instance_impl_def assms(3))
  from instance_lookup [OF assms(1), of ?k] obtain x p1 where
    x: "cp_with_caches (get_instance_cached (ce_now env) (co_get ?api ?k) ?k) p = (Ok x, p1)" "honest env p1" "ii_instance x = i"
    by (auto simp: impl map_ok_eq_Ok_iff)
  have inst: "\<exists>p2. drift_of_instance env ?k d x p1 = (is_instance_drifted d i, p2) \<and> honest env p2
      \<or> (\<exists>e. is_instance_drifted d i = Fail e)"
    using instance_refresh [OF x(2), of ?k] x(2)
    by (cases "is_instance_drifted d i")
       (auto simp: drift_of_instance_def confirmed_def x(3) impl unknown_drift_def fail_as_def split: prod.splits)
  show ?thesis
  proof (cases "is_instance_drifted d i")
    case (Ok r)
    with inst obtain p2 where p2: "drift_of_instance env ?k d x p1 = (Ok r, p2)" "honest env p2" by auto
    from network_now [OF p2(2) assms(2,3)] obtain p3 where
      p3: "drift_of_network env claim d i p2 = (network_drift_now env claim d i ?k, p3)" "honest env p3" by blast
    from volume_now [OF p3(2) assms(2,3)] obtain p4 where
      p4: "drift_of_volume env d i p3 = (volume_drift_now env d i ?k, p4)" by blast
    show ?thesis
      by (cases "network_drift_now env claim d i ?k")
         (auto simp: drift_of_claim_def drift_now_def Let_def True x(1,3) impl unknown_drift_def fail_as_def Ok first_reason_def
            p2(1) p3(1) p4 id)
  qed (auto simp: drift_of_claim_def drift_now_def Let_def True x(1,3) impl unknown_drift_def fail_as_def first_reason_def
      drift_of_instance_def confirmed_def)
qed (auto simp: drift_of_claim_def drift_now_def Let_def)

text \<open>
  C2. With caches that hold what the services say, asking whether a claim has drifted is the check
  without any cache: the same reason, the same error.  The service is one that returns an instance
  under the OCID it was asked for, with an entity tag.
\<close>

theorem drift_refines_services:
  assumes "honest_caches env (inp_caches (cp_instances p))" "returns_asked env"
    "co_get (le_api (ce_launch env)) (nc_provider_id claim) = Ok (i, Some t)"
  shows "fst (drift_of_claim env claim d p) = drift_now env claim d"
  by (rule drift_as_now [OF assms])

theorem drift_refines_services_witness:
  "fst (drift_of_claim example_cloud_env plain_claim steady_state example_cloud)
     = drift_now example_cloud_env plain_claim steady_state"
proof (rule drift_refines_services)
  show "honest_caches example_cloud_env (inp_caches (cp_instances example_cloud))"
    by (simp add: honest_caches_def example_cloud_def sample_provider_def new_drift_caches_def new_non_expiring_cache_def
        get_new Let_def)
  show "returns_asked example_cloud_env"
    by (simp add: returns_asked_def example_cloud_env_def example_compute_def example_machine_def)
  show "co_get (le_api (ce_launch example_cloud_env)) (nc_provider_id plain_claim)
      = Ok (example_machine (nc_provider_id plain_claim), Some ''t'')"
    by (simp add: example_cloud_env_def example_compute_def)
qed

subsection \<open>Reported drift at work\<close>

text \<open>
  A node class that asks for a reservation the machine is not in, and two whose machines are as they
  want them but for the network or the boot volume: there is no VNIC attached, or one and no boot
  volume.
\<close>

definition reserved_state :: desired_state where
  "reserved_state = steady_state\<lparr>ds_capres := [''r'']\<rparr>"

definition networked_state :: desired_state where
  "networked_state = steady_state\<lparr>ds_class := (ds_class steady_state)\<lparr>ncl_status := (ncl_status (ds_class steady_state))
     \<lparr>ncst_network := Some \<lparr>ns_primary = Some \<lparr>vs_subnet = \<lparr>nr_id = ''s'', nr_name = ''n''\<rparr>, vs_nsgs = []\<rparr>, ns_secondary = []\<rparr>\<rparr>\<rparr>\<rparr>"

definition attached_env :: cloud_env where
  "attached_env = example_cloud_env
     \<lparr>ce_launch := sample_env\<lparr>le_api := example_compute\<lparr>co_vnic_atts := (\<lambda>c k p. Ok ([\<lparr>vat_id = ''a'', vat_vnic = Some ''v'',
        vat_subnet = ''s'', vat_attached = True\<rparr>], None))\<rparr>\<rparr>,
      ce_vcn := example_vcn_api\<lparr>vn_get_vnic := (\<lambda>v. Ok \<lparr>vnic_id = v, vnic_subnet = ''s'', vnic_nsgs = [], vnic_primary = Some True\<rparr>)\<rparr>\<rparr>"

lemma example_drift_api:
  assumes "env = example_cloud_env \<or> env = attached_env"
  shows "co_get (le_api (ce_launch env)) k = Ok (example_machine k, Some ''t'')" "returns_asked env"
    "get_instance_impl (co_get (le_api (ce_launch env)) k) = Ok \<lparr>ii_instance = example_machine k, ii_etag = ''t''\<rparr>"
    "fetch_all (co_boot_atts (le_api (ce_launch env)) c k ad) = Ok []"
    "honest_caches env (inp_caches (cp_instances example_cloud))"
    "known_machine env claim example_cloud = Ok \<lparr>ii_instance = example_machine (nc_provider_id claim), ii_etag = ''t''\<rparr>"
  using assms
  by (auto simp: attached_env_def example_cloud_env_def example_compute_def returns_asked_def example_machine_def get_instance_impl_def
      sample_env_def fetch_all_single honest_caches_def example_cloud_def sample_provider_def new_drift_caches_def
      new_non_expiring_cache_def get_new known_machine_def Let_def)

lemma example_drift:
  assumes "env = example_cloud_env \<or> env = attached_env"
  shows "\<exists>p'. drift_of_claim env plain_claim d example_cloud = (drift_now env plain_claim d, p')"
  using drift_as_now [OF example_drift_api(5,2,1) [OF assms], where d = d] by (metis prod.collapse)

lemma example_states:
  "are_static_fields_drifted plain_claim (ds_class reserved_state) = []"
  "are_static_fields_drifted plain_claim (ds_class networked_state) = []"
  "is_instance_drifted reserved_state (example_machine k) = Ok CapacityReservationMismatch"
  by (simp_all add: is_instance_drifted_def example_machine_def plain_instance_def steady_state_def plain_type_def
      capres_mismatch_def are_static_fields_drifted_def plain_claim_def reserved_state_def networked_state_def)

lemma example_not_drifted: "is_instance_drifted networked_state (example_machine k) = Ok []"
  by (simp add: is_instance_drifted_def example_machine_def plain_instance_def networked_state_def steady_state_def plain_type_def
      capres_mismatch_def cpg_mismatch_def is_launch_option_mismatch_def build_launch_options_def empty_spec_def no_options_def Let_def)

lemma example_networks:
  "network_drift_now example_cloud_env plain_claim networked_state i k = Ok ''PrimaryVnicMismatch''"
  "network_drift_now attached_env plain_claim networked_state i k = Ok []"
  "volume_drift_now example_cloud_env networked_state i k = Ok ''BootVolumeMismatch''"
  "volume_drift_now attached_env networked_state i k = Ok ''BootVolumeMismatch''"
  by (simp_all add: network_drift_now_def is_network_drifted_def networked_state_def steady_state_def attached_env_def
      example_cloud_env_def example_compute_def sample_env_def fetch_all_single attached_to_check_def is_vnic_nsg_ids_match_def
      volume_drift_now_def is_boot_volume_drifted_def)

theorem reported_drift_is_real_witness:
  "(\<exists>p'. drift_of_claim example_cloud_env plain_claim reserved_state example_cloud = (Ok CapacityReservationMismatch, p'))
   \<and> (\<exists>p'. drift_of_claim example_cloud_env plain_claim networked_state example_cloud = (Ok ''PrimaryVnicMismatch'', p')
        \<and> network_drift_now example_cloud_env plain_claim networked_state (example_machine []) [] = Ok ''PrimaryVnicMismatch'')
   \<and> (\<exists>p'. drift_of_claim attached_env plain_claim networked_state example_cloud = (Ok ''BootVolumeMismatch'', p')
        \<and> volume_drift_now attached_env networked_state (example_machine []) [] = Ok ''BootVolumeMismatch'')"
proof -
  let ?e = "example_cloud_env"
  have pid: "nc_provider_id plain_claim = []" "ins_id (example_machine []) = Some []"
    by (simp_all add: plain_claim_def example_machine_def)
  have ne: "CapacityReservationMismatch \<noteq> []" by (simp add: CapacityReservationMismatch_def)
  have now: "drift_now ?e plain_claim reserved_state = Ok CapacityReservationMismatch"
    "drift_now ?e plain_claim networked_state = Ok ''PrimaryVnicMismatch''"
    "drift_now attached_env plain_claim networked_state = Ok ''BootVolumeMismatch''"
    by (simp_all add: drift_now_def example_states example_not_drifted example_drift_api(3) pid example_networks unknown_drift_def fail_as_def ne Let_def)
  obtain p1 p2 p3 where d: "drift_of_claim ?e plain_claim reserved_state example_cloud = (Ok CapacityReservationMismatch, p1)"
    "drift_of_claim ?e plain_claim networked_state example_cloud = (Ok ''PrimaryVnicMismatch'', p2)"
    "drift_of_claim attached_env plain_claim networked_state example_cloud = (Ok ''BootVolumeMismatch'', p3)"
    using example_drift [of ?e reserved_state] example_drift [of ?e networked_state] example_drift [of attached_env networked_state]
    unfolding now by blast
  from reported_drift_is_real [OF d(2)] have
    "network_drift_now ?e plain_claim networked_state (example_machine []) [] = Ok ''PrimaryVnicMismatch''"
    by (auto simp: example_states example_not_drifted example_drift_api pid example_networks)
  moreover from reported_drift_is_real [OF d(3)] have
    "volume_drift_now attached_env networked_state (example_machine []) [] = Ok ''BootVolumeMismatch''"
    by (auto simp: example_states example_not_drifted example_drift_api pid example_networks)
  ultimately show ?thesis using d by blast
qed

end
