(* ===== verification/Cloud_Service_Laws.thy ===== *)
theory Cloud_Service_Laws
  imports Cloud_Examples
begin

section \<open>Listing, deleting and starting up\<close>

text \<open>
  The other services of the cloud provider: what a listing returns, what a deletion answers, and
  when the provider is ready for use.
\<close>

subsection \<open>Which instances become claims\<close>

text \<open>
  The pool that the tag of an instance names (of several pools with the name, the last), and that
  pool's UID if the instance carries one.
\<close>

definition belongs_to_pools :: "node_pool list \<Rightarrow> oci_instance \<Rightarrow> bool" where
  "belongs_to_pools pools i =
     (case List.find (\<lambda>np. NodePool_of_instance i = Some (npl_name np)) (rev pools) of
        None \<Rightarrow> False
      | Some np \<Rightarrow> NodePoolUID_of_instance i = None \<or> npl_uid np \<noteq> [] \<and> NodePoolUID_of_instance i = Some (npl_uid np))"

lemma named_pool:
  "map_of (map (\<lambda>np. (npl_name np, npl_uid np)) pools) name = map_option npl_uid (List.find (\<lambda>np. name = npl_name np) pools)"
  by (induction pools) auto

lemma find_nothing [simp]: "List.find (\<lambda>x. False) xs = None"
  by (induction xs) simp_all

lemma belongs_iff:
  "belongs_to_pools pools i \<longleftrightarrow>
     (\<exists>name \<in> npl_name ` set pools. NodePool_of_instance i = Some name \<and> is_owned_by_node_pool i (pool_uid pools name))"
proof (cases "NodePool_of_instance i")
  case (Some name)
  have uid: "pool_uid pools name = from_ptr [] (map_option npl_uid (List.find (\<lambda>np. name = npl_name np) (rev pools)))"
    by (simp add: pool_uid_def rev_map named_pool)
  show ?thesis
  proof (cases "List.find (\<lambda>np. name = npl_name np) (rev pools)")
    case None
    then have "name \<notin> npl_name ` set pools" by (auto simp: find_None_iff)
    with Some None show ?thesis by (simp add: belongs_to_pools_def)
  next
    case (Some np)
    then have "name = npl_name np" "np \<in> set pools" by (auto simp: find_Some_iff) (metis length_rev nth_mem set_rev)
    with Some uid \<open>NodePool_of_instance i = Some name\<close> show ?thesis
      by (auto simp: belongs_to_pools_def is_owned_by_node_pool_def split: option.splits)
  qed
qed (auto simp: belongs_to_pools_def find_None_iff)

lemma distinct_labels:
  "NodeClassHash \<noteq> NodePoolLabelKey" "NodePoolLabelKey \<noteq> NodeClassHash"
  by (simp_all add: NodeClassHash_def NodePoolLabelKey_def)

lemma decorated_claim:
  assumes "decorate_claim_by_instance now i claim = Ok nc"
  shows "ins_id i = Some (nc_provider_id nc)"
    and "NodePool_of_instance i = Some name \<Longrightarrow> pool_label nc = name"
  using assms
  by (cases "ins_source i"; auto simp: decorate_claim_by_instance_def go_simps Let_def pool_label_def
       update_conv' distinct_labels split: option.splits)+

lemma claim_from_instance_Ok:
  assumes "claim_from_instance env i p = (Ok nc, p')"
  shows "ins_id i = Some (nc_provider_id nc)"
    and "NodePool_of_instance i = Some name \<Longrightarrow> pool_label nc = name"
proof -
  from assms obtain ito where "claim_from_instance_and_type env i ito = Ok nc"
    by (auto simp: claim_from_instance_def split: prod.splits go.splits cloud_err.splits)
  then show "ins_id i = Some (nc_provider_id nc)" "NodePool_of_instance i = Some name \<Longrightarrow> pool_label nc = name"
    by (auto simp: claim_from_instance_and_type_def dest: decorated_claim)
qed

lemma list_claims_Ok:
  "list_claims env pools is p = (Ok ncs, p') \<Longrightarrow>
     map (\<lambda>nc. Some (nc_provider_id nc)) ncs = map ins_id (filter (belongs_to_pools pools) is)"
proof (induction "is" arbitrary: p ncs)
  case (Cons i "is")
  show ?case
  proof (cases "case NodePool_of_instance i of None \<Rightarrow> True | Some name \<Rightarrow> \<not> is_owned_by_node_pool i (pool_uid pools name)")
    case True
    then have "\<not> belongs_to_pools pools i" by (auto simp: belongs_iff split: option.splits)
    with True Cons show ?thesis by simp
  next
    case False
    then obtain name where name: "NodePool_of_instance i = Some name" "is_owned_by_node_pool i (pool_uid pools name)"
      by (auto split: option.splits)
    from Cons.prems False obtain nc p1 where nc: "claim_from_instance env i p = (Ok nc, p1)"
      by (auto simp: st_bind_Ok_iff)
    note claim = claim_from_instance_Ok [OF nc]
    show ?thesis
    proof (cases "name \<in> npl_name ` set pools")
      case True
      then have "belongs_to_pools pools i" using name by (auto simp: belongs_iff)
      moreover from Cons.prems False nc True claim(2) [OF name(1)] obtain p2 ncs1 where
        "list_claims env pools is p2 = (Ok ncs1, p')" "ncs = nc # ncs1" by (auto simp: st_bind_Ok_iff)
      ultimately show ?thesis using Cons.IH claim(1) by simp
    next
      case no: False
      then have "\<not> belongs_to_pools pools i" using name by (auto simp: belongs_iff)
      with Cons False nc no claim(2) [OF name(1)] show ?thesis by simp
    qed
  qed
qed simp

text \<open>
  C4. Listing machines returns a claim for every listed instance that belongs to a node pool, in
  the order of the listing, and for no other: its tag names a pool there is, and if it carries the
  UID of its pool, it is that of the pool, not of an earlier one of the same name.
\<close>

theorem listed_claims_belong:
  assumes "cp_list env p = (Ok ncs, p')"
  shows "\<exists>pools classes is p1. ce_pools env = Ok pools \<and> ce_classes env = Ok classes
    \<and> cp_list_instances env (node_compartments pools classes) p = (Ok is, p1)
    \<and> map (\<lambda>nc. Some (nc_provider_id nc)) ncs = map ins_id (filter (belongs_to_pools pools) is)"
proof -
  from assms obtain pools classes "is" p1 where "ce_pools env = Ok pools" "ce_classes env = Ok classes"
    "cp_list_instances env (node_compartments pools classes) p = (Ok is, p1)" "list_claims env pools is p1 = (Ok ncs, p')"
    by (auto simp: cp_list_def st_bind_Ok_iff)
  with list_claims_Ok show ?thesis by blast
qed

subsection \<open>Deleting\<close>

text \<open>Whether the service says that the machine of a claim is gone.\<close>

definition says_gone :: "(err, instance_info) go \<Rightarrow> bool" where
  "says_gone r = (case r of Fail e \<Rightarrow> is_not_found (Some e) | Ok info \<Rightarrow> is_instance_terminated (ii_instance info) | _ \<Rightarrow> False)"

lemma cp_with_caches_place:
  "cp_with_caches f p = (r, p') \<Longrightarrow> cp_place p' = cp_place p"
  by (auto simp: cp_with_caches_def split: prod.splits)

definition cp_terminate :: "cloud_env \<Rightarrow> node_claim \<Rightarrow> cloud_provider \<Rightarrow> (err, unit) go \<times> cloud_provider" where
  "cp_terminate env nc =
     cp_with_caches (delete_instance (ce_now env) (co_terminate (le_api (ce_launch env)) (nc_provider_id nc))
       (nc_provider_id nc) (ce_deletes env))"

lemma cp_get_instance_place: "cp_get_instance env k p = (r, p') \<Longrightarrow> cp_place p' = cp_place p"
  by (auto simp: cp_get_instance_def intro: cp_with_caches_place)

lemma cp_terminate_place: "cp_terminate env nc p = (r, p') \<Longrightarrow> cp_place p' = cp_place p"
  by (auto simp: cp_terminate_def intro: cp_with_caches_place)

lemma already_deleted_neq [simp]: "already_deleted nc \<noteq> Plain e" "Plain e \<noteq> already_deleted nc"
  by (simp_all add: already_deleted_def)

lemma delete_gone:
  assumes "cp_get_instance env (nc_provider_id nc) p = (g, p1)" "says_gone g"
  shows "cp_delete env nc p = (Fail (already_deleted nc), cp_forget nc p1)"
  using assms by (auto simp: cp_delete_def says_gone_def split: go.splits)

lemma delete_not_found:
  assumes "cp_get_instance env (nc_provider_id nc) p = (Fail e, p1)" "\<not> is_not_found (Some e)"
  shows "cp_delete env nc p = (Fail (Plain e), p1)"
  using assms by (simp add: cp_delete_def)

lemma delete_there:
  assumes "cp_get_instance env (nc_provider_id nc) p = (Ok info, p1)" "\<not> is_instance_terminated (ii_instance info)"
  shows "cp_delete env nc p =
     (case cp_terminate env nc p1 of
        (Fail e, p2) \<Rightarrow> (Fail (if is_not_found (Some e) then already_deleted nc else Plain e), p2)
      | (Panic, p2) \<Rightarrow> (Panic, p2)
      | (Hang, p2) \<Rightarrow> (Hang, p2)
      | (Ok u, p2) \<Rightarrow> cp_mark_capres (mark_capres_released (ce_now env)) (ii_instance info) p2)"
  using assms by (simp add: cp_delete_def cp_terminate_def)

text \<open>
  C5. Deleting the machine of a claim.  What Karpenter takes for the end of the deletion, the claim
  is not found, is answered only if the service says that the instance is gone, or it turns out so
  when it is terminated.  The register of fault domains forgets the instance exactly in the first
  case; and only a termination that was seen to succeed releases the place in a reservation.
\<close>

theorem delete_outcome:
  assumes "cp_delete env nc p = (r, p')" "cp_get_instance env (nc_provider_id nc) p = (g, p1)"
  shows "(r = Fail (already_deleted nc) \<longleftrightarrow>
            says_gone g \<or> (\<exists>info e p2. g = Ok info \<and> cp_terminate env nc p1 = (Fail e, p2) \<and> is_not_found (Some e)))
    \<and> (pst_pools (cp_place p') = (if says_gone g then pst_pools (instance_forget (pool_label nc) (nc_provider_id nc) (cp_place p))
                                else pst_pools (cp_place p)))
    \<and> (if r = Ok ()
       then \<exists>info p2. g = Ok info \<and> cp_terminate env nc p1 = (Ok (), p2)
              \<and> (if ins_capres (ii_instance info) = None then pst_capres (cp_place p') = pst_capres (cp_place p)
                 else mark_capres_released (ce_now env) (ii_instance info) (pst_capres (cp_place p))
                        = Ok (pst_capres (cp_place p')))
       else pst_capres (cp_place p') = pst_capres (cp_place p))"
proof (cases "says_gone g")
  case True
  with delete_gone [OF assms(2)] assms(1) cp_get_instance_place [OF assms(2)]
  show ?thesis by (auto simp: cp_forget_def instance_forget_def)
next
  case alive: False
  note place = cp_get_instance_place [OF assms(2)]
  show ?thesis
  proof (cases g)
    case (Ok info)
    obtain d p2 where d: "cp_terminate env nc p1 = (d, p2)" by (rule prod.exhaust)
    note place2 = cp_terminate_place [OF d]
    from alive Ok have "\<not> is_instance_terminated (ii_instance info)" by (simp add: says_gone_def)
    note run = assms(1) [unfolded delete_there [OF assms(2) [unfolded Ok] this] d]
    show ?thesis
    proof (cases d)
      case ended: (Ok u)
      with run Ok alive d place place2 show ?thesis
        by (auto simp: cp_mark_capres_def split: if_splits go.splits)
    qed (use run Ok alive d place place2 in \<open>auto split: if_splits\<close>)
  next
    case (Fail e)
    with alive have "\<not> is_not_found (Some e)" by (simp add: says_gone_def)
    from delete_not_found [OF assms(2) [unfolded Fail] this] assms(1) Fail alive place
    show ?thesis by auto
  qed (use assms alive place in \<open>auto simp: cp_delete_def\<close>)
qed

subsection \<open>Starting up\<close>

text \<open>Nothing on the way sets the mark but the end of an attempt.\<close>

definition keeps_ready :: "('e, 'a) go \<times> cloud_provider \<Rightarrow> cloud_provider \<Rightarrow> bool" where
  "keeps_ready m p \<longleftrightarrow> cp_initialized (snd m) = cp_initialized p"

lemma keeps_ready_bind:
  "keeps_ready m p \<Longrightarrow> (\<And>x q. cp_initialized q = cp_initialized p \<Longrightarrow> keeps_ready (f x q) p) \<Longrightarrow> keeps_ready (st_bind m f) p"
  by (auto simp: keeps_ready_def st_bind_def split: go.splits prod.splits)

lemma keeps_ready_same: "cp_initialized q = cp_initialized p \<Longrightarrow> keeps_ready (r, q) p"
  by (simp add: keeps_ready_def)

lemma keeps_ready_lists:
  "cp_initialized q = cp_initialized p \<Longrightarrow> keeps_ready (lift_cloud (cp_list_types env cls ts) q) p"
  "cp_initialized q = cp_initialized p \<Longrightarrow> keeps_ready (lift_cloud (cp_list_instances env cs) q) p"
  "cp_initialized q = cp_initialized p \<Longrightarrow> keeps_ready (cp_found pool i q) p"
  by (auto simp: keeps_ready_def lift_cloud_def cp_list_types_def cp_list_instances_def cp_found_def Let_def
      split: prod.splits go.splits)

lemma keeps_ready_types:
  "cp_initialized q = cp_initialized p \<Longrightarrow> keeps_ready (cp_oci_types env np q) p"
  unfolding cp_oci_types_def by (intro keeps_ready_bind keeps_ready_same keeps_ready_lists)

lemma keeps_ready_type_of:
  assumes "cp_initialized q = cp_initialized p"
  shows "keeps_ready (type_from_instance env i q) p"
  using keeps_ready_types [OF assms, of env] assms
  by (auto simp: type_from_instance_def keeps_ready_def split: go.splits prod.splits option.splits dest!: arg_cong [where f = snd])

lemma keeps_ready_claim:
  assumes "cp_initialized q = cp_initialized p"
  shows "keeps_ready (claim_from_instance env i q) p"
proof -
  obtain r q' where t: "type_from_instance env i q = (r, q')" by (rule prod.exhaust)
  with keeps_ready_type_of [OF assms, of env i] show ?thesis
    by (auto simp: claim_from_instance_def keeps_ready_def split: go.splits cloud_err.splits)
qed

lemma keeps_ready_claims:
  "cp_initialized q = cp_initialized p \<Longrightarrow> keeps_ready (list_claims env pools is q) p"
proof (induction "is" arbitrary: q)
  case (Cons i "is")
  have "keeps_ready (st_bind (claim_from_instance env i q) (\<lambda>nc p.
          if pool_label nc \<in> npl_name ` set pools
          then st_bind (cp_found (pool_label nc) i p) (\<lambda>u p.
               st_bind (list_claims env pools is p) (\<lambda>ncs p. (Ok (nc # ncs), p)))
          else list_claims env pools is p)) p"
    by (rule keeps_ready_bind [OF keeps_ready_claim [OF Cons.prems]])
      (auto intro!: keeps_ready_bind keeps_ready_same keeps_ready_lists Cons.IH)
  with Cons show ?case by simp
qed (simp add: keeps_ready_same)

lemma cp_list_ready:
  assumes "cp_list env p = (r, p')" shows "cp_initialized p' = cp_initialized p"
proof -
  have "keeps_ready (cp_list env p) p"
    unfolding cp_list_def by (intro keeps_ready_bind keeps_ready_same keeps_ready_lists keeps_ready_claims refl)
  with assms show ?thesis by (simp add: keeps_ready_def)
qed

text \<open>After attempts that all failed, one succeeds, or the context is cancelled.\<close>

inductive first_success :: "warm_event list \<Rightarrow> cloud_provider \<Rightarrow> bool" where
  success_now: "cp_list env p = (Ok ncs, q) \<Longrightarrow> first_success (WarmTry env # es) p"
| success_later: "cp_list env p = (Fail e, q) \<Longrightarrow> first_success es q \<Longrightarrow> first_success (WarmTry env # es) p"

inductive first_cancelled :: "warm_event list \<Rightarrow> cloud_provider \<Rightarrow> bool" where
  cancelled_now: "first_cancelled (WarmCancelled # es) p"
| cancelled_later: "cp_list env p = (Fail e, q) \<Longrightarrow> first_cancelled es q \<Longrightarrow> first_cancelled (WarmTry env # es) p"

inductive_simps first_success_simps:
  "first_success [] p" "first_success (WarmCancelled # es) p" "first_success (WarmTry env # es) p"

inductive_simps first_cancelled_simps:
  "first_cancelled [] p" "first_cancelled (WarmCancelled # es) p" "first_cancelled (WarmTry env # es) p"

text \<open>
  C6. Starting up: the cloud provider is marked as ready by the first listing that succeeds, and
  then only, whatever the attempts before it returned; if the context is cancelled first it never
  is.  In these two cases the goroutine ends.
\<close>

theorem warm_up_ready_iff:
  assumes "\<not> cp_initialized p" "warm_up es p = (r, p')"
  shows "(cp_initialized p' \<longleftrightarrow> first_success es p) \<and> (r = Ok () \<longleftrightarrow> first_success es p \<or> first_cancelled es p)"
  using assms
proof (induction es arbitrary: p)
  case (Cons ev es)
  show ?case
  proof (cases ev)
    case (WarmTry env)
    obtain l q where l: "cp_list env p = (l, q)" by (rule prod.exhaust)
    note ready = cp_list_ready [OF l]
    show ?thesis
    proof (cases l)
      case (Fail e)
      with Cons.IH [of q] Cons.prems WarmTry l ready show ?thesis by (simp add: first_success_simps first_cancelled_simps)
    qed (use Cons.prems WarmTry l ready in \<open>auto simp: first_success_simps first_cancelled_simps\<close>)
  qed (use Cons.prems in \<open>auto simp: first_success_simps first_cancelled_simps\<close>)
qed (auto simp: first_success_simps first_cancelled_simps)

subsection \<open>The properties at work\<close>

definition empty_env :: cloud_env where
  "empty_env = example_cloud_env\<lparr>ce_pools := Ok [], ce_classes := Ok []\<rparr>"

definition pooled_machine :: oci_instance where
  "pooled_machine = (example_machine ''i1'')\<lparr>ins_display_name := Some ''node'', ins_fd := Some ''FD-1'',
     ins_freeform := [(NodePoolTagKey, ''pool''), (NodePoolUIDTagKey, ''u1'')], ins_source := ViaImage ''img''\<rparr>"

theorem warm_up_ready_iff_witness:
  "\<exists>p'. warm_up [WarmTry empty_env] (example_cloud\<lparr>cp_initialized := False\<rparr>) = (Ok (), p') \<and> cp_initialized p'"
proof -
  let ?p = "example_cloud\<lparr>cp_initialized := False\<rparr>"
  obtain q where q: "cp_list empty_env ?p = (Ok [], q)"
    by (simp add: cp_list_def empty_env_def node_compartments_def cp_list_instances_def lift_cloud_def list_instances_def
        Let_def)
  obtain r p' where w: "warm_up [WarmTry empty_env] ?p = (r, p')" by (rule prod.exhaust)
  have "first_success [WarmTry empty_env] ?p" using q by (simp add: first_success_simps)
  moreover have "\<not> cp_initialized ?p" by simp
  ultimately show ?thesis using warm_up_ready_iff [OF _ w] w by blast
qed

text \<open>The service knows no instance any more.\<close>

definition gone_env :: cloud_env where
  "gone_env = example_cloud_env\<lparr>ce_launch := sample_env\<lparr>le_api := example_compute\<lparr>co_get := (\<lambda>k. Fail (ServiceErr 404 [] [] []))\<rparr>\<rparr>\<rparr>"

theorem delete_outcome_witness:
  "\<exists>p'. cp_delete gone_env plain_claim example_cloud = (Fail (already_deleted plain_claim), p')"
proof -
  obtain r p' where d: "cp_delete gone_env plain_claim example_cloud = (r, p')" by (rule prod.exhaust)
  have "\<exists>p1. cp_get_instance gone_env k p = (Fail (ServiceErr 404 [] [] []), p1)" for k p
    by (simp add: cp_get_instance_def cp_with_caches_def get_instance_def cache_refresh_def cache_load_def
        get_instance_impl_def gone_env_def is_not_found_def Let_def)
  then obtain p1 where g: "cp_get_instance gone_env (nc_provider_id plain_claim) example_cloud = (Fail (ServiceErr 404 [] [] []), p1)"
    by blast
  have "says_gone (Fail (ServiceErr 404 [] [] []))" by (simp add: says_gone_def is_not_found_def)
  with delete_outcome [OF d g] d show ?thesis by blast
qed

definition pooled_env :: cloud_env where
  "pooled_env = example_cloud_env\<lparr>ce_pool := (\<lambda>n. Fail (KubeErr KubeNotFound [])),
     ce_launch := sample_env\<lparr>le_api := example_compute\<lparr>co_list := (\<lambda>c p. Ok ([pooled_machine], None))\<rparr>\<rparr>\<rparr>"

definition sole_pool :: "node_pool list" where
  "sole_pool = [\<lparr>npl_name = ''pool'', npl_uid = ''u1'', npl_class = ''default'', npl_taints = []\<rparr>]"

lemma pooled_parts:
  "ce_pools pooled_env = Ok sole_pool" "ce_classes pooled_env = Ok [sample_class]" "node_compartments sole_pool [sample_class] = [[]]"
  by (simp_all add: pooled_env_def example_cloud_env_def sole_pool_def node_compartments_def sample_class_def empty_spec_def)

lemma pooled_tags: "NodePool_of_instance pooled_machine = Some ''pool''" "NodePoolUID_of_instance pooled_machine = Some ''u1''"
  by (simp_all add: NodePool_of_instance_def NodePoolUID_of_instance_def pooled_machine_def NodePoolTagKey_def
      NodePoolUIDTagKey_def)

lemma pooled_instances: "\<exists>q. cp_list_instances pooled_env [[]] example_cloud = (Ok [pooled_machine], q)"
proof -
  have kept: "filter keep_listed [pooled_machine] = [pooled_machine]"
    by (simp add: keep_listed_def NodePool_of_instance_def pooled_machine_def example_machine_def plain_instance_def)
  have "\<exists>dc'. list_compartment 0 (\<lambda>q. Ok ([pooled_machine], None)) [] None dc = Some (Ok [pooled_machine], dc')" for dc
    by (simp add: list_compartment.simps kept del: filter.simps)
  then obtain dc where "list_compartment 0 (\<lambda>q. Ok ([pooled_machine], None)) [] None new_drift_caches = Some (Ok [pooled_machine], dc)"
    by blast
  then show ?thesis by (simp add: cp_list_instances_def list_instances_def pooled_env_def sample_env_def example_cloud_def
        sample_provider_def Let_def)
qed

lemma pooled_claim:
  "\<exists>nc. nc_provider_id nc = ''i1'' \<and> pool_label nc = ''pool'' \<and> (\<forall>s. claim_from_instance pooled_env pooled_machine s = (Ok nc, s))"
proof -
  have noType: "type_from_instance pooled_env pooled_machine s = (Ok None, s)" for s
    by (simp add: type_from_instance_def pool_of_instance_def pooled_tags pooled_env_def ignore_not_found_def)
  have zone: "ad_to_zone ''p:PHX-AD-1'' = Ok ''PHX-AD-1''" by (simp add: ad_to_zone_def index_go_def)
  have "\<exists>nc. decorate_claim_by_instance (ce_now pooled_env) pooled_machine (decorate_claim_by_type f None blank_claim) = Ok nc
      \<and> nc_provider_id nc = ''i1''" for f
    by (simp add: decorate_claim_by_instance_def pooled_machine_def example_machine_def plain_instance_def zone Let_def)
  then obtain nc where nc: "claim_from_instance_and_type pooled_env pooled_machine None = Ok nc" "nc_provider_id nc = ''i1''"
    unfolding claim_from_instance_and_type_def by blast
  then have claim: "claim_from_instance pooled_env pooled_machine s = (Ok nc, s)" for s
    by (simp add: claim_from_instance_def noType)
  from claim_from_instance_Ok(2) [OF claim pooled_tags(1)] claim nc(2) show ?thesis by blast
qed

lemma pooled_listed: "\<exists>nc s'. cp_list pooled_env example_cloud = (Ok [nc], s') \<and> nc_provider_id nc = ''i1''"
proof -
  from pooled_instances obtain q where listed: "cp_list_instances pooled_env [[]] example_cloud = (Ok [pooled_machine], q)" ..
  obtain nc where nc: "nc_provider_id nc = ''i1''" "pool_label nc = ''pool''"
    "claim_from_instance pooled_env pooled_machine s = (Ok nc, s)" for s using pooled_claim by blast
  obtain s' where s': "cp_found ''pool'' pooled_machine q = (Ok (), s')"
    by (simp add: cp_found_def instance_found_def summary_update_def pooled_machine_def example_machine_def plain_instance_def)
  have "list_claims pooled_env sole_pool [pooled_machine] q = (Ok [nc], s')"
    using nc s' by (simp add: pooled_tags is_owned_by_node_pool_def pool_uid_def sole_pool_def)
  with listed pooled_parts nc(1) show ?thesis by (simp add: cp_list_def lift_cloud_def)
qed

theorem listed_claims_belong_witness:
  "\<exists>ncs p'. cp_list pooled_env example_cloud = (Ok ncs, p') \<and> map (\<lambda>nc. Some (nc_provider_id nc)) ncs = [Some ''i1'']"
proof -
  obtain nc s' where l: "cp_list pooled_env example_cloud = (Ok [nc], s')" using pooled_listed by blast
  from pooled_instances obtain q where listed: "cp_list_instances pooled_env [[]] example_cloud = (Ok [pooled_machine], q)" ..
  have belongs: "belongs_to_pools sole_pool pooled_machine"
    by (simp add: belongs_iff pooled_tags is_owned_by_node_pool_def pool_uid_def sole_pool_def)
  from listed_claims_belong [OF l] have "map (\<lambda>nc. Some (nc_provider_id nc)) [nc] = map ins_id (filter (belongs_to_pools sole_pool) [pooled_machine])"
    unfolding pooled_parts go.inject using listed pooled_parts(3) by auto
  also have "\<dots> = [Some ''i1'']" using belongs by (simp add: pooled_machine_def example_machine_def)
  finally show ?thesis by (intro exI conjI) (rule l)
qed

end
