(* ===== verification/Capacity_Discovery.thy ===== *)
theory Capacity_Discovery
  imports Image_Provider Offerings Reconciling "HOL-Library.Sublist"
begin

section \<open>Learning the memory of a shape from its nodes\<close>

text \<open>
  \<open>pkg/providers/capacitydiscovery\<close> (the measurements, and the advice drawn from them) and
  \<open>pkg/controllers/capacitydiscovery\<close> (the controller that takes them, with its record of misses).

  The store behind the measurements is a go-cache, represented as in theory \<open>Load_Cache\<close>.  Each
  operation that reads the clock takes the time.  A lock makes \<open>Record\<close> one step.  An image of a
  result is never a nil pointer in the model (theory \<open>Image_Provider\<close>); that a node class has no
  volume, boot volume or image configuration is the one case \<open>bv_image = None\<close>.  What Karpenter
  decides (whether a node is managed, which claim is that of a node) is an argument.  Metrics and
  logging are left out, the outcome that is counted is kept in the advice.
\<close>

subsection \<open>Measurements\<close>

record node_capacity =
  ncap_disabled :: bool
  ncap_cache :: "rat load_cache"

definition DefaultNodeCapacityTTL :: int where "DefaultNodeCapacityTTL = 60 * 24 * 3600"

definition new_node_capacity :: "int \<Rightarrow> node_capacity" where
  "new_node_capacity ttl =
     (if ttl = 0 then \<lparr>ncap_disabled = True, ncap_cache = new_load_cache None\<rparr>
      else \<lparr>ncap_disabled = False, ncap_cache = new_load_cache (Some (if ttl < 0 then DefaultNodeCapacityTTL else ttl))\<rparr>)"

definition capacity_enabled :: "node_capacity \<Rightarrow> bool" where
  "capacity_enabled d \<longleftrightarrow> \<not> ncap_disabled d"

definition get_capacity :: "int \<Rightarrow> string \<Rightarrow> node_capacity \<Rightarrow> rat option" where
  "get_capacity now key d = (if ncap_disabled d then None else get_from_cache now (ncap_cache d) key)"

definition record_capacity :: "int \<Rightarrow> string \<Rightarrow> rat \<Rightarrow> node_capacity \<Rightarrow> node_capacity" where
  "record_capacity now key observed d =
     (if ncap_disabled d then d
      else
        (case get_capacity now key d of
           Some cached \<Rightarrow> if cached < observed then d else d\<lparr>ncap_cache := cache_set now key observed (ncap_cache d)\<rparr>
         | None \<Rightarrow> d\<lparr>ncap_cache := cache_set now key observed (ncap_cache d)\<rparr>))"

subsection \<open>Recording a node\<close>

record kube_node =
  kn_name :: string
  kn_uid :: string
  kn_labels :: "(string \<times> string) list"
  kn_memory :: "rat option"

record capacity_provider =
  cdp_measured :: node_capacity
  cdp_images :: bool

definition new_capacity_provider :: "bool \<Rightarrow> int \<Rightarrow> capacity_provider" where
  "new_capacity_provider images ttl = \<lparr>cdp_measured = new_node_capacity ttl, cdp_images = images\<rparr>"

definition discovery_enabled :: "capacity_provider \<Rightarrow> bool" where
  "discovery_enabled p \<longleftrightarrow> capacity_enabled (cdp_measured p) \<and> cdp_images p"

definition measurement_key :: "string \<Rightarrow> string \<Rightarrow> string" where
  "measurement_key instanceType imageId = instanceType @ ''-'' @ imageId"

definition ErrCapacityNotReported :: err where
  "ErrCapacityNotReported = ErrText ''node has not reported memory capacity yet''"

definition node_instance_type :: "kube_node \<Rightarrow> string" where
  "node_instance_type n = from_ptr [] (map_of (kn_labels n) ''node.kubernetes.io/instance-type'')"

definition record_node_capacity ::
  "int \<Rightarrow> kube_node option \<Rightarrow> node_claim option \<Rightarrow> capacity_provider \<Rightarrow> (err, unit) go \<times> capacity_provider" where
  "record_node_capacity now node claim p =
     (case (node, claim) of
        (Some n, Some c) \<Rightarrow>
          if node_instance_type n = [] then (Ok (), p)
          else if nc_image_id c = [] then (Ok (), p)
          else
            (case kn_memory n of
               None \<Rightarrow> (Fail ErrCapacityNotReported, p)
             | Some m \<Rightarrow>
                 if m = 0 then (Fail ErrCapacityNotReported, p)
                 else (Ok (), p\<lparr>cdp_measured :=
                         record_capacity now (measurement_key (node_instance_type n) (nc_image_id c)) m (cdp_measured p)\<rparr>))
      | _ \<Rightarrow> (Ok (), p))"

subsection \<open>Advice\<close>

datatype outcome = Disabled | NoImage | NotCached | ResolutionFailed

datatype advice = NoAdvice outcome | ShapeAdvice string

definition usable_result :: "image_result \<Rightarrow> bool" where
  "usable_result r \<longleftrightarrow> (case ir_images r of [] \<Rightarrow> False | i # is \<Rightarrow> img_id i \<noteq> [])"

definition advise_for_shape ::
  "image_env \<Rightarrow> string \<Rightarrow> node_class_spec option \<Rightarrow> capacity_provider \<Rightarrow> image_provider
    \<Rightarrow> (err, advice) go \<times> image_provider" where
  "advise_for_shape env shape spec p ip =
     (if \<not> discovery_enabled p then (Ok (NoAdvice Disabled), ip)
      else
        (case spec of
           None \<Rightarrow> (Ok (NoAdvice NoImage), ip)
         | Some s \<Rightarrow>
             (case bv_image (vc_boot (ncs_volume s)) of
                None \<Rightarrow> (Ok (NoAdvice NoImage), ip)
              | Some cfg \<Rightarrow>
                  st_bind (resolve_image_for_shape_cached env (Some cfg) shape ip) (\<lambda>r ip.
                    (case r of
                       None \<Rightarrow> (Ok (NoAdvice NotCached), ip)
                     | Some res \<Rightarrow>
                         if \<not> usable_result res then (Ok (NoAdvice ResolutionFailed), ip)
                         else st_bind (index_go (ir_images res) 0, ip) (\<lambda>i ip. (Ok (ShapeAdvice (img_id i)), ip)))))))"

definition memory_for :: "int \<Rightarrow> node_capacity \<Rightarrow> advice \<Rightarrow> string \<Rightarrow> rat option" where
  "memory_for now measured a name =
     (case a of NoAdvice oc \<Rightarrow> None | ShapeAdvice img \<Rightarrow> get_capacity now (measurement_key name img) measured)"

text \<open>\<open>adviceForShape\<close> of the instance type provider: an absent advisor declines.\<close>

definition advice_for_shape ::
  "image_env \<Rightarrow> string \<Rightarrow> node_class_spec option \<Rightarrow> capacity_provider option \<Rightarrow> image_provider
    \<Rightarrow> (err, advice) go \<times> image_provider" where
  "advice_for_shape env shape spec advisor ip =
     (case advisor of None \<Rightarrow> (Ok (NoAdvice Disabled), ip) | Some p \<Rightarrow> advise_for_shape env shape spec p ip)"

subsection \<open>The controller\<close>

definition capacityNotReportedRequeue :: int where "capacityNotReportedRequeue = 15"
definition nodeClaimNotFoundRequeue :: int where "nodeClaimNotFoundRequeue = 5"
definition nodeClaimLookupWindow :: int where "nodeClaimLookupWindow = 300"

text \<open>When a node's claim was first missing.\<close>

type_synonym miss_tracker = "int load_cache"

definition new_miss_tracker :: "int \<Rightarrow> miss_tracker" where
  "new_miss_tracker window = new_load_cache (Some (2 * window))"

definition first_miss :: "string \<Rightarrow> int \<Rightarrow> miss_tracker \<Rightarrow> int \<times> miss_tracker" where
  "first_miss uid now m =
     (case get_from_cache now m uid of Some first \<Rightarrow> (first, m) | None \<Rightarrow> (now, cache_set now uid now m))"

definition forget_miss :: "string \<Rightarrow> miss_tracker \<Rightarrow> miss_tracker" where
  "forget_miss uid m = cache_evict uid m"

record capacity_controller =
  cc_misses :: miss_tracker
  cc_capacity :: capacity_provider

definition requeue_for_missing_claim :: "int \<Rightarrow> kube_node \<Rightarrow> capacity_controller \<Rightarrow> requeue \<times> capacity_controller" where
  "requeue_for_missing_claim now n c =
     (let (first, m) = first_miss (kn_uid n) now (cc_misses c); c1 = c\<lparr>cc_misses := m\<rparr>
      in if nodeClaimLookupWindow \<le> now - first then (None, c1) else (Some nodeClaimNotFoundRequeue, c1))"

datatype claim_lookup = ClaimFound node_claim | ClaimMissing | ClaimError err

definition reconcile_node ::
  "bool \<Rightarrow> claim_lookup \<Rightarrow> int \<Rightarrow> kube_node \<Rightarrow> capacity_controller \<Rightarrow> (err, requeue) go \<times> capacity_controller" where
  "reconcile_node managed lookup now n c =
     (if \<not> managed then (Ok None, c)
      else
        (case lookup of
           ClaimMissing \<Rightarrow> (let (r, c1) = requeue_for_missing_claim now n c in (Ok r, c1))
         | ClaimError e \<Rightarrow> (Fail (WrapW ''getting nodeclaim for node, '' e), c)
         | ClaimFound claim \<Rightarrow>
             (let c1 = c\<lparr>cc_misses := forget_miss (kn_uid n) (cc_misses c)\<rparr>
              in case record_node_capacity now (Some n) (Some claim) (cc_capacity c1) of
                   (Ok u, p) \<Rightarrow> (Ok None, c1\<lparr>cc_capacity := p\<rparr>)
                 | (Fail e, p) \<Rightarrow>
                     ((if e = ErrCapacityNotReported then Ok (Some capacityNotReportedRequeue)
                       else Fail (WrapW ''updating discovered capacity, '' e)), c1\<lparr>cc_capacity := p\<rparr>)
                 | (Panic, p) \<Rightarrow> (Panic, c1\<lparr>cc_capacity := p\<rparr>)
                 | (Hang, p) \<Rightarrow> (Hang, c1\<lparr>cc_capacity := p\<rparr>))))"

text \<open>Which events of a node reach the controller.\<close>

definition NodeRegisteredLabelKey :: string where "NodeRegisteredLabelKey = ''karpenter.sh/registered''"

definition node_update_passes :: "kube_node \<Rightarrow> kube_node \<Rightarrow> bool" where
  "node_update_passes old new =
     (if from_ptr [] (map_of (kn_labels old) NodeRegisteredLabelKey) \<noteq> [] then False
      else from_ptr [] (map_of (kn_labels new) NodeRegisteredLabelKey) = ''true'')"

definition node_create_passes :: "kube_node \<Rightarrow> bool" where
  "node_create_passes n = (from_ptr [] (map_of (kn_labels n) NodeRegisteredLabelKey) = ''true'')"

end
