(* ===== verification/Capacity_Laws.thy ===== *)
theory Capacity_Laws
  imports Capacity_Discovery
begin

section \<open>What the measurements are worth\<close>

text \<open>
  What is measured of a node's memory, what is advised from it, and how long the controller waits
  for the claim of a node.
\<close>

subsection \<open>The smallest memory of a life\<close>

text \<open>
  A history of measurements is a list of times, keys and values.  The life of an entry is what was
  measured for its key since the last measurement that found it dead: the first one, or one more
  than a lifetime after its smallest value was last seen.  That value is what the entry is worth.
\<close>

type_synonym measurement = "int \<times> string \<times> rat"

definition recorded :: "measurement list \<Rightarrow> node_capacity \<Rightarrow> node_capacity" where
  "recorded h d = fold (\<lambda>(t, k, v). record_capacity t k v) h d"

lemma recorded_simps [simp]:
  "recorded [] d = d" "recorded (h @ [(t, k, v)]) d = record_capacity t k v (recorded h d)"
  by (simp_all add: recorded_def)

definition lifetime :: "int \<Rightarrow> int" where
  "lifetime ttl = (if ttl < 0 then 60 * 24 * 3600 else ttl)"

definition smallest :: "(int \<times> rat) list \<Rightarrow> rat" where
  "smallest l = Min (set (map snd l))"

definition smallest_seen :: "(int \<times> rat) list \<Rightarrow> int" where
  "smallest_seen l = fst (last (filter (\<lambda>(t, v). v = smallest l) l))"

definition alive :: "int \<Rightarrow> int \<Rightarrow> (int \<times> rat) list \<Rightarrow> bool" where
  "alive ttl now l \<longleftrightarrow> l \<noteq> [] \<and> now \<le> smallest_seen l + lifetime ttl"

definition life_of :: "int \<Rightarrow> string \<Rightarrow> measurement list \<Rightarrow> (int \<times> rat) list" where
  "life_of ttl key h =
     fold (\<lambda>(t, k, v) l. if k \<noteq> key then l else if alive ttl t l then l @ [(t, v)] else [(t, v)]) h []"

lemma life_of_simps [simp]:
  "life_of ttl key [] = []"
  "life_of ttl key (h @ [(t, k, v)]) =
     (if k \<noteq> key then life_of ttl key h
      else if alive ttl t (life_of ttl key h) then life_of ttl key h @ [(t, v)] else [(t, v)])"
  by (simp_all add: life_of_def)

lemma smallest_single [simp]: "smallest [(t, v)] = v" "smallest_seen [(t, v)] = t"
  by (simp_all add: smallest_def smallest_seen_def)

lemma smallest_le: "(t, v) \<in> set l \<Longrightarrow> smallest l \<le> v"
  unfolding smallest_def by (intro Min_le) force+

lemma smallest_snoc: "l \<noteq> [] \<Longrightarrow> smallest (l @ [(t, v)]) = min (smallest l) v"
  by (simp add: smallest_def Min_insert min.commute)

lemma smallest_seen_snoc:
  assumes "l \<noteq> []"
  shows "smallest_seen (l @ [(t, v)]) = (if smallest l < v then smallest_seen l else t)"
  using smallest_le smallest_snoc [OF assms, of t v]
  by (auto simp: smallest_seen_def min_def split: if_splits)

lemma life_measured: "(t, v) \<in> set (life_of ttl key h) \<Longrightarrow> (t, key, v) \<in> set h"
proof (induction h rule: rev_induct)
  case (snoc x h)
  then show ?case by (cases x) (auto split: if_splits)
qed simp

lemma smallest_measured: "l \<noteq> [] \<Longrightarrow> \<exists>t. (t, smallest l) \<in> set l"
  using Min_in [of "snd ` set l"] by (fastforce simp: smallest_def)

lemma new_capacity:
  "ncap_disabled (new_node_capacity ttl) \<longleftrightarrow> ttl = 0" "lc_items (ncap_cache (new_node_capacity ttl)) = Map.empty"
  "ttl \<noteq> 0 \<Longrightarrow> lc_ttl (ncap_cache (new_node_capacity ttl)) = Some (lifetime ttl)"
  by (simp_all add: new_node_capacity_def new_load_cache_def lifetime_def DefaultNodeCapacityTTL_def)

lemma record_keeps [simp]:
  "ncap_disabled (record_capacity t k v d) = ncap_disabled d"
  "lc_ttl (ncap_cache (record_capacity t k v d)) = lc_ttl (ncap_cache d)"
  by (auto simp: record_capacity_def cache_set_def split: option.splits)

lemma recorded_keeps [simp]:
  "ncap_disabled (recorded h d) = ncap_disabled d" "lc_ttl (ncap_cache (recorded h d)) = lc_ttl (ncap_cache d)"
  by (induction h rule: rev_induct) auto

lemma recorded_entry:
  assumes "ttl \<noteq> 0"
  shows "lc_items (ncap_cache (recorded h (new_node_capacity ttl))) key =
     (let l = life_of ttl key h in if l = [] then None else Some (smallest l, Some (smallest_seen l + lifetime ttl)))"
proof (induction h rule: rev_induct)
  case Nil
  show ?case by (simp add: new_capacity)
next
  case (snoc x h)
  obtain t k v where x: "x = (t, k, v)" by (rule prod_cases3)
  let ?d = "recorded h (new_node_capacity ttl)" and ?l = "life_of ttl key h"
  have on: "\<not> ncap_disabled ?d" "lc_ttl (ncap_cache ?d) = Some (lifetime ttl)" using assms by (simp_all add: new_capacity)
  show ?case
  proof (cases "k = key")
    case False
    with snoc on x show ?thesis
      by (auto simp: record_capacity_def cache_set_def split: option.splits)
  next
    case True
    have g: "get_capacity t key ?d = (if alive ttl t ?l then Some (smallest ?l) else None)"
      using on snoc by (auto simp: get_capacity_def get_from_cache_def live_def alive_def Let_def)
    show ?thesis
    proof (cases "alive ttl t ?l")
      case a: True
      then have "?l \<noteq> []" by (simp add: alive_def)
      note snoced = smallest_snoc [OF this] smallest_seen_snoc [OF this]
      show ?thesis using on snoc True a x g \<open>?l \<noteq> []\<close>
        by (auto simp: record_capacity_def cache_set_def snoced Let_def)
    qed (use on snoc True x g in \<open>simp add: record_capacity_def cache_set_def\<close>)
  qed
qed

lemma get_recorded:
  "get_capacity now key (recorded h (new_node_capacity ttl)) =
     (let l = life_of ttl key h in if ttl \<noteq> 0 \<and> alive ttl now l then Some (smallest l) else None)"
proof (cases "ttl = 0")
  case True
  then show ?thesis by (simp add: get_capacity_def new_capacity)
next
  case False
  then show ?thesis using recorded_entry [OF False, of h key]
    by (auto simp: get_capacity_def get_from_cache_def live_def alive_def new_capacity Let_def)
qed

lemma got_was_measured:
  assumes "get_capacity now key (recorded h (new_node_capacity ttl)) = Some v"
  shows "\<exists>t. (t, key, v) \<in> set h"
  using assms smallest_measured life_measured by (fastforce simp: get_recorded Let_def alive_def split: if_splits)

text \<open>
  C15. What is returned for an instance type and an image is the smallest memory that was measured
  of them in the present life of the entry, and nothing once a lifetime has passed since that value
  was last seen: whatever the order and the times of the measurements, and whatever was measured of
  others.  The first measurement of a dead entry counts however large it is.  With a lifetime of 0
  nothing is ever returned, with a negative one the lifetime is sixty days.
\<close>

theorem measured_is_minimum:
  "get_capacity now key (recorded h (new_node_capacity ttl)) =
     (let l = life_of ttl key h
      in if ttl \<noteq> 0 \<and> l \<noteq> [] \<and> now \<le> smallest_seen l + (if ttl < 0 then 60 * 24 * 3600 else ttl)
         then Some (Min (set (map snd l))) else None)"
  by (simp add: get_recorded Let_def alive_def lifetime_def smallest_def)

text \<open>
  A small value that was forgotten does not come back: the larger one measured afterwards counts.
\<close>

lemma larger_after_expiry:
  "get_capacity 130 ''a'' (recorded [(0, ''a'', 5), (5, ''b'', 1), (6, ''a'', 7), (120, ''a'', 6)] (new_node_capacity 100)) = Some 6"
  "get_capacity 50 ''a'' (recorded [(0, ''a'', 5), (5, ''b'', 1), (6, ''a'', 7)] (new_node_capacity 100)) = Some 5"
  "get_capacity 110 ''a'' (recorded [(0, ''a'', 5), (5, ''b'', 1), (6, ''a'', 7)] (new_node_capacity 100)) = None"
  by (simp_all add: get_recorded life_of_def alive_def lifetime_def smallest_def smallest_seen_def)

subsection \<open>From nodes to advice\<close>

text \<open>
  The key joins the name of an instance type and the OCID of an image with a dash.  It tells them
  apart as long as every image has an OCID and no name holds the beginning of one behind a dash.
\<close>

definition ocid_start :: string where "ocid_start = ''ocid1.''"

lemma no_dash_in_ocid_start: "CHR ''-'' \<notin> set ocid_start"
  by (simp add: ocid_start_def)

definition is_ocid :: "string \<Rightarrow> bool" where
  "is_ocid s \<longleftrightarrow> prefix ocid_start s"

definition plain_name :: "string \<Rightarrow> bool" where
  "plain_name s \<longleftrightarrow> \<not> sublist (CHR ''-'' # ocid_start) s"

lemma joined_longer:
  assumes "n1 @ c # i1 = n2 @ c # i2" "prefix p i1" "\<not> sublist (c # p) n2" "c \<notin> set p"
  shows "length n2 \<le> length n1"
proof (rule ccontr)
  assume longer: "\<not> length n2 \<le> length n1"
  define rest where "rest = drop (length n1) n2"
  from assms(1) longer have r0: "take (length n1) n2 = n1" "c # i1 = rest @ c # i2" "rest \<noteq> []"
    by (auto simp: append_eq_append_conv_if rest_def)
  then have r: "n2 = n1 @ rest" "c # i1 = rest @ c # i2" "rest \<noteq> []"
    using append_take_drop_id [of "length n1" n2] by (auto simp: rest_def)
  then obtain rest' where r': "rest = c # rest'" "i1 = rest' @ c # i2" by (cases rest) auto
  show False
  proof (cases "length p \<le> length rest'")
    case True
    have "prefix rest' i1" unfolding r'(2) by simp
    with assms(2) have "prefix p rest'" by (rule prefix_length_prefix) (rule True)
    then have "sublist (c # p) n2" unfolding r(1) r'(1) by (auto simp: prefix_def sublist_def)
    with assms(3) show False ..
  next
    case False
    from assms(2) obtain tail where "i1 = p @ tail" by (auto simp: prefix_def)
    with False have "i1 ! length rest' = p ! length rest'" by (simp add: nth_append)
    moreover have "i1 ! length rest' = c" unfolding r'(2) by (simp add: nth_append)
    moreover have "p ! length rest' \<in> set p" using False by (intro nth_mem) simp
    ultimately show False using assms(4) by simp
  qed
qed

lemma measurement_key_inj:
  assumes "measurement_key n1 i1 = measurement_key n2 i2" "is_ocid i1" "is_ocid i2" "plain_name n1" "plain_name n2"
  shows "n1 = n2 \<and> i1 = i2"
proof -
  have k: "n1 @ CHR ''-'' # i1 = n2 @ CHR ''-'' # i2" using assms(1) by (simp add: measurement_key_def)
  note dash = no_dash_in_ocid_start
  from joined_longer [OF k assms(2) [unfolded is_ocid_def] assms(5) [unfolded plain_name_def] dash]
    joined_longer [OF k [symmetric] assms(3) [unfolded is_ocid_def] assms(4) [unfolded plain_name_def] dash]
  have "length n1 = length n2" by simp
  with k show ?thesis by simp
qed

type_synonym node_event = "int \<times> kube_node \<times> node_claim"

definition recorded_nodes :: "node_event list \<Rightarrow> capacity_provider \<Rightarrow> capacity_provider" where
  "recorded_nodes es p = fold (\<lambda>(t, n, c) p. snd (record_node_capacity t (Some n) (Some c) p)) es p"

definition teaches :: "node_event \<Rightarrow> bool" where
  "teaches e = (case e of (t, n, c) \<Rightarrow> node_instance_type n \<noteq> [] \<and> nc_image_id c \<noteq> [] \<and> kn_memory n \<noteq> None \<and> kn_memory n \<noteq> Some 0)"

definition measurement_of :: "node_event \<Rightarrow> measurement" where
  "measurement_of e = (case e of (t, n, c) \<Rightarrow> (t, measurement_key (node_instance_type n) (nc_image_id c), from_ptr 0 (kn_memory n)))"

lemma recorded_nodes_measured:
  "cdp_measured (recorded_nodes es p) = recorded (map measurement_of (filter teaches es)) (cdp_measured p)
   \<and> cdp_images (recorded_nodes es p) = cdp_images p"
proof (induction es rule: rev_induct)
  case (snoc e es)
  obtain t n c where e: "e = (t, n, c)" by (rule prod_cases3)
  have "cdp_measured (snd (record_node_capacity t (Some n) (Some c) q)) =
      (if teaches e then recorded [measurement_of e] (cdp_measured q) else cdp_measured q)
     \<and> cdp_images (snd (record_node_capacity t (Some n) (Some c) q)) = cdp_images q" for q
    by (cases "kn_memory n") (auto simp: record_node_capacity_def teaches_def measurement_of_def recorded_def e)
  with snoc e show ?case by (simp add: recorded_nodes_def recorded_def)
qed (simp add: recorded_nodes_def)

lemma advise_image:
  assumes "advise_for_shape env shape (Some spec) p ip = (Ok (ShapeAdvice img), ip')"
  shows "\<exists>cfg r i is. bv_image (vc_boot (ncs_volume spec)) = Some cfg
    \<and> resolve_image_for_shape_cached env (Some cfg) shape ip = (Ok (Some r), ip') \<and> ir_images r = i # is \<and> img = img_id i"
proof -
  obtain q ip1 where q: "resolve_image_for_shape_cached env (bv_image (vc_boot (ncs_volume spec))) shape ip = (q, ip1)"
    by (rule prod.exhaust)
  from assms obtain cfg r where r: "bv_image (vc_boot (ncs_volume spec)) = Some cfg" "q = Ok (Some r)"
    using q by (cases q) (auto simp: advise_for_shape_def split: if_splits option.splits)
  then obtain i "is" where "ir_images r = i # is"
    using assms q by (cases "ir_images r") (auto simp: advise_for_shape_def usable_result_def split: if_splits)
  with assms q r show ?thesis by (auto simp: advise_for_shape_def usable_result_def index_go_def split: if_splits)
qed

text \<open>
  C16. Memory that is advised for an instance type was reported by a node of that very type which
  booted the very image that a launch from this node class and shape would boot now, and to find
  it out no image is asked for that is not cached.
\<close>

theorem advised_memory_was_measured:
  assumes "advise_for_shape env shape (Some spec) (recorded_nodes es (new_capacity_provider True ttl)) ip = (Ok a, ip')"
    "memory_for now (cdp_measured (recorded_nodes es (new_capacity_provider True ttl))) a name = Some m"
    "plain_name name" "\<forall>e \<in> set es. plain_name (node_instance_type (fst (snd e))) \<and> is_ocid (nc_image_id (snd (snd e)))"
    "\<forall>r. resolve_image_for_shape env True (bv_image (vc_boot (ncs_volume spec))) shape ip = (Ok r, ip) \<longrightarrow>
       (\<forall>i \<in> set (ir_images r). is_ocid (img_id i))"
  shows "ip' = ip \<and> (\<exists>cfg r i is t n c. bv_image (vc_boot (ncs_volume spec)) = Some cfg
    \<and> resolve_image_for_shape env False (Some cfg) shape ip = (Ok r, ip) \<and> ir_images r = i # is
    \<and> (t, n, c) \<in> set es \<and> node_instance_type n = name \<and> nc_image_id c = img_id i \<and> kn_memory n = Some m)"
proof -
  let ?p = "recorded_nodes es (new_capacity_provider True ttl)"
  from assms(2) obtain img where a: "a = ShapeAdvice img"
    and g: "get_capacity now (measurement_key name img) (cdp_measured ?p) = Some m"
    by (auto simp: memory_for_def split: advice.splits)
  from assms(1) a obtain cfg r i "is" where r: "bv_image (vc_boot (ncs_volume spec)) = Some cfg"
    "resolve_image_for_shape_cached env (Some cfg) shape ip = (Ok (Some r), ip')" "ir_images r = i # is" "img = img_id i"
    using advise_image by blast
  from cached_resolution_same [OF r(2)] have same: "ip' = ip" "resolve_image_for_shape env False (Some cfg) shape ip = (Ok r, ip)"
    "resolve_image_for_shape env True (Some cfg) shape ip = (Ok r, ip)" by auto
  have "\<exists>t. (t, measurement_key name img, m) \<in> set (map measurement_of (filter teaches es))"
  proof (rule got_was_measured)
    show "get_capacity now (measurement_key name img)
        (recorded (map measurement_of (filter teaches es)) (new_node_capacity ttl)) = Some m"
      using g by (simp add: recorded_nodes_measured new_capacity_provider_def)
  qed
  then obtain t0 ev where ev: "ev \<in> set es" "teaches ev" "(t0, measurement_key name img, m) = measurement_of ev" by auto
  obtain t n c where tnc: "ev = (t, n, c)" by (rule prod_cases3)
  have e: "(t, n, c) \<in> set es" "kn_memory n = Some m"
    "measurement_key (node_instance_type n) (nc_image_id c) = measurement_key name img"
  proof -
    from ev(2) obtain v where v: "kn_memory n = Some v" unfolding tnc teaches_def prod.case by blast
    from ev(3) have "(t0, measurement_key name img, m) = (t, measurement_key (node_instance_type n) (nc_image_id c), v)"
      unfolding tnc measurement_of_def prod.case v from_ptr.simps .
    with ev(1) v show "(t, n, c) \<in> set es" "kn_memory n = Some m"
      "measurement_key (node_instance_type n) (nc_image_id c) = measurement_key name img"
      unfolding tnc by simp_all
  qed
  have "is_ocid img" using assms(5) same(3) r(1,3,4) by auto
  then have "node_instance_type n = name" "nc_image_id c = img"
    using measurement_key_inj [OF e(3)] assms(3) bspec [OF assms(4) e(1)] unfolding fst_conv snd_conv by blast+
  with same r e(1,2) show ?thesis by blast
qed

subsection \<open>A node that taught\<close>

definition taught_images :: image_provider where
  "taught_images = example_images\<lparr>ip_filter_cache := cache_set 0 ''h'' [example_image ''ocid1.b'' 5 ''2''] new_default_cache,
     ip_shape_cache := cache_set 0 ''ocid1.b'' {''S''} new_default_cache\<rparr>"

definition taught_spec :: node_class_spec where
  "taught_spec = empty_spec\<lparr>ncs_volume := (ncs_volume empty_spec)
     \<lparr>vc_boot := (vc_boot (ncs_volume empty_spec))\<lparr>bv_image := Some example_image_config\<rparr>\<rparr>\<rparr>"

definition taught_node :: kube_node where
  "taught_node = \<lparr>kn_name = ''n'', kn_uid = ''u'', kn_labels = [(''node.kubernetes.io/instance-type'', ''T'')], kn_memory = Some 15\<rparr>"

definition taught_claim :: node_claim where
  "taught_claim = plain_claim\<lparr>nc_image_id := ''ocid1.b''\<rparr>"

lemma taught_resolution:
  "\<exists>r. resolve_image_for_shape example_image_env True (Some example_image_config) ''S'' taught_images = (Ok r, taught_images)
     \<and> ir_images r = [example_image ''ocid1.b'' 5 ''2'']"
proof -
  let ?b = "example_image ''ocid1.b'' 5 ''2''"
  have c: "candidate_images example_image_env True example_image_config taught_images = (Ok [?b], taught_images)"
    by (simp add: candidate_images_def example_image_config_def filter_image_def example_image_env_def get_cached_def
        get_set_now taught_images_def)
  have f: "filter_and_sort_images example_image_env True [?b] example_image_config taught_images = (Ok [?b], taught_images)"
    by (simp add: filter_and_sort_images_def slice_stable_def is_prebaked_def example_image_config_def example_images_def
        example_image_def example_image_env_def extract_kubelet_version.simps kubelet_score_def example_trim taught_images_def)
  have l: "list_shapes_for_image example_image_env True (img_id ?b) taught_images = (Ok {''S''}, taught_images)"
    by (simp add: list_shapes_for_image_def get_cached_def example_image_def get_set_now example_image_env_def taught_images_def)
  have i: "ic_id example_image_config = None" "img_name ?b = Some ''ocid1.b''"
    by (simp_all add: example_image_config_def example_image_def)
  show ?thesis
    by (simp add: resolve_image_for_shape_def resolve_images_def i c f to_image_resolve_result_def l)
qed

theorem advised_memory_was_measured_witness:
  "\<exists>a. advise_for_shape example_image_env ''S'' (Some taught_spec)
        (recorded_nodes [(0, taught_node, taught_claim)] (new_capacity_provider True 100)) taught_images = (Ok a, taught_images)
     \<and> memory_for 50 (cdp_measured (recorded_nodes [(0, taught_node, taught_claim)] (new_capacity_provider True 100))) a ''T'' = Some 15
     \<and> kn_memory taught_node = Some 15"
proof -
  let ?ps = "recorded_nodes [(0, taught_node, taught_claim)] (new_capacity_provider True 100)"
  obtain res where res: "resolve_image_for_shape example_image_env True (Some example_image_config) ''S'' taught_images = (Ok res, taught_images)"
    "ir_images res = [example_image ''ocid1.b'' 5 ''2'']" using taught_resolution by blast
  have spec: "bv_image (vc_boot (ncs_volume taught_spec)) = Some example_image_config" by (simp add: taught_spec_def)
  have names: "plain_name ''T''" "is_ocid ''ocid1.b''" "node_instance_type taught_node = ''T''" "nc_image_id taught_claim = ''ocid1.b''"
    by (simp_all add: plain_name_def ocid_start_def is_ocid_def node_instance_type_def taught_node_def taught_claim_def
        sublist_Cons_right)
  have id: "img_id (example_image ''ocid1.b'' 5 ''2'') = ''ocid1.b''" by (simp add: example_image_def)
  have enabled: "discovery_enabled ?ps"
    by (simp add: discovery_enabled_def capacity_enabled_def recorded_nodes_measured new_capacity_provider_def new_capacity)
  have adv: "advise_for_shape example_image_env ''S'' (Some taught_spec) ?ps taught_images = (Ok (ShapeAdvice ''ocid1.b''), taught_images)"
    by (simp add: advise_for_shape_def enabled spec resolve_image_for_shape_cached_def res usable_result_def id index_go_def)
  have mem: "kn_memory taught_node = Some 15" by (simp add: taught_node_def)
  have "get_capacity 50 k (record_capacity 0 k 15 (new_node_capacity 100)) = Some 15" for k
    by (simp add: record_capacity_def get_capacity_def new_node_capacity_def new_load_cache_def get_from_cache_def cache_set_def live_def)
  then have m: "memory_for 50 (cdp_measured ?ps) (ShapeAdvice ''ocid1.b'') ''T'' = Some 15"
    by (simp add: memory_for_def recorded_nodes_def record_node_capacity_def names mem new_capacity_provider_def)
  have ids: "\<forall>r. resolve_image_for_shape example_image_env True (bv_image (vc_boot (ncs_volume taught_spec))) ''S'' taught_images
      = (Ok r, taught_images) \<longrightarrow> (\<forall>i \<in> set (ir_images r). is_ocid (img_id i))"
    using names(2) res id unfolding spec by simp
  have events: "\<forall>e \<in> set [(0, taught_node, taught_claim)]. plain_name (node_instance_type (fst (snd e)))
      \<and> is_ocid (nc_image_id (snd (snd e)))"
    using names by simp
  from advised_memory_was_measured [OF adv m names(1) events ids] have "kn_memory taught_node = Some 15" by auto
  with adv m show ?thesis by blast
qed

subsection \<open>Waiting for a claim ends\<close>

text \<open>The reconciliations of a node whose claim does not appear, at given times: how often it is retried.\<close>

fun retries :: "kube_node \<Rightarrow> int list \<Rightarrow> capacity_controller \<Rightarrow> nat option" where
  "retries n [] c = None"
| "retries n (t # ts) c =
     (case reconcile_node True ClaimMissing t n c of
        (Ok (Some d), c1) \<Rightarrow> map_option Suc (retries n ts c1)
      | _ \<Rightarrow> Some 0)"

definition paced :: "int list \<Rightarrow> bool" where
  "paced ts \<longleftrightarrow> successively (\<lambda>a b. a + nodeClaimNotFoundRequeue \<le> b \<and> b \<le> a + nodeClaimLookupWindow) ts"

lemma retries_while_known:
  assumes "lc_items (cc_misses c) (kn_uid n) = Some (first, Some (first + 600))" "paced (t # ts)"
    "first + 5 * int k \<le> t" "t \<le> first + 600" "k + length ts \<ge> 60"
  shows "\<exists>j \<le> 60 - k. retries n (t # ts) c = Some j"
  using assms
proof (induction ts arbitrary: t k)
  case Nil
  then show ?case
    by (auto simp: reconcile_node_def requeue_for_missing_claim_def first_miss_def get_from_cache_def live_def
        nodeClaimLookupWindow_def)
next
  case (Cons u us)
  have known: "first_miss (kn_uid n) t (cc_misses c) = (first, cc_misses c)"
    using Cons.prems(1,4) by (simp add: first_miss_def get_from_cache_def live_def)
  show ?case
  proof (cases "nodeClaimLookupWindow \<le> t - first")
    case True
    with known show ?thesis by (auto simp: reconcile_node_def requeue_for_missing_claim_def)
  next
    case False
    with Cons.prems(3) have k: "k < 60" by (simp add: nodeClaimLookupWindow_def)
    have "paced (u # us)" "t + 5 \<le> u" "u \<le> t + 300" using Cons.prems(2)
      by (auto simp: paced_def nodeClaimNotFoundRequeue_def nodeClaimLookupWindow_def)
    with Cons.IH [of u "Suc k"] Cons.prems(1,3,5) False obtain j where "j \<le> 60 - Suc k" "retries n (u # us) c = Some j"
      by (auto simp: nodeClaimLookupWindow_def)
    with known False k show ?thesis
      by (intro exI [of _ "Suc j"]) (auto simp: reconcile_node_def requeue_for_missing_claim_def)
  qed
qed

text \<open>
  C17. A registered node whose claim never appears is not retried for ever: if it is looked at again
  no sooner than asked and never more than five minutes late, it is given up after at most sixty
  retries, whatever is known of other nodes.
\<close>

theorem missing_claim_retries_end:
  assumes "lc_ttl (cc_misses c) = lc_ttl (new_miss_tracker nodeClaimLookupWindow)"
    "lc_items (cc_misses c) (kn_uid n) = None" "paced ts" "60 < length ts"
  shows "\<exists>k \<le> 60. retries n ts c = Some k"
proof -
  from assms(4) obtain t ts' where ts: "ts = t # ts'" by (cases ts) auto
  let ?c = "c\<lparr>cc_misses := cache_set t (kn_uid n) t (cc_misses c)\<rparr>"
  have "first_miss (kn_uid n) t (cc_misses c) = (t, cache_set t (kn_uid n) t (cc_misses c))"
    using assms(2) by (simp add: first_miss_def get_from_cache_def)
  then have now: "reconcile_node True ClaimMissing t n c = (Ok (Some 5), ?c)"
    by (simp add: reconcile_node_def requeue_for_missing_claim_def nodeClaimLookupWindow_def nodeClaimNotFoundRequeue_def)
  from ts assms(4) obtain u us where us: "ts' = u # us" by (cases ts') auto
  have "paced (u # us)" "t + 5 \<le> u" "u \<le> t + 300" using assms(3)
    by (auto simp: ts us paced_def nodeClaimNotFoundRequeue_def nodeClaimLookupWindow_def)
  moreover have "lc_items (cc_misses ?c) (kn_uid n) = Some (t, Some (t + 600))"
    using assms(1) by (simp add: cache_set_def new_miss_tracker_def new_load_cache_def nodeClaimLookupWindow_def)
  ultimately obtain j where "j \<le> 60 - 1" "retries n (u # us) ?c = Some j"
    using retries_while_known [of ?c n t u us 1] assms(4) by (auto simp: ts us)
  with now show ?thesis by (intro exI [of _ "Suc j"]) (simp add: ts us)
qed

definition fresh_controller :: capacity_controller where
  "fresh_controller = \<lparr>cc_misses = new_miss_tracker nodeClaimLookupWindow, cc_capacity = new_capacity_provider True 100\<rparr>"

theorem missing_claim_retries_end_witness:
  "\<exists>k \<le> 60. retries taught_node (map (\<lambda>i. 5 * int i) [0..<61]) fresh_controller = Some k"
proof (rule missing_claim_retries_end)
  show "paced (map (\<lambda>i. 5 * int i) [0..<61])"
    by (simp add: paced_def nodeClaimNotFoundRequeue_def nodeClaimLookupWindow_def successively_map upt_rec)
qed (simp_all add: fresh_controller_def new_miss_tracker_def new_load_cache_def)

end
