(* ===== verification/Node_Class_Control.thy ===== *)
theory Node_Class_Control
  imports Reconciling Drift Image_Provider Network_Provider Capacity_Reservation Cluster_Groups
begin

section \<open>The controller of node classes\<close>

text \<open>
  \<open>pkg/controllers/nodeclasses\<close>: every reconciler, in the order in which the controller runs them,
  the controller with what it writes to the Kubernetes API, and the finalizer.

  A node class holds the conditions of its status; the operations on them are those of a library
  (\<open>operatorpkg/status\<close>) and arguments here (\<open>condition_set\<close>): \<open>SetTrue\<close>, \<open>SetFalse\<close>, \<open>Clear\<close>,
  whether a condition is true, whether the root condition is.  The Kubernetes API answers a patch
  with the object as it is after it.  The resource version, metrics, events and logging are left
  out; that an object is gone is no error (\<open>client.IgnoreNotFound\<close>).
\<close>

record condition_set =
  cs_true :: "string \<Rightarrow> node_class \<Rightarrow> node_class"
  cs_false :: "string \<Rightarrow> string \<Rightarrow> string \<Rightarrow> node_class \<Rightarrow> node_class"
  cs_clear :: "string \<Rightarrow> node_class \<Rightarrow> (err, unit) go \<times> node_class"
  cs_holds :: "string \<Rightarrow> node_class \<Rightarrow> bool"
  cs_ready :: "node_class \<Rightarrow> bool"

record class_env =
  cle_conditions :: condition_set
  cle_image :: image_env
  cle_vcn :: vcn_api
  cle_region :: "string \<Rightarrow> string"
  cle_connect :: "string \<Rightarrow> (err, unit) go"
  cle_kms :: "string \<Rightarrow> string \<Rightarrow> (err, kms_result) go"
  cle_capres :: capres_api
  cle_cpg :: cpg_api
  cle_cluster :: cluster_api
  cle_compartment :: "string \<Rightarrow> (err, string) go"
  cle_hash :: "node_class_spec \<Rightarrow> string"
  cle_min :: "requeue list \<Rightarrow> requeue"
  cle_patch :: "node_class \<Rightarrow> node_class \<Rightarrow> (err, node_class) go"
  cle_status_patch :: "node_class \<Rightarrow> node_class \<Rightarrow> (err, node_class) go"
  cle_claims :: "node_class \<Rightarrow> (err, node_claim list) go"
  cle_now :: int

record class_providers =
  clp_images :: image_provider
  clp_kms :: kms_provider
  clp_network :: vcn_provider
  clp_capres :: capres_provider
  clp_cpg :: cpg_provider
  clp_cluster :: cluster_provider
  clp_identity :: identity_provider
  clp_compartment :: string

type_synonym class_state = "node_class \<times> class_providers"
type_synonym class_step = "class_state \<Rightarrow> (err, requeue) go \<times> class_state"

subsection \<open>Writing the status\<close>

definition with_status :: "(node_class_status \<Rightarrow> node_class_status) \<Rightarrow> node_class \<Rightarrow> node_class" where
  "with_status f cls = cls\<lparr>ncl_status := f (ncl_status cls)\<rparr>"

definition failureRequeue :: requeue where "failureRequeue = Some 300"

text \<open>A failed resolution: the condition is false, with the text of the error, and no error is returned.\<close>

definition resolve_failed :: "class_env \<Rightarrow> string \<Rightarrow> string \<Rightarrow> err \<Rightarrow> class_step" where
  "resolve_failed env t reason e = (\<lambda>(cls, w).
     case pretty_string (err_text e) 1024 of
       Ok m \<Rightarrow> (Ok failureRequeue, cs_false (cle_conditions env) t reason m cls, w)
     | Fail e' \<Rightarrow> (Fail e', cls, w)
     | Panic \<Rightarrow> (Panic, cls, w)
     | Hang \<Rightarrow> (Hang, cls, w))"

definition resolved :: "class_env \<Rightarrow> string \<Rightarrow> class_step" where
  "resolved env t = (\<lambda>(cls, w). (Ok None, cs_true (cle_conditions env) t cls, w))"

definition clear_condition :: "class_env \<Rightarrow> string \<Rightarrow> class_step" where
  "clear_condition env t = (\<lambda>(cls, w).
     case cs_clear (cle_conditions env) t cls of
       (Ok u, cls1) \<Rightarrow> (Ok None, cls1, w)
     | (Fail e, cls1) \<Rightarrow> (Ok failureRequeue, cls1, w)
     | (Panic, cls1) \<Rightarrow> (Panic, cls1, w)
     | (Hang, cls1) \<Rightarrow> (Hang, cls1, w))"

subsection \<open>The reconcilers\<close>

definition init_status :: class_step where
  "init_status = (\<lambda>(cls, w). (Ok None, with_status (\<lambda>st. st
     \<lparr>ncst_volume := (case ncst_volume st of None \<Rightarrow> Some \<lparr>vst_images = [], vst_kms = []\<rparr> | v \<Rightarrow> v),
      ncst_network := (case ncst_network st of None \<Rightarrow> Some \<lparr>ns_primary = None, ns_secondary = []\<rparr> | n \<Rightarrow> n)\<rparr>) cls, w))"

definition get_node_compartment :: "string \<Rightarrow> node_class \<Rightarrow> string" where
  "get_node_compartment own cls = (case ncs_compartment (ncl_spec cls) of Some c \<Rightarrow> c | None \<Rightarrow> own)"

definition reconcile_compartment :: "class_env \<Rightarrow> class_step" where
  "reconcile_compartment env = (\<lambda>(cls, w).
     let (r, i) = resolve_compartment (cle_compartment env) (cle_now env)
                    (get_node_compartment (clp_compartment w) cls) (clp_identity w);
         w1 = w\<lparr>clp_identity := i\<rparr>
     in case r of
          Ok c \<Rightarrow> resolved env ''NodeCompartment'' (cls, w1)
        | Fail e \<Rightarrow> resolve_failed env ''NodeCompartment'' ''NodeCompartmentResolveFailure'' e (cls, w1)
        | Panic \<Rightarrow> (Panic, cls, w1)
        | Hang \<Rightarrow> (Hang, cls, w1))"

text \<open>Both write to the volume of the status, which is there once the status has been initialised.\<close>

definition with_volume :: "(volume_status \<Rightarrow> volume_status) \<Rightarrow> class_step \<Rightarrow> class_step" where
  "with_volume f next = (\<lambda>(cls, w).
     case ncst_volume (ncl_status cls) of
       None \<Rightarrow> (Panic, cls, w)
     | Some v \<Rightarrow> next (with_status (\<lambda>st. st\<lparr>ncst_volume := Some (f v)\<rparr>) cls, w))"

definition image_statuses :: "oci_image list \<Rightarrow> (err, image_status list) go" where
  "image_statuses = map_go (\<lambda>i. map_ok (\<lambda>n. \<lparr>nr_id = img_id i, nr_name = n\<rparr>) (deref (img_name i)))"

definition update_image :: "class_env \<Rightarrow> (err, image_result) go \<Rightarrow> class_step" where
  "update_image env r = (\<lambda>(cls, w).
     case go_bind r (\<lambda>res. image_statuses (ir_images res)) of
       Ok is \<Rightarrow> with_volume (\<lambda>v. v\<lparr>vst_images := is\<rparr>) (resolved env ''Image'') (cls, w)
     | Fail e \<Rightarrow> with_volume (\<lambda>v. v\<lparr>vst_images := []\<rparr>) (resolve_failed env ''Image'' ''ImageResolveFailure'' e) (cls, w)
     | Panic \<Rightarrow> (Panic, cls, w)
     | Hang \<Rightarrow> (Hang, cls, w))"

definition reconcile_image :: "class_env \<Rightarrow> class_step" where
  "reconcile_image env = (\<lambda>(cls, w).
     let (r, im) = resolve_images (cle_image env) False (bv_image (vc_boot (ncs_volume (ncl_spec cls)))) (clp_images w)
     in update_image env r (cls, w\<lparr>clp_images := im\<rparr>))"

text \<open>A configuration without an OCID resolves to nothing, which is then dereferenced.\<close>

definition update_kms :: "class_env \<Rightarrow> (err, kms_result option) go \<Rightarrow> class_step" where
  "update_kms env r = (\<lambda>(cls, w).
     case go_bind r deref of
       Ok k \<Rightarrow> with_volume (\<lambda>v. v\<lparr>vst_kms := [\<lparr>nr_id = kr_ocid k, nr_name = kr_name k\<rparr>]\<rparr>) (resolved env ''KmsKey'') (cls, w)
     | Fail e \<Rightarrow> with_volume (\<lambda>v. v\<lparr>vst_kms := []\<rparr>) (resolve_failed env ''KmsKey'' ''KmsKeyResolveFailure'' e) (cls, w)
     | Panic \<Rightarrow> with_volume (\<lambda>v. v\<lparr>vst_kms := []\<rparr>) (\<lambda>s. (Panic, s)) (cls, w)
     | Hang \<Rightarrow> (Hang, cls, w))"

definition reconcile_kms :: "class_env \<Rightarrow> class_step" where
  "reconcile_kms env = (\<lambda>(cls, w).
     case va_kms (vc_boot (ncs_volume (ncl_spec cls))) of
       None \<Rightarrow> with_volume (\<lambda>v. v\<lparr>vst_kms := []\<rparr>) (clear_condition env ''KmsKey'') (cls, w)
     | Some k \<Rightarrow>
         (let (r, p) = resolve_kms_key_config (cle_region env) (cle_connect env) (cle_kms env) (cle_now env) (Some k) (clp_kms w)
          in update_kms env r (cls, w\<lparr>clp_kms := p\<rparr>)))"

definition to_vnic :: "subnet_and_nsgs \<Rightarrow> (err, vnic_status) go" where
  "to_vnic san =
     map_ok (\<lambda>sn. \<lparr>vs_subnet = sn, vs_nsgs = map (\<lambda>g. \<lparr>nr_id = sg_id g, nr_name = sg_name g\<rparr>) (sans_nsgs san)\<rparr>)
       (case sans_subnet san of
          None \<Rightarrow> Ok \<lparr>nr_id = [], nr_name = []\<rparr>
        | Some s \<Rightarrow> map_ok (\<lambda>k. \<lparr>nr_id = k, nr_name = sub_name s\<rparr>) (deref (sub_id s)))"

definition to_node_class_network :: "network_resolve_result \<Rightarrow> (err, network_status) go" where
  "to_node_class_network net =
     go_bind (case nrr_primary net of None \<Rightarrow> Ok None | Some p \<Rightarrow> map_ok Some (to_vnic p)) (\<lambda>primary.
     map_ok (\<lambda>others. \<lparr>ns_primary = primary, ns_secondary = others\<rparr>) (map_go to_vnic (nrr_others net)))"

text \<open>Without a network configuration there is no result, and reading it panics.\<close>

definition joined_errors :: "err list \<Rightarrow> err" where
  "joined_errors es = ErrText (join_with ''; '' (map err_text es))"

definition update_network :: "class_env \<Rightarrow> (err, network_resolve_result \<times> err list) go \<Rightarrow> class_step" where
  "update_network env r = (\<lambda>(cls, w).
     case r of
       Ok (net, errs) \<Rightarrow>
         (case to_node_class_network net of
            Ok n \<Rightarrow>
              (let s1 = (with_status (\<lambda>st. st\<lparr>ncst_network := Some n\<rparr>) cls, w)
               in if errs = [] then resolved env ''Network'' s1
                  else resolve_failed env ''Network'' ''NetworkResolveFailure'' (joined_errors errs) s1)
          | Fail e \<Rightarrow> (Fail e, cls, w)
          | Panic \<Rightarrow> (Panic, cls, w)
          | Hang \<Rightarrow> (Hang, cls, w))
     | Fail e \<Rightarrow> (Panic, cls, w)
     | Panic \<Rightarrow> (Panic, cls, w)
     | Hang \<Rightarrow> (Hang, cls, w))"

definition reconcile_network :: "class_env \<Rightarrow> class_step" where
  "reconcile_network env = (\<lambda>(cls, w).
     let (r, v) = resolve_network_config (cle_vcn env) (cle_now env) (Some (ncs_network (ncl_spec cls))) (clp_network w)
     in update_network env r (cls, w\<lparr>clp_network := v\<rparr>))"

definition to_capacity_reservations :: "resolve_result list \<Rightarrow> capres_status list" where
  "to_capacity_reservations rs = map (\<lambda>r. \<lparr>nr_id = rr_ocid r, nr_name = rr_name r, pr_ad = rr_ad r\<rparr>) rs"

definition to_cluster_placement_groups :: "located_result list \<Rightarrow> cpg_status list" where
  "to_cluster_placement_groups rs = map (\<lambda>r. \<lparr>nr_id = lres_ocid r, nr_name = lres_name r, pr_ad = lres_ad r\<rparr>) rs"

text \<open>A provider that returns an error without any result returns none of them.\<close>

definition results_and_error :: "(err, 'a list \<times> err option) go \<Rightarrow> (err, 'a list \<times> err option) go" where
  "results_and_error r = (case r of Fail e \<Rightarrow> Ok ([], Some e) | x \<Rightarrow> x)"

definition reconcile_capres :: "class_env \<Rightarrow> class_step" where
  "reconcile_capres env = (\<lambda>(cls, w).
     if 0 < length (ncs_capres (ncl_spec cls))
     then
       (let (r, p) = resolve_capacity_reservations (cle_capres env) (cle_now env) (ncs_capres (ncl_spec cls)) (clp_capres w);
            w1 = w\<lparr>clp_capres := p\<rparr>
        in case results_and_error r of
             Ok (rs, eo) \<Rightarrow>
               (let s1 = (with_status (\<lambda>st. st\<lparr>ncst_capres := to_capacity_reservations rs\<rparr>) cls, w1)
                in case eo of
                     Some e \<Rightarrow> resolve_failed env ''CapacityReservation'' ''CapacityReservationResolveFailure'' e s1
                   | None \<Rightarrow> resolved env ''CapacityReservation'' s1)
           | Fail e \<Rightarrow> (Fail e, cls, w1)
           | Panic \<Rightarrow> (Panic, cls, w1)
           | Hang \<Rightarrow> (Hang, cls, w1))
     else clear_condition env ''CapacityReservation'' (with_status (\<lambda>st. st\<lparr>ncst_capres := []\<rparr>) cls, w))"

text \<open>The domains that hold more than one group.\<close>

definition groups_in_the_same_ad :: "located_result list \<Rightarrow> (string \<times> string list) list" where
  "groups_in_the_same_ad rs =
     filter (\<lambda>(ad, ids). 1 < length ids)
       (map (\<lambda>ad. (ad, map lres_ocid (filter (\<lambda>r. lres_ad r = ad) rs))) (uniq (map lres_ad rs)))"

definition ClusterPlacementGroupInTheSameAd :: err where
  "ClusterPlacementGroupInTheSameAd = ErrText ''multiple cluster placement group(s) is in an ad''"

definition reconcile_cpg :: "class_env \<Rightarrow> class_step" where
  "reconcile_cpg env = (\<lambda>(cls, w).
     if 0 < length (ncs_cpgs (ncl_spec cls))
     then
       (let (r, p) = resolve_cpgs (cle_cpg env) (cle_now env) (ncs_cpgs (ncl_spec cls)) (clp_cpg w);
            w1 = w\<lparr>clp_cpg := p\<rparr>
        in case results_and_error r of
             Ok (rs, eo) \<Rightarrow>
               (let s1 = (with_status (\<lambda>st. st\<lparr>ncst_cpgs := to_cluster_placement_groups rs\<rparr>) cls, w1);
                    eo' = (case eo of
                             Some e \<Rightarrow> Some e
                           | None \<Rightarrow> if 0 < length (groups_in_the_same_ad rs) then Some ClusterPlacementGroupInTheSameAd else None)
                in case eo' of
                     Some e \<Rightarrow> resolve_failed env ''ClusterPlacementGroup'' ''ClusterPlacementGroupResolveFailure'' e s1
                   | None \<Rightarrow> resolved env ''ClusterPlacementGroup'' s1)
           | Fail e \<Rightarrow> (Fail e, cls, w1)
           | Panic \<Rightarrow> (Panic, cls, w1)
           | Hang \<Rightarrow> (Hang, cls, w1))
     else clear_condition env ''ClusterPlacementGroup'' (with_status (\<lambda>st. st\<lparr>ncst_cpgs := []\<rparr>) cls, w))"

text \<open>Without a configuration nothing is done: what the status says of a cluster stays.\<close>

definition reconcile_cluster :: "class_env \<Rightarrow> class_step" where
  "reconcile_cluster env = (\<lambda>(cls, w).
     case ncs_cluster (ncl_spec cls) of
       None \<Rightarrow> (Ok None, cls, w)
     | Some k \<Rightarrow>
         (let (r, p) = resolve_cluster (cle_cluster env) (cle_now env) (Some k) (clp_cluster w);
              w1 = w\<lparr>clp_cluster := p\<rparr>
          in case r of
               Fail e \<Rightarrow> resolve_failed env ''ComputeCluster'' ''ComputeClusterResolveFailure'' e
                           (with_status (\<lambda>st. st\<lparr>ncst_cluster := None\<rparr>) cls, w1)
             | Ok res \<Rightarrow> resolved env ''ComputeCluster''
                 (with_status (\<lambda>st. st\<lparr>ncst_cluster := Some \<lparr>nr_id = lres_ocid res, nr_name = lres_name res, pr_ad = []\<rparr>\<rparr>) cls, w1)
             | Panic \<Rightarrow> (Panic, cls, w1)
             | Hang \<Rightarrow> (Hang, cls, w1)))"

definition reconcile_hash :: "class_env \<Rightarrow> class_step" where
  "reconcile_hash env = (\<lambda>(cls, w).
     if cs_ready (cle_conditions env) cls
     then st_bind (hash_node_class_spec (cle_hash env) cls, (cls, w)) (\<lambda>h (cls, w).
            (Ok None, cls\<lparr>ncl_annotations := AList.update NodeClassHashVersion OCINodeClassHashVersion
                            (AList.update NodeClassHash h (ncl_annotations cls))\<rparr>, w))
     else (Ok None, cls, w))"

definition class_reconcilers :: "class_env \<Rightarrow> class_step list" where
  "class_reconcilers env =
     [init_status, reconcile_compartment env, reconcile_image env, reconcile_kms env, reconcile_network env,
      reconcile_capres env, reconcile_cpg env, reconcile_cluster env, reconcile_hash env]"

subsection \<open>The controller\<close>

text \<open>Every reconciler runs, whatever the ones before it returned.\<close>

fun run_reconcilers :: "class_step list \<Rightarrow> class_state \<Rightarrow> (err, requeue list \<times> err list) go \<times> class_state" where
  "run_reconcilers [] s = (Ok ([], []), s)"
| "run_reconcilers (f # fs) s =
     (case f s of
        (Ok q, s1) \<Rightarrow> st_bind (run_reconcilers fs s1) (\<lambda>(qs, es) s. (Ok (q # qs, es), s))
      | (Fail e, s1) \<Rightarrow> st_bind (run_reconcilers fs s1) (\<lambda>(qs, es) s. (Ok (None # qs, e # es), s))
      | (Panic, s1) \<Rightarrow> (Panic, s1)
      | (Hang, s1) \<Rightarrow> (Hang, s1))"

definition TerminationFinalizer :: string where "TerminationFinalizer = ''karpenter.sh/termination''"

definition conflictRequeueAfter :: requeue where "conflictRequeueAfter = Some 1"

text \<open>What is written, each with the object that the patch is computed against.\<close>

datatype class_write = PatchObject node_class node_class | PatchStatus node_class node_class

type_synonym class_world = "class_state \<times> class_write list"

definition ensure_finalizer :: "class_env \<Rightarrow> node_class \<Rightarrow> (err, node_class) go \<times> class_write list" where
  "ensure_finalizer env cls =
     (if TerminationFinalizer \<in> set (ncl_finalizers cls) then (Ok cls, [])
      else (let new = cls\<lparr>ncl_finalizers := ncl_finalizers cls @ [TerminationFinalizer]\<rparr>
            in (cle_patch env new cls, [PatchObject new cls])))"

definition hash_changed :: "node_class \<Rightarrow> node_class \<Rightarrow> bool" where
  "hash_changed stored cls =
     (case (map_of (ncl_annotations stored) NodeClassHash, map_of (ncl_annotations cls) NodeClassHash) of
        (None, Some h) \<Rightarrow> True
      | (Some h, Some h') \<Rightarrow> h' \<noteq> h
      | _ \<Rightarrow> False)"

text \<open>
  The hash is written first, by a patch of the object; the status is patched against what came back
  of it.  \<open>None\<close> is a conflict, on which the controller starts again; other errors are collected.
\<close>

definition write_hash :: "class_env \<Rightarrow> node_class \<Rightarrow> node_class
    \<Rightarrow> (err, (node_class \<times> err list) option) go \<times> class_write list" where
  "write_hash env stored cls =
     (if hash_changed stored cls
      then ((case cle_patch env cls stored of
               Ok ob \<Rightarrow> Ok (Some (ob, []))
             | Fail e \<Rightarrow> Ok (if kube_is_conflict e then None
                             else Some (cls, if kube_is_not_found e then [] else [e]))
             | Panic \<Rightarrow> Panic
             | Hang \<Rightarrow> Hang), [PatchObject cls stored])
      else (Ok (Some (stored, [])), []))"

definition write_status :: "class_env \<Rightarrow> node_class \<Rightarrow> node_class
    \<Rightarrow> (err, (node_class \<times> err list) option) go \<times> class_write list" where
  "write_status env stored cls =
     ((case cle_status_patch env cls stored of
         Ok ob \<Rightarrow> Ok (Some (ob, []))
       | Fail e \<Rightarrow> Ok (if kube_is_conflict e then None
                       else Some (cls, if kube_is_not_found e then [] else [e]))
       | Panic \<Rightarrow> Panic
       | Hang \<Rightarrow> Hang), [PatchStatus cls stored])"

definition end_reconcile :: "class_env \<Rightarrow> requeue list \<Rightarrow> err list \<Rightarrow> (err, requeue) go" where
  "end_reconcile env qs es = (if es \<noteq> [] then Fail (joined_errors es) else Ok (cle_min env qs))"

definition write_changes ::
  "class_env \<Rightarrow> node_class \<Rightarrow> requeue list \<Rightarrow> err list \<Rightarrow> class_world \<Rightarrow> (err, requeue) go \<times> class_world" where
  "write_changes env stored qs es = (\<lambda>((cls, w), ws).
     if cls = stored then (end_reconcile env qs es, (cls, w), ws)
     else
       (case write_hash env stored cls of
          (Ok None, ws1) \<Rightarrow> (Ok conflictRequeueAfter, (cls, w), ws @ ws1)
        | (Ok (Some (stored1, es1)), ws1) \<Rightarrow>
            (case write_status env stored1 cls of
               (Ok None, ws2) \<Rightarrow> (Ok conflictRequeueAfter, (cls, w), ws @ ws1 @ ws2)
             | (Ok (Some (cls1, es2)), ws2) \<Rightarrow> (end_reconcile env qs (es @ es1 @ es2), (cls1, w), ws @ ws1 @ ws2)
             | (Fail e, ws2) \<Rightarrow> (Fail e, (cls, w), ws @ ws1 @ ws2)
             | (Panic, ws2) \<Rightarrow> (Panic, (cls, w), ws @ ws1 @ ws2)
             | (Hang, ws2) \<Rightarrow> (Hang, (cls, w), ws @ ws1 @ ws2))
        | (Fail e, ws1) \<Rightarrow> (Fail e, (cls, w), ws @ ws1)
        | (Panic, ws1) \<Rightarrow> (Panic, (cls, w), ws @ ws1)
        | (Hang, ws1) \<Rightarrow> (Hang, (cls, w), ws @ ws1)))"

definition finalize_class :: "class_env \<Rightarrow> class_state \<Rightarrow> (err, requeue) go \<times> class_world" where
  "finalize_class env = (\<lambda>(cls, w).
     if TerminationFinalizer \<notin> set (ncl_finalizers cls) then (Ok None, (cls, w), [])
     else
       (case cle_claims env cls of
          Fail e \<Rightarrow> (Fail (WrapW ''listing nodeclaims that are using nodeclass, '' e), (cls, w), [])
        | Panic \<Rightarrow> (Panic, (cls, w), [])
        | Hang \<Rightarrow> (Hang, (cls, w), [])
        | Ok claims \<Rightarrow>
            if 0 < length claims then (Ok (Some 600), (cls, w), [])
            else
              (let new = cls\<lparr>ncl_finalizers := filter (\<lambda>f. f \<noteq> TerminationFinalizer) (ncl_finalizers cls)\<rparr>
               in case cle_patch env new cls of
                    Ok ob \<Rightarrow> (Ok None, (ob, w), [PatchObject new cls])
                  | Fail e \<Rightarrow>
                      ((if kube_is_conflict e then Ok conflictRequeueAfter
                        else if kube_is_not_found e then Ok None
                        else Fail (WrapW ''removing termination finalizer, '' e)), (new, w), [PatchObject new cls])
                  | Panic \<Rightarrow> (Panic, (new, w), [PatchObject new cls])
                  | Hang \<Rightarrow> (Hang, (new, w), [PatchObject new cls]))))"

definition reconcile_class :: "class_env \<Rightarrow> class_state \<Rightarrow> (err, requeue) go \<times> class_world" where
  "reconcile_class env = (\<lambda>(cls, w).
     if ncl_deleting cls then finalize_class env (cls, w)
     else
       (case ensure_finalizer env cls of
          (Fail e, ws) \<Rightarrow> ((if kube_is_conflict e then Ok conflictRequeueAfter else Fail e), (cls, w), ws)
        | (Panic, ws) \<Rightarrow> (Panic, (cls, w), ws)
        | (Hang, ws) \<Rightarrow> (Hang, (cls, w), ws)
        | (Ok stored, ws) \<Rightarrow>
            (case run_reconcilers (class_reconcilers env) (stored, w) of
               (Ok (qs, es), s) \<Rightarrow> write_changes env stored qs es (s, ws)
             | (Fail e, s) \<Rightarrow> (Fail e, s, ws)
             | (Panic, s) \<Rightarrow> (Panic, s, ws)
             | (Hang, s) \<Rightarrow> (Hang, s, ws))))"

end
