(* ===== verification/Node_Class_Steps.thy ===== *)
theory Node_Class_Steps
  imports Node_Class_Control
begin

section \<open>What each reconciler of a node class does\<close>

text \<open>
  What one reconciler does to the conditions and the status of a node class, and what a run of all
  of them makes of it.
\<close>

subsection \<open>What the library of conditions promises\<close>

text \<open>
  Conditions are read from the status alone; setting one makes it true or false, leaves the others,
  and computes the root condition anew from those the specification asks for; clearing one that the
  specification does not ask for leaves the others.
\<close>

definition only_conditions :: "node_class \<Rightarrow> node_class \<Rightarrow> bool" where
  "only_conditions cls cls' \<longleftrightarrow> (\<exists>cs. cls' = with_status (\<lambda>st. st\<lparr>ncst_conditions := cs\<rparr>) cls)"

definition ready_correct :: "condition_set \<Rightarrow> node_class \<Rightarrow> bool" where
  "ready_correct cs cls \<longleftrightarrow> (cs_ready cs cls \<longleftrightarrow> (\<forall>t \<in> set (dependent_conditions (ncl_spec cls)). cs_holds cs t cls))"

definition others_kept :: "condition_set \<Rightarrow> string \<Rightarrow> node_class \<Rightarrow> node_class \<Rightarrow> bool" where
  "others_kept cs t cls cls' \<longleftrightarrow> (\<forall>t'. t' \<noteq> t \<and> t' \<noteq> ''Ready'' \<longrightarrow> cs_holds cs t' cls' = cs_holds cs t' cls)"

definition condition_types :: "string set" where
  "condition_types = {''NodeCompartment'', ''Image'', ''KmsKey'', ''Network'', ''CapacityReservation'',
     ''ClusterPlacementGroup'', ''ComputeCluster''}"

definition lawful_conditions :: "condition_set \<Rightarrow> bool" where
  "lawful_conditions cs \<longleftrightarrow>
     (\<forall>a b t. ncl_spec a = ncl_spec b \<and> ncst_conditions (ncl_status a) = ncst_conditions (ncl_status b) \<longrightarrow>
        cs_holds cs t a = cs_holds cs t b \<and> cs_ready cs a = cs_ready cs b)
   \<and> (\<forall>t \<in> condition_types. \<forall>cls. only_conditions cls (cs_true cs t cls) \<and> cs_holds cs t (cs_true cs t cls)
        \<and> others_kept cs t cls (cs_true cs t cls) \<and> ready_correct cs (cs_true cs t cls))
   \<and> (\<forall>t \<in> condition_types. \<forall>r m cls. only_conditions cls (cs_false cs t r m cls) \<and> \<not> cs_holds cs t (cs_false cs t r m cls)
        \<and> others_kept cs t cls (cs_false cs t r m cls) \<and> ready_correct cs (cs_false cs t r m cls))
   \<and> (\<forall>t \<in> condition_types. \<forall>cls. t \<notin> set (dependent_conditions (ncl_spec cls)) \<longrightarrow>
        only_conditions cls (snd (cs_clear cs t cls)) \<and> others_kept cs t cls (snd (cs_clear cs t cls))
        \<and> (ready_correct cs cls \<longrightarrow> ready_correct cs (snd (cs_clear cs t cls))))"

lemma condition_types [simp]:
  "''NodeCompartment'' \<in> condition_types" "''Image'' \<in> condition_types" "''KmsKey'' \<in> condition_types"
  "''Network'' \<in> condition_types" "''CapacityReservation'' \<in> condition_types"
  "''ClusterPlacementGroup'' \<in> condition_types" "''ComputeCluster'' \<in> condition_types"
  by (simp_all add: condition_types_def)

lemma lawful_read:
  "lawful_conditions cs \<Longrightarrow> ncl_spec a = ncl_spec b \<Longrightarrow> ncst_conditions (ncl_status a) = ncst_conditions (ncl_status b) \<Longrightarrow>
     cs_holds cs t a = cs_holds cs t b \<and> cs_ready cs a = cs_ready cs b"
  unfolding lawful_conditions_def by blast

lemma lawful_true:
  "lawful_conditions cs \<Longrightarrow> t \<in> condition_types \<Longrightarrow> only_conditions cls (cs_true cs t cls) \<and> cs_holds cs t (cs_true cs t cls)
     \<and> others_kept cs t cls (cs_true cs t cls) \<and> ready_correct cs (cs_true cs t cls)"
  unfolding lawful_conditions_def by blast

lemma lawful_false:
  "lawful_conditions cs \<Longrightarrow> t \<in> condition_types \<Longrightarrow> only_conditions cls (cs_false cs t r m cls)
     \<and> \<not> cs_holds cs t (cs_false cs t r m cls)
     \<and> others_kept cs t cls (cs_false cs t r m cls) \<and> ready_correct cs (cs_false cs t r m cls)"
  unfolding lawful_conditions_def by blast

lemma lawful_clear:
  "lawful_conditions cs \<Longrightarrow> t \<in> condition_types \<Longrightarrow> t \<notin> set (dependent_conditions (ncl_spec cls)) \<Longrightarrow>
     only_conditions cls (snd (cs_clear cs t cls))
     \<and> others_kept cs t cls (snd (cs_clear cs t cls)) \<and> (ready_correct cs cls \<longrightarrow> ready_correct cs (snd (cs_clear cs t cls)))"
  unfolding lawful_conditions_def by blast

subsection \<open>What a reconciler does\<close>

text \<open>
  A reconciler settles its condition, if the specification asks for it, and touches no other; its
  result asks for another look unless the condition is true.
\<close>

abbreviation same_object :: "node_class \<Rightarrow> node_class \<Rightarrow> bool" where
  "same_object a b \<equiv> ncl_spec a = ncl_spec b \<and> ncl_annotations a = ncl_annotations b \<and> ncl_finalizers a = ncl_finalizers b"

definition settles :: "condition_set \<Rightarrow> string \<Rightarrow> bool \<Rightarrow> node_class \<Rightarrow> node_class \<Rightarrow> requeue \<Rightarrow> bool" where
  "settles cs t ok cls cls' q \<longleftrightarrow>
     same_object cls' cls \<and> others_kept cs t cls cls'
   \<and> (if t \<in> set (dependent_conditions (ncl_spec cls))
      then cs_holds cs t cls' = ok \<and> ready_correct cs cls' \<and> q = (if ok then None else Some 300)
      else ready_correct cs cls \<longrightarrow> ready_correct cs cls')"

lemma only_conditions_spec:
  "only_conditions cls cls' \<Longrightarrow> same_object cls' cls"
  by (auto simp: only_conditions_def with_status_def)

text \<open>Other parts of the status have no say.\<close>

definition same_conditions :: "node_class \<Rightarrow> node_class \<Rightarrow> bool" where
  "same_conditions a b \<longleftrightarrow> same_object a b \<and> ncst_conditions (ncl_status a) = ncst_conditions (ncl_status b)"

lemma settles_after:
  assumes "lawful_conditions cs" "same_conditions a b" "settles cs t ok a cls' q"
  shows "settles cs t ok b cls' q"
proof -
  from assms(2) have eq: "ncl_spec a = ncl_spec b" "ncl_annotations a = ncl_annotations b" "ncl_finalizers a = ncl_finalizers b"
    "\<And>t. cs_holds cs t a = cs_holds cs t b" "cs_ready cs a = cs_ready cs b"
    using lawful_read [OF assms(1), of a b] by (auto simp: same_conditions_def)
  then have "ready_correct cs a = ready_correct cs b" by (simp add: ready_correct_def)
  with assms(3) eq show ?thesis by (simp add: settles_def others_kept_def)
qed

lemma settles_resolved:
  assumes "lawful_conditions (cle_conditions env)" "resolved env t (cls, w) = (Ok q, cls', w')" "t \<in> condition_types"
  shows "settles (cle_conditions env) t True cls cls' q \<and> w' = w"
  using lawful_true [OF assms(1,3), of cls] assms(2) only_conditions_spec
  by (auto simp: settles_def resolved_def)

lemma settles_failed:
  assumes "lawful_conditions (cle_conditions env)" "resolve_failed env t r e (cls, w) = (Ok q, cls', w')"
    "t \<in> set (dependent_conditions (ncl_spec cls))" "t \<in> condition_types"
  shows "settles (cle_conditions env) t False cls cls' q \<and> w' = w"
proof -
  from assms(2) obtain m where "cls' = cs_false (cle_conditions env) t r m cls" "w' = w" "q = Some 300"
    by (auto simp: resolve_failed_def failureRequeue_def split: go.splits)
  with lawful_false [OF assms(1,4), of cls r m] only_conditions_spec assms(3) show ?thesis
    by (auto simp: settles_def)
qed

lemma settles_clear:
  assumes "lawful_conditions (cle_conditions env)" "clear_condition env t (cls, w) = (Ok q, cls', w')"
    "t \<notin> set (dependent_conditions (ncl_spec cls))" "t \<in> condition_types"
  shows "settles (cle_conditions env) t ok cls cls' q \<and> w' = w"
proof -
  from assms(2) have "cls' = snd (cs_clear (cle_conditions env) t cls)" "w' = w"
    by (auto simp: clear_condition_def split: prod.splits go.splits)
  with lawful_clear [OF assms(1,4,3)] only_conditions_spec assms(3) show ?thesis
    by (auto simp: settles_def)
qed

subsection \<open>What the providers say\<close>

text \<open>Whether what a condition stands for resolves, without an error, for a specification.\<close>

definition resolves :: "class_env \<Rightarrow> class_providers \<Rightarrow> node_class_spec \<Rightarrow> string \<Rightarrow> bool" where
  "resolves env w spec t =
     (if t = ''NodeCompartment''
      then \<exists>c. fst (resolve_compartment (cle_compartment env) (cle_now env)
                 (case ncs_compartment spec of Some c \<Rightarrow> c | None \<Rightarrow> clp_compartment w) (clp_identity w)) = Ok c
      else if t = ''Image''
      then \<exists>r. fst (resolve_images (cle_image env) False (bv_image (vc_boot (ncs_volume spec))) (clp_images w)) = Ok r
      else if t = ''KmsKey''
      then \<exists>k. fst (resolve_kms_key_config (cle_region env) (cle_connect env) (cle_kms env) (cle_now env)
                 (va_kms (vc_boot (ncs_volume spec))) (clp_kms w)) = Ok (Some k)
      else if t = ''Network''
      then \<exists>n. fst (resolve_network_config (cle_vcn env) (cle_now env) (Some (ncs_network spec)) (clp_network w)) = Ok (n, [])
      else if t = ''CapacityReservation''
      then \<exists>rs. fst (resolve_capacity_reservations (cle_capres env) (cle_now env) (ncs_capres spec) (clp_capres w)) = Ok (rs, None)
      else if t = ''ClusterPlacementGroup''
      then \<exists>rs. fst (resolve_cpgs (cle_cpg env) (cle_now env) (ncs_cpgs spec) (clp_cpg w)) = Ok (rs, None)
                 \<and> distinct (map lres_ad rs)
      else \<exists>r. fst (resolve_cluster (cle_cluster env) (cle_now env) (ncs_cluster spec) (clp_cluster w)) = Ok r)"

lemma dependent [simp]:
  "''NodeCompartment'' \<in> set (dependent_conditions spec)" "''Image'' \<in> set (dependent_conditions spec)"
  "''Network'' \<in> set (dependent_conditions spec)"
  "''KmsKey'' \<in> set (dependent_conditions spec) \<longleftrightarrow> va_kms (vc_boot (ncs_volume spec)) \<noteq> None"
  "''CapacityReservation'' \<in> set (dependent_conditions spec) \<longleftrightarrow> ncs_capres spec \<noteq> []"
  "''ClusterPlacementGroup'' \<in> set (dependent_conditions spec) \<longleftrightarrow> ncs_cpgs spec \<noteq> []"
  "''ComputeCluster'' \<in> set (dependent_conditions spec) \<longleftrightarrow> ncs_cluster spec \<noteq> None"
  by (auto simp: dependent_conditions_def)

lemma same_with_status [simp]:
  "(\<And>st. ncst_conditions (f st) = ncst_conditions st) \<Longrightarrow> same_conditions (with_status f cls) cls"
  by (simp add: same_conditions_def with_status_def)

lemma spec_with_status [simp]: "ncl_spec (with_status f cls) = ncl_spec cls"
  by (simp add: with_status_def)

lemma settles_compartment:
  assumes "lawful_conditions (cle_conditions env)" "reconcile_compartment env (cls, w) = (Ok q, cls', w')"
  shows "settles (cle_conditions env) ''NodeCompartment'' (resolves env w (ncl_spec cls) ''NodeCompartment'') cls cls' q
    \<and> (\<exists>i. w' = w\<lparr>clp_identity := i\<rparr>)"
proof -
  obtain r i where r: "resolve_compartment (cle_compartment env) (cle_now env)
      (get_node_compartment (clp_compartment w) cls) (clp_identity w) = (r, i)" by (rule prod.exhaust)
  have res: "resolves env w (ncl_spec cls) ''NodeCompartment'' \<longleftrightarrow> (\<exists>c. r = Ok c)"
    using r by (simp add: resolves_def get_node_compartment_def)
  show ?thesis
  proof (cases r)
    case (Ok c)
    with assms(2) r have "resolved env ''NodeCompartment'' (cls, w\<lparr>clp_identity := i\<rparr>) = (Ok q, cls', w')"
      by (simp add: reconcile_compartment_def)
    from settles_resolved [OF assms(1) this] Ok res show ?thesis by auto
  next
    case (Fail e)
    with assms(2) r have "resolve_failed env ''NodeCompartment'' ''NodeCompartmentResolveFailure'' e (cls, w\<lparr>clp_identity := i\<rparr>)
        = (Ok q, cls', w')" by (simp add: reconcile_compartment_def)
    from settles_failed [OF assms(1) this] Fail res show ?thesis by auto
  qed (use assms(2) r in \<open>auto simp: reconcile_compartment_def\<close>)
qed

text \<open>The two that write to the volume of the status.\<close>

lemma with_volume_Ok:
  assumes "with_volume f next (cls, w) = (Ok q, cls', w')"
  shows "\<exists>a. same_conditions a cls \<and> next (a, w) = (Ok q, cls', w')"
  using assms by (auto simp: with_volume_def split: option.splits intro!: exI)

lemma settles_image:
  assumes "lawful_conditions (cle_conditions env)" "reconcile_image env (cls, w) = (Ok q, cls', w')"
  shows "settles (cle_conditions env) ''Image'' (resolves env w (ncl_spec cls) ''Image'') cls cls' q
    \<and> (\<exists>i. w' = w\<lparr>clp_images := i\<rparr>)"
proof -
  obtain r i where r: "resolve_images (cle_image env) False (bv_image (vc_boot (ncs_volume (ncl_spec cls)))) (clp_images w) = (r, i)"
    by (rule prod.exhaust)
  let ?w = "w\<lparr>clp_images := i\<rparr>"
  have res: "resolves env w (ncl_spec cls) ''Image'' \<longleftrightarrow> (\<exists>c. r = Ok c)"
    using r by (simp add: resolves_def)
  have run: "update_image env r (cls, ?w) = (Ok q, cls', w')" using assms(2) r by (simp add: reconcile_image_def)
  show ?thesis
  proof (cases r)
    case (Ok im)
    with run obtain "is" where "with_volume (\<lambda>v. v\<lparr>vst_images := is\<rparr>) (resolved env ''Image'') (cls, ?w) = (Ok q, cls', w')"
    proof -
      have "image_statuses is \<noteq> Fail e" for "is" e
        by (induction "is") (auto simp: image_statuses_def go_bind_eq_Fail_iff deref_no_fail)
      with run Ok that show ?thesis by (auto simp: update_image_def split: go.splits)
    qed
    from with_volume_Ok [OF this] obtain a where a: "same_conditions a cls" "resolved env ''Image'' (a, ?w) = (Ok q, cls', w')" by blast
    from settles_after [OF assms(1) a(1) conjunct1 [OF settles_resolved [OF assms(1) a(2)]]] settles_resolved [OF assms(1) a(2)] Ok res
    show ?thesis by auto
  next
    case (Fail e)
    with run have "with_volume (\<lambda>v. v\<lparr>vst_images := []\<rparr>) (resolve_failed env ''Image'' ''ImageResolveFailure'' e) (cls, ?w) = (Ok q, cls', w')"
      by (simp add: update_image_def)
    from with_volume_Ok [OF this] obtain a where a: "same_conditions a cls"
      "resolve_failed env ''Image'' ''ImageResolveFailure'' e (a, ?w) = (Ok q, cls', w')" by blast
    from settles_failed [OF assms(1) a(2)] settles_after [OF assms(1) a(1)] Fail res show ?thesis by auto
  qed (use run in \<open>auto simp: update_image_def\<close>)
qed

lemma same_spec: "same_conditions a b \<Longrightarrow> ncl_spec a = ncl_spec b"
  by (simp add: same_conditions_def)

text \<open>The three ends of a reconciler, after other parts of the status have been written.\<close>

lemma ends_resolved:
  assumes "lawful_conditions (cle_conditions env)" "same_conditions a cls" "resolved env t (a, w) = (Ok q, cls', w')"
    "t \<in> condition_types"
  shows "settles (cle_conditions env) t True cls cls' q \<and> w' = w"
  using settles_resolved [OF assms(1,3,4)] settles_after [OF assms(1,2)] by blast

lemma ends_failed:
  assumes "lawful_conditions (cle_conditions env)" "same_conditions a cls" "resolve_failed env t r e (a, w) = (Ok q, cls', w')"
    "t \<in> set (dependent_conditions (ncl_spec cls))" "t \<in> condition_types"
  shows "settles (cle_conditions env) t False cls cls' q \<and> w' = w"
  using settles_failed [OF assms(1,3) _ assms(5)] settles_after [OF assms(1,2)] assms(4) same_spec [OF assms(2)] by metis

lemma ends_clear:
  assumes "lawful_conditions (cle_conditions env)" "same_conditions a cls" "clear_condition env t (a, w) = (Ok q, cls', w')"
    "t \<notin> set (dependent_conditions (ncl_spec cls))" "t \<in> condition_types"
  shows "settles (cle_conditions env) t ok cls cls' q \<and> w' = w"
  using settles_clear [OF assms(1,3) _ assms(5)] settles_after [OF assms(1,2)] assms(4) same_spec [OF assms(2)] by metis

lemma settles_kms:
  assumes "lawful_conditions (cle_conditions env)" "reconcile_kms env (cls, w) = (Ok q, cls', w')"
  shows "settles (cle_conditions env) ''KmsKey'' (resolves env w (ncl_spec cls) ''KmsKey'') cls cls' q
    \<and> (\<exists>i. w' = w\<lparr>clp_kms := i\<rparr>)"
proof (cases "va_kms (vc_boot (ncs_volume (ncl_spec cls)))")
  case None
  with assms(2) have "with_volume (\<lambda>v. v\<lparr>vst_kms := []\<rparr>) (clear_condition env ''KmsKey'') (cls, w) = (Ok q, cls', w')"
    by (simp add: reconcile_kms_def)
  from with_volume_Ok [OF this] obtain a where "same_conditions a cls" "clear_condition env ''KmsKey'' (a, w) = (Ok q, cls', w')" by blast
  from ends_clear [OF assms(1) this] None show ?thesis by (auto intro: exI [of _ "clp_kms w"])
next
  case (Some k)
  obtain r i where r: "resolve_kms_key_config (cle_region env) (cle_connect env) (cle_kms env) (cle_now env) (Some k) (clp_kms w) = (r, i)"
    by (rule prod.exhaust)
  let ?w = "w\<lparr>clp_kms := i\<rparr>"
  have res: "resolves env w (ncl_spec cls) ''KmsKey'' \<longleftrightarrow> (\<exists>c. r = Ok (Some c))" using r Some by (simp add: resolves_def)
  have run: "update_kms env r (cls, ?w) = (Ok q, cls', w')" using assms(2) r Some by (simp add: reconcile_kms_def)
  show ?thesis
  proof (cases "go_bind r deref :: (err, kms_result) go")
    case (Ok k')
    with run have "with_volume (\<lambda>v. v\<lparr>vst_kms := [\<lparr>nr_id = kr_ocid k', nr_name = kr_name k'\<rparr>]\<rparr>) (resolved env ''KmsKey'') (cls, ?w)
        = (Ok q, cls', w')" by (simp add: update_kms_def)
    from with_volume_Ok [OF this] obtain a where "same_conditions a cls" "resolved env ''KmsKey'' (a, ?w) = (Ok q, cls', w')" by blast
    from ends_resolved [OF assms(1) this] Ok res show ?thesis by (auto simp: go_simps)
  next
    case (Fail e)
    with run have "with_volume (\<lambda>v. v\<lparr>vst_kms := []\<rparr>) (resolve_failed env ''KmsKey'' ''KmsKeyResolveFailure'' e) (cls, ?w) = (Ok q, cls', w')"
      by (simp add: update_kms_def)
    from with_volume_Ok [OF this] obtain a where "same_conditions a cls"
      "resolve_failed env ''KmsKey'' ''KmsKeyResolveFailure'' e (a, ?w) = (Ok q, cls', w')" by blast
    from ends_failed [OF assms(1) this] Fail res Some show ?thesis by (auto simp: go_bind_eq_Fail_iff deref_no_fail)
  next
    case Panic
    with run have "with_volume (\<lambda>v. v\<lparr>vst_kms := []\<rparr>) (\<lambda>s. (Panic, s)) (cls, ?w) = (Ok q, cls', w')" by (simp add: update_kms_def)
    from with_volume_Ok [OF this] show ?thesis by auto
  qed (use run in \<open>auto simp: update_kms_def\<close>)
qed

lemma settles_network:
  assumes "lawful_conditions (cle_conditions env)" "reconcile_network env (cls, w) = (Ok q, cls', w')"
  shows "settles (cle_conditions env) ''Network'' (resolves env w (ncl_spec cls) ''Network'') cls cls' q
    \<and> (\<exists>i. w' = w\<lparr>clp_network := i\<rparr>)"
proof -
  obtain r i where r: "resolve_network_config (cle_vcn env) (cle_now env) (Some (ncs_network (ncl_spec cls))) (clp_network w) = (r, i)"
    by (rule prod.exhaust)
  let ?w = "w\<lparr>clp_network := i\<rparr>"
  have res: "resolves env w (ncl_spec cls) ''Network'' \<longleftrightarrow> (\<exists>n. r = Ok (n, []))" using r by (simp add: resolves_def)
  have run: "update_network env r (cls, ?w) = (Ok q, cls', w')" using assms(2) r by (simp add: reconcile_network_def)
  then obtain net errs n where o: "r = Ok (net, errs)" "to_node_class_network net = Ok n"
    by (auto simp: update_network_def split: go.splits)
  let ?s = "with_status (\<lambda>st. st\<lparr>ncst_network := Some n\<rparr>) cls"
  have same: "same_conditions ?s cls" by simp
  show ?thesis
  proof (cases "errs = []")
    case True
    with run o have "resolved env ''Network'' (?s, ?w) = (Ok q, cls', w')" by (simp add: update_network_def)
    from ends_resolved [OF assms(1) same this] True o res show ?thesis by auto
  next
    case False
    with run o have "resolve_failed env ''Network'' ''NetworkResolveFailure'' (joined_errors errs) (?s, ?w) = (Ok q, cls', w')"
      by (simp add: update_network_def)
    from ends_failed [OF assms(1) same this] False o res show ?thesis by auto
  qed
qed

lemma settles_capres:
  assumes "lawful_conditions (cle_conditions env)" "reconcile_capres env (cls, w) = (Ok q, cls', w')"
  shows "settles (cle_conditions env) ''CapacityReservation'' (resolves env w (ncl_spec cls) ''CapacityReservation'') cls cls' q
    \<and> (\<exists>i. w' = w\<lparr>clp_capres := i\<rparr>)"
proof (cases "ncs_capres (ncl_spec cls) = []")
  case True
  let ?s = "with_status (\<lambda>st. st\<lparr>ncst_capres := []\<rparr>) cls"
  have same: "same_conditions ?s cls" by simp
  from assms(2) True have "clear_condition env ''CapacityReservation'' (?s, w) = (Ok q, cls', w')" by (simp add: reconcile_capres_def)
  from ends_clear [OF assms(1) same this] True show ?thesis by (auto intro: exI [of _ "clp_capres w"])
next
  case False
  obtain r i where r: "resolve_capacity_reservations (cle_capres env) (cle_now env) (ncs_capres (ncl_spec cls)) (clp_capres w) = (r, i)"
    by (rule prod.exhaust)
  let ?w = "w\<lparr>clp_capres := i\<rparr>"
  have res: "resolves env w (ncl_spec cls) ''CapacityReservation'' \<longleftrightarrow> (\<exists>n. r = Ok (n, None))" using r by (simp add: resolves_def)
  from assms(2) r False obtain rs eo where o: "results_and_error r = Ok (rs, eo)"
    by (auto simp: reconcile_capres_def Let_def split: go.splits)
  let ?s = "with_status (\<lambda>st. st\<lparr>ncst_capres := to_capacity_reservations rs\<rparr>) cls"
  have same: "same_conditions ?s cls" by simp
  show ?thesis
  proof (cases eo)
    case None
    with assms(2) r False o have "resolved env ''CapacityReservation'' (?s, ?w) = (Ok q, cls', w')" by (simp add: reconcile_capres_def)
    from ends_resolved [OF assms(1) same this] None o res show ?thesis by (auto simp: results_and_error_def split: go.splits)
  next
    case (Some e)
    with assms(2) r False o have
      "resolve_failed env ''CapacityReservation'' ''CapacityReservationResolveFailure'' e (?s, ?w) = (Ok q, cls', w')"
      by (simp add: reconcile_capres_def)
    from ends_failed [OF assms(1) same this] Some o res False show ?thesis by (auto simp: results_and_error_def split: go.splits)
  qed
qed

lemma distinct_iff_once: "distinct xs \<longleftrightarrow> (\<forall>x \<in> set xs. length (filter (\<lambda>a. a = x) xs) \<le> 1)"
proof (induction xs)
  case (Cons y ys)
  have "length (filter (\<lambda>a. a = x) (y # ys)) \<le> 1 \<longleftrightarrow> (if x = y then y \<notin> set ys else length (filter (\<lambda>a. a = x) ys) \<le> 1)" for x
    by (auto simp: filter_empty_conv)
  with Cons show ?case by auto
qed simp

lemma no_groups_in_the_same_ad: "groups_in_the_same_ad rs = [] \<longleftrightarrow> distinct (map lres_ad rs)"
proof -
  have "groups_in_the_same_ad rs = [] \<longleftrightarrow> (\<forall>ad \<in> set (map lres_ad rs). length (filter (\<lambda>a. a = ad) (map lres_ad rs)) \<le> 1)"
    by (simp add: groups_in_the_same_ad_def filter_empty_conv filter_map comp_def not_less)
  then show ?thesis by (simp add: distinct_iff_once)
qed

lemma settles_cpg:
  assumes "lawful_conditions (cle_conditions env)" "reconcile_cpg env (cls, w) = (Ok q, cls', w')"
  shows "settles (cle_conditions env) ''ClusterPlacementGroup'' (resolves env w (ncl_spec cls) ''ClusterPlacementGroup'') cls cls' q
    \<and> (\<exists>i. w' = w\<lparr>clp_cpg := i\<rparr>)"
proof (cases "ncs_cpgs (ncl_spec cls) = []")
  case True
  let ?s = "with_status (\<lambda>st. st\<lparr>ncst_cpgs := []\<rparr>) cls"
  have same: "same_conditions ?s cls" by simp
  from assms(2) True have "clear_condition env ''ClusterPlacementGroup'' (?s, w) = (Ok q, cls', w')" by (simp add: reconcile_cpg_def)
  from ends_clear [OF assms(1) same this] True show ?thesis by (auto intro: exI [of _ "clp_cpg w"])
next
  case False
  obtain r i where r: "resolve_cpgs (cle_cpg env) (cle_now env) (ncs_cpgs (ncl_spec cls)) (clp_cpg w) = (r, i)"
    by (rule prod.exhaust)
  let ?w = "w\<lparr>clp_cpg := i\<rparr>"
  have res: "resolves env w (ncl_spec cls) ''ClusterPlacementGroup'' \<longleftrightarrow> (\<exists>n. r = Ok (n, None) \<and> groups_in_the_same_ad n = [])"
    using r by (simp add: resolves_def no_groups_in_the_same_ad)
  from assms(2) r False obtain rs eo where o: "results_and_error r = Ok (rs, eo)"
    by (auto simp: reconcile_cpg_def Let_def split: go.splits)
  let ?s = "with_status (\<lambda>st. st\<lparr>ncst_cpgs := to_cluster_placement_groups rs\<rparr>) cls"
  have same: "same_conditions ?s cls" by simp
  show ?thesis
  proof (cases "eo = None \<and> groups_in_the_same_ad rs = []")
    case True
    with assms(2) r False o have "resolved env ''ClusterPlacementGroup'' (?s, ?w) = (Ok q, cls', w')" by (simp add: reconcile_cpg_def)
    from ends_resolved [OF assms(1) same this] True o res show ?thesis by (auto simp: results_and_error_def split: go.splits)
  next
    case bad: False
    with assms(2) r False o obtain e where
      "resolve_failed env ''ClusterPlacementGroup'' ''ClusterPlacementGroupResolveFailure'' e (?s, ?w) = (Ok q, cls', w')"
      by (auto simp: reconcile_cpg_def Let_def split: option.splits if_splits)
    from ends_failed [OF assms(1) same this] bad o res False show ?thesis by (auto simp: results_and_error_def split: go.splits)
  qed
qed

lemma settles_cluster:
  assumes "lawful_conditions (cle_conditions env)" "reconcile_cluster env (cls, w) = (Ok q, cls', w')"
  shows "settles (cle_conditions env) ''ComputeCluster'' (resolves env w (ncl_spec cls) ''ComputeCluster'') cls cls' q
    \<and> (\<exists>i. w' = w\<lparr>clp_cluster := i\<rparr>)"
proof (cases "ncs_cluster (ncl_spec cls)")
  case None
  with assms(2) show ?thesis by (auto simp: reconcile_cluster_def settles_def others_kept_def intro: exI [of _ "clp_cluster w"])
next
  case (Some k)
  obtain r i where r: "resolve_cluster (cle_cluster env) (cle_now env) (Some k) (clp_cluster w) = (r, i)" by (rule prod.exhaust)
  let ?w = "w\<lparr>clp_cluster := i\<rparr>"
  have res: "resolves env w (ncl_spec cls) ''ComputeCluster'' \<longleftrightarrow> (\<exists>c. r = Ok c)" using r Some by (simp add: resolves_def)
  show ?thesis
  proof (cases r)
    case (Ok c)
    let ?s = "with_status (\<lambda>st. st\<lparr>ncst_cluster := Some \<lparr>nr_id = lres_ocid c, nr_name = lres_name c, pr_ad = []\<rparr>\<rparr>) cls"
    have same: "same_conditions ?s cls" by simp
    from assms(2) r Some Ok have "resolved env ''ComputeCluster'' (?s, ?w) = (Ok q, cls', w')" by (simp add: reconcile_cluster_def)
    from ends_resolved [OF assms(1) same this] Ok res show ?thesis by auto
  next
    case (Fail e)
    let ?s = "with_status (\<lambda>st. st\<lparr>ncst_cluster := None\<rparr>) cls"
    have same: "same_conditions ?s cls" by simp
    from assms(2) r Some Fail have "resolve_failed env ''ComputeCluster'' ''ComputeClusterResolveFailure'' e (?s, ?w) = (Ok q, cls', w')"
      by (simp add: reconcile_cluster_def)
    from ends_failed [OF assms(1) same this] Fail res Some show ?thesis by auto
  qed (use assms(2) r Some in \<open>auto simp: reconcile_cluster_def\<close>)
qed

subsection \<open>All of them in turn\<close>

definition never_fails :: "class_step \<Rightarrow> bool" where
  "never_fails f \<longleftrightarrow> (\<forall>s e. fst (f s) \<noteq> Fail e)"

lemma pretty_string_no_fail [simp]: "pretty_string s n \<noteq> Fail e"
  by (simp add: pretty_string_def)

lemma map_go_no_fail: "(\<And>x e. f x \<noteq> Fail e) \<Longrightarrow> map_go f xs \<noteq> Fail e"
  by (induction xs) (auto simp: go_bind_eq_Fail_iff)

lemma to_vnic_no_fail: "to_vnic n \<noteq> Fail e"
  by (auto simp: to_vnic_def deref_no_fail split: option.splits)

lemma to_network_no_fail: "to_node_class_network n \<noteq> Fail e"
  by (auto simp: to_node_class_network_def go_bind_eq_Fail_iff to_vnic_no_fail map_go_no_fail split: option.splits)

lemma ends_never_fail:
  "never_fails (resolved env t)" "never_fails (resolve_failed env t r e)" "never_fails (clear_condition env t)"
  "never_fails next \<Longrightarrow> never_fails (with_volume f next)"
  by (auto simp: never_fails_def resolved_def resolve_failed_def clear_condition_def with_volume_def
      split: go.splits prod.splits option.splits)

lemmas never_fail_at = ends_never_fail [unfolded never_fails_def, rule_format]

lemma steps_never_fail:
  "never_fails init_status" "never_fails (reconcile_compartment env)" "never_fails (reconcile_cluster env)"
  "never_fails (reconcile_capres env)" "never_fails (reconcile_cpg env)"
  by (auto simp: never_fails_def init_status_def reconcile_compartment_def reconcile_cluster_def reconcile_capres_def
      reconcile_cpg_def results_and_error_def Let_def never_fail_at split: prod.splits go.splits option.splits)

lemma step_hash_never_fails: "never_fails (reconcile_hash env)"
proof -
  have "static_fields_clone spec \<noteq> Fail e" for spec e
    by (auto simp: static_fields_clone_def go_bind_eq_Fail_iff deref_no_fail split: option.splits)
  then show ?thesis
    by (auto simp: never_fails_def reconcile_hash_def hash_node_class_spec_def st_bind_def split: go.splits)
qed

lemma step_network_never_fails: "never_fails (reconcile_network env)"
  by (auto simp: never_fails_def reconcile_network_def update_network_def Let_def never_fail_at to_network_no_fail
      split: prod.splits go.splits)

lemma step_image_never_fails: "never_fails (reconcile_image env)"
  by (auto simp: never_fails_def reconcile_image_def update_image_def Let_def ends_never_fail [unfolded never_fails_def]
      intro!: ends_never_fail(4) [unfolded never_fails_def, rule_format] split: prod.splits go.splits)

lemma step_kms_never_fails: "never_fails (reconcile_kms env)"
  by (auto simp: never_fails_def reconcile_kms_def update_kms_def Let_def ends_never_fail [unfolded never_fails_def]
      intro!: ends_never_fail(4) [unfolded never_fails_def, rule_format] split: prod.splits go.splits option.splits)

lemma run_Cons:
  assumes "run_reconcilers (f # fs) s = (Ok (qs, es), s')" "never_fails f"
  shows "\<exists>q s1 qs'. f s = (Ok q, s1) \<and> run_reconcilers fs s1 = (Ok (qs', es), s') \<and> qs = q # qs'"
proof -
  obtain r s1 where f: "f s = (r, s1)" by (rule prod.exhaust)
  with assms(2) have "r \<noteq> Fail e" for e unfolding never_fails_def by (metis fst_conv)
  with assms(1) f show ?thesis by (cases r) (auto simp: st_bind_Ok_iff)
qed

lemma init_same: "init_status (cls, w) = (Ok q, cls', w') \<Longrightarrow> same_conditions cls' cls \<and> w' = w \<and> q = None"
  by (auto simp: init_status_def intro!: same_with_status)

text \<open>A provider is asked by its own reconciler alone.\<close>

lemma resolves_frame [simp]:
  "t \<noteq> ''NodeCompartment'' \<Longrightarrow> resolves env (w\<lparr>clp_identity := i1\<rparr>) spec t = resolves env w spec t"
  "t \<noteq> ''Image'' \<Longrightarrow> resolves env (w\<lparr>clp_images := i2\<rparr>) spec t = resolves env w spec t"
  "t \<noteq> ''KmsKey'' \<Longrightarrow> resolves env (w\<lparr>clp_kms := i3\<rparr>) spec t = resolves env w spec t"
  "t \<noteq> ''Network'' \<Longrightarrow> resolves env (w\<lparr>clp_network := i4\<rparr>) spec t = resolves env w spec t"
  "t \<noteq> ''CapacityReservation'' \<Longrightarrow> resolves env (w\<lparr>clp_capres := i5\<rparr>) spec t = resolves env w spec t"
  "t \<noteq> ''ClusterPlacementGroup'' \<Longrightarrow> resolves env (w\<lparr>clp_cpg := i6\<rparr>) spec t = resolves env w spec t"
  by (auto simp: resolves_def split: option.splits)

text \<open>A chain of settled conditions, the first of which the specification always asks for.\<close>

inductive settled_chain ::
  "condition_set \<Rightarrow> node_class \<Rightarrow> (string \<times> bool \<times> requeue) list \<Rightarrow> node_class \<Rightarrow> bool" for cs where
  chain_end: "settled_chain cs c [] c"
| chain_step: "settles cs t ok c c1 q \<Longrightarrow> settled_chain cs c1 xs c2 \<Longrightarrow> settled_chain cs c ((t, ok, q) # xs) c2"

lemma settled_chain_spec:
  "settled_chain cs c xs c' \<Longrightarrow> same_object c' c"
  by (induction rule: settled_chain.induct) (auto simp: settles_def)

lemma settled_chain_others:
  "settled_chain cs c xs c' \<Longrightarrow> t \<notin> fst ` set xs \<Longrightarrow> t \<noteq> ''Ready'' \<Longrightarrow> cs_holds cs t c' = cs_holds cs t c"
  by (induction rule: settled_chain.induct) (auto simp: settles_def others_kept_def)

lemma settled_chain_correct:
  "settled_chain cs c xs c' \<Longrightarrow> ready_correct cs c \<Longrightarrow> ready_correct cs c'"
  by (induction rule: settled_chain.induct) (auto simp: settles_def split: if_splits)

lemma settled_chain_holds:
  "settled_chain cs c xs c' \<Longrightarrow> distinct (map fst xs) \<Longrightarrow> ''Ready'' \<notin> fst ` set xs \<Longrightarrow> (t, ok, q) \<in> set xs \<Longrightarrow>
     t \<in> set (dependent_conditions (ncl_spec c)) \<Longrightarrow> cs_holds cs t c' = ok \<and> q = (if ok then None else Some 300)"
proof (induction rule: settled_chain.induct)
  case (chain_step t' ok' c c1 q' xs c2)
  then have spec: "ncl_spec c1 = ncl_spec c" by (simp add: settles_def)
  show ?case
  proof (cases "t = t'")
    case True
    with chain_step.prems have "t \<notin> fst ` set xs" "t \<noteq> ''Ready''" "ok = ok'" "q = q'" by (auto simp: image_iff)
    with settled_chain_others [OF chain_step.hyps(2)] chain_step.hyps(1) chain_step.prems(4) True show ?thesis
      by (auto simp: settles_def)
  next
    case False
    with chain_step.IH chain_step.prems spec show ?thesis by auto
  qed
qed simp

lemma run_settles:
  assumes cs: "lawful_conditions (cle_conditions env)"
    and run: "run_reconcilers (class_reconcilers env) (cls, w) = (Ok (qs, es), cls', w')"
  shows "\<exists>c0 c8 w8 qc qi qk qn qr qg qu qh. same_conditions c0 cls
    \<and> settled_chain (cle_conditions env) c0 (map (\<lambda>(t, q). (t, resolves env w (ncl_spec cls) t, q))
         [(''NodeCompartment'', qc), (''Image'', qi), (''KmsKey'', qk), (''Network'', qn),
          (''CapacityReservation'', qr), (''ClusterPlacementGroup'', qg), (''ComputeCluster'', qu)]) c8
    \<and> reconcile_hash env (c8, w8) = (Ok qh, cls', w') \<and> es = [] \<and> qs = [None, qc, qi, qk, qn, qr, qg, qu, qh]"
proof -
  note nf = steps_never_fail step_hash_never_fails step_network_never_fails step_image_never_fails step_kms_never_fails
  from run_Cons [OF run [unfolded class_reconcilers_def]] nf obtain q0 c0 w0 r0 where 0: "init_status (cls, w) = (Ok q0, c0, w0)"
    "run_reconcilers [reconcile_compartment env, reconcile_image env, reconcile_kms env, reconcile_network env,
      reconcile_capres env, reconcile_cpg env, reconcile_cluster env, reconcile_hash env] (c0, w0) = (Ok (r0, es), cls', w')"
    "qs = q0 # r0" by (metis prod.exhaust)
  from init_same 0(1) have c0: "same_conditions c0 cls" "w0 = w" "q0 = None" by auto
  from run_Cons [OF 0(2)] nf obtain qc c1 w1 r1 where 1: "reconcile_compartment env (c0, w0) = (Ok qc, c1, w1)"
    "run_reconcilers [reconcile_image env, reconcile_kms env, reconcile_network env, reconcile_capres env, reconcile_cpg env, reconcile_cluster env, reconcile_hash env] (c1, w1) = (Ok (r1, es), cls', w')" "r0 = qc # r1" by (metis prod.exhaust)
  note s1 = settles_compartment [OF cs 1(1)]
  from run_Cons [OF 1(2)] nf obtain qi c2 w2 r2 where 2: "reconcile_image env (c1, w1) = (Ok qi, c2, w2)"
    "run_reconcilers [reconcile_kms env, reconcile_network env, reconcile_capres env, reconcile_cpg env, reconcile_cluster env, reconcile_hash env] (c2, w2) = (Ok (r2, es), cls', w')" "r1 = qi # r2" by (metis prod.exhaust)
  note s2 = settles_image [OF cs 2(1)]
  from run_Cons [OF 2(2)] nf obtain qk c3 w3 r3 where 3: "reconcile_kms env (c2, w2) = (Ok qk, c3, w3)"
    "run_reconcilers [reconcile_network env, reconcile_capres env, reconcile_cpg env, reconcile_cluster env, reconcile_hash env] (c3, w3) = (Ok (r3, es), cls', w')" "r2 = qk # r3" by (metis prod.exhaust)
  note s3 = settles_kms [OF cs 3(1)]
  from run_Cons [OF 3(2)] nf obtain qn c4 w4 r4 where 4: "reconcile_network env (c3, w3) = (Ok qn, c4, w4)"
    "run_reconcilers [reconcile_capres env, reconcile_cpg env, reconcile_cluster env, reconcile_hash env] (c4, w4) = (Ok (r4, es), cls', w')" "r3 = qn # r4" by (metis prod.exhaust)
  note s4 = settles_network [OF cs 4(1)]
  from run_Cons [OF 4(2)] nf obtain qr c5 w5 r5 where 5: "reconcile_capres env (c4, w4) = (Ok qr, c5, w5)"
    "run_reconcilers [reconcile_cpg env, reconcile_cluster env, reconcile_hash env] (c5, w5) = (Ok (r5, es), cls', w')" "r4 = qr # r5" by (metis prod.exhaust)
  note s5 = settles_capres [OF cs 5(1)]
  from run_Cons [OF 5(2)] nf obtain qg c6 w6 r6 where 6: "reconcile_cpg env (c5, w5) = (Ok qg, c6, w6)"
    "run_reconcilers [reconcile_cluster env, reconcile_hash env] (c6, w6) = (Ok (r6, es), cls', w')" "r5 = qg # r6" by (metis prod.exhaust)
  note s6 = settles_cpg [OF cs 6(1)]
  from run_Cons [OF 6(2)] nf obtain qu c7 w7 r7 where 7: "reconcile_cluster env (c6, w6) = (Ok qu, c7, w7)"
    "run_reconcilers [reconcile_hash env] (c7, w7) = (Ok (r7, es), cls', w')" "r6 = qu # r7" by (metis prod.exhaust)
  note s7 = settles_cluster [OF cs 7(1)]
  from run_Cons [OF 7(2)] nf obtain qh where 8: "reconcile_hash env (c7, w7) = (Ok qh, cls', w')" "r7 = [qh]" "es = []"
    by (metis Pair_inject go.inject(1) run_reconcilers.simps(1))
  from s1 s2 s3 s4 s5 s6 s7 obtain i1 i2 i3 i4 i5 i6 i7 where w:
    "w1 = w0\<lparr>clp_identity := i1\<rparr>" "w2 = w1\<lparr>clp_images := i2\<rparr>" "w3 = w2\<lparr>clp_kms := i3\<rparr>" "w4 = w3\<lparr>clp_network := i4\<rparr>" "w5 = w4\<lparr>clp_capres := i5\<rparr>" "w6 = w5\<lparr>clp_cpg := i6\<rparr>" "w7 = w6\<lparr>clp_cluster := i7\<rparr>" by blast
  have spec: "ncl_spec c0 = ncl_spec cls" "ncl_spec c1 = ncl_spec cls" "ncl_spec c2 = ncl_spec cls" "ncl_spec c3 = ncl_spec cls" "ncl_spec c4 = ncl_spec cls" "ncl_spec c5 = ncl_spec cls" "ncl_spec c6 = ncl_spec cls" "ncl_spec c7 = ncl_spec cls"
    using s1 s2 s3 s4 s5 s6 s7 same_spec [OF c0(1)] by (simp_all add: settles_def)
  note settled = conjunct1 [OF s1] conjunct1 [OF s2] conjunct1 [OF s3] conjunct1 [OF s4] conjunct1 [OF s5] conjunct1 [OF s6] conjunct1 [OF s7]
  have "settled_chain (cle_conditions env) c0 (map (\<lambda>(t, q). (t, resolves env w (ncl_spec cls) t, q))
         [(''NodeCompartment'', qc), (''Image'', qi), (''KmsKey'', qk), (''Network'', qn),
          (''CapacityReservation'', qr), (''ClusterPlacementGroup'', qg), (''ComputeCluster'', qu)]) c7"
    using settled unfolding spec w c0(2) list.map prod.case by (simp add: settled_chain.intros)
  with c0(1,3) 0(3) 1(3) 2(3) 3(3) 4(3) 5(3) 6(3) 7(3) 8 show ?thesis by (intro exI conjI) (assumption | simp)+
qed

lemma dependent_types: "set (dependent_conditions spec) \<subseteq> condition_types"
  unfolding dependent_conditions_def by (auto simp only: set_append list.set Un_iff insert_iff empty_iff condition_types simp_thms split: if_splits)

lemma first_of_types: "condition_types = fst ` set
   [(''NodeCompartment'', a), (''Image'', b), (''KmsKey'', c), (''Network'', d), (''CapacityReservation'', e),
    (''ClusterPlacementGroup'', f), (''ComputeCluster'', g)]"
  unfolding condition_types_def list.set image_insert image_empty fst_conv ..

lemma in_mapped: "t \<in> fst ` set ys \<Longrightarrow> \<exists>q. (t, R t, q) \<in> set (map (\<lambda>(t, q). (t, R t, q)) ys)"
  by force

text \<open>The hash is written exactly if the class is ready, and nothing else changes.\<close>

lemma hash_step:
  assumes "reconcile_hash env (cls, w) = (Ok q, cls', w')"
  shows "ncl_spec cls' = ncl_spec cls \<and> ncl_status cls' = ncl_status cls \<and> ncl_finalizers cls' = ncl_finalizers cls
    \<and> (if cs_ready (cle_conditions env) cls
       then \<exists>h. hash_node_class_spec (cle_hash env) cls = Ok h \<and> map_of (ncl_annotations cls') NodeClassHash = Some h
         \<and> map_of (ncl_annotations cls') NodeClassHashVersion = Some OCINodeClassHashVersion
       else ncl_annotations cls' = ncl_annotations cls)"
proof -
  have ne: "NodeClassHash \<noteq> NodeClassHashVersion" by (simp add: NodeClassHash_def NodeClassHashVersion_def)
  show ?thesis
    using assms by (auto simp: reconcile_hash_def st_bind_Ok_iff update_conv' ne split: if_splits)
qed

text \<open>All of them together: what the class says of each condition, and whether it is ready.\<close>

lemma run_ready:
  assumes "lawful_conditions (cle_conditions env)"
    and "run_reconcilers (class_reconcilers env) (cls, w) = (Ok (qs, es), cls', w')"
  shows "\<exists>c8 w8 qh. ncl_spec c8 = ncl_spec cls \<and> ncl_annotations c8 = ncl_annotations cls
    \<and> (\<forall>t \<in> set (dependent_conditions (ncl_spec cls)). cs_holds (cle_conditions env) t c8 = resolves env w (ncl_spec cls) t
         \<and> (resolves env w (ncl_spec cls) t \<or> Some 300 \<in> set qs))
    \<and> (cs_ready (cle_conditions env) c8 \<longleftrightarrow> (\<forall>t \<in> set (dependent_conditions (ncl_spec cls)). resolves env w (ncl_spec cls) t))
    \<and> reconcile_hash env (c8, w8) = (Ok qh, cls', w') \<and> es = []"
proof -
  let ?cs = "cle_conditions env"
  from run_settles [OF assms] obtain c0 c8 w8 qc qi qk qn qr qg qu qh where
    c0: "same_conditions c0 cls" and chain: "settled_chain ?cs c0 (map (\<lambda>(t, q). (t, resolves env w (ncl_spec cls) t, q))
         [(''NodeCompartment'', qc), (''Image'', qi), (''KmsKey'', qk), (''Network'', qn),
          (''CapacityReservation'', qr), (''ClusterPlacementGroup'', qg), (''ComputeCluster'', qu)]) c8" (is "settled_chain _ _ ?xs _")
    and hash: "reconcile_hash env (c8, w8) = (Ok qh, cls', w')" and es: "es = []"
    and qs: "qs = [None, qc, qi, qk, qn, qr, qg, qu, qh]" by blast
  have spec: "ncl_spec c0 = ncl_spec cls" "ncl_annotations c0 = ncl_annotations cls" using c0 by (simp_all add: same_conditions_def)
  have spec8: "ncl_spec c8 = ncl_spec cls" "ncl_annotations c8 = ncl_annotations cls" using settled_chain_spec [OF chain] spec by auto
  have members: "\<exists>q. (t, resolves env w (ncl_spec cls) t, q) \<in> set ?xs" if "t \<in> set (dependent_conditions (ncl_spec cls))" for t
    using subsetD [OF dependent_types that] by (intro in_mapped) (simp only: first_of_types [symmetric])
  have settled: "cs_holds ?cs t c8 = resolves env w (ncl_spec cls) t \<and> (resolves env w (ncl_spec cls) t \<or> Some 300 \<in> set qs)"
    if t: "t \<in> set (dependent_conditions (ncl_spec cls))" for t
  proof -
    from members [OF t] obtain q where q: "(t, resolves env w (ncl_spec cls) t, q) \<in> set ?xs" ..
    have "cs_holds ?cs t c8 = resolves env w (ncl_spec cls) t \<and> q = (if resolves env w (ncl_spec cls) t then None else Some 300)"
      by (rule settled_chain_holds [OF chain _ _ q]) (simp_all add: t spec)
    moreover have "q \<in> set qs" using q qs by auto
    ultimately show ?thesis by auto
  qed
  have "ready_correct ?cs c8"
  proof -
    from chain obtain c1 where "settles ?cs ''NodeCompartment'' (resolves env w (ncl_spec cls) ''NodeCompartment'') c0 c1 qc"
      "settled_chain ?cs c1 (tl ?xs) c8" by (auto elim: settled_chain.cases)
    with settled_chain_correct show ?thesis by (auto simp: settles_def)
  qed
  with settled spec8 have "cs_ready ?cs c8 \<longleftrightarrow> (\<forall>t \<in> set (dependent_conditions (ncl_spec cls)). resolves env w (ncl_spec cls) t)"
    by (auto simp: ready_correct_def)
  with spec8 settled hash es show ?thesis by blast
qed

lemma run_ready_iff:
  assumes "lawful_conditions (cle_conditions env)"
    and "run_reconcilers (class_reconcilers env) (cls, w) = (Ok (qs, es), cls', w')"
  shows "cs_ready (cle_conditions env) cls' \<longleftrightarrow> (\<forall>t \<in> set (dependent_conditions (ncl_spec cls)). resolves env w (ncl_spec cls) t)"
proof -
  from run_ready [OF assms] obtain c8 w8 qh where
    "cs_ready (cle_conditions env) c8 \<longleftrightarrow> (\<forall>t \<in> set (dependent_conditions (ncl_spec cls)). resolves env w (ncl_spec cls) t)"
    "reconcile_hash env (c8, w8) = (Ok qh, cls', w')" by blast
  with hash_step lawful_read [OF assms(1), of cls' c8] show ?thesis by simp
qed

text \<open>What the reconcilers leave of the object, and what they write on it.\<close>

lemma run_object:
  assumes cs: "lawful_conditions (cle_conditions env)"
    and run: "run_reconcilers (class_reconcilers env) (cls, w) = (Ok (qs, es), cls', w')"
  shows "ncl_spec cls' = ncl_spec cls \<and> ncl_finalizers cls' = ncl_finalizers cls
    \<and> (cs_ready (cle_conditions env) cls' \<longrightarrow>
         (\<exists>h. hash_node_class_spec (cle_hash env) cls = Ok h \<and> map_of (ncl_annotations cls') NodeClassHash = Some h
            \<and> map_of (ncl_annotations cls') NodeClassHashVersion = Some OCINodeClassHashVersion))"
proof -
  from run_settles [OF assms] obtain c0 xs c8 w8 qh where same: "same_conditions c0 cls"
    and chain: "settled_chain (cle_conditions env) c0 xs c8" and hash: "reconcile_hash env (c8, w8) = (Ok qh, cls', w')" by blast
  from same settled_chain_spec [OF chain] have "same_object c8 cls" by (simp add: same_conditions_def)
  with hash_step [OF hash] lawful_read [OF cs, of cls' c8] show ?thesis
    by (auto simp: hash_node_class_spec_def split: if_splits)
qed

end
