(* ===== verification/Node_Class_Laws.thy ===== *)
theory Node_Class_Laws
  imports Node_Class_Steps
begin

section \<open>When a node class is ready\<close>

text \<open>
  The node class controller: when a class is ready, and that a class which is deleted stays until
  no claim uses it.
\<close>

text \<open>
  C7. After the reconcilers have run, a node class is ready exactly if everything its specification
  asks for resolves: its compartment, image and network always, and the key, the reservations, the
  placement groups (no two of them in one domain) and the compute cluster if it names any.  No
  reconciler returns an error; one that fails makes the class be looked at again in five minutes.
  The hash of the specification is written only if the class is ready.
\<close>

theorem ready_iff_all_resolved:
  assumes "lawful_conditions (cle_conditions env)"
    and "run_reconcilers (class_reconcilers env) (cls, w) = (Ok (qs, es), cls', w')"
  shows "(cs_ready (cle_conditions env) cls' \<longleftrightarrow>
           (\<forall>t \<in> set (dependent_conditions (ncl_spec cls)). resolves env w (ncl_spec cls) t))
    \<and> (\<forall>t \<in> set (dependent_conditions (ncl_spec cls)). cs_holds (cle_conditions env) t cls' = resolves env w (ncl_spec cls) t)
    \<and> es = [] \<and> (if cs_ready (cle_conditions env) cls'
         then \<exists>h. hash_node_class_spec (cle_hash env) cls = Ok h \<and> map_of (ncl_annotations cls') NodeClassHash = Some h
         else Some 300 \<in> set qs \<and> ncl_annotations cls' = ncl_annotations cls)
    \<and> ncl_spec cls' = ncl_spec cls"
proof -
  let ?cs = "cle_conditions env"
  from run_ready [OF assms] obtain c8 w8 qh where spec8: "ncl_spec c8 = ncl_spec cls" "ncl_annotations c8 = ncl_annotations cls"
    and settled: "\<forall>t \<in> set (dependent_conditions (ncl_spec cls)).
       cs_holds ?cs t c8 = resolves env w (ncl_spec cls) t \<and> (resolves env w (ncl_spec cls) t \<or> Some 300 \<in> set qs)"
    and ready8: "cs_ready ?cs c8 \<longleftrightarrow> (\<forall>t \<in> set (dependent_conditions (ncl_spec cls)). resolves env w (ncl_spec cls) t)"
    and hash: "reconcile_hash env (c8, w8) = (Ok qh, cls', w')" and es: "es = []" by blast
  from hash_step [OF hash] lawful_read [OF assms(1), of cls' c8] have same: "cs_holds ?cs t cls' = cs_holds ?cs t c8"
    "cs_ready ?cs cls' = cs_ready ?cs c8" for t by auto
  show ?thesis
    using hash_step [OF hash] ready8 settled es spec8 unfolding same
    by (auto simp: hash_node_class_spec_def dest: bspec)
qed


subsection \<open>A worked example\<close>

text \<open>
  Conditions kept in the list of the status: the newest of a type first, the root condition read
  off those the specification asks for.
\<close>

definition listed_holds :: "string \<Rightarrow> node_class \<Rightarrow> bool" where
  "listed_holds t cls \<longleftrightarrow>
     list_ex (\<lambda>c. cond_type c = t \<and> cond_status c = ''True'') (ncst_conditions (ncl_status cls))"

definition put_condition :: "string \<Rightarrow> string \<Rightarrow> node_class \<Rightarrow> node_class" where
  "put_condition t v cls = with_status (\<lambda>st. st\<lparr>ncst_conditions :=
     \<lparr>cond_type = t, cond_status = v, cond_reason = [], cond_message = [], cond_time = 0\<rparr>
       # filter (\<lambda>c. cond_type c \<noteq> t) (ncst_conditions st)\<rparr>) cls"

definition listed_conditions :: condition_set where
  "listed_conditions =
     \<lparr>cs_true = (\<lambda>t. put_condition t ''True''), cs_false = (\<lambda>t r m. put_condition t ''False''),
      cs_clear = (\<lambda>t cls. (Ok (), with_status (\<lambda>st. st\<lparr>ncst_conditions :=
        filter (\<lambda>c. cond_type c \<noteq> t) (ncst_conditions st)\<rparr>) cls)),
      cs_holds = listed_holds,
      cs_ready = (\<lambda>cls. list_all (\<lambda>t. listed_holds t cls) (dependent_conditions (ncl_spec cls)))\<rparr>"

lemma only_conditions_update: "only_conditions cls (with_status (\<lambda>st. st\<lparr>ncst_conditions := f (ncst_conditions st)\<rparr>) cls)"
  by (auto simp: only_conditions_def with_status_def intro!: exI [of _ "f (ncst_conditions (ncl_status cls))"])

lemma listed_put [simp]:
  "listed_holds t' (put_condition t v cls) \<longleftrightarrow> (if t' = t then v = ''True'' else listed_holds t' cls)"
  by (auto simp: listed_holds_def put_condition_def with_status_def list_ex_iff)

lemma listed_cleared [simp]:
  "listed_holds t' (with_status (\<lambda>st. st\<lparr>ncst_conditions := filter (\<lambda>c. cond_type c \<noteq> t) (ncst_conditions st)\<rparr>) cls)
     \<longleftrightarrow> t' \<noteq> t \<and> listed_holds t' cls"
  by (auto simp: listed_holds_def with_status_def list_ex_iff)

lemma listed_sel [simp]:
  "cs_true listed_conditions t = put_condition t ''True''" "cs_false listed_conditions t r m = put_condition t ''False''"
  "snd (cs_clear listed_conditions t cls)
     = with_status (\<lambda>st. st\<lparr>ncst_conditions := filter (\<lambda>c. cond_type c \<noteq> t) (ncst_conditions st)\<rparr>) cls"
  "cs_holds listed_conditions = listed_holds"
  "cs_ready listed_conditions cls \<longleftrightarrow> (\<forall>t \<in> set (dependent_conditions (ncl_spec cls)). listed_holds t cls)"
  by (simp_all add: listed_conditions_def list_all_iff)

lemma listed_read:
  "ncst_conditions (ncl_status a) = ncst_conditions (ncl_status b) \<Longrightarrow> listed_holds t a = listed_holds t b"
  by (simp add: listed_holds_def)

lemma listed_lawful: "lawful_conditions listed_conditions"
proof -
  have ready: "ready_correct listed_conditions cls" for cls by (simp add: ready_correct_def)
  have put: "only_conditions cls (put_condition t v cls)" for t v cls
    unfolding put_condition_def by (rule only_conditions_update)
  show ?thesis
    unfolding lawful_conditions_def
  proof (intro conjI allI ballI impI)
    fix a b :: node_class and t
    assume "ncl_spec a = ncl_spec b \<and> ncst_conditions (ncl_status a) = ncst_conditions (ncl_status b)"
    then have "ncl_spec a = ncl_spec b" "\<And>t. listed_holds t a = listed_holds t b" by (auto intro!: listed_read)
    then show "cs_holds listed_conditions t a = cs_holds listed_conditions t b"
      "cs_ready listed_conditions a = cs_ready listed_conditions b" by simp_all
  qed (simp_all add: ready put only_conditions_update others_kept_def)
qed

text \<open>A class that names an image and a subnet, in an account that has them.\<close>

definition asking_class :: node_class where
  "asking_class =
     \<lparr>ncl_name = ''default'', ncl_labels = [], ncl_annotations = [], ncl_finalizers = [], ncl_deleting = False,
      ncl_spec = empty_spec
        \<lparr>ncs_network := \<lparr>nc_primary = Some example_simple_vnic, nc_secondary = []\<rparr>,
         ncs_volume := \<lparr>vc_boot = \<lparr>va_kms = None, va_size = None, va_vpus = None,
           bv_image = Some \<lparr>ic_type = CustomImage, ic_filter = None, ic_id = Some ''i''\<rparr>, bv_pv_encryption = None\<rparr>\<rparr>\<rparr>,
      ncl_status = \<lparr>ncst_conditions = [], ncst_volume = None, ncst_network = None, ncst_capres = [], ncst_cpgs = [],
        ncst_cluster = None\<rparr>\<rparr>"

definition asking_env :: class_env where
  "asking_env =
     \<lparr>cle_conditions = listed_conditions,
      cle_image = example_image_env\<lparr>ie_get := (\<lambda>k. Ok (example_image k 9 ''1''))\<rparr>, cle_vcn = example_vcn_api,
      cle_region = (\<lambda>r. r), cle_connect = (\<lambda>e. Panic), cle_kms = (\<lambda>e k. Panic),
      cle_capres = \<lparr>ca_get = (\<lambda>k. Panic), ca_list = (\<lambda>a b c. Panic), ca_hash = (\<lambda>s. Panic)\<rparr>,
      cle_cpg = \<lparr>ga_get = (\<lambda>k. Panic), ga_list = (\<lambda>a b c. Panic), ga_hash = (\<lambda>s. Panic)\<rparr>,
      cle_cluster = \<lparr>ka_get = (\<lambda>k. Panic), ka_list = (\<lambda>a b c. Panic), ka_hash = (\<lambda>s. Panic)\<rparr>,
      cle_compartment = (\<lambda>c. Ok c), cle_hash = (\<lambda>s. from_ptr ''h'' (ncs_compartment s)), cle_min = soonest, cle_patch = (\<lambda>a b. Ok a),
      cle_status_patch = (\<lambda>a b. Ok a), cle_claims = (\<lambda>c. Ok []), cle_now = 0\<rparr>"

definition asking_providers :: class_providers where
  "asking_providers =
     \<lparr>clp_images = example_images, clp_kms = \<lparr>mp_cache = new_default_cache, mp_clients = []\<rparr>,
      clp_network = example_vcn\<lparr>vp_npn := False\<rparr>, clp_capres = new_capres_provider ''c'', clp_cpg = new_cpg_provider ''c'',
      clp_cluster = new_cluster_provider ''c'',
      clp_identity = \<lparr>ip_compartment = ''c'', ip_ad_map = [], ip_prefix = [], ip_cache = new_default_cache\<rparr>,
      clp_compartment = ''c''\<rparr>"

lemma asked_new: "get_from_cache 0 new_default_cache k = None"
  by (simp add: new_default_cache_def get_new)

lemma asked_compartment: "\<exists>i. resolve_compartment (cle_compartment asking_env) (cle_now asking_env) ''c'' (clp_identity asking_providers) = (Ok ''c'', i)"
  by (simp add: resolve_compartment_def asking_env_def asking_providers_def get_or_load_pure asked_new Let_def split_def)

lemma asked_image: "\<exists>i im. resolve_images (cle_image asking_env) False (bv_image (vc_boot (ncs_volume (ncl_spec asking_class))))
    (clp_images asking_providers) = (Ok i, im) \<and> (\<exists>is. image_statuses (ir_images i) = Ok is)"
  by (simp add: resolve_images_def asking_env_def asking_class_def asking_providers_def candidate_images_def get_image_def
      get_or_load_pure asked_new example_images_def new_image_provider_def filter_and_sort_images_def slice_stable_def
      is_prebaked_def example_image_def example_image_env_def to_image_resolve_result_def image_statuses_def Let_def split_def)

lemma asked_network: "\<exists>net v n. resolve_network_config (cle_vcn asking_env) (cle_now asking_env)
    (Some (ncs_network (ncl_spec asking_class))) (clp_network asking_providers) = (Ok (net, []), v) \<and> to_node_class_network net = Ok n"
  by (simp add: asking_env_def asking_class_def asking_providers_def resolve_network_config_def resolve_primary_def
      resolve_simple_vnic_def resolve_subnet_and_nsg_def resolve_subnet_def get_subnet_def get_or_load_pure
      example_network_defs asked_new no_network_def validate_against_cidrs_def is_ipv6_def get_cidr_blocks_def
      to_node_class_network_def to_vnic_def get_after_set split_def Let_def split: option.splits)

lemma asked_status [simp]:
  "ncl_spec (put_condition t v cls) = ncl_spec cls" "ncst_volume (ncl_status (put_condition t v cls)) = ncst_volume (ncl_status cls)"
  "ncst_volume (ncl_status (with_status f cls)) = ncst_volume (f (ncl_status cls))"
  by (simp_all add: put_condition_def with_status_def)

lemma asked_ends [simp]:
  "resolved asking_env t (cls, w) = (Ok None, put_condition t ''True'' cls, w)"
  "clear_condition asking_env t (cls, w) =
     (Ok None, with_status (\<lambda>st. st\<lparr>ncst_conditions := filter (\<lambda>c. cond_type c \<noteq> t) (ncst_conditions st)\<rparr>) cls, w)"
  by (simp_all add: resolved_def clear_condition_def asking_env_def listed_conditions_def)

lemma asked_hash:
  "ncl_spec cls = ncl_spec asking_class \<Longrightarrow> reconcile_hash asking_env (cls, w) =
     (Ok None, (if cs_ready listed_conditions cls
                then cls\<lparr>ncl_annotations := AList.update NodeClassHashVersion OCINodeClassHashVersion
                            (AList.update NodeClassHash ''h'' (ncl_annotations cls))\<rparr>
                else cls), w)"
  by (simp add: reconcile_hash_def hash_node_class_spec_def static_fields_clone_def asking_class_def asking_env_def empty_spec_def)

lemma asked_run:
  "\<exists>qs es cls' w'. run_reconcilers (class_reconcilers asking_env) (asking_class, asking_providers) = (Ok (qs, es), cls', w')"
proof -
  obtain i where c: "resolve_compartment (cle_compartment asking_env) (cle_now asking_env) ''c'' (clp_identity asking_providers) = (Ok ''c'', i)"
    using asked_compartment by blast
  obtain r im "is" where im: "resolve_images (cle_image asking_env) False (bv_image (vc_boot (ncs_volume (ncl_spec asking_class))))
    (clp_images asking_providers) = (Ok r, im)" "image_statuses (ir_images r) = Ok is" using asked_image by blast
  obtain net v n where n: "resolve_network_config (cle_vcn asking_env) (cle_now asking_env)
    (Some (ncs_network (ncl_spec asking_class))) (clp_network asking_providers) = (Ok (net, []), v)" "to_node_class_network net = Ok n"
    using asked_network by blast
  have own: "ncs_compartment (ncl_spec asking_class) = None" "clp_compartment asking_providers = ''c''"
    "va_kms (vc_boot (ncs_volume (ncl_spec asking_class))) = None"
    "ncs_capres (ncl_spec asking_class) = []" "ncs_cpgs (ncl_spec asking_class) = []" "ncs_cluster (ncl_spec asking_class) = None"
    "ncl_status asking_class = \<lparr>ncst_conditions = [], ncst_volume = None, ncst_network = None, ncst_capres = [], ncst_cpgs = [],
        ncst_cluster = None\<rparr>"
    by (simp_all add: asking_class_def asking_providers_def empty_spec_def)
  show ?thesis
    by (simp add: class_reconcilers_def init_status_def reconcile_compartment_def get_node_compartment_def
      reconcile_image_def update_image_def with_volume_def reconcile_kms_def
      reconcile_network_def update_network_def reconcile_capres_def reconcile_cpg_def reconcile_cluster_def asked_hash c im n own)
qed

lemma asked_run_ready:
  "\<exists>qs es cls' w'. run_reconcilers (class_reconcilers asking_env) (asking_class, asking_providers) = (Ok (qs, es), cls', w')
     \<and> cs_ready (cle_conditions asking_env) cls'"
proof -
  have env: "lawful_conditions (cle_conditions asking_env)" using listed_lawful by (simp add: asking_env_def)
  from asked_run obtain qs es cls' w' where
    r: "run_reconcilers (class_reconcilers asking_env) (asking_class, asking_providers) = (Ok (qs, es), cls', w')" by blast
  have c: "ncs_compartment (ncl_spec asking_class) = None" "clp_compartment asking_providers = ''c''"
    by (simp_all add: asking_class_def asking_providers_def empty_spec_def)
  have "resolves asking_env asking_providers (ncl_spec asking_class) ''NodeCompartment''"
    unfolding resolves_def c using asked_compartment by simp (metis fst_conv)
  moreover have "resolves asking_env asking_providers (ncl_spec asking_class) ''Image''"
    unfolding resolves_def using asked_image by simp (metis fst_conv)
  moreover have "resolves asking_env asking_providers (ncl_spec asking_class) ''Network''"
    unfolding resolves_def using asked_network by simp (metis fst_conv)
  moreover have "dependent_conditions (ncl_spec asking_class) = [''Image'', ''Network'', ''NodeCompartment'']"
    by (simp add: dependent_conditions_def asking_class_def empty_spec_def)
  ultimately have all: "\<forall>t \<in> set (dependent_conditions (ncl_spec asking_class)).
      resolves asking_env asking_providers (ncl_spec asking_class) t" by (simp only: list.set ball_simps simp_thms)
  with run_ready_iff [OF env r] r show ?thesis by blast
qed

theorem ready_iff_all_resolved_witness:
  "\<exists>qs cls' w'. run_reconcilers (class_reconcilers asking_env) (asking_class, asking_providers) = (Ok (qs, []), cls', w')
     \<and> cs_ready (cle_conditions asking_env) cls' \<and> map_of (ncl_annotations cls') NodeClassHash = Some ''h''"
proof -
  have env: "lawful_conditions (cle_conditions asking_env)" using listed_lawful by (simp add: asking_env_def)
  from asked_run_ready obtain qs es cls' w' where
    r: "run_reconcilers (class_reconcilers asking_env) (asking_class, asking_providers) = (Ok (qs, es), cls', w')"
    and ready: "cs_ready (cle_conditions asking_env) cls'" by blast
  have h: "hash_node_class_spec (cle_hash asking_env) asking_class = Ok ''h''"
    by (simp add: hash_node_class_spec_def static_fields_clone_def asking_class_def asking_env_def example_simple_vnic_def empty_spec_def)
  from ready_iff_all_resolved [OF env r] ready h r show ?thesis by auto
qed

section \<open>A node class outlives its claims\<close>

text \<open>\<open>written\<close>: the object that a write stores.\<close>

fun written :: "class_write \<Rightarrow> node_class" where
  "written (PatchObject new old) = new"
| "written (PatchStatus new old) = new"

lemma write_changes_written:
  assumes "write_changes env stored qs es ((cls, w), ws) = (r, s, ws')" "x \<in> set ws'"
  shows "x \<in> set ws \<or> written x = cls"
proof -
  obtain h ws1 where h: "write_hash env stored cls = (h, ws1)" by (rule prod.exhaust)
  have 1: "y \<in> set ws1 \<Longrightarrow> written y = cls" for y using h by (auto simp: write_hash_def split: if_splits)
  have 2: "write_status env st cls = (q, ws2) \<Longrightarrow> y \<in> set ws2 \<Longrightarrow> written y = cls" for y st q ws2 by (auto simp: write_status_def)
  show ?thesis
    using assms h by (auto simp: write_changes_def dest: 1 2 split: if_splits go.splits option.splits prod.splits)
qed

lemma ensure_finalizer_written:
  "ensure_finalizer env cls = (r, ws) \<Longrightarrow> x \<in> set ws \<Longrightarrow> TerminationFinalizer \<in> set (ncl_finalizers (written x))"
  by (auto simp: ensure_finalizer_def Let_def split: if_splits)

lemma finalize_class_written:
  "finalize_class env (cls, w) = (r, s, ws) \<Longrightarrow> x \<in> set ws \<Longrightarrow>
     cle_claims env cls = Ok [] \<and> TerminationFinalizer \<in> set (ncl_finalizers cls)
   \<and> written x = cls\<lparr>ncl_finalizers := filter (\<lambda>f. f \<noteq> TerminationFinalizer) (ncl_finalizers cls)\<rparr>"
  by (auto simp: finalize_class_def Let_def split: if_splits go.splits)

text \<open>
  C8. The controller never writes a node class without the termination finalizer, unless the class
  is being deleted and no claim uses it; then it takes off that finalizer and nothing else.  While
  claims use a class that is being deleted, nothing is written at all, and it is looked at again in
  ten minutes.
\<close>

theorem class_outlives_its_claims:
  assumes "lawful_conditions (cle_conditions env)"
    and "\<forall>new old ob. cle_patch env new old = Ok ob \<longrightarrow> ncl_finalizers ob = ncl_finalizers new"
    and "reconcile_class env (cls, w) = (r, s, ws)"
  shows "(\<forall>x \<in> set ws. TerminationFinalizer \<in> set (ncl_finalizers (written x))
       \<or> ncl_deleting cls \<and> cle_claims env cls = Ok []
         \<and> written x = cls\<lparr>ncl_finalizers := filter (\<lambda>f. f \<noteq> TerminationFinalizer) (ncl_finalizers cls)\<rparr>)
   \<and> (ncl_deleting cls \<and> TerminationFinalizer \<in> set (ncl_finalizers cls) \<and> (\<exists>c cs. cle_claims env cls = Ok (c # cs))
       \<longrightarrow> r = Ok (Some 600) \<and> ws = [])"
proof (cases "ncl_deleting cls")
  case True
  with assms(3) have f: "finalize_class env (cls, w) = (r, s, ws)" by (simp add: reconcile_class_def)
  then have "(\<exists>c cs. cle_claims env cls = Ok (c # cs)) \<Longrightarrow> TerminationFinalizer \<in> set (ncl_finalizers cls) \<Longrightarrow> r = Ok (Some 600) \<and> ws = []"
    by (auto simp: finalize_class_def)
  with finalize_class_written [OF f] True show ?thesis by blast
next
  case False
  obtain e ws1 where e: "ensure_finalizer env cls = (e, ws1)" by (rule prod.exhaust)
  have "TerminationFinalizer \<in> set (ncl_finalizers (written x))" if x: "x \<in> set ws" for x
  proof (cases "\<exists>stored qs es cls1 w1. e = Ok stored \<and> run_reconcilers (class_reconcilers env) (stored, w) = (Ok (qs, es), cls1, w1)")
    case True
    then obtain stored qs es cls1 w1 where
      o: "e = Ok stored" "run_reconcilers (class_reconcilers env) (stored, w) = (Ok (qs, es), cls1, w1)" by blast
    from e o(1) assms(2) have "TerminationFinalizer \<in> set (ncl_finalizers stored)"
      by (auto simp: ensure_finalizer_def Let_def split: if_splits)
    with run_object [OF assms(1) o(2)] have "TerminationFinalizer \<in> set (ncl_finalizers cls1)" by simp
    moreover from assms(3) False e o have "write_changes env stored qs es ((cls1, w1), ws1) = (r, s, ws)"
      by (simp add: reconcile_class_def)
    ultimately show ?thesis using write_changes_written [OF _ x] ensure_finalizer_written [OF e] by blast
  next
    case other: False
    with assms(3) False e have "ws = ws1" by (auto simp: reconcile_class_def split: go.splits prod.splits)
    with x ensure_finalizer_written [OF e] show ?thesis by blast
  qed
  with False show ?thesis by blast
qed

text \<open>A class that a claim still uses.\<close>

theorem class_outlives_its_claims_witness:
  "\<exists>s. reconcile_class (asking_env\<lparr>cle_claims := (\<lambda>c. Ok [plain_claim])\<rparr>)
      (asking_class\<lparr>ncl_deleting := True, ncl_finalizers := [TerminationFinalizer]\<rparr>, asking_providers) = (Ok (Some 600), s, [])"
proof -
  let ?env = "asking_env\<lparr>cle_claims := (\<lambda>c. Ok [plain_claim])\<rparr>"
  let ?cls = "asking_class\<lparr>ncl_deleting := True, ncl_finalizers := [TerminationFinalizer]\<rparr>"
  obtain r s ws where r: "reconcile_class ?env (?cls, asking_providers) = (r, s, ws)" by (rule prod_cases3)
  have "lawful_conditions (cle_conditions ?env)" using listed_lawful by (simp add: asking_env_def)
  from class_outlives_its_claims [OF this _ r] have "r = Ok (Some 600) \<and> ws = []" by (simp add: asking_env_def)
  with r show ?thesis by blast
qed

end
