(* ===== verification/Class_Drift_Laws.thy ===== *)
theory Class_Drift_Laws
  imports Cloud_Laws Node_Class_Laws
begin

section \<open>A node class that changes after its nodes\<close>

text \<open>
  The hash that is written on a claim when its machine is created, and the one that the controller of
  node classes writes on the class, meet where drift is decided.
\<close>

lemma drift_by_hash:
  assumes "map_of (nc_annotations nc) NodeClassHash = Some h0" "map_of (nc_annotations nc) NodeClassHashVersion = Some v"
    "map_of (ncl_annotations cls) NodeClassHash = Some h" "map_of (ncl_annotations cls) NodeClassHashVersion = Some v"
  shows "are_static_fields_drifted nc cls = (if h0 = h then [] else ''NodeClassStaticFieldDrift'')"
  using assms by (simp add: are_static_fields_drifted_def)

text \<open>
  C9. A claim whose creation ended with a node class \<open>cls0\<close> is found drifted by its static fields,
  once the controller has looked at the class as it is now and found it ready, exactly if the
  hashes of the static fields then and now differ: never, in particular, if none of those fields
  was changed, whatever else of the class was.
\<close>

theorem static_drift_iff_hash_differs:
  assumes "lawful_conditions (cle_conditions cenv)" and "ce_hash env = cle_hash cenv"
    and "finish_create env claim cls0 net info ito p = (Ok nc, p')"
    and "run_reconcilers (class_reconcilers cenv) (cls, w) = (Ok (qs, es), cls', w')"
    and "cs_ready (cle_conditions cenv) cls'"
  shows "are_static_fields_drifted nc cls' =
        (if map_ok (ce_hash env) (static_fields_clone (ncl_spec cls0)) = map_ok (ce_hash env) (static_fields_clone (ncl_spec cls))
         then [] else ''NodeClassStaticFieldDrift'')
    \<and> (static_fields_clone (ncl_spec cls0) = static_fields_clone (ncl_spec cls) \<longrightarrow> are_static_fields_drifted nc cls' = [])"
proof -
  from finish_create_Ok [OF assms(3)] obtain h0 where c: "hash_node_class_spec (ce_hash env) cls0 = Ok h0"
    "map_of (nc_annotations nc) NodeClassHash = Some h0"
    "map_of (nc_annotations nc) NodeClassHashVersion = Some OCINodeClassHashVersion" by blast
  from run_object [OF assms(1,4)] assms(5) obtain h where h: "hash_node_class_spec (cle_hash cenv) cls = Ok h"
    "map_of (ncl_annotations cls') NodeClassHash = Some h"
    "map_of (ncl_annotations cls') NodeClassHashVersion = Some OCINodeClassHashVersion" by blast
  show ?thesis
    using c(1) h(1) drift_by_hash [OF c(2,3) h(2,3)] assms(2) by (auto simp: hash_node_class_spec_def)
qed

subsection \<open>A worked example\<close>

definition moved_class :: node_class where
  "moved_class = asking_class\<lparr>ncl_spec := (ncl_spec asking_class)\<lparr>ncs_compartment := Some ''elsewhere''\<rparr>\<rparr>"

definition hashing_env :: cloud_env where
  "hashing_env = example_cloud_env\<lparr>ce_hash := cle_hash asking_env\<rparr>"

lemma moved_zone: "ad_to_zone (ins_ad plain_instance) = Ok ''PHX-AD-1''"
  by (simp add: plain_instance_def) code_simp

lemma moved_created:
  "\<exists>nc p'. finish_create hashing_env plain_claim moved_class sample_network \<lparr>ii_instance = plain_instance, ii_etag = []\<rparr> None
     example_cloud = (Ok nc, p')"
proof -
  have i: "ins_display_name plain_instance = Some ''n1''" "ins_fd plain_instance = Some ''FD-1''" "ins_id plain_instance = Some ''i1''"
    "ins_source plain_instance = ViaImage ''img''" "ins_capres plain_instance = None" "ins_shape_config plain_instance = None"
    by (simp_all add: plain_instance_def)
  have "\<exists>nc. claim_from_instance_and_type hashing_env plain_instance None = Ok nc"
    by (simp add: claim_from_instance_and_type_def decorate_claim_by_type_def decorate_claim_by_instance_def moved_zone i Let_def)
  moreover have "\<exists>pl. instance_found (pool_label plain_claim) (Some plain_instance) (cp_place example_cloud) = Ok pl"
    by (simp add: instance_found_def summary_update_def i)
  moreover have "\<exists>h. hash_node_class_spec (ce_hash hashing_env) moved_class = Ok h"
    by (simp add: hash_node_class_spec_def static_fields_clone_def moved_class_def asking_class_def)
  moreover have "\<not> np_cluster (cp_npn example_cloud)"
    by (simp add: example_cloud_def new_npn_provider_def)
  ultimately show ?thesis
    by (auto simp: finish_create_def cp_found_def cp_mark_capres_def apply_npn_and_log_def i)
qed

theorem static_drift_iff_hash_differs_witness:
  "\<exists>nc p' qs es cls' w'.
     finish_create hashing_env plain_claim moved_class sample_network \<lparr>ii_instance = plain_instance, ii_etag = []\<rparr> None
       example_cloud = (Ok nc, p')
   \<and> run_reconcilers (class_reconcilers asking_env) (asking_class, asking_providers) = (Ok (qs, es), cls', w')
   \<and> are_static_fields_drifted nc cls' = ''NodeClassStaticFieldDrift''"
proof -
  from moved_created obtain nc p' where c: "finish_create hashing_env plain_claim moved_class sample_network
    \<lparr>ii_instance = plain_instance, ii_etag = []\<rparr> None example_cloud = (Ok nc, p')" by blast
  from asked_run_ready obtain qs es cls' w' where
    r: "run_reconcilers (class_reconcilers asking_env) (asking_class, asking_providers) = (Ok (qs, es), cls', w')"
    "cs_ready (cle_conditions asking_env) cls'" by blast
  have l: "lawful_conditions (cle_conditions asking_env)" using listed_lawful by (simp add: asking_env_def)
  have h: "ce_hash hashing_env = cle_hash asking_env" by (simp add: hashing_env_def)
  have "map_ok (ce_hash hashing_env) (static_fields_clone (ncl_spec moved_class))
      \<noteq> map_ok (ce_hash hashing_env) (static_fields_clone (ncl_spec asking_class))"
    by (simp add: h asking_env_def moved_class_def static_fields_clone_def asking_class_def empty_spec_def)
  with static_drift_iff_hash_differs [OF l h c r] c r(1) show ?thesis by auto
qed

end
