(* ===== verification/Npn_Recovery.thy ===== *)
theory Npn_Recovery
  imports Cloud_Examples
begin

section \<open>Recovering a missing pod network\<close>

text \<open>
  \<open>pkg/controllers/npnrecovery\<close>: the controller that creates the object of the pod network for a
  claim whose machine was launched without one, or deletes the claim.

  Since when a claim is launched and whether it is initialised are read off its conditions, which
  are arguments here, and so are the calls to the Kubernetes API; the rest of the environment and
  the state are those of the cloud provider, whose providers the controller shares.  The result
  carries what was asked of the API, in order.  Times are in seconds; metrics, events and logging
  are left out.
\<close>

definition gracePeriod :: int where "gracePeriod = 60"
definition recoveryTimeout :: int where "recoveryTimeout = 15 * 60"
definition nodeClassNotReadyRequeue :: int where "nodeClassNotReadyRequeue = 30"

record recovery_env =
  rve_cloud :: cloud_env
  rve_launched :: "node_claim \<Rightarrow> int option"
  rve_get_npn :: "string \<Rightarrow> (err, unit) go"
  rve_delete :: "node_claim \<Rightarrow> (err, unit) go"

datatype recovery_call = DeleteClaim node_claim | CreateNpn npn_object

type_synonym recovery = "(err, requeue) go \<times> cloud_provider \<times> recovery_call list"

definition needs_npn :: "recovery_env \<Rightarrow> node_claim \<Rightarrow> bool" where
  "needs_npn env claim \<longleftrightarrow>
     nc_deleted claim = None \<and> nc_provider_id claim \<noteq> [] \<and> rve_launched env claim \<noteq> None
     \<and> \<not> ce_initialized (rve_cloud env) claim"

definition delete_unrecovered :: "recovery_env \<Rightarrow> node_claim \<Rightarrow> cloud_provider \<Rightarrow> recovery" where
  "delete_unrecovered env claim p =
     (map_ok (\<lambda>u. None) (ignoring kube_is_not_found (rve_delete env claim)), p, [DeleteClaim claim])"

text \<open>The object that the instance of the claim should have, from the instance and network providers.\<close>

definition build_npn :: "recovery_env \<Rightarrow> node_claim \<Rightarrow> node_class \<Rightarrow> cloud_provider \<Rightarrow> (err, npn_object) go \<times> cloud_provider" where
  "build_npn env claim cls p =
     (let ce = rve_cloud env; k = nc_provider_id claim
      in st_bind (case cp_with_caches (get_instance_cached (ce_now ce) (co_get (le_api (ce_launch ce)) k) k) p of
                    (r, p1) \<Rightarrow> (wrap_as ''getting instance, '' r, p1)) (\<lambda>info p.
         st_bind (case cp_resolve_network ce (ncs_network (ncl_spec cls)) p of
                    (r, p1) \<Rightarrow> (wrap_as ''resolving network config, '' r, p1)) (\<lambda>net p.
           (wrap_as ''constructing NPN, ''
              (create_npn_custom_object (cp_npn p) (Some (ii_instance info)) (Some (ncl_spec cls)) (Some net)), p))))"

definition create_npn :: "recovery_env \<Rightarrow> node_claim \<Rightarrow> node_class \<Rightarrow> cloud_provider
    \<Rightarrow> (err, unit) go \<times> cloud_provider \<times> recovery_call list" where
  "create_npn env claim cls p =
     (case build_npn env claim cls p of
        (Ok ob, p1) \<Rightarrow>
          (let r = ce_create_npn (rve_cloud env) ob
           in (ignoring kube_already_exists r, (if r = Ok () then p1\<lparr>cp_npns := ob # cp_npns p1\<rparr> else p1), [CreateNpn ob]))
      | (Fail e, p1) \<Rightarrow> (Fail e, p1, [])
      | (Panic, p1) \<Rightarrow> (Panic, p1, [])
      | (Hang, p1) \<Rightarrow> (Hang, p1, []))"

text \<open>What is done about an object that has been missing for a time \<open>d\<close>.\<close>

definition recover_missing :: "recovery_env \<Rightarrow> node_claim \<Rightarrow> int \<Rightarrow> cloud_provider \<Rightarrow> recovery" where
  "recover_missing env claim d p =
     (if d < gracePeriod then (Ok (Some (gracePeriod - d)), p, [])
      else if recoveryTimeout \<le> d then delete_unrecovered env claim p
      else
        (case go_bind (deref (nc_class claim)) (\<lambda>name. wrap_as ''getting nodeclass, '' (ce_class (rve_cloud env) name)) of
           Fail e \<Rightarrow> (Fail e, p, [])
         | Panic \<Rightarrow> (Panic, p, [])
         | Hang \<Rightarrow> (Hang, p, [])
         | Ok cls \<Rightarrow>
             if ce_ready (rve_cloud env) cls \<noteq> ReadyTrue \<or> \<not> ce_observed (rve_cloud env) cls
             then (Ok (Some nodeClassNotReadyRequeue), p, [])
             else if are_static_fields_drifted claim cls \<noteq> [] then delete_unrecovered env claim p
             else
               (case create_npn env claim cls p of
                  (r, p1, cs) \<Rightarrow> (map_ok (\<lambda>u. None) (wrap_as (''recreating NPN '' @ name_for_instance (nc_provider_id claim) @ '', '') r), p1, cs))))"

definition recover_npn :: "recovery_env \<Rightarrow> node_claim \<Rightarrow> cloud_provider \<Rightarrow> recovery" where
  "recover_npn env claim p =
     (if \<not> needs_npn env claim then (Ok None, p, [])
      else
        (case rve_get_npn env (name_for_instance (nc_provider_id claim)) of
           Ok u \<Rightarrow> (Ok None, p, [])
         | Fail e \<Rightarrow>
             (if \<not> kube_is_not_found e then (Fail (WrapW (''getting NPN '' @ name_for_instance (nc_provider_id claim) @ '', '') e), p, [])
              else
                (case rve_launched env claim of
                   None \<Rightarrow> (Ok None, p, [])
                 | Some t \<Rightarrow> recover_missing env claim (ce_now (rve_cloud env) - t) p))
         | Panic \<Rightarrow> (Panic, p, [])
         | Hang \<Rightarrow> (Hang, p, [])))"

subsection \<open>No machine is left without its pod network\<close>

lemma npn_object_of:
  "create_npn_custom_object p (Some i) so neto = Ok ob \<Longrightarrow>
     ins_id i = Some (nps_id (npn_spec ob)) \<and> npn_name ob = name_for_instance (nps_id (npn_spec ob))"
  by (auto simp: create_npn_custom_object_def create_npn_object_def construct_npn_spec_def Let_def map_ok_eq_Ok_iff
      split: option.splits if_splits)

lemma build_npn_object:
  assumes "build_npn env claim cls p = (Ok ob, p')"
  shows "npn_name ob = name_for_instance (nps_id (npn_spec ob))"
  using assms npn_object_of
  by (auto simp: build_npn_def Let_def st_bind_Ok_iff split: prod.splits)

definition class_of :: "recovery_env \<Rightarrow> node_claim \<Rightarrow> node_class \<Rightarrow> bool" where
  "class_of env claim cls \<longleftrightarrow> (\<exists>name. nc_class claim = Some name \<and> ce_class (rve_cloud env) name = Ok cls)"

text \<open>The ways in which a missing object is dealt with.\<close>

lemma recover_missing_cases:
  assumes "recover_missing env claim d p = (r, p', cs)"
  obtains "d < 60" "r = Ok (Some (60 - d))" "cs = []"
  | "900 \<le> d \<or> (\<exists>cls. class_of env claim cls \<and> are_static_fields_drifted claim cls \<noteq> [])" "60 \<le> d"
      "r = map_ok (\<lambda>u. None) (ignoring kube_is_not_found (rve_delete env claim))" "cs = [DeleteClaim claim]"
  | "60 \<le> d" "d < 900" "cs = []" "r = Ok (Some 30) \<or> (\<forall>q. r \<noteq> Ok q)"
  | ob cls where "60 \<le> d" "d < 900" "cs = [CreateNpn ob]" "npn_name ob = name_for_instance (nps_id (npn_spec ob))"
      "class_of env claim cls" "are_static_fields_drifted claim cls = []" "ce_observed (rve_cloud env) cls"
      "ce_ready (rve_cloud env) cls = ReadyTrue"
      "r = map_ok (\<lambda>u. None) (wrap_as (''recreating NPN '' @ name_for_instance (nc_provider_id claim) @ '', '') (ignoring kube_already_exists (ce_create_npn (rve_cloud env) ob)))"
proof -
  note defs = recover_missing_def gracePeriod_def recoveryTimeout_def nodeClassNotReadyRequeue_def delete_unrecovered_def
  consider (early) "d < 60" | (late) "900 \<le> d" | (mid) "60 \<le> d" "d < 900" by linarith
  then show ?thesis
  proof cases
    case early
    with assms that(1) show ?thesis by (auto simp: defs)
  next
    case late
    with assms that(2) show ?thesis by (auto simp: defs)
  next
    case mid
    obtain cr where cr: "go_bind (deref (nc_class claim)) (\<lambda>name. wrap_as ''getting nodeclass, '' (ce_class (rve_cloud env) name)) = cr"
      by blast
    have named: "class_of env claim cls" if "cr = Ok cls" for cls
      using cr that by (auto simp: class_of_def go_bind_eq_Ok_iff deref_eq_Ok_iff)
    show ?thesis
    proof (cases "\<exists>cls. cr = Ok cls \<and> ce_ready (rve_cloud env) cls = ReadyTrue \<and> ce_observed (rve_cloud env) cls
        \<and> are_static_fields_drifted claim cls = []")
      case True
      then obtain cls where cls: "cr = Ok cls" "ce_ready (rve_cloud env) cls = ReadyTrue" "ce_observed (rve_cloud env) cls"
        "are_static_fields_drifted claim cls = []" by blast
      obtain br p1 where b: "build_npn env claim cls p = (br, p1)" by (rule prod.exhaust)
      show ?thesis
      proof (cases br)
        case (Ok ob)
        with build_npn_object b have "npn_name ob = name_for_instance (nps_id (npn_spec ob))" by blast
        with assms mid cr cls b Ok named [OF cls(1)] that(4) [of ob cls] show ?thesis
          by (auto simp: defs create_npn_def Let_def)
      qed (use assms mid cr cls b that(3) in \<open>auto simp: defs create_npn_def wrap_as_def\<close>)
    next
      case False
      with assms mid cr named that(2,3) show ?thesis by (cases cr) (auto simp: defs split: if_splits)
    qed
  qed
qed

text \<open>
  C12. A launched claim, not initialised yet, whose pod network object is missing is never given up:
  the controller is done with it only once the object has been created, under the name that is
  derived from its instance, or the claim has been deleted (or was gone).  It waits at most a minute
  before it looks again, and never past the fifteenth minute after the launch: from then on every
  look deletes the claim.  The object is created only from a node class that is ready and whose
  static fields have not changed since the launch, and the claim deleted before the fifteenth minute
  only if they have.
\<close>

theorem missing_npn_not_given_up:
  assumes "recover_npn env claim p = (r, p', cs)" "needs_npn env claim" "rve_launched env claim = Some t"
    "rve_get_npn env (name_for_instance (nc_provider_id claim)) = Fail e" "kube_is_not_found e"
    "t \<le> ce_now (rve_cloud env)"
  shows "(case r of
      Ok None \<Rightarrow>
        cs = [DeleteClaim claim] \<and> (rve_delete env claim = Ok () \<or> (\<exists>e. rve_delete env claim = Fail e \<and> kube_is_not_found e))
      \<or> (\<exists>ob. cs = [CreateNpn ob] \<and> npn_name ob = name_for_instance (nps_id (npn_spec ob))
           \<and> (ce_create_npn (rve_cloud env) ob = Ok () \<or> (\<exists>e. ce_create_npn (rve_cloud env) ob = Fail e \<and> kube_already_exists e)))
    | Ok (Some d) \<Rightarrow> cs = [] \<and> 0 < d \<and> d \<le> 60 \<and> ce_now (rve_cloud env) - t < 900
    | _ \<Rightarrow> True)
    \<and> (900 \<le> ce_now (rve_cloud env) - t \<longrightarrow> cs = [DeleteClaim claim])
    \<and> (\<forall>ob. CreateNpn ob \<in> set cs \<longrightarrow>
         (\<exists>cls. class_of env claim cls \<and> ce_ready (rve_cloud env) cls = ReadyTrue \<and> ce_observed (rve_cloud env) cls \<and> are_static_fields_drifted claim cls = []))
    \<and> (DeleteClaim claim \<in> set cs \<longrightarrow> 900 \<le> ce_now (rve_cloud env) - t
         \<or> (\<exists>cls. class_of env claim cls \<and> are_static_fields_drifted claim cls \<noteq> []))"
proof -
  let ?d = "ce_now (rve_cloud env) - t"
  have "recover_missing env claim ?d p = (r, p', cs)"
    using assms by (simp add: recover_npn_def)
  then show ?thesis
  proof (cases rule: recover_missing_cases)
    case 1
    with assms(6) show ?thesis by simp
  next
    case 2
    then show ?thesis by (auto simp: map_ok_eq_Ok_iff split: go.splits option.splits)
  next
    case 3
    then show ?thesis by (auto split: go.splits option.splits)
  next
    case (4 ob cls)
    then show ?thesis by (auto simp: map_ok_eq_Ok_iff split: go.splits option.splits)
  qed
qed

text \<open>Twenty minutes after the launch, with the object still missing.\<close>

definition missing_env :: recovery_env where
  "missing_env =
     \<lparr>rve_cloud = example_cloud_env\<lparr>ce_now := 1200, ce_initialized := (\<lambda>c. False)\<rparr>, rve_launched = (\<lambda>c. Some 0),
      rve_get_npn = (\<lambda>n. Fail (KubeErr KubeNotFound n)), rve_delete = (\<lambda>c. Ok ())\<rparr>"

theorem missing_npn_not_given_up_witness:
  "\<exists>p'. recover_npn missing_env (plain_claim\<lparr>nc_provider_id := ''i1''\<rparr>) example_cloud =
     (Ok None, p', [DeleteClaim (plain_claim\<lparr>nc_provider_id := ''i1''\<rparr>)])"
proof -
  let ?c = "plain_claim\<lparr>nc_provider_id := ''i1''\<rparr>"
  obtain r p' cs where r: "recover_npn missing_env ?c example_cloud = (r, p', cs)" by (rule prod_cases3)
  have n: "needs_npn missing_env ?c" by (simp add: needs_npn_def missing_env_def plain_claim_def)
  have "cs = [DeleteClaim ?c]"
    using missing_npn_not_given_up [OF r n, of 0] by (simp add: missing_env_def)
  moreover have "r = Ok None"
    using r n by (simp add: recover_npn_def recover_missing_def delete_unrecovered_def missing_env_def recoveryTimeout_def
        gracePeriod_def ignoring_def)
  ultimately show ?thesis using r by simp
qed

end
