(* ===== verification/Orphan_Instances.thy ===== *)
theory Orphan_Instances
  imports Cloud_Provider
begin

section \<open>Reclaiming orphaned instances\<close>

text \<open>
  \<open>pkg/controllers/orphaninstance\<close>: the controller that deletes the machines that belong to this
  cluster and to no claim of it, after it has drained their nodes.

  Arguments are the claims and the nodes of the Kubernetes API, the pods of a node, what Karpenter
  decides of a pod (whether it is terminal, of a daemon set) and the API's answers.  The instances
  are handled by five workers; here they are handled one after the other, in the order in which they
  are listed.  \<open>oe_at\<close> is the environment of the cloud provider while it deletes the machine of one
  claim.  The result carries what was asked of the API and of the cloud provider, in order.
\<close>

definition slowRequeueAfter :: int where "slowRequeueAfter = 60 * 60"
definition fastRequeueAfter :: int where "fastRequeueAfter = 5 * 60"
definition creationTimeThreshold :: int where "creationTimeThreshold = 3600"

record orphan_node =
  on_name :: string
  on_unschedulable :: bool

record pod =
  pod_name :: string
  pod_namespace :: string
  pod_terminal :: bool
  pod_daemonset :: bool
  pod_annotations :: "(string \<times> string) list"
  pod_deleting :: bool

record orphan_env =
  oe_claims :: "(err, node_claim list) go"
  oe_list :: cloud_env
  oe_at :: "node_claim \<Rightarrow> cloud_env"
  oe_node :: "node_claim \<Rightarrow> (err, orphan_node option) go"
  oe_pods :: "string \<Rightarrow> (err, pod list) go"
  oe_cordon :: "orphan_node \<Rightarrow> (err, unit) go"
  oe_evict :: "pod \<Rightarrow> (err, unit) go"
  oe_now :: int

datatype orphan_call = Cordon orphan_node | Evict pod | DeleteMachine node_claim

definition is_mirror_pod :: "pod \<Rightarrow> bool" where
  "is_mirror_pod q \<longleftrightarrow> map_of (pod_annotations q) ''kubernetes.io/config.mirror'' \<noteq> None"

definition drainable_pods :: "pod list \<Rightarrow> pod list" where
  "drainable_pods ps = filter (\<lambda>q. \<not> pod_terminal q \<and> \<not> pod_daemonset q \<and> \<not> is_mirror_pod q) ps"

definition cordon_node :: "orphan_env \<Rightarrow> orphan_node \<Rightarrow> (err, unit) go \<times> orphan_call list" where
  "cordon_node env n =
     (if on_unschedulable n then (Ok (), [])
      else (let n' = n\<lparr>on_unschedulable := True\<rparr> in (oe_cordon env n', [Cordon n'])))"

text \<open>The evictions stop at the first that is refused; \<open>k\<close> pods are pending so far.\<close>

fun evict_pods :: "orphan_env \<Rightarrow> pod list \<Rightarrow> nat \<Rightarrow> (err, nat) go \<times> orphan_call list" where
  "evict_pods env [] k = (Ok k, [])"
| "evict_pods env (q # qs) k =
     (if pod_deleting q then evict_pods env qs (k + 1)
      else
        (case oe_evict env q of
           Ok u \<Rightarrow> (case evict_pods env qs (k + 1) of (r, cs) \<Rightarrow> (r, Evict q # cs))
         | Fail e \<Rightarrow> (Fail e, [Evict q])
         | Panic \<Rightarrow> (Panic, [Evict q])
         | Hang \<Rightarrow> (Hang, [Evict q])))"

definition drain_node :: "orphan_env \<Rightarrow> orphan_node \<Rightarrow> (err, bool) go \<times> orphan_call list" where
  "drain_node env n =
     (case oe_pods env (on_name n) of
        Ok ps \<Rightarrow> (case evict_pods env (drainable_pods ps) 0 of (r, cs) \<Rightarrow> (map_ok (\<lambda>k. \<not> 0 < k) r, cs))
      | Fail e \<Rightarrow> (Fail (WrapW ''listing pods on node, '' e), [])
      | Panic \<Rightarrow> (Panic, [])
      | Hang \<Rightarrow> (Hang, []))"

definition cordon_and_drain :: "orphan_env \<Rightarrow> orphan_node option \<Rightarrow> (err, bool) go \<times> orphan_call list" where
  "cordon_and_drain env no =
     (case no of
        None \<Rightarrow> (Ok True, [])
      | Some n \<Rightarrow>
          (case cordon_node env n of
             (Ok u, cs) \<Rightarrow> (case drain_node env n of (r, ds) \<Rightarrow> (r, cs @ ds))
           | (Fail e, cs) \<Rightarrow> (Fail e, cs)
           | (Panic, cs) \<Rightarrow> (Panic, cs)
           | (Hang, cs) \<Rightarrow> (Hang, cs)))"

text \<open>
  \<open>reclaim\<close>: whether it is finished, and an error.  That the machine's deletion failed still counts as
  finished, but its error is kept.
\<close>

definition reclaim :: "orphan_env \<Rightarrow> node_claim \<Rightarrow> cloud_provider
    \<Rightarrow> (cloud_err, bool \<times> cloud_err option) go \<times> cloud_provider \<times> orphan_call list" where
  "reclaim env i p =
     (case oe_node env i of
        Fail e \<Rightarrow> (Ok (False, Some (Plain e)), p, [])
      | Panic \<Rightarrow> (Panic, p, [])
      | Hang \<Rightarrow> (Hang, p, [])
      | Ok no \<Rightarrow>
          (case cordon_and_drain env no of
             (Fail e, cs) \<Rightarrow> (Ok (False, Some (Plain e)), p, cs)
           | (Panic, cs) \<Rightarrow> (Panic, p, cs)
           | (Hang, cs) \<Rightarrow> (Hang, p, cs)
           | (Ok drained, cs) \<Rightarrow>
               if \<not> drained then (Ok (False, None), p, cs)
               else
                 (case cp_delete (oe_at env i) i p of
                    (Ok u, p1) \<Rightarrow> (Ok (True, None), p1, cs @ [DeleteMachine i])
                  | (Fail e, p1) \<Rightarrow> (Ok (True, Some e), p1, cs @ [DeleteMachine i])
                  | (Panic, p1) \<Rightarrow> (Panic, p1, cs @ [DeleteMachine i])
                  | (Hang, p1) \<Rightarrow> (Hang, p1, cs @ [DeleteMachine i]))))"

text \<open>Of claims with the same name or OCID the last counts.\<close>

definition claim_by :: "(node_claim \<Rightarrow> string) \<Rightarrow> node_claim list \<Rightarrow> string \<Rightarrow> node_claim option" where
  "claim_by key claims = map_of (rev (map (\<lambda>c. (key c, c)) claims))"

definition is_orphan :: "int \<Rightarrow> node_claim list \<Rightarrow> node_claim \<Rightarrow> bool" where
  "is_orphan now claims i \<longleftrightarrow>
     claim_by nc_provider_id (filter (\<lambda>c. nc_provider_id c \<noteq> []) claims) (nc_provider_id i) = None
   \<and> (case claim_by nc_name claims (nc_name i) of
        None \<Rightarrow> True
      | Some same \<Rightarrow> nc_provider_id same \<noteq> [] \<or> creationTimeThreshold < now - nc_created i)"

fun reclaim_all :: "orphan_env \<Rightarrow> node_claim list \<Rightarrow> node_claim list \<Rightarrow> cloud_provider
    \<Rightarrow> (cloud_err, bool list \<times> cloud_err list) go \<times> cloud_provider \<times> orphan_call list" where
  "reclaim_all env claims [] p = (Ok ([], []), p, [])"
| "reclaim_all env claims (i # is) p =
     (if \<not> is_orphan (oe_now env) claims i
      then (case reclaim_all env claims is p of (r, p1, cs) \<Rightarrow> (map_ok (\<lambda>(fs, es). (False # fs, es)) r, p1, cs))
      else
        (case reclaim env i p of
           (Ok (finished, eo), p1, cs) \<Rightarrow>
             (case reclaim_all env claims is p1 of
                (r, p2, ds) \<Rightarrow> (map_ok (\<lambda>(fs, es). ((\<not> finished) # fs, (case eo of None \<Rightarrow> es | Some e \<Rightarrow> e # es))) r, p2, cs @ ds))
         | (Fail e, p1, cs) \<Rightarrow> (Fail e, p1, cs)
         | (Panic, p1, cs) \<Rightarrow> (Panic, p1, cs)
         | (Hang, p1, cs) \<Rightarrow> (Hang, p1, cs)))"

definition combine_errors :: "cloud_err list \<Rightarrow> cloud_err" where
  "combine_errors es = Plain (ErrText (join_with ''; '' (map cloud_text es)))"

definition reconcile_orphans :: "orphan_env \<Rightarrow> cloud_provider \<Rightarrow> (cloud_err, requeue) go \<times> cloud_provider \<times> orphan_call list" where
  "reconcile_orphans env p =
     (case plain (oe_claims env) of
        Fail e \<Rightarrow> (Fail e, p, [])
      | Panic \<Rightarrow> (Panic, p, [])
      | Hang \<Rightarrow> (Hang, p, [])
      | Ok claims \<Rightarrow>
          (case cp_list (oe_list env) p of
             (Fail e, p1) \<Rightarrow> (Fail e, p1, [])
           | (Panic, p1) \<Rightarrow> (Panic, p1, [])
           | (Hang, p1) \<Rightarrow> (Hang, p1, [])
           | (Ok listed, p1) \<Rightarrow>
               (case reclaim_all env claims (filter (\<lambda>c. nc_provider_id c \<noteq> []) listed) p1 of
                  (r, p2, cs) \<Rightarrow>
                    (go_bind r (\<lambda>(fast, es).
                       if es \<noteq> [] then Fail (combine_errors es)
                       else Ok (Some (if True \<in> set fast then fastRequeueAfter else slowRequeueAfter))), p2, cs))))"

end
