(* ===== verification/Orphan_Laws.thy ===== *)
theory Orphan_Laws
  imports Orphan_Instances Cloud_Service_Laws
begin

section \<open>Which machines are reclaimed\<close>

text \<open>
  Which machines the orphan controller deletes and after what, and when it is content to look again
  only in an hour.
\<close>

lemma claim_by_None: "claim_by key cs k = None \<longleftrightarrow> (\<forall>c \<in> set cs. key c \<noteq> k)"
  by (force simp: claim_by_def map_of_eq_None_iff)

text \<open>Nothing but calls for the machine itself, and the deletion only after a successful drain.\<close>

definition drained :: "orphan_env \<Rightarrow> node_claim \<Rightarrow> bool" where
  "drained env i \<longleftrightarrow>
     (case oe_node env i of
        Ok None \<Rightarrow> True
      | Ok (Some n) \<Rightarrow>
          (on_unschedulable n \<or> oe_cordon env (n\<lparr>on_unschedulable := True\<rparr>) = Ok ())
        \<and> (\<exists>ps. oe_pods env (on_name n) = Ok ps \<and> drainable_pods ps = [])
      | _ \<Rightarrow> False)"

lemma evict_pods_pending: "evict_pods env qs k = (Ok m, cs) \<Longrightarrow> m = k + length qs"
  by (induction qs arbitrary: k cs) (fastforce split: if_splits go.splits prod.splits)+

lemma evict_pods_calls: "evict_pods env qs k = (r, cs) \<Longrightarrow> DeleteMachine i \<notin> set cs"
  by (induction qs arbitrary: k r cs) (auto split: if_splits go.splits prod.splits)

lemma cordon_and_drain_True:
  assumes "oe_node env i = Ok no" "cordon_and_drain env no = (Ok True, cs)"
  shows "drained env i"
  using assms evict_pods_pending
  by (auto simp: drained_def cordon_and_drain_def cordon_node_def drain_node_def Let_def map_ok_eq_Ok_iff
      split: option.splits if_splits go.splits prod.splits) force+

lemma cordon_and_drain_calls: "cordon_and_drain env no = (r, cs) \<Longrightarrow> DeleteMachine i \<notin> set cs"
  by (auto simp: cordon_and_drain_def cordon_node_def drain_node_def Let_def dest: evict_pods_calls
      split: option.splits if_splits go.splits prod.splits)

lemma reclaim_deletes:
  assumes "reclaim env i p = (r, p', cs)" "DeleteMachine j \<in> set cs"
  shows "j = i \<and> drained env i"
  using assms cordon_and_drain_calls cordon_and_drain_True
  by (auto simp: reclaim_def split: go.splits prod.splits if_splits)

lemma reclaim_all_deletes:
  "reclaim_all env claims is p = (r, p', cs) \<Longrightarrow> DeleteMachine i \<in> set cs \<Longrightarrow>
     i \<in> set is \<and> is_orphan (oe_now env) claims i \<and> drained env i"
proof (induction "is" arbitrary: p r p' cs)
  case (Cons j js)
  show ?case
  proof (cases "is_orphan (oe_now env) claims j")
    case False
    with Cons show ?thesis by (auto split: prod.splits)
  next
    case True
    obtain r1 p1 cs1 where 1: "reclaim env j p = (r1, p1, cs1)" by (rule prod_cases3)
    show ?thesis
    proof (cases "DeleteMachine i \<in> set cs1")
      case yes: True
      with reclaim_deletes [OF 1] True show ?thesis by auto
    next
      case no: False
      from Cons.prems(1) True 1 no Cons.prems(2) obtain r2 p2 cs2 where "reclaim_all env claims js p1 = (r2, p2, cs2)"
        "DeleteMachine i \<in> set cs2" by (auto split: go.splits prod.splits)
      from Cons.IH [OF this] show ?thesis by simp
    qed
  qed
qed simp

text \<open>
  A round without an error: what was asked of Kubernetes was accepted, and machines were deleted
  one after the other, each deletion a success.
\<close>

fun accepted :: "orphan_env \<Rightarrow> orphan_call \<Rightarrow> bool" where
  "accepted env (Cordon n) \<longleftrightarrow> oe_cordon env n = Ok ()"
| "accepted env (Evict q) \<longleftrightarrow> oe_evict env q = Ok ()"
| "accepted env (DeleteMachine i) \<longleftrightarrow> True"

fun deletions :: "orphan_call list \<Rightarrow> node_claim list" where
  "deletions [] = []"
| "deletions (DeleteMachine i # cs) = i # deletions cs"
| "deletions (c # cs) = deletions cs"

fun machines_deleted :: "orphan_env \<Rightarrow> node_claim list \<Rightarrow> cloud_provider \<Rightarrow> cloud_provider \<Rightarrow> bool" where
  "machines_deleted env [] p p' \<longleftrightarrow> p' = p"
| "machines_deleted env (i # is) p p' \<longleftrightarrow>
     (\<exists>p1. cp_delete (oe_at env i) i p = (Ok (), p1) \<and> machines_deleted env is p1 p')"

lemma deletions_append [simp]: "deletions (cs @ ds) = deletions cs @ deletions ds"
  by (induction cs rule: deletions.induct) auto

lemma deletions_none: "(\<And>i. DeleteMachine i \<notin> set cs) \<Longrightarrow> deletions cs = []"
  by (induction cs rule: deletions.induct) auto

lemma deletions_set: "i \<in> set (deletions cs) \<longleftrightarrow> DeleteMachine i \<in> set cs"
  by (induction cs rule: deletions.induct) auto

lemma evict_pods_Ok: "evict_pods env qs k = (Ok m, cs) \<Longrightarrow> m = k + length qs \<and> (\<forall>c \<in> set cs. accepted env c)"
  by (induction qs arbitrary: k cs) (fastforce split: if_splits go.splits prod.splits)+

lemma cordon_and_drain_Ok:
  assumes "oe_node env i = Ok no" "cordon_and_drain env no = (Ok b, cs)"
  shows "b = drained env i" "\<forall>c \<in> set cs. accepted env c" "deletions cs = []"
proof -
  show "deletions cs = []" by (rule deletions_none) (rule cordon_and_drain_calls [OF assms(2)])
  show "b = drained env i" "\<forall>c \<in> set cs. accepted env c"
    using assms
    by (auto simp: drained_def cordon_and_drain_def cordon_node_def drain_node_def Let_def map_ok_eq_Ok_iff
        split: option.splits if_splits go.splits prod.splits dest!: evict_pods_Ok)
qed

lemma reclaim_Ok:
  assumes "reclaim env i p = (Ok (b, None), p1, cs)"
  shows "b = drained env i" "\<forall>c \<in> set cs. accepted env c"
    "if b then cp_delete (oe_at env i) i p = (Ok (), p1) \<and> deletions cs = [i] else p1 = p \<and> deletions cs = []"
proof -
  from assms obtain no b0 ds where n: "oe_node env i = Ok no" "cordon_and_drain env no = (Ok b0, ds)"
    by (auto simp: reclaim_def split: go.splits prod.splits)
  note d = cordon_and_drain_Ok [OF n]
  show "b = drained env i" "\<forall>c \<in> set cs. accepted env c"
    "if b then cp_delete (oe_at env i) i p = (Ok (), p1) \<and> deletions cs = [i] else p1 = p \<and> deletions cs = []"
    using assms d by (auto simp: reclaim_def n split: go.splits prod.splits if_splits)
qed

definition orphans_of :: "int \<Rightarrow> node_claim list \<Rightarrow> node_claim list \<Rightarrow> node_claim list" where
  "orphans_of now claims is = filter (is_orphan now claims) is"

lemma reclaim_all_Ok:
  "reclaim_all env claims is p = (Ok (fs, []), p', cs) \<Longrightarrow>
     (True \<in> set fs \<longleftrightarrow> (\<exists>i \<in> set (orphans_of (oe_now env) claims is). \<not> drained env i))
     \<and> (\<forall>c \<in> set cs. accepted env c)
     \<and> deletions cs = filter (drained env) (orphans_of (oe_now env) claims is)
     \<and> machines_deleted env (deletions cs) p p'"
proof (induction "is" arbitrary: p fs p' cs)
  case (Cons j js)
  show ?case
  proof (cases "is_orphan (oe_now env) claims j")
    case False
    with Cons.prems obtain fs' where "reclaim_all env claims js p = (Ok (fs', []), p', cs)" "fs = False # fs'"
      by (auto simp: map_ok_eq_Ok_iff split: prod.splits)
    from Cons.IH [OF this(1)] this(2) False show ?thesis by (auto simp: orphans_of_def)
  next
    case True
    with Cons.prems obtain b p1 cs1 fs2 cs2 where
      1: "reclaim env j p = (Ok (b, None), p1, cs1)" "reclaim_all env claims js p1 = (Ok (fs2, []), p', cs2)"
      "fs = (\<not> b) # fs2" "cs = cs1 @ cs2"
      by (auto simp: map_ok_eq_Ok_iff split: prod.splits go.splits option.splits)
    note r = reclaim_Ok [OF 1(1)] and i = Cons.IH [OF 1(2)]
    show ?thesis
    proof (cases b)
      case b: True
      with r i 1(3,4) True show ?thesis by (auto simp: orphans_of_def)
    next
      case b: False
      with r i 1(3,4) True show ?thesis by (auto simp: orphans_of_def)
    qed
  qed
qed (simp add: orphans_of_def)

text \<open>
  C13. The controller deletes a machine only if the cloud provider lists it as one of this cluster's,
  no claim has its OCID, and no claim of its name may still be waiting for it (there is none, or it
  has got another machine, or the machine was made more than an hour ago); and only after its node,
  if there is one, was cordoned and has no pod left to evict.
\<close>

theorem only_orphans_deleted:
  assumes "reconcile_orphans env p = (r, p', cs)" "DeleteMachine i \<in> set cs"
  shows "\<exists>claims listed p1. oe_claims env = Ok claims \<and> cp_list (oe_list env) p = (Ok listed, p1)
    \<and> i \<in> set listed \<and> nc_provider_id i \<noteq> [] \<and> (\<forall>c \<in> set claims. nc_provider_id c \<noteq> nc_provider_id i)
    \<and> (\<forall>c. claim_by nc_name claims (nc_name i) = Some c \<longrightarrow> nc_provider_id c \<noteq> [] \<or> 3600 < oe_now env - nc_created i)
    \<and> drained env i"
proof -
  from assms obtain claims listed p1 r2 p2 where c: "oe_claims env = Ok claims" "cp_list (oe_list env) p = (Ok listed, p1)"
    "reclaim_all env claims (filter (\<lambda>c. nc_provider_id c \<noteq> []) listed) p1 = (r2, p2, cs)"
    by (auto simp: reconcile_orphans_def split: go.splits prod.splits)
  from reclaim_all_deletes [OF c(3) assms(2)] have i: "i \<in> set listed" "nc_provider_id i \<noteq> []"
    "is_orphan (oe_now env) claims i" "drained env i" by auto
  from i(2,3) have "\<forall>c \<in> set claims. nc_provider_id c \<noteq> nc_provider_id i"
    by (auto simp: is_orphan_def claim_by_None)
  with c i show ?thesis by (auto simp: is_orphan_def creationTimeThreshold_def)
qed

text \<open>
  C14. If the controller reports no error, nothing it asked for has failed: every eviction and every
  cordon was accepted, and the machines of exactly those orphans whose node is drained were deleted,
  in the order they are listed, each deletion with success.  It is content to look again in an hour
  only if these were all the orphans; with any left, it looks again in five minutes.
\<close>

theorem slow_only_without_orphans:
  assumes "reconcile_orphans env p = (Ok q, p', cs)"
  shows "\<exists>claims listed p1. oe_claims env = Ok claims \<and> cp_list (oe_list env) p = (Ok listed, p1)
    \<and> (let orphans = filter (\<lambda>i. nc_provider_id i \<noteq> [] \<and> is_orphan (oe_now env) claims i) listed
       in q = Some (if \<forall>i \<in> set orphans. drained env i then 3600 else 300)
        \<and> deletions cs = filter (drained env) orphans
        \<and> machines_deleted env (deletions cs) p1 p'
        \<and> (\<forall>c \<in> set cs. accepted env c))"
proof -
  from assms obtain claims listed p1 fs where c: "oe_claims env = Ok claims" "cp_list (oe_list env) p = (Ok listed, p1)"
    "reclaim_all env claims (filter (\<lambda>c. nc_provider_id c \<noteq> []) listed) p1 = (Ok (fs, []), p', cs)"
    "q = Some (if True \<in> set fs then 300 else 3600)"
    by (auto simp: reconcile_orphans_def fastRequeueAfter_def slowRequeueAfter_def go_bind_eq_Ok_iff split: go.splits prod.splits if_splits)
  have "orphans_of (oe_now env) claims (filter (\<lambda>c. nc_provider_id c \<noteq> []) listed) =
      filter (\<lambda>i. nc_provider_id i \<noteq> [] \<and> is_orphan (oe_now env) claims i) listed"
    by (simp add: orphans_of_def conj_commute)
  note all = reclaim_all_Ok [OF c(3), unfolded this]
  from all c(4) have "q = Some (if \<forall>i \<in> set (filter (\<lambda>i. nc_provider_id i \<noteq> [] \<and> is_orphan (oe_now env) claims i) listed).
      drained env i then 3600 else 300)" by (auto split: if_splits)
  with all c(1,2) show ?thesis unfolding Let_def by blast
qed

subsection \<open>The properties at work\<close>

text \<open>A machine that no claim knows, without a node; and one whose node still has a pod.\<close>

definition orphaned_env :: orphan_env where
  "orphaned_env =
     \<lparr>oe_claims = Ok [], oe_list = pooled_env, oe_at = (\<lambda>c. gone_env), oe_node = (\<lambda>c. Ok None), oe_pods = (\<lambda>n. Panic),
      oe_cordon = (\<lambda>n. Ok ()), oe_evict = (\<lambda>q. Ok ()), oe_now = 0\<rparr>"

definition busy_env :: orphan_env where
  "busy_env = orphaned_env
     \<lparr>oe_node := (\<lambda>c. Ok (Some \<lparr>on_name = ''n'', on_unschedulable = False\<rparr>)),
      oe_pods := (\<lambda>n. Ok [\<lparr>pod_name = ''a'', pod_namespace = ''b'', pod_terminal = False, pod_daemonset = False,
        pod_annotations = [], pod_deleting = False\<rparr>])\<rparr>"

theorem only_orphans_deleted_witness:
  "\<exists>r p' cs i. reconcile_orphans orphaned_env example_cloud = (r, p', cs) \<and> DeleteMachine i \<in> set cs
     \<and> nc_provider_id i = ''i1'' \<and> drained orphaned_env i"
proof -
  obtain nc q where l: "cp_list pooled_env example_cloud = (Ok [nc], q)" "nc_provider_id nc = ''i1''"
    using pooled_listed by blast
  obtain r p' cs where r: "reconcile_orphans orphaned_env example_cloud = (r, p', cs)" by (rule prod_cases3)
  then have d: "DeleteMachine nc \<in> set cs"
    using l by (auto simp: reconcile_orphans_def orphaned_env_def is_orphan_def claim_by_def reclaim_def cordon_and_drain_def
        split: go.splits prod.splits)
  from only_orphans_deleted [OF r d] r d l(2) show ?thesis by blast
qed

text \<open>The same orphan when the service deletes its machine.\<close>

definition reclaimed_env :: orphan_env where
  "reclaimed_env = orphaned_env\<lparr>oe_at := (\<lambda>c. example_cloud_env)\<rparr>"

lemma example_deletes: "\<exists>p'. cp_delete example_cloud_env nc p = (Ok (), p')"
  by (simp add: cp_delete_def cp_get_instance_def cp_with_caches_def get_instance_def cache_refresh_def cache_load_def
      get_instance_impl_def delete_instance_def example_cloud_defs sample_env_def plain_instance_def
      evict_instance_if_gone_def is_instance_terminated_def cp_mark_capres_def Let_def)

theorem slow_only_without_orphans_witness:
  "(\<exists>p' cs i p1. reconcile_orphans reclaimed_env example_cloud = (Ok (Some 3600), p', cs) \<and> deletions cs = [i]
      \<and> nc_provider_id i = ''i1'' \<and> cp_delete example_cloud_env i p1 = (Ok (), p'))
   \<and> (\<exists>p' cs. reconcile_orphans busy_env example_cloud = (Ok (Some 300), p', cs) \<and> deletions cs = [])"
proof -
  obtain nc q where l: "cp_list pooled_env example_cloud = (Ok [nc], q)" "nc_provider_id nc = ''i1''"
    using pooled_listed by blast
  have orphan: "is_orphan now [] i" for now i by (simp add: is_orphan_def claim_by_def)
  obtain p0 where "cp_delete example_cloud_env nc q = (Ok (), p0)" using example_deletes by blast
  with l have "\<exists>d p' cs. reconcile_orphans reclaimed_env example_cloud = (Ok d, p', cs)"
    by (simp add: reconcile_orphans_def reclaimed_env_def orphaned_env_def orphan reclaim_def cordon_and_drain_def)
  then obtain d1 p1 cs1 where r1: "reconcile_orphans reclaimed_env example_cloud = (Ok d1, p1, cs1)" by blast
  have "drained reclaimed_env i" for i by (simp add: drained_def reclaimed_env_def orphaned_env_def)
  with slow_only_without_orphans [OF r1] l orphan have "d1 = Some 3600 \<and> deletions cs1 = [nc] \<and> machines_deleted reclaimed_env [nc] q p1"
    by (auto simp: reclaimed_env_def orphaned_env_def)
  with r1 l(2) have slow: "reconcile_orphans reclaimed_env example_cloud = (Ok (Some 3600), p1, cs1)" "deletions cs1 = [nc]"
    "cp_delete example_cloud_env nc q = (Ok (), p1)" by (auto simp: reclaimed_env_def)
  from l have "\<exists>d p' cs. reconcile_orphans busy_env example_cloud = (Ok d, p', cs)"
    by (simp add: reconcile_orphans_def busy_env_def orphaned_env_def orphan reclaim_def
        cordon_and_drain_def cordon_node_def drain_node_def drainable_pods_def is_mirror_pod_def)
  then obtain d2 p2 cs2 where r2: "reconcile_orphans busy_env example_cloud = (Ok d2, p2, cs2)" by blast
  have "\<not> drained busy_env i" for i
    by (simp add: drained_def busy_env_def orphaned_env_def drainable_pods_def is_mirror_pod_def)
  with slow_only_without_orphans [OF r2] l orphan have "d2 = Some 300 \<and> deletions cs2 = []"
    by (auto simp: busy_env_def orphaned_env_def)
  with r2 slow l(2) show ?thesis by blast
qed

end
