(* ===== verification/Options.thy ===== *)
theory Options
  imports Cloud_Provider Capacity_Discovery
begin

section \<open>The options of the program\<close>

text \<open>
  \<open>pkg/operator/options\<close>: the flags, how they are read from the command line and the environment,
  and what is accepted.

  Go's \<open>flag\<close> package splits the command line into flags with values, which is an argument here, and
  the readers of numbers, booleans and JSON are arguments (\<open>flag_readers\<close>), with the name Karpenter gives to
  the action \<open>RebootNode\<close>.  The flags that Karpenter
  adds to the same set are left out.  A float may be one of the values that are no number; integers
  are those of a 64-bit machine.  A flag that is given on neither side keeps its default.
\<close>

datatype go_float = Num rat | PosInf | NegInf | NaN

record options =
  opt_meta_file :: string
  opt_refresh_hours :: int
  opt_cluster_compartment :: string
  opt_vcn_compartment :: string
  opt_vcn_native :: bool
  opt_prebaked :: string
  opt_endpoint :: string
  opt_families :: "ip_family list"
  opt_auth :: string
  opt_profile :: string
  opt_shapes :: "shape_config list"
  opt_repairs :: "repair_policy list"
  opt_vm_mins :: int
  opt_bm_mins :: int
  opt_poll_seconds :: int
  opt_failover :: bool
  opt_unavailable_seconds :: int
  opt_capacity_hours :: int
  opt_limit_fallback :: bool
  opt_no_limiter :: bool
  opt_qps_read :: go_float
  opt_burst_read :: int
  opt_qps_write :: go_float
  opt_burst_write :: int
  opt_overhead_base :: go_float
  opt_overhead_per_gb :: go_float
  opt_overhead_percent :: go_float
  opt_parsed :: bool

subsection \<open>Durations\<close>

text \<open>A number of units as a \<open>time.Duration\<close>: nanoseconds in 64 bits, wrapping.\<close>

definition second_ns :: int where "second_ns = 10 ^ 9"

definition duration_ns :: "int \<Rightarrow> int \<Rightarrow> int" where
  "duration_ns n seconds = sint (word_of_int (n * (seconds * second_ns)) :: 64 word)"

definition maxDiscoveredNodeCapacityTTLHours :: int where
  "maxDiscoveredNodeCapacityTTLHours = max_int64 div (3600 * second_ns)"

subsection \<open>Flags\<close>

record flag_readers =
  fr_int :: "string \<Rightarrow> (err, int) go"
  fr_bool :: "string \<Rightarrow> (err, bool) go"
  fr_float :: "string \<Rightarrow> (err, go_float) go"
  fr_shapes :: "string \<Rightarrow> (err, shape_config list) go"
  fr_repairs :: "string \<Rightarrow> (err, repair_policy list) go"
  fr_reboot_node :: string

type_synonym flag_setter = "string \<Rightarrow> options \<Rightarrow> (err, options) go"

definition string_flag :: "(string \<Rightarrow> options \<Rightarrow> options) \<Rightarrow> flag_setter" where
  "string_flag f v o' = Ok (f v o')"

definition read_flag :: "(string \<Rightarrow> (err, 'a) go) \<Rightarrow> ('a \<Rightarrow> options \<Rightarrow> options) \<Rightarrow> flag_setter" where
  "read_flag reader f v o' = map_ok (\<lambda>a. f a o') (reader v)"

text \<open>The two flags with a JSON array: blank text is the empty list.\<close>

definition json_flag :: "(string \<Rightarrow> (err, 'a list) go) \<Rightarrow> ('a list \<Rightarrow> options \<Rightarrow> options) \<Rightarrow> flag_setter" where
  "json_flag reader f v o' =
     (let s = trim_space v in if s = [] then Ok (f [] o') else map_ok (\<lambda>a. f a o') (reader s))"

definition families_flag :: flag_setter where
  "families_flag v o' = map_ok (\<lambda>fs. o'\<lparr>opt_families := fs\<rparr>) (ip_family_value_set v (opt_families o'))"

definition option_flags :: "flag_readers \<Rightarrow> (string \<times> flag_setter) list" where
  "option_flags R =
     [(''cluster-compartment-id'', string_flag (\<lambda>v p. p\<lparr>opt_cluster_compartment := v\<rparr>)),
      (''vcn-compartment-id'', string_flag (\<lambda>v p. p\<lparr>opt_vcn_compartment := v\<rparr>)),
      (''apiserver-endpoint'', string_flag (\<lambda>v p. p\<lparr>opt_endpoint := v\<rparr>)),
      (''oci-vcn-ip-native'', read_flag (fr_bool R) (\<lambda>v p. p\<lparr>opt_vcn_native := v\<rparr>)),
      (''ip-families'', families_flag),
      (''oci-auth-method'', string_flag (\<lambda>v p. p\<lparr>opt_auth := v\<rparr>)),
      (''oci-profile-name'', string_flag (\<lambda>v p. p\<lparr>opt_profile := v\<rparr>)),
      (''flexible-shape-configs'', json_flag (fr_shapes R) (\<lambda>v p. p\<lparr>opt_shapes := v\<rparr>)),
      (''shape-meta-refresh-interval-hours'', read_flag (fr_int R) (\<lambda>v p. p\<lparr>opt_refresh_hours := v\<rparr>)),
      (''instance-launch-timeout-vm-mins'', read_flag (fr_int R) (\<lambda>v p. p\<lparr>opt_vm_mins := v\<rparr>)),
      (''instance-launch-timeout-bm-mins'', read_flag (fr_int R) (\<lambda>v p. p\<lparr>opt_bm_mins := v\<rparr>)),
      (''instance-operation-poll-interval-seconds'', read_flag (fr_int R) (\<lambda>v p. p\<lparr>opt_poll_seconds := v\<rparr>)),
      (''instance-launch-timeout-failover'', read_flag (fr_bool R) (\<lambda>v p. p\<lparr>opt_failover := v\<rparr>)),
      (''unavailable-offerings-ttl-seconds'', read_flag (fr_int R) (\<lambda>v p. p\<lparr>opt_unavailable_seconds := v\<rparr>)),
      (''discovered-node-capacity-ttl-hours'', read_flag (fr_int R) (\<lambda>v p. p\<lparr>opt_capacity_hours := v\<rparr>)),
      (''enable-unavailable-offerings-on-service-limit-exceeded'',
         read_flag (fr_bool R) (\<lambda>v p. p\<lparr>opt_limit_fallback := v\<rparr>)),
      (''disable-rate-limiter'', read_flag (fr_bool R) (\<lambda>v p. p\<lparr>opt_no_limiter := v\<rparr>)),
      (''rate-limit-qps-read'', read_flag (fr_float R) (\<lambda>v p. p\<lparr>opt_qps_read := v\<rparr>)),
      (''rate-limit-burst-read'', read_flag (fr_int R) (\<lambda>v p. p\<lparr>opt_burst_read := v\<rparr>)),
      (''rate-limit-qps-write'', read_flag (fr_float R) (\<lambda>v p. p\<lparr>opt_qps_write := v\<rparr>)),
      (''rate-limit-burst-write'', read_flag (fr_int R) (\<lambda>v p. p\<lparr>opt_burst_write := v\<rparr>)),
      (''vm-memory-overhead-base-mib'', read_flag (fr_float R) (\<lambda>v p. p\<lparr>opt_overhead_base := v\<rparr>)),
      (''vm-memory-overhead-per-gb-mib'', read_flag (fr_float R) (\<lambda>v p. p\<lparr>opt_overhead_per_gb := v\<rparr>)),
      (''vm-memory-overhead-percent'', read_flag (fr_float R) (\<lambda>v p. p\<lparr>opt_overhead_percent := v\<rparr>)),
      (''repair-policies'', json_flag (fr_repairs R) (\<lambda>v p. p\<lparr>opt_repairs := v\<rparr>)),
      (''pre-baked-image-compartment-id'', string_flag (\<lambda>v p. p\<lparr>opt_prebaked := v\<rparr>)),
      (''shape-meta-file'', string_flag (\<lambda>v p. p\<lparr>opt_meta_file := v\<rparr>))]"

text \<open>\<open>AddFlags\<close> on a fresh \<open>Options\<close> value leaves it with the defaults.\<close>

definition default_options :: options where
  "default_options =
     \<lparr>opt_meta_file = [], opt_refresh_hours = 24, opt_cluster_compartment = [], opt_vcn_compartment = [],
      opt_vcn_native = False, opt_prebaked = [], opt_endpoint = [], opt_families = [], opt_auth = ''WORKLOAD'',
      opt_profile = ''DEFAULT'', opt_shapes = [], opt_repairs = [], opt_vm_mins = 5, opt_bm_mins = 60,
      opt_poll_seconds = 5, opt_failover = False, opt_unavailable_seconds = default_unavailable_ttl,
      opt_capacity_hours = DefaultNodeCapacityTTL div 3600, opt_limit_fallback = False, opt_no_limiter = True,
      opt_qps_read = Num 0, opt_burst_read = 0, opt_qps_write = Num 0, opt_burst_write = 0,
      opt_overhead_base = Num 600, opt_overhead_per_gb = Num 19,
      opt_overhead_percent = Num 0, opt_parsed = False\<rparr>"

text \<open>Setting the flags of the command line, in order; then those of the environment that are not on it.\<close>

fun set_args :: "(string \<times> flag_setter) list \<Rightarrow> (string \<times> string) list \<Rightarrow> options \<Rightarrow> (err, options) go" where
  "set_args fs [] p = Ok p"
| "set_args fs ((n, v) # args) p =
     (case map_of fs n of
        None \<Rightarrow> Fail (ErrText (''flag provided but not defined: -'' @ n))
      | Some f \<Rightarrow> go_bind (wrap_as (''invalid value for flag -'' @ n @ '': '') (f v p)) (set_args fs args))"

definition env_char :: "char \<Rightarrow> char" where
  "env_char c = (if c = CHR ''-'' then CHR ''_''
                 else if 97 \<le> (of_char c :: nat) \<and> (of_char c :: nat) \<le> 122 then char_of ((of_char c :: nat) - 32) else c)"

definition env_name :: "string \<Rightarrow> string" where "env_name n = map env_char n"

fun set_env :: "(string \<times> flag_setter) list \<Rightarrow> string set \<Rightarrow> (string \<Rightarrow> string option) \<Rightarrow> options \<Rightarrow> (err, options) go" where
  "set_env [] cli env p = Ok p"
| "set_env ((n, f) # fs) cli env p =
     (if n \<in> cli then set_env fs cli env p
      else
        (case env (env_name n) of
           None \<Rightarrow> set_env fs cli env p
         | Some v \<Rightarrow>
             (case f v p of
                Ok q \<Rightarrow> set_env fs cli env q
              | Fail e \<Rightarrow> Panic
              | Panic \<Rightarrow> Panic
              | Hang \<Rightarrow> Hang)))"

subsection \<open>What is accepted\<close>

definition is_finite_in_range :: "go_float \<Rightarrow> rat \<Rightarrow> rat \<Rightarrow> bool" where
  "is_finite_in_range v lo hi = (case v of Num r \<Rightarrow> lo \<le> r \<and> r \<le> hi | _ \<Rightarrow> False)"

definition float_negative :: "go_float \<Rightarrow> bool" where
  "float_negative v = (case v of Num r \<Rightarrow> r < 0 | NegInf \<Rightarrow> True | _ \<Rightarrow> False)"

text \<open>The first entry that is refused, with its index.\<close>

fun first_bad :: "('a \<Rightarrow> bool) \<Rightarrow> nat \<Rightarrow> 'a list \<Rightarrow> nat option" where
  "first_bad bad i [] = None"
| "first_bad bad i (x # xs) = (if bad x then Some i else first_bad bad (i + 1) xs)"

text \<open>A list of checks, the first that fails is the error.\<close>

fun refuse :: "(bool \<times> string) list \<Rightarrow> (err, unit) go" where
  "refuse [] = Ok ()"
| "refuse ((bad, m) # cs) = (if bad then Fail (ErrText m) else refuse cs)"

definition indexed :: "string \<Rightarrow> nat option \<Rightarrow> string \<Rightarrow> bool \<times> string" where
  "indexed pre i post = (i \<noteq> None, pre @ ''['' @ show_nat (from_ptr 0 i) @ '']'' @ post)"

definition validate :: "flag_readers \<Rightarrow> options \<Rightarrow> (err, unit) go" where
  "validate R p = refuse
     [indexed ''global-shape-configs'' (first_bad (\<lambda>c. case shc_ocpus c of None \<Rightarrow> True | Some x \<Rightarrow> x < 1) 0 (opt_shapes p))
        '' ocpus must be >= 1'',
      (opt_cluster_compartment p = [], ''cluster-compartment-id is missing''),
      (opt_vcn_compartment p = [], ''vcn-compartment-id is missing''),
      (opt_prebaked p = [], ''pre-baked-image-compartment-id is missing''),
      (opt_endpoint p = [], ''apiserver-endpoint is missing''),
      (opt_refresh_hours p \<le> 0, ''shape-meta-refresh-interval-hours must be a positive integer''),
      (opt_vm_mins p \<le> 0, ''instance-launch-timeout-vm-mins must be a positive integer''),
      (opt_bm_mins p \<le> 0, ''delete-instance-timeout-bm-mins must be a positive integer''),
      (opt_unavailable_seconds p < 0, ''unavailable-offerings-ttl-seconds must be zero (to disable) or a positive integer''),
      (opt_capacity_hours p < 0 \<or> maxDiscoveredNodeCapacityTTLHours < opt_capacity_hours p,
         ''discovered-node-capacity-ttl-hours must be zero (to disable) or a positive integer no greater than ''
         @ show_int maxDiscoveredNodeCapacityTTLHours),
      (float_negative (opt_qps_read p), ''rate-limit-qps-read must be greater than or equal to 0''),
      (opt_burst_read p < 0, ''rate-limit-burst-read must be greater than or equal to 0''),
      (float_negative (opt_qps_write p), ''rate-limit-qps-write must be greater than or equal to 0''),
      (opt_burst_write p < 0, ''rate-limit-burst-write must be greater than or equal to 0''),
      (\<not> is_finite_in_range (opt_overhead_base p) 0 2147483647,
         ''vm-memory-overhead-base-mib must be a finite number in [0, 2147483647]''),
      (\<not> is_finite_in_range (opt_overhead_per_gb p) 0 2147483647,
         ''vm-memory-overhead-per-gb-mib must be a finite number in [0, 2147483647]''),
      (\<not> is_finite_in_range (opt_overhead_percent p) 0 1 \<or> opt_overhead_percent p = Num 1,
         ''vm-memory-overhead-percent must be a finite number in [0, 1)''),
      indexed ''repair-policies'' (first_bad (\<lambda>r. rp_action r = fr_reboot_node R) 0 (opt_repairs p))
        '': RebootNode is not supported by Karpenter Provider OCI'']"

record core_options =
  core_legacy_repair :: bool
  core_terminate_first_drift :: bool
  core_terminate_first_repair :: bool

definition validate_with_core :: "flag_readers \<Rightarrow> core_options \<Rightarrow> options \<Rightarrow> (err, unit) go" where
  "validate_with_core R c p =
     go_bind (validate R p) (\<lambda>u. refuse
       [(\<not> core_legacy_repair c,
           ''Karpenter Provider OCI requires legacy-node-repair=true (LEGACY_NODE_REPAIR=true); ''
           @ ''the non-legacy node repair configuration is not supported''),
        (core_terminate_first_drift c \<or> core_terminate_first_repair c,
           ''terminate-first disruption is not supported by Karpenter Provider OCI; ''
           @ ''use legacy-node-repair=true with TerminateFirstDrift=false and TerminateFirstRepair=false'')])"

definition parse_options ::
  "flag_readers \<Rightarrow> (string \<times> string) list \<Rightarrow> (string \<Rightarrow> string option) \<Rightarrow> options \<Rightarrow> (err, options) go" where
  "parse_options R args env p =
     (if opt_parsed p then Ok p
      else
        go_bind (wrap_as ''parsing flags, '' (set_args (option_flags R) args p)) (\<lambda>p1.
        go_bind (set_env (option_flags R) (fst ` set args) env p1) (\<lambda>p2.
        go_bind (wrap_as ''validating options, '' (validate R p2)) (\<lambda>u. Ok (p2\<lparr>opt_parsed := True\<rparr>)))))"

text \<open>Only finite numbers pass \<open>validate\<close>.\<close>

definition finite_of :: "go_float \<Rightarrow> rat" where
  "finite_of v = (case v of Num r \<Rightarrow> r | _ \<Rightarrow> 0)"

definition vm_overhead_of :: "options \<Rightarrow> vm_memory_overhead" where
  "vm_overhead_of p =
     \<lparr>vmo_base = finite_of (opt_overhead_base p), vmo_per_gb = finite_of (opt_overhead_per_gb p),
      vmo_percent = finite_of (opt_overhead_percent p)\<rparr>"

end
