(* ===== verification/Oci_Client.thy ===== *)
theory Oci_Client
  imports Options
begin

section \<open>The clients of the services\<close>

text \<open>
  \<open>pkg/oci/client.go\<close>, \<open>pkg/oci/rate_limiter.go\<close> and \<open>pkg/oci/rate_limited_clients.go\<close>: the layer
  between the providers and the SDK.  Every method of it waits for a token of the rate limiter and
  passes the request on; which of the two buckets it draws from depends on the operation.

  The SDK's clients and what a token bucket answers are arguments: \<open>waits m\<close> is what waiting for a
  token of kind \<open>m\<close> returns.  Logging and metrics are left out, and with them \<open>decorate\<close> does
  nothing but call.
\<close>

subsection \<open>Rate limits\<close>

datatype rate_limiter = AlwaysAllow | TokenBuckets go_float int go_float int

definition to_float32 :: "go_float \<Rightarrow> go_float" where
  "to_float32 v = (case v of Num r \<Rightarrow> Num (f32 r) | x \<Rightarrow> x)"

definition new_rate_limiter :: "bool \<Rightarrow> go_float \<Rightarrow> int \<Rightarrow> go_float \<Rightarrow> int \<Rightarrow> rate_limiter" where
  "new_rate_limiter disabled qr br qw bw =
     (if disabled then AlwaysAllow
      else TokenBuckets (if qr = Num 0 then Num 20 else qr) (if br = 0 then 5 else br)
             (if qw = Num 0 then Num 20 else qw) (if bw = 0 then 5 else bw))"

text \<open>A client that is built without a limiter gets the one that always allows.\<close>

definition normalize_rate_limiter :: "rate_limiter option \<Rightarrow> rate_limiter" where
  "normalize_rate_limiter l = (case l of Some x \<Rightarrow> x | None \<Rightarrow> AlwaysAllow)"

datatype limit_mode = ReadMode | WriteMode

definition wait_for_token :: "rate_limiter \<Rightarrow> (limit_mode \<Rightarrow> (err, unit) go) \<Rightarrow> limit_mode \<Rightarrow> (err, unit) go" where
  "wait_for_token limiter waits m = (case limiter of AlwaysAllow \<Rightarrow> Ok () | TokenBuckets a b c d \<Rightarrow> waits m)"

text \<open>A call waits for a token first; without one it is not made.\<close>

definition call_with_limit :: "(err, unit) go \<Rightarrow> ('s \<Rightarrow> (err, 'a) go \<times> 's) \<Rightarrow> 's \<Rightarrow> (err, 'a) go \<times> 's" where
  "call_with_limit token fn s = st_bind (token, s) (\<lambda>u s. fn s)"

subsection \<open>The operations\<close>

datatype oci_call =
    CallLaunchInstance | CallGetInstance | CallListInstances | CallListVnicAttachments | CallListBootVolumeAttachments
  | CallTerminateInstance | CallListShapes | CallGetCapacityReservation | CallListCapacityReservations
  | CallGetComputeCluster | CallListComputeClusters | CallGetImage | CallListImages | CallListImageShapeEntries
  | CallGetBootVolume
  | CallGetSecurityGroup | CallGetSubnet | CallListSubnets | CallListSecurityGroups | CallGetVnic
  | CallGetCompartment | CallListAvailabilityDomains
  | CallGetWorkRequest | CallListWorkRequestErrors
  | CallGetPlacementGroup | CallListPlacementGroups
  | CallGetKey

fun call_mode :: "oci_call \<Rightarrow> limit_mode" where
  "call_mode CallLaunchInstance = WriteMode"
| "call_mode CallGetInstance = ReadMode"
| "call_mode CallListInstances = ReadMode"
| "call_mode CallListVnicAttachments = ReadMode"
| "call_mode CallListBootVolumeAttachments = ReadMode"
| "call_mode CallTerminateInstance = WriteMode"
| "call_mode CallListShapes = ReadMode"
| "call_mode CallGetCapacityReservation = ReadMode"
| "call_mode CallListCapacityReservations = ReadMode"
| "call_mode CallGetComputeCluster = ReadMode"
| "call_mode CallListComputeClusters = ReadMode"
| "call_mode CallGetImage = ReadMode"
| "call_mode CallListImages = ReadMode"
| "call_mode CallListImageShapeEntries = ReadMode"
| "call_mode CallGetBootVolume = ReadMode"
| "call_mode CallGetSecurityGroup = ReadMode"
| "call_mode CallGetSubnet = ReadMode"
| "call_mode CallListSubnets = ReadMode"
| "call_mode CallListSecurityGroups = ReadMode"
| "call_mode CallGetVnic = ReadMode"
| "call_mode CallGetCompartment = ReadMode"
| "call_mode CallListAvailabilityDomains = ReadMode"
| "call_mode CallGetWorkRequest = ReadMode"
| "call_mode CallListWorkRequestErrors = ReadMode"
| "call_mode CallGetPlacementGroup = ReadMode"
| "call_mode CallListPlacementGroups = ReadMode"
| "call_mode CallGetKey = ReadMode"

definition client_call ::
  "rate_limiter \<Rightarrow> (limit_mode \<Rightarrow> (err, unit) go) \<Rightarrow> oci_call \<Rightarrow> ('s \<Rightarrow> (err, 'a) go \<times> 's) \<Rightarrow> 's \<Rightarrow> (err, 'a) go \<times> 's" where
  "client_call limiter waits c = call_with_limit (wait_for_token limiter waits (call_mode c))"

subsection \<open>Building the client\<close>

record 'c oci_clients =
  oc_compute :: 'c
  oc_block_storage :: 'c
  oc_network :: 'c
  oc_identity :: 'c
  oc_work_request :: 'c
  oc_placement_group :: 'c
  oc_limiter :: rate_limiter

text \<open>\<open>built\<close> is the SDK's constructor of the client of a service; the first that fails decides.\<close>

datatype oci_service = ComputeService | BlockStorageService | NetworkService | IdentityService | WorkRequestService
  | PlacementGroupService

definition new_oci_client :: "(oci_service \<Rightarrow> (err, 'c) go) \<Rightarrow> rate_limiter option \<Rightarrow> (err, 'c oci_clients) go" where
  "new_oci_client built limiter =
     go_bind (built ComputeService) (\<lambda>compute.
     go_bind (built BlockStorageService) (\<lambda>block.
     go_bind (built NetworkService) (\<lambda>network.
     go_bind (built IdentityService) (\<lambda>identity.
     go_bind (built WorkRequestService) (\<lambda>work.
     go_bind (built PlacementGroupService) (\<lambda>group.
       Ok \<lparr>oc_compute = compute, oc_block_storage = block, oc_network = network, oc_identity = identity,
          oc_work_request = work, oc_placement_group = group, oc_limiter = normalize_rate_limiter limiter\<rparr>))))))"

subsection \<open>What a limit does\<close>

lemma unlimited_call [simp]: "client_call AlwaysAllow waits c fn s = fn s"
  by (simp add: client_call_def call_with_limit_def wait_for_token_def)

lemma refused_call:
  assumes "limiter \<noteq> AlwaysAllow" "waits (call_mode c) = Fail e"
  shows "client_call limiter waits c fn s = (Fail e, s)"
  using assms by (cases limiter) (simp_all add: client_call_def call_with_limit_def wait_for_token_def)

text \<open>Machines are launched and terminated against the one bucket, everything else against the other.\<close>

lemma write_calls: "call_mode c = WriteMode \<longleftrightarrow> c = CallLaunchInstance \<or> c = CallTerminateInstance"
  by (cases c) simp_all

lemma client_call_cong: "waits (call_mode c) = waits' (call_mode c) \<Longrightarrow> client_call limiter waits c fn s = client_call limiter waits' c fn s"
  by (cases limiter) (simp_all add: client_call_def call_with_limit_def wait_for_token_def)

end
