(* ===== verification/Operator.thy ===== *)
theory Operator
  imports Oci_Client Npn_Recovery Orphan_Instances Node_Class_Control
begin

section \<open>How the program is put together\<close>

text \<open>
  \<open>pkg/operator/operator.go\<close>, \<open>pkg/utils/imds.go\<close>, \<open>pkg/utils/refresher.go\<close>,
  \<open>pkg/controllers/controllers.go\<close>, \<open>cmd/main.go\<close> and the constructors they call: what of the
  options reaches which provider, which state each provider starts with, and which controllers run.

  What the operator reads from its surroundings is an argument (\<open>operator_env\<close>): the answer of the
  metadata service, the availability domains, the certificates, Karpenter's own options.  The choice
  of the credentials and the clients of the SDK are left out.  \<open>lo.Must\<close> turns an error into a panic.
  The clock of the model counts whole seconds, durations are converted to them (\<open>in_seconds\<close>).
\<close>

subsection \<open>The region\<close>

datatype region_value = RegionMissing | RegionText string | RegionOther

definition ErrRegionNotFound :: err where "ErrRegionNotFound = ErrText ''region info not found in IMDS''"

text \<open>The metadata service may answer anything outside the cloud: only an answer 200 is read.\<close>

definition get_region ::
  "(err, nat \<times> string) go \<Rightarrow> string option \<Rightarrow> (string \<Rightarrow> (err, region_value) go) \<Rightarrow> (err, string) go" where
  "get_region answer env_region read =
     (case answer of
        Panic \<Rightarrow> Panic
      | Hang \<Rightarrow> Hang
      | _ \<Rightarrow>
          (case (case answer of Ok (status, body) \<Rightarrow> if status = 200 then Some body else None | _ \<Rightarrow> None) of
             None \<Rightarrow> (case env_region of None \<Rightarrow> Fail (ErrText ''no region info available'') | Some r \<Rightarrow> Ok r)
           | Some body \<Rightarrow>
               go_bind (read body) (\<lambda>v.
                 case v of RegionMissing \<Rightarrow> Fail ErrRegionNotFound | RegionText r \<Rightarrow> Ok r | RegionOther \<Rightarrow> Panic)))"

subsection \<open>Refreshing at intervals\<close>

text \<open>
  \<open>RefreshAtInterval\<close>: what happens to the goroutine, each refresh with the world (a function of the
  state) of its time; \<open>ElectedAfter\<close> says how long after the start it may go on.  A refresh that
  fails is only logged.
\<close>

datatype 's refresh_event = RefreshCancelled | RefreshTick "'s \<Rightarrow> (err, unit) go \<times> 's"

definition invoke_and_log :: "('s \<Rightarrow> (err, unit) go \<times> 's) \<Rightarrow> 's \<Rightarrow> (err, unit) go \<times> 's" where
  "invoke_and_log f s = (case f s of (Fail e, s1) \<Rightarrow> (Ok (), s1) | x \<Rightarrow> x)"

fun refresh_loop :: "'s refresh_event list \<Rightarrow> 's \<Rightarrow> (err, unit) go \<times> 's" where
  "refresh_loop [] s = (Hang, s)"
| "refresh_loop (RefreshCancelled # es) s = (Ok (), s)"
| "refresh_loop (RefreshTick f # es) s = st_bind (invoke_and_log f s) (\<lambda>u s. refresh_loop es s)"

datatype 's election = CancelledFirst | ElectedAfter int "'s \<Rightarrow> (err, unit) go \<times> 's" "'s refresh_event list"

definition refresh_at_interval ::
  "bool \<Rightarrow> int \<Rightarrow> ('s \<Rightarrow> (err, unit) go \<times> 's) \<Rightarrow> 's election \<Rightarrow> 's \<Rightarrow> (err, unit) go \<times> 's" where
  "refresh_at_interval init interval f el s =
     st_bind (if init then invoke_and_log f s else (Ok (), s)) (\<lambda>u s.
       (case el of
          CancelledFirst \<Rightarrow> (Ok (), s)
        | ElectedAfter waited g es \<Rightarrow>
            st_bind (if interval < waited then invoke_and_log g s else (Ok (), s)) (\<lambda>u s. refresh_loop es s)))"

text \<open>A failure does not end the refreshing: the loop ends only when it is cancelled.\<close>

lemma invoke_never_fails: "fst (invoke_and_log f s) \<noteq> Fail e"
  by (auto simp: invoke_and_log_def split: prod.splits go.splits)

lemma refresh_survives_failures:
  "(\<forall>f \<in> set fs. \<forall>s. fst (f s) \<noteq> Panic \<and> fst (f s) \<noteq> Hang) \<Longrightarrow>
     refresh_loop (map RefreshTick fs @ RefreshCancelled # es) s = (Ok (), fold (\<lambda>f s. snd (f s)) fs s)"
proof (induction fs arbitrary: s)
  case (Cons f fs)
  have "fst (f s) \<noteq> Panic" "fst (f s) \<noteq> Hang" using Cons.prems by simp_all
  then have "invoke_and_log f s = (Ok (), snd (f s))"
    by (cases "f s"; cases "fst (f s)") (simp_all add: invoke_and_log_def)
  with Cons show ?case by simp
qed simp

subsection \<open>The providers\<close>

definition new_type_provider ::
  "string \<Rightarrow> string \<Rightarrow> shape_config list \<Rightarrow> ip_family list \<Rightarrow> unavailable_offerings \<Rightarrow> vm_memory_overhead \<Rightarrow> type_provider" where
  "new_type_provider region compartment configs families unavailable overhead =
     \<lparr>tp_region = region, tp_compartment = compartment, tp_shapes = [], tp_prices = [], tp_preemptible = [],
      tp_cluster_shapes = [], tp_one_vcpu = [], tp_shape_configs = configs, tp_minor = None, tp_families = families,
      tp_unavailable = Some unavailable, tp_overhead = overhead\<rparr>"

definition new_placement ::
  "capres_provider \<Rightarrow> cluster_provider \<Rightarrow> cpg_provider \<Rightarrow> placement_state" where
  "new_placement capres cluster cpg = \<lparr>pst_pools = Map.empty, pst_capres = capres, pst_cpg = cpg, pst_cluster = cluster\<rparr>"

definition new_kms_provider :: kms_provider where
  "new_kms_provider = \<lparr>mp_cache = new_default_cache, mp_clients = []\<rparr>"

definition must :: "(err, 'a) go \<Rightarrow> (err, 'a) go" where
  "must r = (case r of Fail e \<Rightarrow> Panic | x \<Rightarrow> x)"

lemma must_Ok [simp]: "must r = Ok x \<longleftrightarrow> r = Ok x"
  by (cases r) (simp_all add: must_def)

definition in_seconds :: "int \<Rightarrow> int" where "in_seconds d = d div second_ns"

definition value_or_default :: "string \<Rightarrow> string \<Rightarrow> string" where
  "value_or_default v d = (if v \<noteq> [] then v else d)"

definition shape_meta_file :: "options \<Rightarrow> string" where
  "shape_meta_file p =
     value_or_default (if opt_auth p = ''SESSION'' then value_or_default (opt_meta_file p) ''chart/config/oci-shape-meta.json''
                       else opt_meta_file p) ''/etc/karpenter/meta/ociShapeMeta''"

record operator_env =
  ope_region :: "(err, string) go"
  ope_ads :: "(err, (string \<times> string) list) go"
  ope_ca :: string
  ope_ca_file :: "(err, string) go"
  ope_readers :: flag_readers
  ope_core :: core_options
  ope_node_repair :: bool
  ope_replace_node :: string

record program =
  pg_cloud :: cloud_provider
  pg_capacity :: capacity_provider
  pg_identity :: identity_provider
  pg_limiter :: rate_limiter
  pg_meta_file :: string
  pg_refresh :: int
  pg_poll :: int

definition create_operator :: "operator_env \<Rightarrow> options \<Rightarrow> string \<Rightarrow> (err, program) go" where
  "create_operator env p region =
     (let limiter = new_rate_limiter (opt_no_limiter p) (to_float32 (opt_qps_read p)) (opt_burst_read p)
                      (to_float32 (opt_qps_write p)) (opt_burst_write p);
          capres = new_capres_provider (opt_cluster_compartment p);
          cpg = new_cpg_provider (opt_cluster_compartment p);
          cluster = new_cluster_provider (opt_cluster_compartment p)
      in go_bind (must (new_identity_provider (opt_cluster_compartment p) (ope_ads env))) (\<lambda>ident.
         let unavailable = new_unavailable_offerings (in_seconds (duration_ns (opt_unavailable_seconds p) 1));
             images = new_image_provider (opt_prebaked p) [];
             capacity = new_capacity_provider True (in_seconds (duration_ns (opt_capacity_hours p) 3600));
             types = new_type_provider region (opt_cluster_compartment p) (opt_shapes p) (opt_families p) unavailable
                       (vm_overhead_of p);
             caches = new_drift_caches
         in go_bind (must (new_vcn_provider (opt_vcn_compartment p) (opt_vcn_native p) (opt_families p) (Some (dc_vnics caches)))) (\<lambda>net.
            go_bind (must (new_meta_provider (opt_endpoint p) (ope_ca env) (ope_ca_file env) (opt_families p))) (\<lambda>meta.
            go_bind (must (new_instance_provider (opt_cluster_compartment p) meta (Some caches)
                       (in_seconds (duration_ns (opt_vm_mins p) 60)) (in_seconds (duration_ns (opt_bm_mins p) 60))
                       (opt_failover p) (Some unavailable) (opt_limit_fallback p))) (\<lambda>inst.
              Ok \<lparr>pg_cloud =
                    \<lparr>cp_types = types, cp_place = new_placement capres cluster cpg, cp_images = images, cp_network = net,
                     cp_kms = new_kms_provider, cp_instances = inst,
                     cp_npn = new_npn_provider (opt_vcn_native p) (opt_families p), cp_npns = [],
                     cp_fallback = opt_limit_fallback p, cp_initialized = False\<rparr>,
                  pg_capacity = capacity, pg_identity = ident, pg_limiter = limiter,
                  pg_meta_file = shape_meta_file p,
                  pg_refresh = in_seconds (duration_ns (opt_refresh_hours p) 3600),
                  pg_poll = in_seconds (duration_ns (opt_poll_seconds p) 1)\<rparr>)))))"

definition new_operator :: "operator_env \<Rightarrow> options \<Rightarrow> (err, program) go" where
  "new_operator env p =
     go_bind (must (validate_with_core (ope_readers env) (ope_core env) p)) (\<lambda>u.
     go_bind (must (ope_region env)) (\<lambda>region. create_operator env p region))"

subsection \<open>The controllers\<close>

datatype controller = NodeClassController | OrphanController | CapacityController | RecoveryController

definition new_controllers :: "bool \<Rightarrow> bool \<Rightarrow> controller list" where
  "new_controllers capacity_on npn_cluster =
     [NodeClassController, OrphanController]
     @ (if capacity_on then [CapacityController] else [])
     @ (if npn_cluster then [RecoveryController] else [])"

text \<open>\<open>main\<close>: it ends the program if repair policies are given without the feature gate they need.\<close>

definition start_program :: "operator_env \<Rightarrow> options \<Rightarrow> (err, program \<times> repair_policy list \<times> controller list) go" where
  "start_program env p =
     go_bind (new_operator env p) (\<lambda>pg.
       if 0 < length (opt_repairs p) \<and> \<not> ope_node_repair env
       then Fail (ErrText ''nodeRepair featureGate must be enabled when repair policies are specified'')
       else Ok (pg, repair_policies_of (ope_replace_node env) (core_legacy_repair (ope_core env)) (opt_repairs p),
              new_controllers (discovery_enabled (pg_capacity pg)) (np_cluster (cp_npn (pg_cloud pg)))))"

subsection \<open>The state they share\<close>

text \<open>
  The node class controller is given the very providers of the cloud provider; the caches of VNICs
  it sees are those of the instance provider.  \<open>class_turn\<close> is one turn of it in the program, with
  what it makes of the node class and what it writes.
\<close>

definition class_providers_of :: "options \<Rightarrow> program \<Rightarrow> class_providers" where
  "class_providers_of p pg =
     (let c = pg_cloud pg; pl = cp_place c
      in \<lparr>clp_images = cp_images c, clp_kms = cp_kms c,
          clp_network = (cp_network c)\<lparr>vp_vnics := dc_vnics (inp_caches (cp_instances c))\<rparr>,
          clp_capres = pst_capres pl, clp_cpg = pst_cpg pl, clp_cluster = pst_cluster pl,
          clp_identity = pg_identity pg, clp_compartment = opt_cluster_compartment p\<rparr>)"

definition with_class_providers :: "class_providers \<Rightarrow> program \<Rightarrow> program" where
  "with_class_providers w pg =
     (let c = pg_cloud pg; ip = cp_instances c
      in pg\<lparr>pg_identity := clp_identity w,
            pg_cloud := c\<lparr>cp_images := clp_images w, cp_kms := clp_kms w, cp_network := clp_network w,
              cp_instances := ip\<lparr>inp_caches := (inp_caches ip)\<lparr>dc_vnics := vp_vnics (clp_network w)\<rparr>\<rparr>,
              cp_place := (cp_place c)\<lparr>pst_capres := clp_capres w, pst_cpg := clp_cpg w, pst_cluster := clp_cluster w\<rparr>\<rparr>\<rparr>)"

definition class_turn ::
  "options \<Rightarrow> class_env \<Rightarrow> node_class \<Rightarrow> program \<Rightarrow> (err, requeue) go \<times> node_class \<times> class_write list \<times> program" where
  "class_turn p env cls pg =
     (case reconcile_class env (cls, class_providers_of p pg) of
        (r, (cls', w), ws) \<Rightarrow> (r, cls', ws, with_class_providers w pg))"

end
