(* ===== verification/Operator_Laws.thy ===== *)
theory Operator_Laws
  imports Operator
begin

section \<open>What the options promise\<close>

text \<open>
  What reading the options guarantees, which durations can overflow, and what the state of a
  program that has started looks like.
\<close>

subsection \<open>Reading them\<close>

lemma set_env_cong:
  "(\<And>n. n \<in> fst ` set fs \<Longrightarrow> n \<notin> cli \<Longrightarrow> env (env_name n) = env' (env_name n)) \<Longrightarrow> set_env fs cli env p = set_env fs cli env' p"
proof (induction fs arbitrary: p)
  case (Cons f fs)
  obtain n g where f: "f = (n, g)" by (rule prod.exhaust)
  have IH: "set_env fs cli env q = set_env fs cli env' q" for q
    by (rule Cons.IH) (rule Cons.prems, simp_all)
  show ?case
  proof (cases "n \<in> cli")
    case False
    have "env (env_name n) = env' (env_name n)" by (rule Cons.prems) (simp_all add: f False)
    with False IH show ?thesis by (auto simp: f split: option.splits go.splits)
  qed (simp add: f IH)
qed simp

lemma refuse_Ok [simp]: "refuse cs = Ok () \<longleftrightarrow> (\<forall>c \<in> set cs. \<not> fst c)"
  by (induction cs rule: refuse.induct) auto

lemma validate_parsed [simp]: "validate R (p\<lparr>opt_parsed := b\<rparr>) = validate R p"
  by (simp add: validate_def)

text \<open>
  C18. A variable of the environment has no effect on a flag that is given on the command line, and
  options that are accepted have passed every check.
\<close>

theorem command_line_wins:
  assumes "\<forall>n. n \<in> fst ` set (option_flags R) \<and> n \<notin> fst ` set args \<longrightarrow> env (env_name n) = env' (env_name n)"
  shows "parse_options R args env p = parse_options R args env' p
    \<and> (\<forall>q. parse_options R args env p = Ok q \<and> \<not> opt_parsed p \<longrightarrow> validate R q = Ok () \<and> opt_parsed q)"
proof -
  have "set_env (option_flags R) (fst ` set args) env q = set_env (option_flags R) (fst ` set args) env' q" for q
    using assms by (intro set_env_cong) blast
  then show ?thesis by (auto simp: parse_options_def go_bind_eq_Ok_iff)
qed

text \<open>A required flag from the command line; the variable of the same flag says something else.\<close>

definition sample_readers :: flag_readers where
  "sample_readers = \<lparr>fr_int = (\<lambda>v. Ok 7), fr_bool = (\<lambda>v. Ok True), fr_float = (\<lambda>v. Ok (Num 0)), fr_shapes = (\<lambda>v. Ok []),
     fr_repairs = (\<lambda>v. Ok []), fr_reboot_node = ''RebootNode''\<rparr>"

definition sample_args :: "(string \<times> string) list" where
  "sample_args = [(''cluster-compartment-id'', ''c1''), (''vcn-compartment-id'', ''c1''),
     (''pre-baked-image-compartment-id'', ''c2''), (''apiserver-endpoint'', ''10.0.0.1'')]"

theorem command_line_wins_witness:
  "let env = (\<lambda>v. if v = env_name ''cluster-compartment-id'' then Some ''c9'' else None);
       q = parse_options sample_readers sample_args env default_options
   in q = parse_options sample_readers sample_args (\<lambda>v. None) default_options
      \<and> (\<forall>p. q = Ok p \<longrightarrow> validate sample_readers p = Ok ())"
proof -
  let ?env = "\<lambda>v. if v = env_name ''cluster-compartment-id'' then Some ''c9'' else None"
  have "\<forall>n \<in> set (map fst (option_flags sample_readers)). n \<in> set (map fst sample_args) \<or> env_name n \<noteq> env_name ''cluster-compartment-id''"
    unfolding option_flags_def sample_args_def list.map list.set ball_simps fst_conv
    by (simp add: env_name_def env_char_def)
  then have "\<forall>n. n \<in> fst ` set (option_flags sample_readers) \<and> n \<notin> fst ` set sample_args \<longrightarrow> ?env (env_name n) = None"
    unfolding set_map by (metis (no_types, lifting))
  note w = command_line_wins [OF this, of default_options]
  have "\<not> opt_parsed default_options" by (simp add: default_options_def)
  with w show ?thesis unfolding Let_def by (metis (no_types, lifting))
qed

subsection \<open>Durations\<close>

lemma sint_fits: "- (2 ^ 63) \<le> x \<Longrightarrow> x < 2 ^ 63 \<Longrightarrow> sint (word_of_int x :: 64 word) = x" for x :: int
  by (simp add: sint_sbintrunc' signed_take_bit_int_eq_self)

lemma duration_fits: "- (2 ^ 63) \<le> n * (s * second_ns) \<Longrightarrow> n * (s * second_ns) < 2 ^ 63 \<Longrightarrow> duration_ns n s = n * (s * second_ns)"
  unfolding duration_ns_def by (rule sint_fits)

lemma validate_facts:
  assumes "validate R p = Ok ()"
  shows "0 < opt_refresh_hours p" "0 < opt_vm_mins p" "0 < opt_bm_mins p" "0 \<le> opt_unavailable_seconds p"
    "0 \<le> opt_capacity_hours p" "opt_capacity_hours p \<le> maxDiscoveredNodeCapacityTTLHours"
    "\<exists>b g f. opt_overhead_base p = Num b \<and> opt_overhead_per_gb p = Num g \<and> opt_overhead_percent p = Num f
       \<and> 0 \<le> b \<and> 0 \<le> g \<and> 0 \<le> f \<and> f < 1"
proof -
  note checks = assms [unfolded validate_def refuse_Ok list.set ball_simps fst_conv]
  from checks show "0 < opt_refresh_hours p" "0 < opt_vm_mins p" "0 < opt_bm_mins p" "0 \<le> opt_unavailable_seconds p"
    "0 \<le> opt_capacity_hours p" "opt_capacity_hours p \<le> maxDiscoveredNodeCapacityTTLHours" by simp_all
  from checks have "is_finite_in_range (opt_overhead_base p) 0 2147483647" "is_finite_in_range (opt_overhead_per_gb p) 0 2147483647"
    "is_finite_in_range (opt_overhead_percent p) 0 1" "opt_overhead_percent p \<noteq> Num 1" by simp_all
  then show "\<exists>b g f. opt_overhead_base p = Num b \<and> opt_overhead_per_gb p = Num g \<and> opt_overhead_percent p = Num f
       \<and> 0 \<le> b \<and> 0 \<le> g \<and> 0 \<le> f \<and> f < 1"
    by (auto simp: is_finite_in_range_def split: go_float.splits)
qed

lemma capacity_duration:
  assumes "validate R p = Ok ()"
  shows "duration_ns (opt_capacity_hours p) 3600 = opt_capacity_hours p * (3600 * second_ns)"
proof (rule duration_fits)
  from validate_facts(5,6) [OF assms] show "- (2 ^ 63) \<le> opt_capacity_hours p * (3600 * second_ns)"
    "opt_capacity_hours p * (3600 * second_ns) < 2 ^ 63"
    by (simp_all add: maxDiscoveredNodeCapacityTTLHours_def max_int64_def second_ns_def)
qed

text \<open>
  C19. The time for which measured memory is kept, given in hours, never overflows a duration once it is
  accepted, so only zero hours switch the measuring off.  The other durations have no such bound:
  a number of seconds is accepted for the unavailable offerings that wraps to zero and switches them
  off.
\<close>

theorem only_capacity_hours_are_bounded:
  "(validate R p = Ok () \<longrightarrow>
      duration_ns (opt_capacity_hours p) 3600 = opt_capacity_hours p * (3600 * 10 ^ 9)
    \<and> (discovery_enabled (new_capacity_provider True (in_seconds (duration_ns (opt_capacity_hours p) 3600)))
         \<longleftrightarrow> opt_capacity_hours p \<noteq> 0))
   \<and> (validate R p = Ok () \<longrightarrow>
        (\<exists>q. validate R q = Ok () \<and> q = p\<lparr>opt_unavailable_seconds := 2 ^ 55\<rparr>
           \<and> uo_disabled (new_unavailable_offerings (in_seconds (duration_ns (opt_unavailable_seconds q) 1)))))"
proof (intro conjI impI)
  assume v: "validate R p = Ok ()"
  from capacity_duration [OF v] show d: "duration_ns (opt_capacity_hours p) 3600 = opt_capacity_hours p * (3600 * 10 ^ 9)"
    by (simp add: second_ns_def)
  then show "discovery_enabled (new_capacity_provider True (in_seconds (duration_ns (opt_capacity_hours p) 3600))) \<longleftrightarrow> opt_capacity_hours p \<noteq> 0"
    by (simp add: in_seconds_def second_ns_def discovery_enabled_def capacity_enabled_def new_capacity_provider_def new_node_capacity_def)
  have "validate R (p\<lparr>opt_unavailable_seconds := 2 ^ 55\<rparr>) = Ok ()"
    using v unfolding validate_def refuse_Ok list.set ball_simps fst_conv by simp
  moreover have "duration_ns (2 ^ 55) 1 = 0"
    by (simp add: duration_ns_def second_ns_def)
  ultimately show "\<exists>q. validate R q = Ok () \<and> q = p\<lparr>opt_unavailable_seconds := 2 ^ 55\<rparr>
       \<and> uo_disabled (new_unavailable_offerings (in_seconds (duration_ns (opt_unavailable_seconds q) 1)))"
    by (simp add: in_seconds_def second_ns_def new_unavailable_offerings_def)
qed

theorem only_capacity_hours_are_bounded_witness:
  "validate sample_readers
       (default_options\<lparr>opt_cluster_compartment := ''c1'', opt_vcn_compartment := ''c1'', opt_prebaked := ''c2'', opt_endpoint := ''10.0.0.1''\<rparr>)
       = Ok ()
   \<and> duration_ns 1440 3600 = 1440 * (3600 * 10 ^ 9)"
proof -
  let ?p = "default_options\<lparr>opt_cluster_compartment := ''c1'', opt_vcn_compartment := ''c1'', opt_prebaked := ''c2'', opt_endpoint := ''10.0.0.1''\<rparr>"
  have v: "validate sample_readers ?p = Ok ()"
    by (simp add: validate_def default_options_def indexed_def default_unavailable_ttl_def
        DefaultNodeCapacityTTL_def maxDiscoveredNodeCapacityTTLHours_def max_int64_def second_ns_def float_negative_def
        is_finite_in_range_def)
  with only_capacity_hours_are_bounded [of sample_readers ?p] show ?thesis
    by (simp add: default_options_def DefaultNodeCapacityTTL_def)
qed

subsection \<open>A program that has started\<close>

text \<open>
  The providers agree about the cluster: its IP families, its network, its compartment; and they do
  what the options say about waiting, giving up and other offerings, and about memory and shapes.
\<close>

definition agreed_settings :: "options \<Rightarrow> cloud_provider \<Rightarrow> bool" where
  "agreed_settings p c \<longleftrightarrow>
     vp_families (cp_network c) = opt_families p \<and> tp_families (cp_types c) = opt_families p
   \<and> mp_families (inp_meta (cp_instances c)) = opt_families p \<and> np_families (cp_npn c) = opt_families p
   \<and> vp_npn (cp_network c) = opt_vcn_native p \<and> np_cluster (cp_npn c) = opt_vcn_native p
   \<and> inp_compartment (cp_instances c) = opt_cluster_compartment p \<and> tp_compartment (cp_types c) = opt_cluster_compartment p
   \<and> vp_compartment (cp_network c) = opt_vcn_compartment p
   \<and> inp_limit_fallback (cp_instances c) = opt_limit_fallback p \<and> cp_fallback c = opt_limit_fallback p
   \<and> inp_timeout_vm (cp_instances c) = in_seconds (duration_ns (opt_vm_mins p) 60)
   \<and> inp_timeout_bm (cp_instances c) = in_seconds (duration_ns (opt_bm_mins p) 60)
   \<and> inp_failover (cp_instances c) = opt_failover p \<and> mp_endpoint (inp_meta (cp_instances c)) = opt_endpoint p
   \<and> tp_overhead (cp_types c) = vm_overhead_of p \<and> tp_shape_configs (cp_types c) = opt_shapes p
   \<and> map_option (\<lambda>u. (uo_disabled u, lc_ttl (uo_cache u))) (inp_unavailable (cp_instances c)) =
       (let ttl = in_seconds (duration_ns (opt_unavailable_seconds p) 1)
        in Some (ttl = 0, if ttl = 0 then None else Some (if ttl < 0 then 180 else ttl)))"

lemma create_operator_Ok:
  assumes "create_operator env p region = Ok pg"
  shows "agreed_settings p (pg_cloud pg) \<and> inp_caches (cp_instances (pg_cloud pg)) = new_drift_caches
    \<and> pst_pools (cp_place (pg_cloud pg)) = Map.empty \<and> \<not> cp_initialized (pg_cloud pg)
    \<and> cp_images (pg_cloud pg) = new_image_provider (opt_prebaked p) []
    \<and> pg_capacity pg = new_capacity_provider True (in_seconds (duration_ns (opt_capacity_hours p) 3600))
    \<and> tp_overhead (cp_types (pg_cloud pg)) = vm_overhead_of p"
  using assms
  by (auto simp: create_operator_def Let_def go_bind_eq_Ok_iff map_ok_eq_Ok_iff new_vcn_provider_def new_meta_provider_def
      new_instance_provider_def new_type_provider_def new_npn_provider_def new_placement_def agreed_settings_def new_unavailable_offerings_def new_load_cache_def
      default_unavailable_ttl_def)

end
