(* ===== verification/Computations.thy ===== *)
theory Computations
  imports Network_Provider Drift Instance_Caches
begin

section \<open>What a computation keeps\<close>

text \<open>
  A small calculus for the computations that thread a state: \<open>keeps I m\<close> says that the state a
  computation ends with satisfies \<open>I\<close>, whatever its result.  The rules follow the way the model
  composes computations, and the collection \<open>keeping\<close> holds them together with what is known of the
  operations of the providers.
\<close>

named_theorems keeping

definition keeps :: "('s \<Rightarrow> bool) \<Rightarrow> ('e, 'a) go \<times> 's \<Rightarrow> bool" where
  "keeps I m \<longleftrightarrow> I (snd m)"

lemma keeps_pair [keeping]: "I s \<Longrightarrow> keeps I (r, s)"
  by (simp add: keeps_def)

lemma keeps_snd: "keeps I m \<Longrightarrow> m = (r, s) \<Longrightarrow> I s"
  by (simp add: keeps_def)

lemma keeps_bind [keeping]: "keeps I m \<Longrightarrow> (\<And>x s. I s \<Longrightarrow> keeps I (f x s)) \<Longrightarrow> keeps I (st_bind m f)"
  by (auto simp: keeps_def st_bind_def split: go.splits prod.splits)

text \<open>The result is changed, the state is not.\<close>

lemma keeps_case [keeping]: "keeps I m \<Longrightarrow> keeps I (case m of (r, s) \<Rightarrow> (g r, s))"
  by (auto simp: keeps_def split: prod.splits)

text \<open>A computation on a part of the state.\<close>

lemma keeps_lens: "keeps (\<lambda>t. I (put t s)) m \<Longrightarrow> keeps I (case m of (r, t) \<Rightarrow> (r, put t s))"
  by (auto simp: keeps_def split: prod.splits)

lemma keeps_if [keeping]: "(b \<Longrightarrow> keeps I m) \<Longrightarrow> (\<not> b \<Longrightarrow> keeps I n) \<Longrightarrow> keeps I (if b then m else n)"
  by simp

lemma keeps_go_case [keeping]:
  assumes "keeps I m" "\<And>x s. I s \<Longrightarrow> keeps I (f x s)" "\<And>e s. I s \<Longrightarrow> keeps I (g e s)"
    "\<And>s. I s \<Longrightarrow> keeps I (h s)" "\<And>s. I s \<Longrightarrow> keeps I (k s)"
  shows "keeps I (case m of (Ok x, s) \<Rightarrow> f x s | (Fail e, s) \<Rightarrow> g e s | (Panic, s) \<Rightarrow> h s | (Hang, s) \<Rightarrow> k s)"
  using assms by (auto simp: keeps_def split: prod.splits go.splits)

lemma keeps_option [keeping]: "(x = None \<Longrightarrow> keeps I m) \<Longrightarrow> (\<And>y. x = Some y \<Longrightarrow> keeps I (f y)) \<Longrightarrow>
    keeps I (case x of None \<Rightarrow> m | Some y \<Rightarrow> f y)"
  by (cases x) auto

lemma keeps_list_case [keeping]: "(x = [] \<Longrightarrow> keeps I m) \<Longrightarrow> (\<And>y ys. x = y # ys \<Longrightarrow> keeps I (f y ys)) \<Longrightarrow>
    keeps I (case x of [] \<Rightarrow> m | y # ys \<Rightarrow> f y ys)"
  by (cases x) auto

lemma keeps_prod [keeping]: "(\<And>a b. x = (a, b) \<Longrightarrow> keeps I (f a b)) \<Longrightarrow> keeps I (case x of (a, b) \<Rightarrow> f a b)"
  by (cases x) auto

lemma keeps_fun [keeping]: "(\<And>a b. x = (a, b) \<Longrightarrow> keeps I (f a b s)) \<Longrightarrow> keeps I ((case x of (a, b) \<Rightarrow> f a b) s)"
  by (cases x) auto

subsection \<open>The network provider\<close>

text \<open>Its lookups change its caches only; \<open>v\<close> is the provider before.\<close>

lemma keeps_setup:
  assumes "same_setup v p"
  shows "keeps (same_setup v) (get_subnet api now i p)" "keeps (same_setup v) (get_nsg api now i p)"
    "keeps (same_setup v) (filter_subnets api now fs p)" "keeps (same_setup v) (filter_nsg api now fn p)"
    "keeps (same_setup v) (resolve_subnet api now c p)" "keeps (same_setup v) (resolve_nsgs api now cs p)"
  using assms lookups_keep_setup resolve_subnet_keeps_setup resolve_nsgs_keeps_setup
  unfolding keeps_def by (metis same_setup_trans surjective_pairing)+

lemma keeps_vnics:
  "same_setup v p \<Longrightarrow> keeps (same_setup v) (get_vnic api now k p)"
  "same_setup v p \<Longrightarrow> keeps (same_setup v) (get_vnic_cached api now k p)"
  by (auto simp: keeps_def get_vnic_def get_vnic_cached_def same_setup_def Let_def split: prod.splits)

lemma keeps_simple_vnic: "same_setup v p \<Longrightarrow> keeps (same_setup v) (resolve_simple_vnic api now ident c p)"
  unfolding resolve_simple_vnic_def resolve_subnet_and_nsg_def Let_def
  by (intro keeping keeps_setup) assumption+

lemma keeps_secondaries: "same_setup v p \<Longrightarrow> keeps (same_setup v) (resolve_secondaries api now n cs p)"
proof (induction cs arbitrary: n p)
  case (Cons c cs)
  show ?case unfolding resolve_secondaries.simps Let_def
    by (intro keeping keeps_simple_vnic Cons.prems Cons.IH) assumption+
qed (simp add: keeps_def)

lemma keeps_network_config: "same_setup v p \<Longrightarrow> keeps (same_setup v) (resolve_network_config api now cfgo p)"
  unfolding resolve_network_config_def resolve_primary_def
  by (intro keeping keeps_simple_vnic keeps_secondaries) assumption+

subsection \<open>The checks of drift\<close>

lemma keeps_find_primary:
  "(\<And>k s. I s \<Longrightarrow> keeps I (getVnic k s)) \<Longrightarrow> I s \<Longrightarrow> keeps I (find_primary_vnic getVnic subnet vas s)"
  by (induction vas arbitrary: s) (auto intro!: keeping)

lemma keeps_secondary_vnics:
  "(\<And>k s. I s \<Longrightarrow> keeps I (getVnic k s)) \<Longrightarrow> I s \<Longrightarrow> keeps I (secondary_vnics getVnic vas m s)"
  by (induction vas arbitrary: m s) (auto intro!: keeping)

lemma keeps_network_drift:
  assumes "\<And>k s. I s \<Longrightarrow> keeps I (getVnic k s)" "I s"
  shows "keeps I (is_network_drifted order d atts getVnic skip s)"
  unfolding is_network_drifted_def is_secondary_drifted_def
  by (intro keeping keeps_find_primary keeps_secondary_vnics assms) assumption+

lemma keeps_volume_drift:
  assumes "\<And>k s. I s \<Longrightarrow> keeps I (getVolume k s)" "I s"
  shows "keeps I (is_boot_volume_drifted d atts getVolume s)"
  unfolding is_boot_volume_drifted_def Let_def
  by (intro keeping assms) assumption+

subsection \<open>The instance provider\<close>

text \<open>
  Everything but its caches and what is in the register of unavailable offerings stays as it was
  built; of the register, whether it is used and how long an entry lives.
\<close>

definition register_settings :: "unavailable_offerings \<Rightarrow> bool \<times> int option" where
  "register_settings u = (uo_disabled u, lc_ttl (uo_cache u))"

lemma register_settings_mark [simp]: "register_settings (mark_unavailable fmt now i u) = register_settings u"
  by (simp add: register_settings_def mark_unavailable_def cache_set_def)

definition instance_settings ::
  "instance_provider \<Rightarrow> string \<times> meta_provider \<times> int \<times> int \<times> bool \<times> bool \<times> (bool \<times> int option) option" where
  "instance_settings p = (inp_compartment p, inp_meta p, inp_timeout_vm p, inp_timeout_bm p, inp_failover p, inp_limit_fallback p,
     map_option register_settings (inp_unavailable p))"

definition instances_kept :: "instance_provider \<Rightarrow> instance_provider \<Rightarrow> bool" where
  "instances_kept p q \<longleftrightarrow> instance_settings q = instance_settings p \<and> caches_ok (inp_caches q)"

lemma instances_kept_caches: "instances_kept p q \<Longrightarrow> caches_ok (inp_caches q)"
  by (simp add: instances_kept_def)

lemma instance_settings_caches [simp]: "instance_settings (q\<lparr>inp_caches := dc\<rparr>) = instance_settings q"
  by (simp add: instance_settings_def)

lemma settings_wait_launched: "instance_settings (snd (wait_launched env wr info es q)) = instance_settings q"
proof (induction env wr info es q rule: wait_launched.induct)
  case (3 env wr info ds es p)
  have "instance_settings (snd (placement_timeout env ds info p)) = instance_settings p"
    by (auto simp: placement_timeout_def Let_def split: option.splits go.splits prod.splits)
  then show ?case by (auto simp: cache_result_def split: prod.splits go.splits)
qed (auto simp: cache_result_def split: go.splits work_status.splits)

lemma settings_launch_and_wait:
  "instance_settings (snd (launch_and_wait env turns claim cls it img net i kms pr ct q)) = instance_settings q"
  by (auto simp: launch_and_wait_def st_bind_def Let_def settings_wait_launched split: go.splits option.splits)

lemma settings_mark:
  "instance_settings (snd (mark_unavailable_offering env spec it pr ct e q)) = instance_settings q"
  by (auto simp: mark_unavailable_offering_def st_bind_def instance_settings_def option.map_comp o_def split: go.splits)

lemma settings_launch: "instance_settings (snd (launch_instance env turns claim cls it img net kms pr q)) = instance_settings q"
proof (cases "index_go (ir_images img) 0 :: (err, oci_image) go")
  case (Ok img0)
  obtain r q1 where rq: "launch_and_wait env turns claim cls it img net (img_id img0) kms pr (decide_capacity_type env claim it) q = (r, q1)"
    by fastforce
  have s: "instance_settings q1 = instance_settings q" using settings_launch_and_wait rq by (metis snd_conv)
  have "instance_settings (snd (st_bind (mark_unavailable_offering env (ncl_spec cls) it pr (decide_capacity_type env claim it) (Some e) q1)
        (\<lambda>u p2. (Fail e, p2)))) = instance_settings q1" for e
    using settings_mark by (auto simp: st_bind_def split: go.splits prod.splits) (metis snd_conv)+
  with s show ?thesis by (auto simp: launch_instance_def Ok Let_def rq split: go.splits)
qed (simp_all add: launch_instance_def)

lemma keeps_launch:
  "instances_kept p q \<Longrightarrow> keeps (instances_kept p) (launch_instance env turns claim cls it img net kms pr q)"
  by (simp add: keeps_def instances_kept_def settings_launch launch_ok)

lemma keeps_list_instances: "instances_kept p q \<Longrightarrow> keeps (instances_kept p) (list_instances env cs q)"
proof -
  have "instance_settings (snd (list_instances env cs q)) = instance_settings q"
    by (auto simp: list_instances_def split: prod.splits go.splits)
  then show "instances_kept p q \<Longrightarrow> ?thesis"
    by (simp add: keeps_def instances_kept_def list_instances_ok)
qed

end
