(* ===== verification/System_Laws.thy ===== *)
theory System_Laws
  imports Computations Operator_Laws Orphan_Instances Capacity_Discovery
begin

section \<open>The program in operation\<close>

text \<open>
  What holds from the start of the program on, through every call of the cloud provider and of the
  controllers that work on its state and the refreshes in the background, in any order, with any
  answers of the services and whatever came of the calls before.
\<close>

subsection \<open>The invariant\<close>

text \<open>
  The shapes that are known: each is under its name, and was listed in at least one of the domains
  \<open>D\<close> of the region.
\<close>

definition shapes_ok :: "string set \<Rightarrow> (string \<times> (shape \<times> string list)) list \<Rightarrow> bool" where
  "shapes_ok D m \<longleftrightarrow> distinct (map fst m)
     \<and> (\<forall>(name, sh, ads) \<in> set m. name = sh_name sh \<and> ads \<noteq> [] \<and> set ads \<subseteq> D)"

definition cloud_ok :: "options \<times> string set \<Rightarrow> cloud_provider \<Rightarrow> bool" where
  "cloud_ok p c \<longleftrightarrow> agreed_settings (fst p) c \<and> caches_ok (inp_caches (cp_instances c))
     \<and> shapes_ok (snd p) (tp_shapes (cp_types c))"

lemma cloud_ok_parts [simp]:
  "cloud_ok p (c\<lparr>cp_place := x1\<rparr>) = cloud_ok p c" "cloud_ok p (c\<lparr>cp_images := x2\<rparr>) = cloud_ok p c"
  "cloud_ok p (c\<lparr>cp_kms := x3\<rparr>) = cloud_ok p c" "cloud_ok p (c\<lparr>cp_npns := x4\<rparr>) = cloud_ok p c"
  "cloud_ok p (c\<lparr>cp_initialized := x5\<rparr>) = cloud_ok p c"
  by (simp_all add: cloud_ok_def agreed_settings_def)

lemma register_settings_both: "register_settings = (\<lambda>u. (uo_disabled u, lc_ttl (uo_cache u)))"
  by (rule ext) (rule register_settings_def)

lemma cloud_ok_instances:
  "cloud_ok p c \<Longrightarrow> instances_kept (cp_instances c) ip \<Longrightarrow> cloud_ok p (c\<lparr>cp_instances := ip\<rparr>)"
  by (simp add: cloud_ok_def agreed_settings_def instances_kept_def instance_settings_def register_settings_both)

lemma instances_kept_refl: "cloud_ok p c \<Longrightarrow> instances_kept (cp_instances c) (cp_instances c)"
  by (simp add: instances_kept_def cloud_ok_def)

subsection \<open>The calls of the providers\<close>

lemma keeps_caches:
  assumes "\<And>dc. caches_ok dc \<Longrightarrow> caches_ok (snd (f dc))" "cloud_ok p c"
  shows "keeps (cloud_ok p) (cp_with_caches f c)"
proof -
  obtain r dc where f: "f (inp_caches (cp_instances c)) = (r, dc)" by (rule prod.exhaust)
  with assms have "caches_ok dc" by (metis cloud_ok_def snd_conv)
  with f assms(2) show ?thesis by (simp add: keeps_def cp_with_caches_def cloud_ok_def agreed_settings_def)
qed

lemma keeps_network:
  assumes "\<And>v q. same_setup v q \<Longrightarrow> keeps (same_setup v) (f q)" "cloud_ok p c"
  shows "keeps (cloud_ok p) (cp_with_network f c)"
proof -
  let ?v = "(cp_network c)\<lparr>vp_vnics := dc_vnics (inp_caches (cp_instances c))\<rparr>"
  obtain r v where f: "f ?v = (r, v)" by (rule prod.exhaust)
  with assms(1) [OF same_setup_refl, of ?v] have "same_setup ?v v" by (simp add: keeps_def)
  with f assms(2) show ?thesis
    by (auto simp: keeps_def cp_with_network_def Let_def cloud_ok_def agreed_settings_def same_setup_def caches_ok_def
        caches_finite_def)
qed

lemma keeps_types: "cloud_ok p c \<Longrightarrow> keeps (cloud_ok p) (cp_list_types env cls ts c)"
  by (auto simp: keeps_def cp_list_types_def Let_def split: prod.splits)

lemma keeps_image: "cloud_ok p c \<Longrightarrow> keeps (cloud_ok p) (cp_resolve_image env spec shape c)"
  by (auto simp: keeps_def cp_resolve_image_def Let_def split: prod.splits)

lemma keeps_kms: "cloud_ok p c \<Longrightarrow> keeps (cloud_ok p) (cp_resolve_kms env spec c)"
  by (auto simp: keeps_def cp_resolve_kms_def Let_def split: prod.splits)

lemma keeps_resolve_network: "cloud_ok p c \<Longrightarrow> keeps (cloud_ok p) (cp_resolve_network env cfg c)"
  unfolding cp_resolve_network_def by (intro keeping keeps_network keeps_network_config) assumption+

lemma keeps_volumes: "cloud_ok p c \<Longrightarrow> keeps (cloud_ok p) (cp_with_volumes f c)"
  unfolding cp_with_volumes_def
  by (rule keeps_caches) (auto simp: caches_ok_def caches_finite_def Let_def split: prod.splits)

lemma keeps_lift: "keeps I (f c) \<Longrightarrow> keeps I (lift_cloud f c)"
  by (auto simp: keeps_def lift_cloud_def split: prod.splits)

lemma keeps_get: "cloud_ok p c \<Longrightarrow> keeps (cloud_ok p) (cp_get_instance env k c)"
  unfolding cp_get_instance_def by (rule keeps_caches) (rule lookups_ok)

lemma keeps_listing: "cloud_ok p c \<Longrightarrow> keeps (cloud_ok p) (cp_list_instances env cs c)"
  using keeps_list_instances [OF instances_kept_refl, of p c "ce_launch env" cs]
  by (auto simp: keeps_def cp_list_instances_def cloud_ok_instances split: prod.splits)

lemma keeps_found: "cloud_ok p c \<Longrightarrow> keeps (cloud_ok p) (cp_found pool i c)"
  by (auto simp: keeps_def cp_found_def split: go.splits)

lemma keeps_mark: "cloud_ok p c \<Longrightarrow> keeps (cloud_ok p) (cp_mark_capres m i c)"
  by (auto simp: keeps_def cp_mark_capres_def split: go.splits)

lemmas keeps_calls = keeping keeps_lift keeps_types keeps_image keeps_kms keeps_resolve_network keeps_get keeps_listing
  keeps_found keeps_mark

subsection \<open>Creating\<close>

lemma place_loop_keeps:
  assumes "\<And>pr w. P w \<Longrightarrow> P (snd (f pr w))" "P w"
  shows "P (snd (snd (place_loop n sorter f it ps a w)))"
  using assms(2)
proof (induction n arbitrary: ps a w)
  case (Suc n)
  obtain po qs a1 where p: "propose sorter ps (it_shape it) (it_ocpu it) (it_memory it) a = (po, qs, a1)" by (rule prod_cases3)
  show ?case
  proof (cases po)
    case (Some pr)
    obtain q w1 where l: "f pr w = (q, w1)" by (rule prod.exhaust)
    with assms(1) [OF Suc.prems, of pr] have "P w1" by simp
    with p l Some Suc.IH show ?thesis by (cases q) simp_all
  qed (use p Suc.prems in simp)
qed simp

lemma place_instance_keeps:
  assumes "\<And>pr w. P w \<Longrightarrow> P (snd (f pr w))" "P w"
  shows "P (snd (snd (place_instance penv claim spec it f s w)))"
  using place_loop_keeps [where P = P and f = f, OF assms] assms(2)
  by (auto simp: place_instance_def Let_def split: prod.splits go.splits) (metis snd_conv)

lemma keeps_launch_func:
  "instances_kept ip (snd w) \<Longrightarrow> instances_kept ip (snd (snd (launch_func env claim cls it img net kms pr w)))"
  using keeps_launch [of ip "snd w"]
  by (auto simp: launch_func_def keeps_def split: prod.splits go.splits) (metis snd_conv)+

lemma keeps_try_types: "cloud_ok p c \<Longrightarrow> keeps (cloud_ok p) (try_types env claim cls net kms its l c)"
proof (induction its arbitrary: l c)
  case (Cons it its)
  have after: "keeps (cloud_ok p)
      (case place_instance (ce_place env) claim (ncl_spec cls) it (launch_func env claim cls it img net kms) (cp_place c1) (ln_instance l, cp_instances c1) of
         (r, pl, inst, ip) \<Rightarrow>
           (let p2 = c1\<lparr>cp_place := pl, cp_instances := ip\<rparr>; l1 = l\<lparr>ln_instance := inst\<rparr>
            in case r of
                 Fail e \<Rightarrow>
                   (if is_skippable_launch_error (Some e) (cp_fallback p2)
                    then try_types env claim cls net kms its (l1\<lparr>ln_skipped := Some e\<rparr>) p2
                    else (Fail (CreateErr (WrapW ''launch instance failure, '' e) ''LaunchInstanceFailed''), p2))
               | Panic \<Rightarrow> (Panic, p2)
               | Hang \<Rightarrow> (Hang, p2)
               | Ok u \<Rightarrow> (map_ok (\<lambda>i. l1\<lparr>ln_type := Some it\<rparr>) (deref inst), p2)))"
    if c1: "cloud_ok p c1" for img c1
  proof -
    obtain r pl inst ip where pi: "place_instance (ce_place env) claim (ncl_spec cls) it (launch_func env claim cls it img net kms)
        (cp_place c1) (ln_instance l, cp_instances c1) = (r, pl, inst, ip)" by (metis surj_pair)
    have "instances_kept (cp_instances c1) ip"
      using place_instance_keeps [where P = "\<lambda>w. instances_kept (cp_instances c1) (snd w)"
          and f = "launch_func env claim cls it img net kms", OF keeps_launch_func, of "(ln_instance l, cp_instances c1)"
          "ce_place env" claim "ncl_spec cls" it "cp_place c1"] pi instances_kept_refl [OF c1] by simp
    then have "cloud_ok p (c1\<lparr>cp_place := pl, cp_instances := ip\<rparr>)"
      using cloud_ok_instances [of p "c1\<lparr>cp_place := pl\<rparr>" ip] c1 by simp
    then show ?thesis unfolding pi prod.case Let_def
      by (cases r) (auto intro!: keeps_pair keeps_if Cons.IH)
  qed
  show ?case unfolding try_types.simps
    by (intro keeps_go_case keeps_image Cons.prems Cons.IH after keeps_pair)
qed (simp add: keeps_def)

lemma keeps_apply_npn: "cloud_ok p c \<Longrightarrow> keeps (cloud_ok p) (apply_npn_and_log env info cls net c)"
  unfolding apply_npn_and_log_def apply_npn_object_def
  by (intro keeping) (auto simp: keeps_def st_bind_def split: go.splits prod.splits)

lemma keeps_finish: "cloud_ok p c \<Longrightarrow> keeps (cloud_ok p) (finish_create env claim cls net i ito c)"
  unfolding finish_create_def by (intro keeps_calls keeps_apply_npn) assumption+

lemma keeps_end: "cloud_ok p c \<Longrightarrow> keeps (cloud_ok p) (end_create env claim cls net l c)"
  unfolding end_create_def by (intro keeps_option keeps_finish keeps_pair)

lemma keeps_resolve_types: "cloud_ok p c \<Longrightarrow> keeps (cloud_ok p) (resolve_instance_types env claim cls c)"
  unfolding resolve_instance_types_def by (intro keeps_calls) assumption+

lemma keeps_create: "cloud_ok p c \<Longrightarrow> keeps (cloud_ok p) (cp_create env claim c)"
proof -
  assume ok: "cloud_ok p c"
  have types: "keeps (cloud_ok p) (case resolve_instance_types env claim cls c1 of
      (Fail e, p1) \<Rightarrow> (Fail (CreateErr (WrapW ''resolving instance types, '' e) ''InstanceTypeResolutionFailed''), p1)
    | (r, p1) \<Rightarrow> (plain r, p1))" if "cloud_ok p c1" for cls c1
    using keeps_resolve_types [OF that, of env claim cls] by (auto simp: keeps_def split: prod.splits go.splits)
  show ?thesis unfolding cp_create_def Let_def
    by (intro keeps_calls types keeps_try_types keeps_end ok) assumption+
qed

subsection \<open>Looking up, listing and deleting\<close>

lemma keeps_oci_types: "cloud_ok p c \<Longrightarrow> keeps (cloud_ok p) (cp_oci_types env np c)"
  unfolding cp_oci_types_def by (intro keeps_calls) assumption+

lemma keeps_claim: "cloud_ok p c \<Longrightarrow> keeps (cloud_ok p) (claim_from_instance env i c)"
proof -
  assume ok: "cloud_ok p c"
  have "keeps (cloud_ok p) (type_from_instance env i c)"
    using keeps_oci_types [OF ok, of env] ok
    by (auto simp: type_from_instance_def keeps_def split: go.splits prod.splits option.splits) (metis snd_conv)+
  then show ?thesis
    by (auto simp: claim_from_instance_def keeps_def split: go.splits prod.splits cloud_err.splits)
qed

lemma keeps_claims: "cloud_ok p c \<Longrightarrow> keeps (cloud_ok p) (list_claims env pools is c)"
proof (induction "is" arbitrary: c)
  case (Cons i "is")
  have rest: "keeps (cloud_ok p) (st_bind (claim_from_instance env i c) (\<lambda>nc p.
          if pool_label nc \<in> npl_name ` set pools
          then st_bind (cp_found (pool_label nc) i p) (\<lambda>u p.
               st_bind (list_claims env pools is p) (\<lambda>ncs p. (Ok (nc # ncs), p)))
          else list_claims env pools is p))"
    by (intro keeps_calls keeps_claim Cons.prems Cons.IH) assumption+
  show ?case unfolding list_claims.simps by (rule keeps_if [OF Cons.IH [OF Cons.prems] rest])
qed (simp add: keeps_def)

lemma keeps_list: "cloud_ok p c \<Longrightarrow> keeps (cloud_ok p) (cp_list env c)"
  unfolding cp_list_def by (intro keeps_calls keeps_claims) assumption+

lemma keeps_cp_get: "cloud_ok p c \<Longrightarrow> keeps (cloud_ok p) (cp_get env k c)"
  unfolding cp_get_def by (intro keeps_calls keeps_claim) assumption+

lemma keeps_instance_types: "cloud_ok p c \<Longrightarrow> keeps (cloud_ok p) (cp_get_instance_types env np c)"
  unfolding cp_get_instance_types_def by (intro keeps_calls) assumption+

lemma keeps_delete: "cloud_ok p c \<Longrightarrow> keeps (cloud_ok p) (cp_delete env nc c)"
  unfolding cp_delete_def cp_forget_def
  by (intro keeps_calls keeps_caches delete_ok) (assumption | simp)+

lemma keeps_warm_up: "cloud_ok p c \<Longrightarrow> keeps (cloud_ok p) (warm_up es c)"
proof (induction es c rule: warm_up.induct)
  case (3 env es c)
  note l = keeps_list [OF 3(2), of env, unfolded keeps_def]
  obtain r q where q: "cp_list env c = (r, q)" by (rule prod.exhaust)
  with l have "cloud_ok p q" by simp
  with q 3(1) show ?case by (cases r) (auto simp: keeps_def)
qed (simp_all add: keeps_def)

subsection \<open>Drift\<close>

lemma keeps_network_drift_with:
  assumes "\<And>dc. caches_ok dc \<Longrightarrow> caches_ok (snd (atts dc))"
    "\<And>v0 k v. same_setup v0 v \<Longrightarrow> keeps (same_setup v0) (getVnic (ce_vcn env) (ce_now env) k v)" "cloud_ok p c"
  shows "keeps (cloud_ok p) (network_drift_with env d skip atts getVnic c)"
  unfolding network_drift_with_def
  by (intro keeping keeps_caches keeps_network_drift keeps_network assms) assumption+

lemma keeps_volume_drift_with:
  assumes "\<And>dc. caches_ok dc \<Longrightarrow> caches_ok (snd (atts dc))" "cloud_ok p c"
  shows "keeps (cloud_ok p) (volume_drift_with env d atts getVolume c)"
  unfolding volume_drift_with_def
  by (intro keeping keeps_caches keeps_volume_drift keeps_volumes assms) assumption+

lemma keeps_confirmed:
  "(\<And>s. I s \<Longrightarrow> keeps I (a s)) \<Longrightarrow> (\<And>s. I s \<Longrightarrow> keeps I (b s)) \<Longrightarrow> I s \<Longrightarrow> keeps I (confirmed a b s)"
  "(\<And>s. I s \<Longrightarrow> keeps I (a s)) \<Longrightarrow> (\<And>s. I s \<Longrightarrow> keeps I (b s)) \<Longrightarrow> I s \<Longrightarrow> keeps I (first_reason a b s)"
  by (auto simp: confirmed_def first_reason_def intro!: keeping)

lemma keeps_drift_of_instance: "cloud_ok p c \<Longrightarrow> keeps (cloud_ok p) (drift_of_instance env k d cached c)"
  unfolding drift_of_instance_def by (intro keeps_confirmed keeps_calls) assumption+

lemma keeps_drift_of_network: "cloud_ok p c \<Longrightarrow> keeps (cloud_ok p) (drift_of_network env claim d i c)"
  unfolding drift_of_network_def Let_def
  by (intro keeps_confirmed keeping keeps_network_drift_with attachments_ok keeps_vnics) assumption+

lemma keeps_drift_of_volume: "cloud_ok p c \<Longrightarrow> keeps (cloud_ok p) (drift_of_volume env d i c)"
  unfolding drift_of_volume_def Let_def
  by (intro keeps_confirmed keeping keeps_volume_drift_with attachments_ok) assumption+

lemma keeps_drift_of_claim: "cloud_ok p c \<Longrightarrow> keeps (cloud_ok p) (drift_of_claim env claim d c)"
  unfolding drift_of_claim_def Let_def
  by (intro keeping keeps_confirmed keeps_caches lookups_ok keeps_drift_of_instance keeps_drift_of_network keeps_drift_of_volume)
    assumption+

lemma keeps_reservations: "cloud_ok p c \<Longrightarrow> keeps (cloud_ok p) (wanted_reservations env claim spec c)"
  by (auto simp: keeps_def wanted_reservations_def Let_def split: option.splits prod.splits)

lemma keeps_is_drifted: "cloud_ok p c \<Longrightarrow> keeps (cloud_ok p) (cp_is_drifted env claim c)"
  unfolding cp_is_drifted_def
  by (cases "ensure_node_class_from_claim env claim")
    (auto intro!: keeps_bind keeps_case keeps_types keeps_image keeps_option keeps_reservations keeps_drift_of_claim keeps_pair
      simp del: split_paired_All split: prod.splits intro: keeps_snd)

subsection \<open>The controllers\<close>

text \<open>
  A turn of the node class controller: of the providers, the network provider has settings, and the
  identity provider knows the domains of the region.
\<close>

definition same_classes :: "class_providers \<Rightarrow> class_providers \<Rightarrow> bool" where
  "same_classes v w \<longleftrightarrow> same_setup (clp_network v) (clp_network w) \<and> ip_ad_map (clp_identity w) = ip_ad_map (clp_identity v)"

definition class_kept :: "class_providers \<Rightarrow> class_state \<Rightarrow> bool" where
  "class_kept v s \<longleftrightarrow> same_classes v (snd s)"

definition step_keeps :: "class_step \<Rightarrow> bool" where
  "step_keeps f \<longleftrightarrow> (\<forall>v s. class_kept v s \<longrightarrow> keeps (class_kept v) (f s))"

lemma step_keepsI: "(\<And>v cls w. same_classes v w \<Longrightarrow> same_classes v (snd (snd (f (cls, w))))) \<Longrightarrow> step_keeps f"
  by (auto simp: step_keeps_def class_kept_def keeps_def)

lemma resolutions_keep:
  "snd (snd (resolved env t s)) = snd s" "snd (snd (resolve_failed env t reason e s)) = snd s"
  "snd (snd (clear_condition env t s)) = snd s"
  by (cases s; auto simp: resolved_def resolve_failed_def clear_condition_def split: go.splits prod.splits)+

lemma with_volume_keeps:
  "(\<And>s. snd (snd (f s)) = snd s) \<Longrightarrow> snd (snd (with_volume g f s)) = snd s"
  by (cases s) (auto simp: with_volume_def split: option.splits)

lemma updates_keep:
  "snd (snd (update_image env r1 s)) = snd s" "snd (snd (update_kms env r2 s)) = snd s"
  "snd (snd (update_network env r3 s)) = snd s"
  by (cases s; auto simp: update_image_def update_kms_def update_network_def resolutions_keep with_volume_keeps Let_def
      split: go.splits prod.splits)+

lemma reconcilers_keep: "f \<in> set (class_reconcilers env) \<Longrightarrow> step_keeps f"
proof -
  have network: "same_setup v (clp_network w) \<Longrightarrow> resolve_network_config api now c (clp_network w) = (r, v1) \<Longrightarrow> same_setup v v1"
    for v w api now c r v1
    using keeps_network_config by (rule keeps_snd)
  have domains: "resolve_compartment get now k i = (r, i1) \<Longrightarrow> ip_ad_map i1 = ip_ad_map i" for get now k i r i1
    by (auto simp: resolve_compartment_def Let_def split: prod.splits)
  have "step_keeps init_status" "step_keeps (reconcile_compartment env)" "step_keeps (reconcile_image env)"
    "step_keeps (reconcile_kms env)" "step_keeps (reconcile_capres env)" "step_keeps (reconcile_cpg env)"
    "step_keeps (reconcile_cluster env)" "step_keeps (reconcile_hash env)" "step_keeps (reconcile_network env)"
    by (rule step_keepsI, auto simp: init_status_def reconcile_compartment_def reconcile_image_def reconcile_kms_def
        reconcile_capres_def reconcile_cpg_def reconcile_cluster_def reconcile_hash_def reconcile_network_def Let_def st_bind_def
        updates_keep resolutions_keep with_volume_keeps same_classes_def
        split: prod.splits go.splits option.splits intro: network dest: domains)+
  then show "f \<in> set (class_reconcilers env) \<Longrightarrow> ?thesis"
    by (auto simp: class_reconcilers_def)
qed

lemma keeps_reconcilers:
  "\<forall>f \<in> set fs. step_keeps f \<Longrightarrow> class_kept v s \<Longrightarrow> keeps (class_kept v) (run_reconcilers fs s)"
proof (induction fs arbitrary: s)
  case (Cons f fs)
  have f: "keeps (class_kept v) (f s)" using Cons.prems by (simp add: step_keeps_def del: split_paired_All)
  have rest: "keeps (class_kept v) (st_bind (run_reconcilers fs t) (\<lambda>(qs, es) s. (Ok (q # qs, es' @ es), s)))"
    if "class_kept v t" for t q es'
    using Cons.IH [OF _ that] Cons.prems(1) by (intro keeping) simp_all
  show ?case unfolding run_reconcilers.simps
    using rest [where es' = "[]"] rest [where es' = "[e]" for e] by (intro keeps_go_case f keeps_pair) simp_all
qed (simp add: keeps_def)

lemma write_changes_providers: "snd (fst (snd (write_changes env stored qs es ((cls, w), ws)))) = w"
  by (auto simp: write_changes_def split: prod.splits go.splits option.splits)

lemma reconcile_class_keeps:
  assumes "reconcile_class env (cls, w) = (r, (cls', w'), ws)" "same_classes v w"
  shows "same_classes v w'"
proof (cases "ncl_deleting cls")
  case True
  then have "w' = w" using assms(1)
    by (auto simp: reconcile_class_def finalize_class_def Let_def split: if_splits go.splits)
  with assms(2) show ?thesis by simp
next
  case False
  obtain q ws0 where f: "ensure_finalizer env cls = (q, ws0)" by (rule prod.exhaust)
  show ?thesis
  proof (cases q)
    case (Ok stored)
    obtain r1 cls1 w1 where run: "run_reconcilers (class_reconcilers env) (stored, w) = (r1, cls1, w1)" by (rule prod_cases3)
    have "class_kept v (stored, w)" using assms(2) by (simp add: class_kept_def)
    from keeps_snd [OF keeps_reconcilers [OF _ this] run] reconcilers_keep have "same_classes v w1"
      by (auto simp: class_kept_def)
    moreover have "w' = w1"
      using assms(1) False f Ok run write_changes_providers [of env stored _ _ cls1 w1 ws0]
      by (auto simp: reconcile_class_def split: go.splits) (metis fst_conv snd_conv)
    ultimately show ?thesis by simp
  qed (use assms f False in \<open>auto simp: reconcile_class_def split: if_splits\<close>)
qed

text \<open>The other two work on the state of the cloud provider itself.\<close>

lemma recover_npn_keeps:
  assumes "recover_npn env claim c = (r, c', cs)" "cloud_ok p c" shows "cloud_ok p c'"
proof -
  have build: "keeps (cloud_ok p) (build_npn env claim cls c)" for cls
    unfolding build_npn_def Let_def
    by (intro keeps_calls keeps_caches lookups_ok assms(2)) assumption+
  have create: "cloud_ok p (fst (snd (create_npn env claim cls c)))" for cls
  proof -
    obtain q c1 where b: "build_npn env claim cls c = (q, c1)" by (rule prod.exhaust)
    with build [of cls] have "cloud_ok p c1" by (simp add: keeps_def)
    with b show ?thesis by (cases q) (simp_all add: create_npn_def Let_def)
  qed
  have "cloud_ok p (fst (snd (recover_missing env claim d c)))" for d
    using create assms(2)
    by (auto simp: recover_missing_def delete_unrecovered_def split: go.splits prod.splits) (metis fst_conv snd_conv)
  then have "cloud_ok p (fst (snd (recover_npn env claim c)))"
    using assms(2) by (auto simp: recover_npn_def split: go.splits option.splits)
  with assms(1) show ?thesis by simp
qed

lemma reclaim_keeps:
  assumes "cloud_ok p c" shows "cloud_ok p (fst (snd (reclaim env i c)))"
  using keeps_delete [OF assms, of "oe_at env i" i] assms
  by (auto simp: reclaim_def keeps_def split: go.splits prod.splits)

lemma reclaim_all_keeps: "cloud_ok p c \<Longrightarrow> cloud_ok p (fst (snd (reclaim_all env claims is c)))"
proof (induction "is" arbitrary: c)
  case (Cons i "is")
  obtain r c1 cs where one: "reclaim env i c = (r, c1, cs)" by (rule prod_cases3)
  with reclaim_keeps [OF Cons.prems, of env i] have "cloud_ok p c1" by simp
  with Cons.IH [OF this] Cons.IH [OF Cons.prems] one show ?case
    by (auto split: go.splits prod.splits)
qed simp

lemma reconcile_orphans_keeps:
  assumes "cloud_ok p c" shows "cloud_ok p (fst (snd (reconcile_orphans env c)))"
proof -
  obtain r c1 where l: "cp_list (oe_list env) c = (r, c1)" by (rule prod.exhaust)
  with keeps_list [OF assms, of "oe_list env"] have "cloud_ok p c1" by (simp add: keeps_def)
  with reclaim_all_keeps [OF this] l assms show ?thesis
    by (auto simp: reconcile_orphans_def split: go.splits prod.splits) (metis fst_conv snd_conv)
qed

subsection \<open>The whole program\<close>

lemma class_turn_keeps:
  assumes "class_turn p env cls pg = (r, cls', ws, pg')" "cloud_ok (p, D) (pg_cloud pg)"
  shows "cloud_ok (p, D) (pg_cloud pg') \<and> pg_capacity pg' = pg_capacity pg
    \<and> ip_ad_map (pg_identity pg') = ip_ad_map (pg_identity pg) \<and> cp_types (pg_cloud pg') = cp_types (pg_cloud pg)"
proof -
  obtain w where w: "reconcile_class env (cls, class_providers_of p pg) = (r, (cls', w), ws)" "pg' = with_class_providers w pg"
    using assms(1) by (auto simp: class_turn_def split: prod.splits)
  from reconcile_class_keeps [OF w(1), of "class_providers_of p pg"]
  have "same_setup (cp_network (pg_cloud pg)) (clp_network w)" "ip_ad_map (clp_identity w) = ip_ad_map (pg_identity pg)"
    by (simp_all add: class_providers_of_def Let_def same_setup_def same_classes_def)
  with assms(2) w(2) show ?thesis
    by (simp add: with_class_providers_def Let_def cloud_ok_def agreed_settings_def same_setup_def caches_ok_def caches_finite_def)
qed

lemma measuring_stays:
  assumes "reconcile_node managed found now n c = (r, c')"
  shows "discovery_enabled (cc_capacity c') = discovery_enabled (cc_capacity c)"
proof -
  have "discovery_enabled (snd (record_node_capacity now no co q)) = discovery_enabled q" for no co q
    by (auto simp: record_node_capacity_def discovery_enabled_def capacity_enabled_def record_capacity_def
        split: option.splits)
  from this [of "Some n" _ "cc_capacity c"] assms show ?thesis
    by (auto simp: reconcile_node_def requeue_for_missing_claim_def Let_def split: if_splits claim_lookup.splits prod.splits go.splits)
      (metis snd_conv)+
qed

text \<open>The refreshes: what the type provider knows of the shapes is of the domains that were asked.\<close>

lemma shapes_by_ad_domains: "shapes_by_ad api ads page = Ok m \<Longrightarrow> map fst m = ads"
  by (induction api ads page arbitrary: m rule: shapes_by_ad.induct)
    (auto simp: go_bind_eq_Ok_iff map_ok_eq_Ok_iff)

lemma add_shape_ok:
  assumes "shapes_ok D m" "ad \<in> D"
  shows "shapes_ok D (add_shape ad sh m)"
proof (cases "map_of m (sh_name sh)")
  case None
  then have "add_shape ad sh m = m @ [(sh_name sh, (sh, [ad]))]" "sh_name sh \<notin> fst ` set m"
    by (simp add: add_shape_def) (use None in \<open>simp add: map_of_eq_None_iff\<close>)
  with assms show ?thesis by (auto simp: shapes_ok_def)
next
  case (Some v)
  obtain s ads where v: "v = (s, ads)" by (rule prod.exhaust)
  from map_of_SomeD [OF Some [unfolded v]] assms(1) have "sh_name sh = sh_name s" "set ads \<subseteq> D"
    by (auto simp: shapes_ok_def)
  with assms Some v show ?thesis
    by (auto simp: shapes_ok_def add_shape_def distinct_update dest!: set_alist_update)
qed

lemma add_shapes_ok: "shapes_ok D m \<Longrightarrow> ad \<in> D \<Longrightarrow> shapes_ok D (fold (add_shape ad) shs m)"
  by (induction shs arbitrary: m) (auto simp: add_shape_ok)

lemma shape_ad_map_ok: "fst ` set by_ad \<subseteq> D \<Longrightarrow> shapes_ok D (shape_ad_map by_ad)"
proof -
  have "shapes_ok D m \<Longrightarrow> fst ` set by_ad \<subseteq> D \<Longrightarrow> shapes_ok D (fold (\<lambda>(ad, shs). fold (add_shape ad) shs) by_ad m)" for m
    by (induction by_ad arbitrary: m) (auto simp: add_shapes_ok)
  from this [of "[]"] show "fst ` set by_ad \<subseteq> D \<Longrightarrow> shapes_ok D (shape_ad_map by_ad)"
    by (simp add: shape_ad_map_def shapes_ok_def)
qed

lemma refreshed_types:
  assumes "cloud_ok p c"
  shows "set ads \<subseteq> snd p \<Longrightarrow> cloud_ok p (c\<lparr>cp_types := snd (refresh_shapes api ads (cp_types c))\<rparr>)"
    "cloud_ok p (c\<lparr>cp_types := snd (reload_config file (cp_types c))\<rparr>)"
    "cloud_ok p (c\<lparr>cp_types := snd (refresh_cluster_version minor (cp_types c))\<rparr>)"
proof -
  assume "set ads \<subseteq> snd p"
  then have "shapes_by_ad api ads None = Ok m \<Longrightarrow> shapes_ok (snd p) (shape_ad_map m)" for m
    using shapes_by_ad_domains [of api ads None m] by (intro shape_ad_map_ok) (simp flip: list.set_map)
  with assms show "cloud_ok p (c\<lparr>cp_types := snd (refresh_shapes api ads (cp_types c))\<rparr>)"
    by (auto simp: refresh_shapes_def st_bind_def cloud_ok_def agreed_settings_def split: go.splits)
qed (use assms in \<open>auto simp: reload_config_def refresh_cluster_version_def st_bind_def cloud_ok_def agreed_settings_def
    split: go.splits\<close>)

text \<open>
  The states of a program that was started in the surroundings \<open>senv\<close> with options \<open>p\<close>: its providers
  are called by Karpenter, its controllers take turns, and in the background what it knows of the
  shapes, of their prices and of the version of the cluster is refreshed.  The shapes are listed for
  all domains, in any order.
\<close>

inductive runs :: "operator_env \<Rightarrow> options \<Rightarrow> program \<Rightarrow> bool" for senv p where
  started: "start_program senv p = Ok (pg, policies, controllers) \<Longrightarrow> runs senv p pg"
| refreshing_shapes: "runs senv p pg \<Longrightarrow> set ads = fst ` set (ip_ad_map (pg_identity pg)) \<Longrightarrow> distinct ads \<Longrightarrow>
    runs senv p (pg\<lparr>pg_cloud := (pg_cloud pg)\<lparr>cp_types := snd (refresh_shapes sapi ads (cp_types (pg_cloud pg)))\<rparr>\<rparr>)"
| reloading_config: "runs senv p pg \<Longrightarrow>
    runs senv p (pg\<lparr>pg_cloud := (pg_cloud pg)\<lparr>cp_types := snd (reload_config file (cp_types (pg_cloud pg)))\<rparr>\<rparr>)"
| refreshing_version: "runs senv p pg \<Longrightarrow>
    runs senv p (pg\<lparr>pg_cloud := (pg_cloud pg)\<lparr>cp_types := snd (refresh_cluster_version minor (cp_types (pg_cloud pg)))\<rparr>\<rparr>)"
| refreshing_images: "runs senv p pg \<Longrightarrow>
    runs senv p (pg\<lparr>pg_cloud := (pg_cloud pg)\<lparr>cp_images := snd (refresh_image_version server ienv (cp_images (pg_cloud pg)))\<rparr>\<rparr>)"
| warming_up: "runs senv p pg \<Longrightarrow> runs senv p (pg\<lparr>pg_cloud := snd (warm_up es (pg_cloud pg))\<rparr>)"
| creating: "runs senv p pg \<Longrightarrow> runs senv p (pg\<lparr>pg_cloud := snd (cp_create env claim (pg_cloud pg))\<rparr>)"
| getting: "runs senv p pg \<Longrightarrow> runs senv p (pg\<lparr>pg_cloud := snd (cp_get env k (pg_cloud pg))\<rparr>)"
| listing: "runs senv p pg \<Longrightarrow> runs senv p (pg\<lparr>pg_cloud := snd (cp_list env (pg_cloud pg))\<rparr>)"
| types: "runs senv p pg \<Longrightarrow> runs senv p (pg\<lparr>pg_cloud := snd (cp_get_instance_types env np (pg_cloud pg))\<rparr>)"
| deleting: "runs senv p pg \<Longrightarrow> runs senv p (pg\<lparr>pg_cloud := snd (cp_delete env claim (pg_cloud pg))\<rparr>)"
| drift: "runs senv p pg \<Longrightarrow> runs senv p (pg\<lparr>pg_cloud := snd (cp_is_drifted env claim (pg_cloud pg))\<rparr>)"
| class_control: "runs senv p pg \<Longrightarrow> class_turn p cenv cls pg = (r, cls', ws, pg') \<Longrightarrow> runs senv p pg'"
| recovery: "runs senv p pg \<Longrightarrow> recover_npn renv claim (pg_cloud pg) = (r, c, cs) \<Longrightarrow> runs senv p (pg\<lparr>pg_cloud := c\<rparr>)"
| orphans: "runs senv p pg \<Longrightarrow> runs senv p (pg\<lparr>pg_cloud := fst (snd (reconcile_orphans oenv (pg_cloud pg)))\<rparr>)"
| measuring: "runs senv p pg \<Longrightarrow> cc_capacity c = pg_capacity pg \<Longrightarrow> reconcile_node managed found now n c = (r, c') \<Longrightarrow>
    runs senv p (pg\<lparr>pg_capacity := cc_capacity c'\<rparr>)"

definition domains_of :: "program \<Rightarrow> string set" where
  "domains_of pg = fst ` set (ip_ad_map (pg_identity pg))"

definition program_ok :: "operator_env \<Rightarrow> options \<Rightarrow> program \<Rightarrow> bool" where
  "program_ok senv p pg \<longleftrightarrow> cloud_ok (p, domains_of pg) (pg_cloud pg) \<and> (discovery_enabled (pg_capacity pg) \<longleftrightarrow> opt_capacity_hours p \<noteq> 0)
     \<and> (\<exists>ads. ope_ads senv = Ok ads \<and> domains_of pg = fst ` set ads)"

lemma record_ads_domains:
  "record_ads ads i = Ok j \<Longrightarrow> fst ` set (ip_ad_map j) = fst ` set ads \<union> fst ` set (ip_ad_map i)"
proof (induction ads i arbitrary: j rule: record_ads.induct)
  case (2 name ocid ads i)
  from 2(2) obtain pre where "record_ads ads (i\<lparr>ip_ad_map := (name, ocid) # filter (\<lambda>(n, o'). n \<noteq> name) (ip_ad_map i),
      ip_prefix := pre\<rparr>) = Ok j" by (auto simp: go_bind_eq_Ok_iff)
  from 2(1) [OF this] show ?case by force
qed simp

lemma create_operator_types:
  assumes "create_operator env p region = Ok pg"
  shows "tp_shapes (cp_types (pg_cloud pg)) = []" "new_identity_provider (opt_cluster_compartment p) (ope_ads env) = Ok (pg_identity pg)"
  using assms
  by (auto simp: create_operator_def Let_def go_bind_eq_Ok_iff map_ok_eq_Ok_iff new_type_provider_def)

lemma started_ok:
  assumes "start_program env p = Ok (pg, policies, cs)"
  shows "program_ok env p pg \<and> cs = new_controllers (opt_capacity_hours p \<noteq> 0) (opt_vcn_native p)"
proof -
  from assms obtain region where s: "validate (ope_readers env) p = Ok ()" "create_operator env p region = Ok pg"
    "cs = new_controllers (discovery_enabled (pg_capacity pg)) (np_cluster (cp_npn (pg_cloud pg)))"
    by (auto simp: start_program_def new_operator_def validate_with_core_def go_bind_eq_Ok_iff split: if_splits)
  note c = create_operator_Ok [OF s(2)] and t = create_operator_types [OF s(2)]
  have "discovery_enabled (pg_capacity pg) \<longleftrightarrow> opt_capacity_hours p \<noteq> 0"
    using c capacity_duration [OF s(1)]
    by (simp add: in_seconds_def second_ns_def discovery_enabled_def capacity_enabled_def new_capacity_provider_def new_node_capacity_def)
  moreover have "\<exists>ads. ope_ads env = Ok ads \<and> domains_of pg = fst ` set ads"
    using t(2) by (auto simp: new_identity_provider_def fetch_ad_list_def go_bind_eq_Ok_iff domains_of_def dest!: record_ads_domains)
  ultimately show ?thesis using c s(3) t(1)
    by (auto simp: program_ok_def cloud_ok_def caches_ok_new agreed_settings_def shapes_ok_def)
qed

lemma domains_of_cloud [simp]: "domains_of (pg\<lparr>pg_cloud := c\<rparr>) = domains_of pg" "domains_of (pg\<lparr>pg_capacity := d\<rparr>) = domains_of pg"
  by (simp_all add: domains_of_def)

lemma runs_ok: "runs senv p pg \<Longrightarrow> program_ok senv p pg"
proof (induction rule: runs.induct)
  case (started pg policies controllers)
  then show ?case by (simp add: started_ok)
next
  case (refreshing_shapes pg ads sapi)
  then show ?case using refreshed_types(1) [of "(p, domains_of pg)" "pg_cloud pg" ads] by (simp add: program_ok_def domains_of_def)
next
  case (class_control pg cenv cls r cls' ws pg')
  have "domains_of pg' = domains_of pg"
    using class_turn_keeps [OF class_control(2)] class_control(3) by (auto simp: program_ok_def domains_of_def)
  with class_control(3) class_turn_keeps [OF class_control(2), of "domains_of pg"] show ?case by (auto simp: program_ok_def)
next
  case (recovery pg renv claim r c cs)
  then show ?case using recover_npn_keeps by (fastforce simp: program_ok_def)
next
  case (measuring pg c managed found now n r c')
  then show ?case using measuring_stays by (fastforce simp: program_ok_def)
qed (use keeps_warm_up keeps_create keeps_cp_get keeps_list keeps_instance_types keeps_delete keeps_is_drifted reconcile_orphans_keeps
    refreshed_types(2,3) in \<open>simp_all add: program_ok_def keeps_def\<close>)

lemma types_of_shapes:
  assumes "cp_get_instance_types env np c = (Ok its, c')" "it \<in> set its"
  shows "\<exists>name sh ads. (name, sh, ads) \<in> set (tp_shapes (cp_types c)) \<and> it_shape it = sh_name sh"
proof -
  from assms(1) obtain cls where "cp_list_types env cls (npl_taints np) c = (Ok its, c')"
    by (auto simp: cp_get_instance_types_def st_bind_Ok_iff)
  then obtain s s' where "list_instance_types (ce_types env) ((cp_types c)\<lparr>tp_unavailable := inp_unavailable (cp_instances c)\<rparr>)
      (ncl_name cls) (ncl_spec cls) (npl_taints np) s = (Ok its, s')"
    by (auto simp: cp_list_types_def Let_def split: prod.splits)
  then have "list_shapes (ce_types env) ((cp_types c)\<lparr>tp_unavailable := inp_unavailable (cp_instances c)\<rparr>)
      (ncl_spec cls) (npl_taints np) (tp_shapes (cp_types c)) s = (Ok its, s')"
    by (auto simp: list_instance_types_def st_bind_Ok_iff split: if_splits)
  from list_shapes_elem [OF this assms(2)] show ?thesis by blast
qed


definition sample_options :: options where
  "sample_options = default_options
     \<lparr>opt_cluster_compartment := ''c1'', opt_vcn_compartment := ''c1'', opt_prebaked := ''c2'', opt_endpoint := ''10.0.0.1'',
      opt_vcn_native := True, opt_families := [IPv4]\<rparr>"

definition sample_start :: operator_env where
  "sample_start =
     \<lparr>ope_region = Ok ''us-phoenix-1'', ope_ads = Ok [(''p:AD-1'', ''o1'')], ope_ca = ''ca'', ope_ca_file = Ok [],
      ope_readers = \<lparr>fr_int = (\<lambda>v. Ok 0), fr_bool = (\<lambda>v. Ok False), fr_float = (\<lambda>v. Ok NaN), fr_shapes = (\<lambda>v. Ok []),
        fr_repairs = (\<lambda>v. Ok []), fr_reboot_node = ''RebootNode''\<rparr>,
      ope_core = \<lparr>core_legacy_repair = True, core_terminate_first_drift = False, core_terminate_first_repair = False\<rparr>,
      ope_node_repair = False, ope_replace_node = ''ReplaceNode''\<rparr>"

lemma sample_valid: "validate R sample_options = Ok ()"
  by (simp add: validate_def sample_options_def default_options_def indexed_def default_unavailable_ttl_def
      DefaultNodeCapacityTTL_def maxDiscoveredNodeCapacityTTLHours_def max_int64_def second_ns_def float_negative_def
      is_finite_in_range_def)

lemma sample_starts:
  "\<exists>pg policies controllers. start_program sample_start sample_options = Ok (pg, policies, controllers)
     \<and> ip_ad_map (pg_identity pg) = [(''p:AD-1'', ''o1'')]"
proof -
  have "\<exists>pg. create_operator sample_start sample_options ''us-phoenix-1'' = Ok pg
      \<and> ip_ad_map (pg_identity pg) = [(''p:AD-1'', ''o1'')]"
    by (simp add: create_operator_def Let_def sample_start_def must_def new_identity_provider_def fetch_ad_list_def
        logical_ad_prefix_def index_go_def new_vcn_provider_def new_meta_provider_def new_instance_provider_def)
  then show ?thesis
    by (auto simp: start_program_def new_operator_def validate_with_core_def sample_valid must_def)
      (simp_all add: sample_start_def sample_options_def default_options_def)
qed

text \<open>After one refresh, which finds a shape in the one domain, the program offers that shape.\<close>

definition sample_shapes :: "(string \<times> (shape \<times> string list)) list" where
  "sample_shapes = [(''VM.Standard.E4'', (example_shape ''VM.Standard.E4'', [''p:AD-1'']))]"

lemma sample_refresh:
  "refresh_shapes (\<lambda>ad page. Ok ([example_shape ''VM.Standard.E4''], None)) [''p:AD-1''] tp = (Ok (), tp\<lparr>tp_shapes := sample_shapes\<rparr>)"
  by (simp add: refresh_shapes_def list_shape_pages.simps shape_ad_map_def add_shape_def sample_shapes_def example_shape_def)

lemma sample_listing:
  assumes "tp_shapes (cp_types c) = sample_shapes"
  shows "\<exists>its c'. cp_get_instance_types example_cloud_env \<lparr>npl_name = ''pool'', npl_uid = ''u1'', npl_class = ''default'', npl_taints = []\<rparr> c
      = (Ok its, c') \<and> its \<noteq> []"
proof -
  let ?sh = "example_shape ''VM.Standard.E4''" and ?p = "(cp_types c)\<lparr>tp_unavailable := inp_unavailable (cp_instances c)\<rparr>"
  have sh: "\<not> is_gpu_shape ?sh" "sh_flexible ?sh = Some False" "is_flex_shape ?sh = Ok False" "sh_name ?sh = ''VM.Standard.E4''"
    by (simp_all add: is_gpu_shape_def example_shape_def is_flex_shape_def)
  define s where "s = \<lparr>rs_capres = pst_capres (cp_place c), rs_cpg = pst_cpg (cp_place c), rs_cluster = pst_cluster (cp_place c)\<rparr>"
  have "\<exists>ts. list_shapes example_type_env ?p empty_spec [] sample_shapes s = (Ok ts, s) \<and> ts \<noteq> []"
  proof -
    obtain it where "decorate_type example_type_env ?p empty_spec ?sh [''p:AD-1''] []
        (blank_type ''VM.Standard.E4'' ''VM.Standard.E4'') s = (Ok it, s)"
      using example_decorate by blast
    with sh show ?thesis by (simp add: sample_shapes_def make_instance_types_def finalize_requirements_def example_ads Let_def)
  qed
  then obtain ts where "list_shapes example_type_env ?p empty_spec [] sample_shapes s = (Ok ts, s)" "ts \<noteq> []" by blast
  with assms have "list_instance_types example_type_env ?p (ncl_name sample_class) empty_spec [] s = (Ok ts, s)"
    by (simp add: list_instance_types_def)
  then obtain c' where "cp_list_types example_cloud_env sample_class [] c = (Ok ts, c')"
    by (simp add: cp_list_types_def example_cloud_env_def sample_class_def s_def)
  with \<open>ts \<noteq> []\<close> show ?thesis
    by (intro exI [of _ ts] exI [of _ c']) (simp add: cp_get_instance_types_def st_bind_Ok_iff resolve_node_class_def
      ensure_node_class_ready_def, simp add: example_cloud_env_def sample_class_def)
qed


lemma first_bad_None [simp]: "first_bad bad i xs = None \<longleftrightarrow> (\<forall>x \<in> set xs. \<not> bad x)"
  by (induction bad i xs rule: first_bad.induct) auto

lemma accepted_repairs:
  assumes "validate R p = Ok ()" "r \<in> set (opt_repairs p)"
  shows "rp_action r \<noteq> fr_reboot_node R"
proof -
  note checks = assms(1) [unfolded validate_def refuse_Ok list.set ball_simps indexed_def fst_conv]
  from checks have "\<forall>r \<in> set (opt_repairs p). rp_action r \<noteq> fr_reboot_node R" by simp
  with assms(2) show ?thesis by simp
qed

lemma start_program_Ok:
  assumes "start_program env p = Ok (pg, policies, cs)"
  shows "validate_with_core (ope_readers env) (ope_core env) p = Ok ()"
    "policies = repair_policies_of (ope_replace_node env) (core_legacy_repair (ope_core env)) (opt_repairs p)"
    "opt_repairs p \<noteq> [] \<longrightarrow> ope_node_repair env"
  using assms by (auto simp: start_program_def new_operator_def go_bind_eq_Ok_iff split: if_splits)

text \<open>
  C11. The program starts only with options that were accepted, and with repair policies only if
  Karpenter repairs nodes.  The controllers that run are those the options ask for: pod networks are
  recovered on a cluster that has them, memory is measured unless its time is zero; node classes
  and orphaned machines are always looked after.  Every repair policy is kept, and each has an
  action, which is not to reboot the node unless that is what Karpenter calls replacing it.
\<close>

theorem started_controllers:
  assumes "start_program env p = Ok (pg, policies, controllers)"
  shows "validate_with_core (ope_readers env) (ope_core env) p = Ok ()
    \<and> (RecoveryController \<in> set controllers \<longleftrightarrow> opt_vcn_native p)
    \<and> (CapacityController \<in> set controllers \<longleftrightarrow> opt_capacity_hours p \<noteq> 0)
    \<and> {NodeClassController, OrphanController} \<subseteq> set controllers \<and> distinct controllers
    \<and> map rp_condition policies = map rp_condition (opt_repairs p) \<and> (policies = [] \<or> ope_node_repair env)
    \<and> (\<forall>r \<in> set policies. rp_action r = ope_replace_node env \<or> rp_action r \<noteq> [] \<and> rp_action r \<noteq> fr_reboot_node (ope_readers env))"
proof -
  note s = start_program_Ok [OF assms]
  have cs: "controllers = new_controllers (opt_capacity_hours p \<noteq> 0) (opt_vcn_native p)"
    using started_ok [OF assms] by simp
  from s(1) have v: "validate (ope_readers env) p = Ok ()" "core_legacy_repair (ope_core env)"
    by (auto simp: validate_with_core_def go_bind_eq_Ok_iff split: if_splits)
  from s(2) v(2) have ps: "policies = map (\<lambda>r. if rp_action r = [] then r\<lparr>rp_action := ope_replace_node env\<rparr> else r) (opt_repairs p)"
    by (auto simp: repair_policies_of_def)
  have "map rp_condition policies = map rp_condition (opt_repairs p)" by (simp add: ps)
  moreover have "\<forall>r \<in> set policies. rp_action r = ope_replace_node env \<or> rp_action r \<noteq> [] \<and> rp_action r \<noteq> fr_reboot_node (ope_readers env)"
    using accepted_repairs [OF v(1)] by (auto simp: ps)
  ultimately show ?thesis using s(1,3) ps by (auto simp: cs new_controllers_def)
qed

theorem started_controllers_witness:
  "\<exists>pg policies controllers. start_program sample_start sample_options = Ok (pg, policies, controllers)
     \<and> set controllers = {NodeClassController, OrphanController, CapacityController, RecoveryController}"
proof -
  obtain pg policies controllers where s: "start_program sample_start sample_options = Ok (pg, policies, controllers)"
    using sample_starts by blast
  from started_controllers [OF s] have "CapacityController \<in> set controllers" "RecoveryController \<in> set controllers"
    "{NodeClassController, OrphanController} \<subseteq> set controllers"
    by (simp_all add: sample_options_def default_options_def DefaultNodeCapacityTTL_def)
  moreover have "x \<in> {NodeClassController, OrphanController, CapacityController, RecoveryController}" for x by (cases x) simp_all
  ultimately show ?thesis using s by blast
qed

end
