(* ===== verification/Spec2Isabelle.thy ===== *)
theory Spec2Isabelle
  imports Prelude Oci_Errors Float_Arith Load_Cache Cache_Race Unavailable_Offerings Api_Types Utils Capacity_Reservation
    Cluster_Groups Karpenter_Types Placement Network_Families Network_Provider Shape_Model Shape_Resources Offerings
    Image_Provider Encodings Instance_Metadata Drift_Caches Instance_Provider Instance_Laws Instance_Caches
    Native_Pod_Network Drift Drift_Laws Cloud_Provider Cloud_Examples Cloud_Laws Cloud_Drift_Laws
    Cloud_Service_Laws Reconciling Capacity_Discovery Capacity_Laws Node_Class_Control Node_Class_Steps
    Node_Class_Laws Class_Drift_Laws Npn_Recovery Orphan_Instances Orphan_Laws Options Oci_Client Operator Operator_Laws
    Computations System_Laws
begin

text \<open>
  Verification library of the Karpenter provider for Oracle Cloud Infrastructure: a Kubernetes
  controller that launches, watches and removes the machines that Karpenter asks for.  The theories
  are a shallow embedding of its Go code.  They read in the order of the imports above; each opens
  with what it holds, and this text says how they fit together.

  \<^bold>\<open>The program and its parts.\<close>  \<open>cmd/main.go\<close> reads the options, builds the providers and starts the
  controllers.  Karpenter calls the cloud provider (\<open>pkg/cloudprovider\<close>) with node claims; it asks
  the providers (\<open>pkg/providers\<close>): the instance types with their offerings and prices, the image,
  network and key that a node class names, the place for the next machine, and the instance provider,
  which calls the compute service.  Controllers (\<open>pkg/controllers\<close>) resolve node classes, learn the
  memory that nodes report, recreate missing pod networks and reclaim machines without a claim.  All
  of them work on the same providers, whose caches are shared; the calls of the services go through
  the clients of \<open>pkg/oci\<close>.

  \<^bold>\<open>How code is represented.\<close>  A call returns \<open>Ok\<close>, \<open>Fail\<close> with the error, \<open>Panic\<close> or \<open>Hang\<close> (type
  \<open>go\<close>, theory \<open>Prelude\<close>); pointers are options, \<open>deref\<close> panics; state is passed explicitly and a call
  returns the state also when it fails (\<open>st_bind\<close>).  Structures are records and variants datatypes with
  the names of the source.  Go maps are functions where only looked up, association lists in the
  order of the walk where they are ranged over, so that what depends on that order is visible.
  Machine integers are words where they can overflow (\<open>Utils.is_power_of_two\<close>, \<open>duration_ns\<close>), floats are
  rationals rounded after each operation (\<open>Float_Arith\<close>).  A loop over pages is a
  \<open>partial_function\<close>, for a service may page for ever; waiting is a list of the turns of a \<open>select\<close>,
  after whose end the code still waits (\<open>Hang\<close>).  The only fuel is that of \<open>place_loop\<close>: each turn
  drops a proposal, so as many turns as proposals are enough (\<open>place_loop_complete\<close>).  What is not in the
  repository (the cloud's services, the Kubernetes API, Karpenter's decisions, JSON, hashing,
  formatting of floats) is an argument of the definitions; what is relied on of it is a named
  hypothesis, met by a concrete example in the witness of the theorem.

  \<^bold>\<open>The theories.\<close>
  \<^item> \<open>Prelude\<close>, \<open>Float_Arith\<close>, \<open>Encodings\<close>, \<open>Utils\<close>, \<open>Oci_Errors\<close>, \<open>Api_Types\<close>, \<open>Karpenter_Types\<close>: outcomes, paging,
    sorting, floats, base64 and shell words; \<open>pkg/utils\<close>; the classification of errors; the custom
    resource; the types of Karpenter that are read and built.
  \<^item> \<open>Load_Cache\<close>, \<open>Cache_Race\<close>, \<open>Unavailable_Offerings\<close> (\<open>pkg/cache\<close>): the loading cache in sequence and
    with its locks among any number of goroutines, and the register of offerings without capacity.
  \<^item> \<open>Capacity_Reservation\<close>, \<open>Cluster_Groups\<close>, \<open>Network_Families\<close>, \<open>Network_Provider\<close>, \<open>Image_Provider\<close>: what a node
    class names, resolved through caches.
  \<^item> \<open>Shape_Model\<close>, \<open>Shape_Resources\<close>, \<open>Offerings\<close> (\<open>pkg/providers/instancetype\<close>): shapes, platform
    configurations, memory and reserved resources, prices, offerings, the list of instance types.
  \<^item> \<open>Placement\<close>, \<open>Instance_Metadata\<close>, \<open>Drift_Caches\<close>, \<open>Instance_Provider\<close>, \<open>Native_Pod_Network\<close>: the place of a
    machine, its start-up data, launching, waiting, listing and deleting, and its pod network.
    \<open>Instance_Laws\<close> and \<open>Instance_Caches\<close> hold the properties.
  \<^item> \<open>Drift\<close>, \<open>Cloud_Provider\<close>: the checks of drift and every call of the cloud provider.  \<open>Drift_Laws\<close>,
    \<open>Cloud_Laws\<close>, \<open>Cloud_Drift_Laws\<close>, \<open>Cloud_Service_Laws\<close> hold the properties, \<open>Cloud_Examples\<close> the example
    that witnesses share.
  \<^item> \<open>Reconciling\<close>, \<open>Node_Class_Control\<close>, \<open>Capacity_Discovery\<close>, \<open>Npn_Recovery\<close>, \<open>Orphan_Instances\<close>: the controllers.
    \<open>Node_Class_Steps\<close>, \<open>Node_Class_Laws\<close>, \<open>Class_Drift_Laws\<close>, \<open>Capacity_Laws\<close>, \<open>Orphan_Laws\<close> hold the properties.
  \<^item> \<open>Options\<close>, \<open>Oci_Client\<close>, \<open>Operator\<close>: flags and their checks, the clients with their rate limits, and
    how the program is put together.  \<open>Operator_Laws\<close>, \<open>Computations\<close> and \<open>System_Laws\<close> hold the
    properties, the last those of the whole program.

  \<^bold>\<open>What the theorems show.\<close>  Of the cloud provider: which type is launched, that launches passed over
  for it were undone (\<open>launch_undone\<close>), and when the answer is a lack of capacity; that a reported drift
  is what the services say of the machine of the claim, and, with caches that say the
  same, that the check with caches is exactly the check without (\<open>drift_refines_services\<close>, a refinement
  of \<open>drift_now\<close>); who owns the listed machines; what a deletion answers; when the provider is ready.
  Of the controllers: a node class is ready exactly if all it names resolves, and outlives its
  claims; the hash that decides static drift is the one that was written; missing pod networks are
  not given up; only orphans are deleted, and the controller waits for long only if all were; advised
  memory is the least that was measured in the life of its entry (\<open>life_of\<close>).  Of the
  providers: placement keeps the rules of the node class and tries every proposal; the ledger of a
  reservation counts; available offerings have grounds and listed types are sound; resolved
  networks are usable; platform checks mean what they say; a cached resolution of an image is that
  of a launch; caches hold live instances only and equal a listing after it; given-up launches are
  deleted and failed ones marked.  Of the whole: however the program has run, with the refreshes of
  shapes, prices and versions in the background (\<open>runs\<close>), its providers do what the options say and
  offer shapes that were listed; and the controllers that run are those the options ask for.

  \<^bold>\<open>Interfaces.\<close>  Contracts between components are locales, interpreted on the model: \<open>keyed_store\<close> (the
  loading cache, the unavailable offerings), \<open>cached_lookup\<close> (placement groups, compute clusters,
  compartments, boot volumes), \<open>tally\<close> (the ledger of reservations), \<open>register\<close> (the instances of a
  pool), \<open>slice_sort\<close> (what the code may rely on of \<open>sort.Slice\<close>).  \<open>Computations\<close> is a small calculus of
  what a computation keeps; \<open>System_Laws\<close> applies it to every call of the program.

  \<^bold>\<open>Not modelled.\<close>  Logging, metrics, events and the printing of values; the exponent range of floats
  and fused operations; the eviction goroutine of the cache store (expiry is by time); locks outside
  \<open>Cache_Race\<close>, so calls of one provider are one after the other, also the five workers of the orphan
  controller and the refreshes; the clock is read once per call, and times are whole seconds; counts
  of 64 bits that stay small (uses of a reservation, addresses) are unbounded integers; the resource version of Kubernetes objects; running the
  retry policy (its values are modelled); credentials and the SDK's clients; the registration with
  the controller manager; generated deep copies, fakes, tests, charts.
\<close>

end
